(* ===== verification/PyPrelude.thy ===== *)
theory PyPrelude
  imports Complex_Main "HOL-Library.AList"
begin

section \<open>Shared vocabulary: Python dictionaries, values and results\<close>

text \<open>
  What every component of the development shares.

  \<^item> A Python \<open>dict\<close> keeps insertion order: storing under a present key keeps its
    position, a new key goes last.  \<open>HOL-Library.AList\<close> has exactly these operations
    (\<open>AList.update\<close>, \<open>AList.delete\<close>), so a dictionary whose order the code observes is
    an association list with distinct keys, under the names \<open>dict_get\<close>, \<open>dict_set\<close>,
    \<open>dict_del\<close>.
  \<^item> A dynamically typed value (JSON data, the context of an error) is a \<open>pyval\<close>.
  \<^item> A call that may raise returns \<open>'e + 'a\<close>, \<open>Inl\<close> for the exception; \<open>bind_res\<close>
    is the propagation of an exception through a sequence of statements.
  \<^item> Clock readings (\<open>time.time()\<close>) are real numbers; floating-point rounding is not
    modelled.
\<close>

named_theorems dict_simps \<open>rewriting of dictionary lookups after updates\<close>

type_synonym 'v dict = "(string \<times> 'v) list"

abbreviation dict_get :: "('k \<times> 'v) list \<Rightarrow> 'k \<Rightarrow> 'v option" where
  "dict_get \<equiv> map_of"

abbreviation dict_set :: "'k \<Rightarrow> 'v \<Rightarrow> ('k \<times> 'v) list \<Rightarrow> ('k \<times> 'v) list" where
  "dict_set \<equiv> AList.update"

abbreviation dict_del :: "'k \<Rightarrow> ('k \<times> 'v) list \<Rightarrow> ('k \<times> 'v) list" where
  "dict_del \<equiv> AList.delete"

abbreviation dict_keys :: "('k \<times> 'v) list \<Rightarrow> 'k list" where
  "dict_keys d \<equiv> map fst d"

definition dict_has :: "('k \<times> 'v) list \<Rightarrow> 'k \<Rightarrow> bool" where
  "dict_has d k \<longleftrightarrow> k \<in> set (dict_keys d)"

definition dict_merge :: "('k \<times> 'v) list \<Rightarrow> ('k \<times> 'v) list \<Rightarrow> ('k \<times> 'v) list" where
  \<comment> \<open>\<open>d.update(e)\<close>\<close>
  "dict_merge d e = foldl (\<lambda>acc (k, v). dict_set k v acc) d e"

definition dict_del_all :: "'k list \<Rightarrow> ('k \<times> 'v) list \<Rightarrow> ('k \<times> 'v) list" where
  "dict_del_all ks d = foldl (\<lambda>acc k. dict_del k acc) d ks"

lemma dict_get_set [dict_simps, simp]:
  "dict_get (dict_set k v d) k' = (if k' = k then Some v else dict_get d k')"
  by (simp add: update_conv')

lemma dict_get_del [dict_simps, simp]:
  "dict_get (dict_del k d) k' = (if k' = k then None else dict_get d k')"
  by (simp add: delete_conv')

lemma dict_has_get [dict_simps]: "dict_has d k \<longleftrightarrow> dict_get d k \<noteq> None"
  by (auto simp: dict_has_def map_of_eq_None_iff)

lemma dict_get_del_all [dict_simps]:
  "dict_get (dict_del_all ks d) k = (if k \<in> set ks then None else dict_get d k)"
  unfolding dict_del_all_def by (induction ks arbitrary: d) auto

lemma distinct_dict_set [intro]: "distinct (dict_keys d) \<Longrightarrow> distinct (dict_keys (dict_set k v d))"
  by (rule distinct_update)

lemma distinct_dict_del [intro]: "distinct (dict_keys d) \<Longrightarrow> distinct (dict_keys (dict_del k d))"
  by (rule distinct_delete)

lemma dict_del_filter: "dict_del k d = filter (\<lambda>p. fst p \<noteq> k) d"
  by (induction d) auto

lemma dict_del_all_filter: "dict_del_all ks d = filter (\<lambda>p. fst p \<notin> set ks) d"
  unfolding dict_del_all_def
  by (induction ks arbitrary: d) (auto simp: dict_del_filter intro!: filter_cong)

lemma distinct_dict_filter [intro]:
  "distinct (dict_keys d) \<Longrightarrow> distinct (dict_keys (filter P d))"
  by (rule distinct_map_filter)

lemma distinct_dict_del_all [intro]:
  "distinct (dict_keys d) \<Longrightarrow> distinct (dict_keys (dict_del_all ks d))"
  by (simp add: dict_del_all_filter distinct_map_filter)

lemma length_dict_set:
  "length (dict_set k v d) = (if k \<in> set (dict_keys d) then length d else Suc (length d))"
  by (induction d) auto

lemma length_dict_set_le: "length (dict_set k v d) \<le> Suc (length d)"
  by (simp add: length_dict_set)

lemma length_dict_del_le: "length (dict_del k d) \<le> length d"
  by (simp add: dict_del_filter)

lemma dict_set_del: "dict_del k (dict_set k v d) = dict_del k d"
  by (induction d) (auto simp: dict_del_filter)

text \<open>Deleting the first keys of a dictionary with distinct keys drops its first entries.\<close>

lemma dict_del_all_take:
  assumes "distinct (dict_keys d)"
  shows "dict_del_all (take n (dict_keys d)) d = drop n d"
proof -
  have d: "d = take n d @ drop n d" by simp
  have dis: "set (dict_keys (take n d)) \<inter> set (dict_keys (drop n d)) = {}"
    using assms by (metis append_take_drop_id distinct_append map_append)
  have "filter (\<lambda>p. fst p \<notin> set (dict_keys (take n d))) (take n d) = []"
    by (auto simp: filter_empty_conv)
  moreover have "filter (\<lambda>p. fst p \<notin> set (dict_keys (take n d))) (drop n d) = drop n d"
    using dis by (auto simp: filter_id_conv)
  ultimately have "filter (\<lambda>p. fst p \<notin> set (dict_keys (take n d))) d = drop n d"
    by (metis d filter_append append_Nil)
  then show ?thesis
    by (simp add: dict_del_all_filter take_map)
qed

subsection \<open>Dynamically typed values\<close>

datatype pyval =
    PNone
  | PBool bool
  | PInt int
  | PFloat real
  | PStr string
  | PList "pyval list"
  | PDict "(string \<times> pyval) list"

fun truthy :: "pyval \<Rightarrow> bool" where
  "truthy PNone = False"
| "truthy (PBool b) = b"
| "truthy (PInt i) = (i \<noteq> 0)"
| "truthy (PFloat r) = (r \<noteq> 0)"
| "truthy (PStr s) = (s \<noteq> [])"
| "truthy (PList l) = (l \<noteq> [])"
| "truthy (PDict d) = (d \<noteq> [])"

text \<open>\<open>x or y\<close> on optional strings and lists: \<open>None\<close> and the empty one count as false.\<close>

fun or_else :: "'a list option \<Rightarrow> 'a list \<Rightarrow> 'a list" where
  "or_else None y = y"
| "or_else (Some x) y = (if x = [] then y else x)"

fun given :: "'a list option \<Rightarrow> bool" where
  \<comment> \<open>\<open>if x:\<close> on an optional string, list or dictionary\<close>
  "given None = False"
| "given (Some x) = (x \<noteq> [])"

lemma or_else_given: "or_else x y = (if given x then the x else y)"
  by (cases x) auto

subsection \<open>Results\<close>

fun bind_res :: "'e + 'a \<Rightarrow> ('a \<Rightarrow> 'e + 'b) \<Rightarrow> 'e + 'b" where
  "bind_res (Inl e) f = Inl e"
| "bind_res (Inr x) f = f x"

fun is_ok :: "'e + 'a \<Rightarrow> bool" where
  "is_ok (Inl _) = False"
| "is_ok (Inr _) = True"

lemma bind_res_Inr: "bind_res r f = Inr y \<longleftrightarrow> (\<exists>x. r = Inr x \<and> f x = Inr y)"
  by (cases r) auto

lemma is_ok_iff: "is_ok r \<longleftrightarrow> (\<exists>x. r = Inr x)"
  by (cases r) auto

text \<open>A \<open>for\<close> loop that stops at the first exception.\<close>

fun map_res :: "('a \<Rightarrow> 'e + 'b) \<Rightarrow> 'a list \<Rightarrow> 'e + 'b list" where
  "map_res f [] = Inr []"
| "map_res f (x # xs) = bind_res (f x) (\<lambda>y. bind_res (map_res f xs) (\<lambda>ys. Inr (y # ys)))"

lemma map_res_Inr: "map_res f xs = Inr ys \<longleftrightarrow> list_all2 (\<lambda>x y. f x = Inr y) xs ys"
  by (induction xs arbitrary: ys) (auto simp: bind_res_Inr list_all2_Cons1)

lemma map_res_Inl:
  "map_res f xs = Inl e \<longleftrightarrow>
    (\<exists>us x vs. xs = us @ x # vs \<and> f x = Inl e \<and> list_all (\<lambda>u. is_ok (f u)) us)"
proof (induction xs)
  case Nil
  then show ?case by simp
next
  case (Cons a xs)
  show ?case
  proof (cases "f a")
    case (Inl e')
    have "(\<exists>us x vs. a # xs = us @ x # vs \<and> f x = Inl e \<and> list_all (\<lambda>u. is_ok (f u)) us)
        \<longleftrightarrow> e' = e" (is "?L \<longleftrightarrow> _")
    proof
      assume ?L
      then obtain us x vs where *: "a # xs = us @ x # vs" "f x = Inl e"
        "list_all (\<lambda>u. is_ok (f u)) us" by blast
      then show "e' = e" using Inl by (cases us) auto
    next
      assume "e' = e"
      then have "a # xs = [] @ a # xs \<and> f a = Inl e \<and> list_all (\<lambda>u. is_ok (f u)) []"
        using Inl by simp
      then show ?L by blast
    qed
    then show ?thesis using Inl by simp
  next
    case (Inr y)
    have "map_res f (a # xs) = Inl e \<longleftrightarrow> map_res f xs = Inl e"
      using Inr by (cases "map_res f xs") auto
    moreover have "(\<exists>us x vs. a # xs = us @ x # vs \<and> f x = Inl e \<and> list_all (\<lambda>u. is_ok (f u)) us)
      \<longleftrightarrow> (\<exists>us x vs. xs = us @ x # vs \<and> f x = Inl e \<and> list_all (\<lambda>u. is_ok (f u)) us)"
      (is "?A \<longleftrightarrow> ?B")
    proof
      assume ?A
      then obtain us x vs where *: "a # xs = us @ x # vs" "f x = Inl e"
        "list_all (\<lambda>u. is_ok (f u)) us" by blast
      from *(1,2) Inr obtain us' where "us = a # us'" by (cases us) auto
      with * show ?B by auto
    next
      assume ?B
      then obtain us x vs where *: "xs = us @ x # vs" "f x = Inl e"
        "list_all (\<lambda>u. is_ok (f u)) us" by blast
      then have "a # xs = (a # us) @ x # vs \<and> f x = Inl e \<and> list_all (\<lambda>u. is_ok (f u)) (a # us)"
        using Inr by simp
      then show ?A by blast
    qed
    ultimately show ?thesis using Cons.IH by simp
  qed
qed

subsection \<open>Stateful computations that may raise\<close>

text \<open>A call that changes a state and may raise: the new state, and an exception or a value.
  An exception keeps the changes made before it.\<close>

type_synonym ('s, 'e, 'a) act = "'s \<Rightarrow> 's \<times> ('e + 'a)"

definition s_ret :: "'a \<Rightarrow> ('s, 'e, 'a) act" where
  "s_ret x s = (s, Inr x)"

definition s_raise :: "'e \<Rightarrow> ('s, 'e, 'a) act" where
  "s_raise e s = (s, Inl e)"

definition s_bind :: "('s, 'e, 'a) act \<Rightarrow> ('a \<Rightarrow> ('s, 'e, 'b) act) \<Rightarrow> ('s, 'e, 'b) act" where
  "s_bind m f s = (case m s of (s', Inl e) \<Rightarrow> (s', Inl e) | (s', Inr x) \<Rightarrow> f x s')"

definition s_catch :: "('s, 'e, 'a) act \<Rightarrow> ('e \<Rightarrow> ('s, 'e, 'a) act) \<Rightarrow> ('s, 'e, 'a) act" where
  \<comment> \<open>\<open>try ... except\<close>: the handler decides by the exception, and may raise it again\<close>
  "s_catch m h s = (case m s of (s', Inl e) \<Rightarrow> h e s' | (s', Inr x) \<Rightarrow> (s', Inr x))"

definition s_finally :: "('s, 'e, 'a) act \<Rightarrow> ('s, 'e, unit) act \<Rightarrow> ('s, 'e, 'a) act" where
  \<comment> \<open>\<open>try ... finally\<close>: an exception of the cleanup replaces the outcome\<close>
  "s_finally m c s =
     (case m s of (s', r) \<Rightarrow> (case c s' of (s'', Inl e) \<Rightarrow> (s'', Inl e) | (s'', Inr _) \<Rightarrow> (s'', r)))"

definition s_lift :: "'e + 'a \<Rightarrow> ('s, 'e, 'a) act" where
  \<comment> \<open>a computation without effect on the state\<close>
  "s_lift r s = (s, r)"

definition s_modify :: "('s \<Rightarrow> 's) \<Rightarrow> ('s, 'e, unit) act" where
  "s_modify f s = (f s, Inr ())"

definition s_get :: "('s \<Rightarrow> 'a) \<Rightarrow> ('s, 'e, 'a) act" where
  "s_get f s = (s, Inr (f s))"

fun s_for :: "('a \<Rightarrow> ('s, 'e, 'b) act) \<Rightarrow> 'a list \<Rightarrow> ('s, 'e, 'b list) act" where
  "s_for f [] = s_ret []"
| "s_for f (x # xs) = s_bind (f x) (\<lambda>y. s_bind (s_for f xs) (\<lambda>ys. s_ret (y # ys)))"

named_theorems act_simps \<open>unfolding of stateful computations\<close>

declare s_ret_def [act_simps] s_raise_def [act_simps] s_bind_def [act_simps]
  s_catch_def [act_simps] s_finally_def [act_simps] s_lift_def [act_simps]
  s_modify_def [act_simps] s_get_def [act_simps]

lemma s_bind_ret [simp]: "s_bind (s_ret x) f = f x"
  by (simp add: s_bind_def s_ret_def fun_eq_iff)

lemma s_bind_raise [simp]: "s_bind (s_raise e) f = s_raise e"
  by (simp add: s_bind_def s_raise_def fun_eq_iff)

lemma s_bind_assoc: "s_bind (s_bind m f) g = s_bind m (\<lambda>x. s_bind (f x) g)"
  by (auto simp: s_bind_def fun_eq_iff split: prod.splits sum.splits)

lemma s_bind_eq:
  "m s = (s', Inr x) \<Longrightarrow> s_bind m f s = f x s'"
  by (simp add: s_bind_def)

text \<open>The outcome of a composition from the outcome of its first part.\<close>

lemma s_bind_raises: "snd (m s) = Inl e \<Longrightarrow> s_bind m f s = (fst (m s), Inl e)"
  by (cases "m s") (simp add: s_bind_def)

lemma s_bind_returns: "snd (m s) = Inr x \<Longrightarrow> s_bind m f s = f x (fst (m s))"
  by (cases "m s") (simp add: s_bind_def)

lemma s_bind_okE:
  assumes "s_bind m f s = (t, Inr y)"
  obtains s1 x where "m s = (s1, Inr x)" "f x s1 = (t, Inr y)"
  using assms by (auto simp: s_bind_def split: prod.splits sum.splits)

lemma s_catch_raises: "snd (m s) = Inl e \<Longrightarrow> s_catch m h s = h e (fst (m s))"
  by (cases "m s") (simp add: s_catch_def)

lemma s_catch_returns: "snd (m s) = Inr x \<Longrightarrow> s_catch m h s = (fst (m s), Inr x)"
  by (cases "m s") (simp add: s_catch_def)

lemma s_finally_state: "fst (s_finally m c s) = fst (c (fst (m s)))"
  by (simp add: s_finally_def split: prod.splits sum.splits)

lemma s_finally_outcome:
  "snd (s_finally m c s) = (case snd (c (fst (m s))) of Inl e \<Rightarrow> Inl e | Inr _ \<Rightarrow> snd (m s))"
  by (simp add: s_finally_def split: prod.splits sum.splits)

lemma s_catch_ok: "m s = (s', Inr x) \<Longrightarrow> s_catch m h s = (s', Inr x)"
  by (simp add: s_catch_def)

lemma s_for_Cons_ok:
  "f x s = (s', Inr y) \<Longrightarrow> snd (s_for f xs s') = Inr ys \<Longrightarrow> snd (s_for f (x # xs) s) = Inr (y # ys)"
  by (cases "s_for f xs s'") (auto simp: s_bind_def s_ret_def)

text \<open>An invariant that a computation keeps, whether it returns or raises.\<close>

definition keeps :: "('s \<Rightarrow> bool) \<Rightarrow> ('s, 'e, 'a) act \<Rightarrow> bool" where
  "keeps I m \<longleftrightarrow> (\<forall>s. I s \<longrightarrow> I (fst (m s)))"

named_theorems keeps_intros \<open>invariants through the control structures\<close>

lemma keepsD: "keeps I m \<Longrightarrow> I s \<Longrightarrow> I (fst (m s))"
  by (simp add: keeps_def)

lemma keeps_ret [keeps_intros]: "keeps I (s_ret x)"
  by (simp add: keeps_def s_ret_def)

lemma keeps_raise [keeps_intros]: "keeps I (s_raise e)"
  by (simp add: keeps_def s_raise_def)

lemma keeps_s_lift [keeps_intros]: "keeps I (s_lift r)"
  by (simp add: keeps_def s_lift_def)

lemma keeps_get [keeps_intros]: "keeps I (s_get f)"
  by (simp add: keeps_def s_get_def)

lemma keeps_s_modify: "(\<And>s. I s \<Longrightarrow> I (f s)) \<Longrightarrow> keeps I (s_modify f)"
  by (simp add: keeps_def s_modify_def)

lemma keeps_bind [keeps_intros]: "keeps I m \<Longrightarrow> (\<And>x. keeps I (f x)) \<Longrightarrow> keeps I (s_bind m f)"
  by (fastforce simp: keeps_def s_bind_def split: prod.splits sum.splits)

lemma keeps_catch [keeps_intros]: "keeps I m \<Longrightarrow> (\<And>e. keeps I (h e)) \<Longrightarrow> keeps I (s_catch m h)"
  by (fastforce simp: keeps_def s_catch_def split: prod.splits sum.splits)

lemma keeps_finally [keeps_intros]: "keeps I m \<Longrightarrow> keeps I c \<Longrightarrow> keeps I (s_finally m c)"
  by (fastforce simp: keeps_def s_finally_def split: prod.splits sum.splits)

lemma keeps_if [keeps_intros]: "keeps I m \<Longrightarrow> keeps I n \<Longrightarrow> keeps I (\<lambda>s. if P s then m s else n s)"
  by (simp add: keeps_def)

lemma keeps_cond [keeps_intros]: "keeps I m \<Longrightarrow> keeps I n \<Longrightarrow> keeps I (if P then m else n)"
  by simp

lemma keeps_for [keeps_intros]: "(\<And>x. keeps I (f x)) \<Longrightarrow> keeps I (s_for f xs)"
  by (induction xs) (auto intro!: keeps_intros)

end
