(* ===== verification/PyStrings.thy ===== *)
theory PyStrings
  imports PyPrelude "HOL-Library.Char_ord"
begin

section \<open>The string methods the program uses\<close>

text \<open>
  Python's \<open>str\<close> methods on \<open>string\<close> (a list of characters, code points below 256).
  Each function is the method of the same name: \<open>split(sep)\<close>, \<open>split()\<close>,
  \<open>sep.join\<close>, \<open>strip\<close>, \<open>rstrip(c)\<close>, \<open>lower\<close>, \<open>startswith\<close>,
  \<open>endswith\<close>, \<open>sub in s\<close> and \<open>str(int)\<close>.
\<close>

definition ordc :: "char \<Rightarrow> nat" where
  "ordc c = of_char c"

definition is_space :: "char \<Rightarrow> bool" where
  \<comment> \<open>\<open>str.isspace\<close> on code points below 256\<close>
  "is_space c \<longleftrightarrow> 9 \<le> ordc c \<and> ordc c \<le> 13 \<or> 28 \<le> ordc c \<and> ordc c \<le> 32
     \<or> ordc c = 133 \<or> ordc c = 160"

definition is_digit :: "char \<Rightarrow> bool" where
  \<comment> \<open>one of \<open>0\<close> to \<open>9\<close>\<close>
  "is_digit c \<longleftrightarrow> 48 \<le> ordc c \<and> ordc c \<le> 57"

definition is_upper :: "char \<Rightarrow> bool" where
  "is_upper c \<longleftrightarrow> 65 \<le> ordc c \<and> ordc c \<le> 90"

definition is_lower :: "char \<Rightarrow> bool" where
  "is_lower c \<longleftrightarrow> 97 \<le> ordc c \<and> ordc c \<le> 122"

definition lower_char :: "char \<Rightarrow> char" where
  "lower_char c =
     (if is_upper c \<or> 192 \<le> ordc c \<and> ordc c \<le> 222 \<and> ordc c \<noteq> 215
      then char_of (ordc c + 32) else c)"

definition lower :: "string \<Rightarrow> string" where
  "lower s = map lower_char s"

definition strip :: "string \<Rightarrow> string" where
  "strip s = rev (dropWhile is_space (rev (dropWhile is_space s)))"

definition rstrip_char :: "char \<Rightarrow> string \<Rightarrow> string" where
  "rstrip_char c s = rev (dropWhile (\<lambda>d. d = c) (rev s))"

definition strip_char :: "char \<Rightarrow> string \<Rightarrow> string" where
  "strip_char c s = rstrip_char c (dropWhile (\<lambda>d. d = c) s)"

definition startswith :: "string \<Rightarrow> string \<Rightarrow> bool" where
  "startswith s p \<longleftrightarrow> take (length p) s = p"

definition endswith :: "string \<Rightarrow> string \<Rightarrow> bool" where
  "endswith s p \<longleftrightarrow> length p \<le> length s \<and> drop (length s - length p) s = p"

fun contains :: "string \<Rightarrow> string \<Rightarrow> bool" where
  \<comment> \<open>\<open>sub in s\<close>\<close>
  "contains [] sub = (sub = [])"
| "contains (c # s) sub = (startswith (c # s) sub \<or> contains s sub)"

fun split_on :: "char \<Rightarrow> string \<Rightarrow> string list" where
  \<comment> \<open>\<open>s.split(c)\<close>: empty pieces are kept\<close>
  "split_on c [] = [[]]"
| "split_on c (x # xs) =
     (if x = c then [] # split_on c xs
      else (case split_on c xs of [] \<Rightarrow> [[x]] | p # ps \<Rightarrow> (x # p) # ps))"

fun join :: "string \<Rightarrow> string list \<Rightarrow> string" where
  "join sep [] = []"
| "join sep [p] = p"
| "join sep (p # q # ps) = p @ sep @ join sep (q # ps)"

function split_ws :: "string \<Rightarrow> string list" where
  \<comment> \<open>\<open>s.split()\<close>: pieces between runs of white space, none empty\<close>
  "split_ws s =
     (let t = dropWhile is_space s in
      if t = [] then []
      else takeWhile (\<lambda>c. \<not> is_space c) t # split_ws (dropWhile (\<lambda>c. \<not> is_space c) t))"
  by pat_completeness auto

lemma dropWhile_hd_shorter:
  assumes "dropWhile P s \<noteq> []"
  shows "length (dropWhile (\<lambda>c. \<not> P c) (dropWhile P s)) < length s"
proof -
  obtain c t where t: "dropWhile P s = c # t" using assms by (cases "dropWhile P s") auto
  then have "\<not> P c" by (metis dropWhile_eq_Cons_conv)
  then have "length (dropWhile (\<lambda>c. \<not> P c) (dropWhile P s)) \<le> length t"
    using t by (simp add: length_dropWhile_le)
  moreover have "length (dropWhile P s) \<le> length s" by (rule length_dropWhile_le)
  ultimately show ?thesis using t by simp
qed

termination split_ws
  by (relation "measure length") (auto simp: dropWhile_hd_shorter)

declare split_ws.simps [simp del]

fun replace_char :: "char \<Rightarrow> string \<Rightarrow> string \<Rightarrow> string" where
  "replace_char c r [] = []"
| "replace_char c r (x # xs) = (if x = c then r @ replace_char c r xs else x # replace_char c r xs)"

function nat_digits :: "nat \<Rightarrow> string" where
  "nat_digits n =
     (if n < 10 then [char_of (48 + n)] else nat_digits (n div 10) @ [char_of (48 + n mod 10)])"
  by pat_completeness auto
termination by (relation "measure id") auto

declare nat_digits.simps [simp del]

definition str_of_int :: "int \<Rightarrow> string" where
  "str_of_int i = (if i < 0 then CHR ''-'' # nat_digits (nat (- i)) else nat_digits (nat i))"

fun digits_value :: "nat \<Rightarrow> string \<Rightarrow> nat" where
  "digits_value acc [] = acc"
| "digits_value acc (c # cs) = digits_value (10 * acc + (ordc c - 48)) cs"

definition nat_of_string :: "string \<Rightarrow> nat" where
  "nat_of_string s = digits_value 0 s"

definition quoted :: "string \<Rightarrow> string" where
  \<comment> \<open>between single quotes\<close>
  "quoted s = CHR 0x27 # s @ [CHR 0x27]"

subsection \<open>Lemmas\<close>

lemma split_on_nonempty [simp]: "split_on c s \<noteq> []"
  by (induction s) (auto split: list.splits)

lemma split_on_free: "p \<in> set (split_on c s) \<Longrightarrow> c \<notin> set p"
proof (induction s arbitrary: p)
  case Nil
  then show ?case by simp
next
  case (Cons x s)
  obtain q qs where q: "split_on c s = q # qs" using split_on_nonempty neq_Nil_conv by metis
  show ?case
  proof (cases "x = c")
    case True
    then show ?thesis using Cons by auto
  next
    case False
    then show ?thesis using Cons q by auto
  qed
qed

lemma join_Cons: "ps \<noteq> [] \<Longrightarrow> join sep (p # ps) = p @ sep @ join sep ps"
  by (cases ps) auto

lemma join_split_on: "join [c] (split_on c s) = s"
proof (induction s)
  case Nil
  then show ?case by simp
next
  case (Cons x s)
  obtain q qs where q: "split_on c s = q # qs" using split_on_nonempty neq_Nil_conv by metis
  show ?case
  proof (cases "x = c")
    case True
    then show ?thesis using Cons q by (simp add: join_Cons)
  next
    case False
    then show ?thesis using Cons q by (cases qs) auto
  qed
qed

lemma split_on_no_sep: "c \<notin> set s \<Longrightarrow> split_on c s = [s]"
  by (induction s) auto

lemma split_on_append: "c \<notin> set p \<Longrightarrow> split_on c (p @ c # s) = p # split_on c s"
  by (induction p) auto

lemma split_on_join:
  "ps \<noteq> [] \<Longrightarrow> (\<And>p. p \<in> set ps \<Longrightarrow> c \<notin> set p) \<Longrightarrow> split_on c (join [c] ps) = ps"
proof (induction ps)
  case Nil
  then show ?case by simp
next
  case (Cons p ps)
  show ?case
  proof (cases ps)
    case Nil
    then show ?thesis using Cons.prems by (simp add: split_on_no_sep)
  next
    case (Cons q qs)
    have "split_on c (join [c] (p # ps)) = p # split_on c (join [c] ps)"
      using Cons Cons.prems by (simp add: split_on_append)
    then show ?thesis using Cons.IH Cons.prems Cons by simp
  qed
qed

lemma startswith_append [simp]: "startswith (p @ s) p"
  by (simp add: startswith_def)

lemma startswith_iff: "startswith s p \<longleftrightarrow> (\<exists>t. s = p @ t)"
  unfolding startswith_def by (metis append_eq_conv_conj append_take_drop_id)

lemma endswith_append [simp]: "endswith (s @ p) p"
  by (simp add: endswith_def)

lemma endswith_iff: "endswith s p \<longleftrightarrow> (\<exists>t. s = t @ p)"
proof
  assume "endswith s p"
  then have "s = take (length s - length p) s @ p"
    unfolding endswith_def by (metis append_take_drop_id)
  then show "\<exists>t. s = t @ p" by blast
qed auto

lemma contains_iff: "contains s sub \<longleftrightarrow> (\<exists>u v. s = u @ sub @ v)"
proof (induction s)
  case Nil
  then show ?case by auto
next
  case (Cons c s)
  show ?case
  proof
    assume "contains (c # s) sub"
    then consider "startswith (c # s) sub" | "contains s sub" by auto
    then show "\<exists>u v. c # s = u @ sub @ v"
    proof cases
      case 1
      then obtain t where "c # s = [] @ sub @ t" by (auto simp: startswith_iff)
      then show ?thesis by blast
    next
      case 2
      then obtain u v where "s = u @ sub @ v" using Cons by blast
      then have "c # s = (c # u) @ sub @ v" by simp
      then show ?thesis by blast
    qed
  next
    assume "\<exists>u v. c # s = u @ sub @ v"
    then obtain u v where uv: "c # s = u @ sub @ v" by blast
    show "contains (c # s) sub"
    proof (cases u)
      case Nil
      then have "startswith (c # s) sub" using uv by (auto simp: startswith_iff)
      then show ?thesis by simp
    next
      case (Cons d u')
      then have "s = u' @ sub @ v" using uv by simp
      then show ?thesis using Cons.IH by auto
    qed
  qed
qed

lemma dropWhile_fix: "(s = [] \<or> \<not> P (hd s)) \<Longrightarrow> dropWhile P s = s"
  by (cases s) auto

lemma strip_ends: "strip s = [] \<or> \<not> is_space (hd (strip s)) \<and> \<not> is_space (last (strip s))"
proof -
  let ?l = "dropWhile is_space s"
  let ?r = "dropWhile is_space (rev ?l)"
  show ?thesis
  proof (cases "?r = []")
    case True
    then show ?thesis by (simp add: strip_def)
  next
    case False
    then have "\<not> is_space (hd ?r)" by (rule hd_dropWhile)
    moreover have "\<not> is_space (last ?r)"
    proof -
      have "?l \<noteq> []" using False by (cases ?l) simp_all
      then have "\<not> is_space (hd ?l)" by (rule hd_dropWhile)
      moreover have "last ?r = last (rev ?l)"
        using False by (metis append_is_Nil_conv last_appendR takeWhile_dropWhile_id)
      ultimately show ?thesis by (simp add: last_rev \<open>?l \<noteq> []\<close>)
    qed
    ultimately show ?thesis using False by (simp add: strip_def last_rev hd_rev)
  qed
qed

lemma strip_idem [simp]: "strip (strip s) = strip s"
proof -
  have "t = [] \<or> \<not> is_space (hd t) \<and> \<not> is_space (last t) \<Longrightarrow> strip t = t" for t
    by (cases "t = []") (auto simp: strip_def dropWhile_fix hd_rev)
  then show ?thesis using strip_ends by blast
qed

lemma nat_digits_nonempty [simp]: "nat_digits n \<noteq> []"
  by (subst nat_digits.simps) simp

lemma ordc_char_of [simp]: "n < 256 \<Longrightarrow> ordc (char_of n) = n"
  by (simp add: ordc_def of_char_of)

lemma digits_value_append: "digits_value acc (xs @ ys) = digits_value (digits_value acc xs) ys"
  by (induction xs arbitrary: acc) auto

lemma nat_digits_value: "digits_value 0 (nat_digits n) = n"
proof (induction n rule: nat_digits.induct)
  case (1 n)
  show ?case
  proof (cases "n < 10")
    case True
    then show ?thesis by (subst nat_digits.simps) simp
  next
    case False
    then have "digits_value 0 (nat_digits (n div 10)) = n div 10" using 1 by simp
    moreover have "n mod 10 < 10" by simp
    ultimately show ?thesis
      using False by (subst nat_digits.simps) (simp add: digits_value_append)
  qed
qed

lemma nat_digits_inj: "nat_digits m = nat_digits n \<Longrightarrow> m = n"
  by (metis nat_digits_value)

lemma nat_digits_is_digit: "list_all is_digit (nat_digits n)"
proof (induction n rule: nat_digits.induct)
  case (1 n)
  have d: "m < 10 \<Longrightarrow> is_digit (char_of (48 + m))" for m :: nat
    by (simp add: is_digit_def)
  show ?case
  proof (cases "n < 10")
    case True
    then show ?thesis using d by (subst nat_digits.simps) simp
  next
    case False
    then show ?thesis using 1 d by (subst nat_digits.simps) simp
  qed
qed

lemma strip_no_space: "\<forall>c \<in> set s. \<not> is_space c \<Longrightarrow> strip s = s"
proof -
  assume s: "\<forall>c \<in> set s. \<not> is_space c"
  have "dropWhile is_space t = t" if "set t \<subseteq> set s" for t
    using s that by (intro dropWhile_fix) (cases t; auto)
  from this [of s] this [of "rev s"] show ?thesis by (simp add: strip_def)
qed

end
