(* ===== verification/PyExceptions.thy ===== *)
theory PyExceptions
  imports PyStrings
begin

section \<open>Exception classes and their instances\<close>

text \<open>
  The exception classes the program declares (\<open>core/exceptions/*.py\<close>,
  \<open>core/domain/exceptions.py\<close>, \<open>features/ai_generation/exceptions/__init__.py\<close>), the
  built-in classes it catches, and the classes of the libraries, which are only names: what
  a library class derives from is the parameter \<open>ext\<close> of \<open>mro\<close> and \<open>isinst\<close>.
  Class attributes are looked up along the declared inheritance, and each constructor is
  the \<open>__init__\<close> of its class.  Programs that raise are functions into \<open>exn + 'a\<close>.
\<close>

subsection \<open>Error codes\<close>

datatype (plugins only: code size) error_code =
    INTERNAL_SERVER_ERROR | BAD_REQUEST | NOT_FOUND | CONFLICT_ERROR | VALIDATION_ERROR
  | METHOD_NOT_ALLOWED | TIMEOUT | RATE_LIMIT_EXCEEDED | SERVICE_UNAVAILABLE | BAD_GATEWAY
  | AUTHENTICATION_FAILED | PERMISSION_DENIED | UNAUTHORIZED | USER_INACTIVE | USER_NOT_FOUND
  | JWT_TOKEN_ERROR | JWT_INVALID_TOKEN | JWT_EXPIRED_TOKEN | JWT_MISSING_TOKEN
  | TOKEN_EXPIRED | TOKEN_INVALID | REFRESH_TOKEN_MISSING | REFRESH_TOKEN_INVALID
  | REFRESH_TOKEN_EXPIRED | OAUTH_ERROR | OAUTH_STATE_INVALID | OAUTH_PROVIDER_ERROR
  | ROLE_NOT_FOUND | PLAN_NOT_FOUND | PLAN_EXPIRED | USER_PLAN_NOT_FOUND
  | FEATURE_NOT_AVAILABLE | QUOTA_EXCEEDED | DATABASE_ERROR | DATABASE_CONNECTION_ERROR
  | DATABASE_TIMEOUT_ERROR | DATABASE_DISCONNECTION_ERROR | DATABASE_INTERFACE_ERROR
  | DATABASE_OPERATIONAL_ERROR | DATABASE_DBAPI_ERROR | DATABASE_CIRCUIT_BREAKER_OPEN

primrec code_value :: "error_code \<Rightarrow> string" where
  \<comment> \<open>\<open>ErrorCode.__str__\<close>: the value of the member\<close>
  "code_value INTERNAL_SERVER_ERROR = ''INTERNAL_SERVER_ERROR''"
| "code_value BAD_REQUEST = ''BAD_REQUEST''"
| "code_value NOT_FOUND = ''NOT_FOUND''"
| "code_value CONFLICT_ERROR = ''CONFLICT_ERROR''"
| "code_value VALIDATION_ERROR = ''VALIDATION_ERROR''"
| "code_value METHOD_NOT_ALLOWED = ''METHOD_NOT_ALLOWED''"
| "code_value TIMEOUT = ''TIMEOUT''"
| "code_value RATE_LIMIT_EXCEEDED = ''RATE_LIMIT_EXCEEDED''"
| "code_value SERVICE_UNAVAILABLE = ''SERVICE_UNAVAILABLE''"
| "code_value BAD_GATEWAY = ''BAD_GATEWAY''"
| "code_value AUTHENTICATION_FAILED = ''AUTHENTICATION_FAILED''"
| "code_value PERMISSION_DENIED = ''PERMISSION_DENIED''"
| "code_value UNAUTHORIZED = ''UNAUTHORIZED''"
| "code_value USER_INACTIVE = ''USER_INACTIVE''"
| "code_value USER_NOT_FOUND = ''USER_NOT_FOUND''"
| "code_value JWT_TOKEN_ERROR = ''JWT_TOKEN_ERROR''"
| "code_value JWT_INVALID_TOKEN = ''JWT_INVALID_TOKEN''"
| "code_value JWT_EXPIRED_TOKEN = ''JWT_EXPIRED_TOKEN''"
| "code_value JWT_MISSING_TOKEN = ''JWT_MISSING_TOKEN''"
| "code_value TOKEN_EXPIRED = ''TOKEN_EXPIRED''"
| "code_value TOKEN_INVALID = ''TOKEN_INVALID''"
| "code_value REFRESH_TOKEN_MISSING = ''REFRESH_TOKEN_MISSING''"
| "code_value REFRESH_TOKEN_INVALID = ''REFRESH_TOKEN_INVALID''"
| "code_value REFRESH_TOKEN_EXPIRED = ''REFRESH_TOKEN_EXPIRED''"
| "code_value OAUTH_ERROR = ''OAUTH_ERROR''"
| "code_value OAUTH_STATE_INVALID = ''OAUTH_STATE_INVALID''"
| "code_value OAUTH_PROVIDER_ERROR = ''OAUTH_PROVIDER_ERROR''"
| "code_value ROLE_NOT_FOUND = ''ROLE_NOT_FOUND''"
| "code_value PLAN_NOT_FOUND = ''PLAN_NOT_FOUND''"
| "code_value PLAN_EXPIRED = ''PLAN_EXPIRED''"
| "code_value USER_PLAN_NOT_FOUND = ''USER_PLAN_NOT_FOUND''"
| "code_value FEATURE_NOT_AVAILABLE = ''FEATURE_NOT_AVAILABLE''"
| "code_value QUOTA_EXCEEDED = ''QUOTA_EXCEEDED''"
| "code_value DATABASE_ERROR = ''DATABASE_ERROR''"
| "code_value DATABASE_CONNECTION_ERROR = ''DATABASE_CONNECTION_ERROR''"
| "code_value DATABASE_TIMEOUT_ERROR = ''DATABASE_TIMEOUT_ERROR''"
| "code_value DATABASE_DISCONNECTION_ERROR = ''DATABASE_DISCONNECTION_ERROR''"
| "code_value DATABASE_INTERFACE_ERROR = ''DATABASE_INTERFACE_ERROR''"
| "code_value DATABASE_OPERATIONAL_ERROR = ''DATABASE_OPERATIONAL_ERROR''"
| "code_value DATABASE_DBAPI_ERROR = ''DATABASE_DBAPI_ERROR''"
| "code_value DATABASE_CIRCUIT_BREAKER_OPEN = ''DATABASE_CIRCUIT_BREAKER_OPEN''"

subsection \<open>Classes\<close>

datatype (plugins only: code size) app_class =
    ServiceException | RequestError | AuthenticationFailedError | PermissionDeniedError
  | NotFoundError | MethodNotAllowedError | RequestTimeoutError | ConflictError
  | ValidationError | RateLimitExceededError | InternalServerError | BadGatewayError
  | ServiceUnavailableError
  | DatabaseError | DatabaseConnectionError | DatabaseTimeoutError | DatabaseDisconnectionError
  | DatabaseInterfaceError | DatabaseOperationalError | DatabaseDBAPIError
  | DatabaseCircuitBreakerOpenError
  | JWTTokenError | JWTInvalidTokenError | JWTExpiredSignatureError | JWTMissingTokenError
  | DomainError | DomainValidationError | EntityNotFoundError | DomainConflictError
  | DomainStateError | DomainAuthorizationError | DomainInvariantError | AggregateRootError
  | AiGenerationError | PromptValidationError | TokenLimitExceededError
  | GenerationFailedError | QuotaExhaustedError
  | IdempotencyCacheError | ConfigurationError

datatype (plugins only: code size) builtin_class =
    BaseExceptionC | ExceptionC | ValueErrorC | TypeErrorC | LookupErrorC | KeyErrorC
  | IndexErrorC | AttributeErrorC | RuntimeErrorC | ImportErrorC | OSErrorC
  | ConnectionErrorC | TimeoutErrorC | GaiErrorC | CancelledErrorC | SystemExitC
  | ZeroDivisionErrorC | NotImplementedErrorC

text \<open>\<open>Lib n\<close> is the library class with the qualified name \<open>n\<close>.\<close>

datatype pyclass = App app_class | Builtin builtin_class | Lib string

definition http_exception_class :: pyclass where
  "http_exception_class = Lib ''fastapi.HTTPException''"

primrec app_parent :: "app_class \<Rightarrow> app_class option" where
  "app_parent ServiceException = None"
| "app_parent RequestError = Some ServiceException"
| "app_parent AuthenticationFailedError = Some ServiceException"
| "app_parent PermissionDeniedError = Some ServiceException"
| "app_parent NotFoundError = Some ServiceException"
| "app_parent MethodNotAllowedError = Some ServiceException"
| "app_parent RequestTimeoutError = Some ServiceException"
| "app_parent ConflictError = Some ServiceException"
| "app_parent ValidationError = Some ServiceException"
| "app_parent RateLimitExceededError = Some ServiceException"
| "app_parent InternalServerError = Some ServiceException"
| "app_parent BadGatewayError = Some ServiceException"
| "app_parent ServiceUnavailableError = Some ServiceException"
| "app_parent DatabaseError = Some InternalServerError"
| "app_parent DatabaseConnectionError = Some InternalServerError"
| "app_parent DatabaseTimeoutError = Some RequestTimeoutError"
| "app_parent DatabaseDisconnectionError = Some ServiceUnavailableError"
| "app_parent DatabaseInterfaceError = Some InternalServerError"
| "app_parent DatabaseOperationalError = Some InternalServerError"
| "app_parent DatabaseDBAPIError = Some InternalServerError"
| "app_parent DatabaseCircuitBreakerOpenError = Some ServiceUnavailableError"
| "app_parent JWTTokenError = Some AuthenticationFailedError"
| "app_parent JWTInvalidTokenError = Some JWTTokenError"
| "app_parent JWTExpiredSignatureError = Some JWTTokenError"
| "app_parent JWTMissingTokenError = Some JWTTokenError"
| "app_parent DomainError = None"
| "app_parent DomainValidationError = Some DomainError"
| "app_parent EntityNotFoundError = Some DomainError"
| "app_parent DomainConflictError = Some DomainError"
| "app_parent DomainStateError = Some DomainError"
| "app_parent DomainAuthorizationError = Some DomainError"
| "app_parent DomainInvariantError = Some DomainError"
| "app_parent AggregateRootError = Some DomainError"
| "app_parent AiGenerationError = Some DomainError"
| "app_parent PromptValidationError = Some DomainValidationError"
| "app_parent TokenLimitExceededError = Some AiGenerationError"
| "app_parent GenerationFailedError = Some AiGenerationError"
| "app_parent QuotaExhaustedError = Some AiGenerationError"
| "app_parent IdempotencyCacheError = None"
| "app_parent ConfigurationError = None"

fun app_root_base :: "app_class \<Rightarrow> pyclass" where
  \<comment> \<open>the base of the classes with no parent in the program\<close>
  "app_root_base ServiceException = http_exception_class"
| "app_root_base _ = Builtin ExceptionC"

text \<open>The height of a class in the hierarchy bounds the walk to its root.\<close>

definition app_depth :: "app_class \<Rightarrow> nat" where
  "app_depth c =
     (case app_parent c of None \<Rightarrow> 0
      | Some p \<Rightarrow> (case app_parent p of None \<Rightarrow> 1
          | Some q \<Rightarrow> (case app_parent q of None \<Rightarrow> 2 | Some _ \<Rightarrow> 3)))"

lemma app_depth_parent: "app_parent c = Some p \<Longrightarrow> app_depth p < app_depth c"
  by (cases c) (auto simp: app_depth_def)

function app_mro :: "app_class \<Rightarrow> app_class list" where
  "app_mro c = c # (case app_parent c of None \<Rightarrow> [] | Some p \<Rightarrow> app_mro p)"
  by pat_completeness auto
termination by (relation "measure app_depth") (auto simp: app_depth_parent)

declare app_mro.simps [simp del]

lemma app_mro_root [simp]: "app_parent c = None \<Longrightarrow> app_mro c = [c]"
  by (subst app_mro.simps) simp

lemma app_mro_step [simp]: "app_parent c = Some p \<Longrightarrow> app_mro c = c # app_mro p"
  by (subst app_mro.simps) simp

lemma app_mro_self [simp]: "c \<in> set (app_mro c)"
  by (subst app_mro.simps) simp

fun builtin_mro :: "builtin_class \<Rightarrow> builtin_class list" where
  "builtin_mro BaseExceptionC = [BaseExceptionC]"
| "builtin_mro CancelledErrorC = [CancelledErrorC, BaseExceptionC]"
| "builtin_mro SystemExitC = [SystemExitC, BaseExceptionC]"
| "builtin_mro ExceptionC = [ExceptionC, BaseExceptionC]"
| "builtin_mro KeyErrorC = [KeyErrorC, LookupErrorC, ExceptionC, BaseExceptionC]"
| "builtin_mro IndexErrorC = [IndexErrorC, LookupErrorC, ExceptionC, BaseExceptionC]"
| "builtin_mro ConnectionErrorC = [ConnectionErrorC, OSErrorC, ExceptionC, BaseExceptionC]"
| "builtin_mro TimeoutErrorC = [TimeoutErrorC, OSErrorC, ExceptionC, BaseExceptionC]"
| "builtin_mro GaiErrorC = [GaiErrorC, OSErrorC, ExceptionC, BaseExceptionC]"
| "builtin_mro NotImplementedErrorC = [NotImplementedErrorC, RuntimeErrorC, ExceptionC, BaseExceptionC]"
| "builtin_mro c = [c, ExceptionC, BaseExceptionC]"

text \<open>\<open>type(e).__mro__\<close>: \<open>ext\<close> gives the ancestors of a library class.\<close>

definition mro :: "(string \<Rightarrow> pyclass list) \<Rightarrow> pyclass \<Rightarrow> pyclass list" where
  "mro ext c =
     (let expand = (\<lambda>d. case d of Lib n \<Rightarrow> d # ext n
                      | Builtin b \<Rightarrow> map Builtin (builtin_mro b) | App _ \<Rightarrow> []) in
      case c of App a \<Rightarrow> map App (app_mro a) @ expand (app_root_base (last (app_mro a)))
      | _ \<Rightarrow> expand c)"

definition isinst :: "(string \<Rightarrow> pyclass list) \<Rightarrow> pyclass \<Rightarrow> pyclass list \<Rightarrow> bool" where
  \<comment> \<open>\<open>isinstance(e, (c1, ..., cn))\<close> for an \<open>e\<close> of class \<open>c\<close>\<close>
  "isinst ext c ds \<longleftrightarrow> list_ex (\<lambda>d. d \<in> set (mro ext c)) ds"

subsection \<open>Class attributes\<close>

definition http_attrs :: "(app_class \<times> int \<times> string \<times> error_code) list" where
  \<comment> \<open>\<open>status_code\<close>, \<open>message\<close> and \<open>code\<close> of the classes of \<open>http_exceptions.py\<close>\<close>
  "http_attrs =
     [(ServiceException, 500, ''Internal Server Error'', INTERNAL_SERVER_ERROR),
      (RequestError, 400, ''Bad request'', BAD_REQUEST),
      (AuthenticationFailedError, 401, ''Authentication Failed.'', AUTHENTICATION_FAILED),
      (PermissionDeniedError, 403, ''You do not have permission to perform this action.'', PERMISSION_DENIED),
      (NotFoundError, 404, ''Resource Not Found'', NOT_FOUND),
      (MethodNotAllowedError, 405, ''Method Not Allowed'', METHOD_NOT_ALLOWED),
      (RequestTimeoutError, 408, ''Request Timeout'', TIMEOUT),
      (ConflictError, 409, ''Conflict Error'', CONFLICT_ERROR),
      (ValidationError, 422, ''Validation Error'', VALIDATION_ERROR),
      (RateLimitExceededError, 429, ''Rate limit exceeded'', RATE_LIMIT_EXCEEDED),
      (InternalServerError, 500, ''Internal Server Error'', INTERNAL_SERVER_ERROR),
      (BadGatewayError, 502, ''Bad Gateway'', BAD_GATEWAY),
      (ServiceUnavailableError, 503, ''Service Unavailable'', SERVICE_UNAVAILABLE)]"

definition db_attrs :: "(app_class \<times> string \<times> error_code) list" where
  \<comment> \<open>\<open>message\<close> and \<open>code\<close> of the classes of \<open>db_exceptions.py\<close>\<close>
  "db_attrs =
     [(DatabaseError, ''Database error'', DATABASE_ERROR),
      (DatabaseConnectionError, ''Database connection error'', DATABASE_CONNECTION_ERROR),
      (DatabaseTimeoutError, ''Database timeout error'', DATABASE_TIMEOUT_ERROR),
      (DatabaseDisconnectionError, ''Database disconnection error'', DATABASE_DISCONNECTION_ERROR),
      (DatabaseInterfaceError, ''Database interface error'', DATABASE_INTERFACE_ERROR),
      (DatabaseOperationalError, ''Database operational error'', DATABASE_OPERATIONAL_ERROR),
      (DatabaseDBAPIError, ''Database DBAPI error'', DATABASE_DBAPI_ERROR),
      (DatabaseCircuitBreakerOpenError, ''Database circuit breaker is open - too many failures'', DATABASE_CIRCUIT_BREAKER_OPEN)]"

definition jwt_attrs :: "(app_class \<times> string \<times> error_code) list" where
  "jwt_attrs =
     [(JWTTokenError, ''Invalid JWT Token.'', JWT_TOKEN_ERROR),
      (JWTInvalidTokenError, ''Invalid JWT Token.'', JWT_INVALID_TOKEN),
      (JWTExpiredSignatureError, ''Expired JWT Signature.'', JWT_EXPIRED_TOKEN),
      (JWTMissingTokenError, ''JWT Token is missing.'', JWT_MISSING_TOKEN)]"

definition own_status :: "app_class \<Rightarrow> int option" where
  "own_status = map_of (map (\<lambda>(c, s, m, k). (c, s)) http_attrs)"

definition own_message :: "app_class \<Rightarrow> string option" where
  "own_message =
     map_of (map (\<lambda>(c, s, m, k). (c, m)) http_attrs @ map (\<lambda>(c, m, k). (c, m)) (db_attrs @ jwt_attrs))"

definition own_code :: "app_class \<Rightarrow> error_code option" where
  "own_code =
     map_of (map (\<lambda>(c, s, m, k). (c, k)) http_attrs @ map (\<lambda>(c, m, k). (c, k)) (db_attrs @ jwt_attrs))"

fun class_attr :: "(app_class \<Rightarrow> 'a option) \<Rightarrow> app_class list \<Rightarrow> 'a option" where
  \<comment> \<open>the attribute of the first class of the resolution order that declares it\<close>
  "class_attr own [] = None"
| "class_attr own (c # cs) = (case own c of Some v \<Rightarrow> Some v | None \<Rightarrow> class_attr own cs)"

definition class_status :: "app_class \<Rightarrow> int option" where
  "class_status c = class_attr own_status (app_mro c)"

definition class_message :: "app_class \<Rightarrow> string option" where
  "class_message c = class_attr own_message (app_mro c)"

definition class_code :: "app_class \<Rightarrow> error_code option" where
  "class_code c = class_attr own_code (app_mro c)"

definition is_service_class :: "app_class \<Rightarrow> bool" where
  "is_service_class c \<longleftrightarrow> ServiceException \<in> set (app_mro c)"

definition is_domain_class :: "app_class \<Rightarrow> bool" where
  "is_domain_class c \<longleftrightarrow> DomainError \<in> set (app_mro c)"

text \<open>\<open>type(e).__name__\<close>\<close>

primrec app_class_name :: "app_class \<Rightarrow> string" where
  "app_class_name ServiceException = ''ServiceException''"
| "app_class_name RequestError = ''RequestError''"
| "app_class_name AuthenticationFailedError = ''AuthenticationFailedError''"
| "app_class_name PermissionDeniedError = ''PermissionDeniedError''"
| "app_class_name NotFoundError = ''NotFoundError''"
| "app_class_name MethodNotAllowedError = ''MethodNotAllowedError''"
| "app_class_name RequestTimeoutError = ''RequestTimeoutError''"
| "app_class_name ConflictError = ''ConflictError''"
| "app_class_name ValidationError = ''ValidationError''"
| "app_class_name RateLimitExceededError = ''RateLimitExceededError''"
| "app_class_name InternalServerError = ''InternalServerError''"
| "app_class_name BadGatewayError = ''BadGatewayError''"
| "app_class_name ServiceUnavailableError = ''ServiceUnavailableError''"
| "app_class_name DatabaseError = ''DatabaseError''"
| "app_class_name DatabaseConnectionError = ''DatabaseConnectionError''"
| "app_class_name DatabaseTimeoutError = ''DatabaseTimeoutError''"
| "app_class_name DatabaseDisconnectionError = ''DatabaseDisconnectionError''"
| "app_class_name DatabaseInterfaceError = ''DatabaseInterfaceError''"
| "app_class_name DatabaseOperationalError = ''DatabaseOperationalError''"
| "app_class_name DatabaseDBAPIError = ''DatabaseDBAPIError''"
| "app_class_name DatabaseCircuitBreakerOpenError = ''DatabaseCircuitBreakerOpenError''"
| "app_class_name JWTTokenError = ''JWTTokenError''"
| "app_class_name JWTInvalidTokenError = ''JWTInvalidTokenError''"
| "app_class_name JWTExpiredSignatureError = ''JWTExpiredSignatureError''"
| "app_class_name JWTMissingTokenError = ''JWTMissingTokenError''"
| "app_class_name DomainError = ''DomainError''"
| "app_class_name DomainValidationError = ''DomainValidationError''"
| "app_class_name EntityNotFoundError = ''EntityNotFoundError''"
| "app_class_name DomainConflictError = ''DomainConflictError''"
| "app_class_name DomainStateError = ''DomainStateError''"
| "app_class_name DomainAuthorizationError = ''DomainAuthorizationError''"
| "app_class_name DomainInvariantError = ''DomainInvariantError''"
| "app_class_name AggregateRootError = ''AggregateRootError''"
| "app_class_name AiGenerationError = ''AiGenerationError''"
| "app_class_name PromptValidationError = ''PromptValidationError''"
| "app_class_name TokenLimitExceededError = ''TokenLimitExceededError''"
| "app_class_name GenerationFailedError = ''GenerationFailedError''"
| "app_class_name QuotaExhaustedError = ''QuotaExhaustedError''"
| "app_class_name IdempotencyCacheError = ''IdempotencyCacheError''"
| "app_class_name ConfigurationError = ''ConfigurationError''"

primrec builtin_class_name :: "builtin_class \<Rightarrow> string" where
  "builtin_class_name BaseExceptionC = ''BaseException''"
| "builtin_class_name ExceptionC = ''Exception''"
| "builtin_class_name ValueErrorC = ''ValueError''"
| "builtin_class_name TypeErrorC = ''TypeError''"
| "builtin_class_name LookupErrorC = ''LookupError''"
| "builtin_class_name KeyErrorC = ''KeyError''"
| "builtin_class_name IndexErrorC = ''IndexError''"
| "builtin_class_name AttributeErrorC = ''AttributeError''"
| "builtin_class_name RuntimeErrorC = ''RuntimeError''"
| "builtin_class_name ImportErrorC = ''ImportError''"
| "builtin_class_name OSErrorC = ''OSError''"
| "builtin_class_name ConnectionErrorC = ''ConnectionError''"
| "builtin_class_name TimeoutErrorC = ''TimeoutError''"
| "builtin_class_name GaiErrorC = ''gaierror''"
| "builtin_class_name CancelledErrorC = ''CancelledError''"
| "builtin_class_name SystemExitC = ''SystemExit''"
| "builtin_class_name ZeroDivisionErrorC = ''ZeroDivisionError''"
| "builtin_class_name NotImplementedErrorC = ''NotImplementedError''"

definition class_name :: "pyclass \<Rightarrow> string" where
  "class_name c =
     (case c of App a \<Rightarrow> app_class_name a | Builtin b \<Rightarrow> builtin_class_name b
      | Lib n \<Rightarrow> last (split_on CHR ''.'' n))"

subsection \<open>HTTP responses\<close>

record response =
  r_status :: int
  r_body :: pyval
  r_headers :: "(string \<times> string) list"

definition json_response :: "int \<Rightarrow> pyval \<Rightarrow> response" where
  "json_response st body = \<lparr>r_status = st, r_body = body, r_headers = []\<rparr>"

definition error_body :: "string \<Rightarrow> string \<Rightarrow> (string \<times> pyval) list \<Rightarrow> pyval" where
  \<comment> \<open>the application's error format; \<open>context\<close> only when it is not empty\<close>
  "error_body code msg context =
     PDict [(''success'', PBool False),
            (''error'', PDict ([(''code'', PStr code), (''message'', PStr msg)]
               @ (if context = [] then [] else [(''context'', PDict context)])))]"

subsection \<open>ServiceException\<close>

record svc_exn =
  sv_class :: app_class
  sv_message :: string
  sv_code :: string
  sv_status :: int
  sv_meta :: "(string \<times> pyval) list"
  sv_payload :: "(string \<times> pyval) list"

definition mk_service ::
  "app_class \<Rightarrow> string option \<Rightarrow> string option \<Rightarrow> pyval \<Rightarrow> int option \<Rightarrow>
   (string \<times> pyval) list option \<Rightarrow> svc_exn" where
  \<comment> \<open>\<open>ServiceException.__init__\<close>: a falsy argument leaves the class attribute in place\<close>
  "mk_service c message code errors status_code meta =
     (let meta' = or_else meta [];
          message' = (if given message then the message
                      else case class_message c of Some m \<Rightarrow> m | None \<Rightarrow> []);
          status' = (case status_code of
                       Some s \<Rightarrow> if s \<noteq> 0 then s else the (class_status c)
                     | None \<Rightarrow> the (class_status c));
          payload = [(''message'', PStr message')];
          payload' = (if truthy errors then dict_set ''errors'' errors payload else payload);
          code' = (if given code then the code
                   else case class_code c of Some k \<Rightarrow> code_value k | None \<Rightarrow> []);
          payload'' = (if code' \<noteq> [] then dict_set ''code'' (PStr code') payload' else payload')
      in \<lparr>sv_class = c, sv_message = message', sv_code = code', sv_status = status',
          sv_meta = meta', sv_payload = payload''\<rparr>)"

definition mk_default :: "app_class \<Rightarrow> svc_exn" where
  \<comment> \<open>\<open>raise C from e\<close> with a class: \<open>C()\<close>\<close>
  "mk_default c = mk_service c None None PNone None None"

definition mk_message :: "app_class \<Rightarrow> string \<Rightarrow> svc_exn" where
  \<comment> \<open>\<open>C(message=m)\<close>\<close>
  "mk_message c m = mk_service c (Some m) None PNone None None"

definition to_response :: "svc_exn \<Rightarrow> response" where
  "to_response e =
     (let context = (if sv_meta e = [] then [] else dict_merge [] (sv_meta e));
          context' = (case dict_get (sv_payload e) ''errors'' of
                        Some errs \<Rightarrow> dict_set ''errors'' errs context
                      | None \<Rightarrow> context)
      in json_response (sv_status e) (error_body (sv_code e) (sv_message e) context'))"

subsection \<open>Domain errors\<close>

record dom_exn =
  de_class :: app_class
  de_message :: string
  de_code :: string
  de_context :: "(string \<times> pyval) list"

definition mk_domain ::
  "app_class \<Rightarrow> string \<Rightarrow> string option \<Rightarrow> (string \<times> pyval) list option \<Rightarrow> dom_exn" where
  \<comment> \<open>\<open>DomainError.__init__\<close>\<close>
  "mk_domain c message code context =
     \<lparr>de_class = c, de_message = message, de_code = or_else code (app_class_name c),
      de_context = or_else context []\<rparr>"

definition put_given :: "string \<Rightarrow> string option \<Rightarrow> (string \<times> pyval) list \<Rightarrow> (string \<times> pyval) list" where
  \<comment> \<open>\<open>if x: ctx[k] = x\<close>\<close>
  "put_given k x ctx = (if given x then dict_set k (PStr (the x)) ctx else ctx)"

definition put_some :: "string \<Rightarrow> pyval \<Rightarrow> (string \<times> pyval) list \<Rightarrow> (string \<times> pyval) list" where
  \<comment> \<open>\<open>if x is not None: ctx[k] = x\<close>\<close>
  "put_some k x ctx = (if x = PNone then ctx else dict_set k x ctx)"

definition mk_domain_validation ::
  "app_class \<Rightarrow> string \<Rightarrow> string option \<Rightarrow> pyval \<Rightarrow> (string \<times> pyval) list option \<Rightarrow> dom_exn" where
  "mk_domain_validation c message field value context =
     mk_domain c message (Some ''VALIDATION_ERROR'')
       (Some (put_some ''value'' value (put_given ''field'' field (or_else context []))))"

definition mk_entity_not_found ::
  "(pyval \<Rightarrow> string) \<Rightarrow> string \<Rightarrow> pyval \<Rightarrow> (string \<times> pyval) list option \<Rightarrow> dom_exn" where
  \<comment> \<open>\<open>to_str\<close> is \<open>str\<close> on the identifier\<close>
  "mk_entity_not_found to_str entity_type entity_id context =
     mk_domain EntityNotFoundError
       (entity_type @ '' with id '' @ quoted (to_str entity_id) @ '' not found'')
       (Some ''ENTITY_NOT_FOUND'')
       (Some (dict_set ''entity_id'' (PStr (to_str entity_id))
               (dict_set ''entity_type'' (PStr entity_type) (or_else context []))))"

definition mk_domain_conflict ::
  "(pyval \<Rightarrow> string) \<Rightarrow> string \<Rightarrow> string option \<Rightarrow> pyval \<Rightarrow> (string \<times> pyval) list option \<Rightarrow> dom_exn" where
  "mk_domain_conflict to_str message entity_type entity_id context =
     mk_domain DomainConflictError message (Some ''CONFLICT'')
       (Some (put_some ''entity_id''
                (if entity_id = PNone then PNone else PStr (to_str entity_id))
                (put_given ''entity_type'' entity_type (or_else context []))))"

definition mk_domain_state ::
  "string \<Rightarrow> string option \<Rightarrow> string option \<Rightarrow> string list option \<Rightarrow>
   (string \<times> pyval) list option \<Rightarrow> dom_exn" where
  "mk_domain_state message entity_type current_state expected_states context =
     (let ctx = put_given ''current_state'' current_state
                  (put_given ''entity_type'' entity_type (or_else context []));
          ctx' = (if given expected_states
                  then dict_set ''expected_states'' (PList (map PStr (the expected_states))) ctx
                  else ctx)
      in mk_domain DomainStateError message (Some ''INVALID_STATE'') (Some ctx'))"

definition mk_domain_authorization ::
  "string \<Rightarrow> string option \<Rightarrow> string option \<Rightarrow> string option \<Rightarrow>
   (string \<times> pyval) list option \<Rightarrow> dom_exn" where
  "mk_domain_authorization message actor_id resource_type action context =
     mk_domain DomainAuthorizationError message (Some ''AUTHORIZATION_FAILED'')
       (Some (put_given ''action'' action (put_given ''resource_type'' resource_type
               (put_given ''actor_id'' actor_id (or_else context [])))))"

definition mk_domain_invariant ::
  "string \<Rightarrow> string option \<Rightarrow> (string \<times> pyval) list option \<Rightarrow> dom_exn" where
  "mk_domain_invariant message invariant context =
     mk_domain DomainInvariantError message (Some ''INVARIANT_VIOLATED'')
       (Some (put_given ''invariant'' invariant (or_else context [])))"

definition mk_aggregate_root ::
  "string \<Rightarrow> string option \<Rightarrow> (string \<times> pyval) list option \<Rightarrow> dom_exn" where
  "mk_aggregate_root message aggregate_type context =
     mk_domain AggregateRootError message (Some ''AGGREGATE_ERROR'')
       (Some (put_given ''aggregate_type'' aggregate_type (or_else context [])))"

subsection \<open>Errors of the generation feature\<close>

definition mk_ai_generation ::
  "app_class \<Rightarrow> string \<Rightarrow> string option \<Rightarrow> (string \<times> pyval) list option \<Rightarrow> dom_exn" where
  "mk_ai_generation c message code context =
     mk_domain c message (Some (or_else code ''AI_GENERATION_ERROR'')) context"

definition mk_prompt_validation ::
  "string \<Rightarrow> int option \<Rightarrow> (string \<times> pyval) list option \<Rightarrow> dom_exn" where
  "mk_prompt_validation message prompt_length context =
     (let ctx = or_else context [];
          ctx' = put_some ''prompt_length'' (case prompt_length of Some n \<Rightarrow> PInt n | None \<Rightarrow> PNone) ctx
      in mk_domain_validation PromptValidationError message (Some ''prompt'') PNone (Some ctx'))"

definition mk_token_limit ::
  "string \<Rightarrow> int option \<Rightarrow> int option \<Rightarrow> (string \<times> pyval) list option \<Rightarrow> dom_exn" where
  "mk_token_limit message requested_tokens max_tokens context =
     (let num = (\<lambda>x. case x of Some n \<Rightarrow> PInt n | None \<Rightarrow> PNone);
          ctx = put_some ''max_tokens'' (num max_tokens)
                  (put_some ''requested_tokens'' (num requested_tokens) (or_else context []))
      in mk_ai_generation TokenLimitExceededError message (Some ''TOKEN_LIMIT_EXCEEDED'') (Some ctx))"

definition mk_generation_failed ::
  "string \<Rightarrow> string option \<Rightarrow> string option \<Rightarrow> (string \<times> pyval) list option \<Rightarrow> dom_exn" where
  "mk_generation_failed message model reason context =
     mk_ai_generation GenerationFailedError message (Some ''GENERATION_FAILED'')
       (Some (put_given ''reason'' reason (put_given ''model'' model (or_else context []))))"

definition mk_quota_exhausted ::
  "string option \<Rightarrow> string option \<Rightarrow> (string \<times> pyval) list option \<Rightarrow> dom_exn" where
  \<comment> \<open>\<open>message\<close> is \<open>None\<close> when the caller leaves it out\<close>
  "mk_quota_exhausted message user_id context =
     mk_ai_generation QuotaExhaustedError
       (case message of Some m \<Rightarrow> m | None \<Rightarrow> ''AI generation quota exhausted'')
       (Some ''QUOTA_EXHAUSTED'')
       (Some (put_given ''user_id'' user_id (or_else context [])))"

subsection \<open>Raised exceptions\<close>

text \<open>An exception in flight: an instance of one of the classes above, or of another class
  with its text.\<close>

datatype exn = EService svc_exn | EDomain dom_exn | EOther pyclass string

fun exn_class :: "exn \<Rightarrow> pyclass" where
  "exn_class (EService e) = App (sv_class e)"
| "exn_class (EDomain e) = App (de_class e)"
| "exn_class (EOther c _) = c"

definition is_exception :: "(string \<Rightarrow> pyclass list) \<Rightarrow> exn \<Rightarrow> bool" where
  \<comment> \<open>caught by \<open>except Exception\<close>\<close>
  "is_exception ext e \<longleftrightarrow> isinst ext (exn_class e) [Builtin ExceptionC]"

subsection \<open>Lemmas\<close>

lemma isinst_self [simp]: "c \<in> set ds \<Longrightarrow> isinst ext c ds"
proof -
  have "c \<in> set (mro ext c)"
  proof (cases c)
    case (App a)
    then show ?thesis by (simp add: mro_def)
  next
    case (Builtin b)
    then show ?thesis by (cases b) (simp_all add: mro_def)
  qed (simp add: mro_def)
  then show "c \<in> set ds \<Longrightarrow> isinst ext c ds" by (auto simp: isinst_def list_ex_iff)
qed

lemma isinst_append: "isinst ext c (xs @ ys) \<longleftrightarrow> isinst ext c xs \<or> isinst ext c ys"
  by (auto simp: isinst_def)

text \<open>The exact class hierarchy and attribute lookups, evaluated.\<close>

lemmas class_defs = is_service_class_def is_domain_class_def class_status_def class_message_def
  class_code_def own_status_def own_message_def own_code_def http_attrs_def db_attrs_def jwt_attrs_def

definition all_app_classes :: "app_class list" where
  "all_app_classes =
     [ServiceException, RequestError, AuthenticationFailedError,
      PermissionDeniedError, NotFoundError, MethodNotAllowedError,
      RequestTimeoutError, ConflictError, ValidationError,
      RateLimitExceededError, InternalServerError, BadGatewayError,
      ServiceUnavailableError, DatabaseError, DatabaseConnectionError,
      DatabaseTimeoutError, DatabaseDisconnectionError, DatabaseInterfaceError,
      DatabaseOperationalError, DatabaseDBAPIError, DatabaseCircuitBreakerOpenError,
      JWTTokenError, JWTInvalidTokenError, JWTExpiredSignatureError,
      JWTMissingTokenError, DomainError, DomainValidationError,
      EntityNotFoundError, DomainConflictError, DomainStateError,
      DomainAuthorizationError, DomainInvariantError, AggregateRootError,
      AiGenerationError, PromptValidationError, TokenLimitExceededError,
      GenerationFailedError, QuotaExhaustedError, IdempotencyCacheError,
      ConfigurationError]"

lemma all_app_classes [simp]: "c \<in> set all_app_classes"
  by (cases c) (simp_all add: all_app_classes_def)

lemma service_classes_checked:
  "list_all (\<lambda>c. is_service_class c \<longrightarrow>
     class_status c \<noteq> None \<and> class_message c \<noteq> None \<and> class_code c \<noteq> None \<and>
     400 \<le> the (class_status c) \<and> the (class_status c) < 600 \<and> the (class_message c) \<noteq> [])
     all_app_classes"
  by code_simp

lemma service_class_attrs:
  assumes "is_service_class c"
  shows "class_status c \<noteq> None" "class_message c \<noteq> None" "class_code c \<noteq> None"
    "400 \<le> the (class_status c)" "the (class_status c) < 600" "the (class_message c) \<noteq> []"
  using assms service_classes_checked all_app_classes [of c] unfolding list_all_iff by blast+

end
