(* ===== verification/MemCache.thy ===== *)
theory MemCache
  imports PyStrings
begin

section \<open>The in-memory cache\<close>

text \<open>
  \<open>InMemoryCache\<close> of \<open>core/infrastructure/cache/service.py\<close>: a dictionary from keys to a
  value and an optional expiry time, with a size limit.  An operation holds the
  \<open>asyncio.Lock\<close> for its whole body and awaits nothing but the cleanup, which awaits
  nothing, so each is one atomic step.  Every reading of \<open>time.time()\<close> is an argument, in
  the order the code reads the clock.

  \<open>mem_live m t\<close> is the abstract view: the map a caller observes at time \<open>t\<close>.
\<close>

record mem_cache =
  mc_cache :: "(string \<times> string \<times> real option) list"
  mc_max :: nat

definition mem_init :: "nat \<Rightarrow> mem_cache" where
  "mem_init max_size = \<lparr>mc_cache = [], mc_max = max_size\<rparr>"

fun is_expired :: "real option \<Rightarrow> real \<Rightarrow> bool" where
  "is_expired None now = False"
| "is_expired (Some expiry) now = (now > expiry)"

definition cleanup_expired :: "real \<Rightarrow> mem_cache \<Rightarrow> mem_cache" where
  \<comment> \<open>\<open>if exp and now > exp\<close>: an expiry of \<open>0.0\<close> counts as no expiry here\<close>
  "cleanup_expired now m =
     (let expired = map fst (filter (\<lambda>(k, v, e).
            case e of None \<Rightarrow> False | Some x \<Rightarrow> x \<noteq> 0 \<and> now > x) (mc_cache m))
      in m\<lparr>mc_cache := dict_del_all expired (mc_cache m)\<rparr>)"

definition mem_get :: "string \<Rightarrow> real \<Rightarrow> mem_cache \<Rightarrow> mem_cache \<times> string option" where
  "mem_get key now m =
     (case dict_get (mc_cache m) key of
        None \<Rightarrow> (m, None)
      | Some (value, expiry) \<Rightarrow>
          if is_expired expiry now then (m\<lparr>mc_cache := dict_del key (mc_cache m)\<rparr>, None)
          else (m, Some value))"

definition expiry_of :: "int option \<Rightarrow> real \<Rightarrow> real option" where
  \<comment> \<open>\<open>time.time() + ttl if ttl else None\<close>\<close>
  "expiry_of ttl now =
     (case ttl of None \<Rightarrow> None | Some s \<Rightarrow> if s = 0 then None else Some (now + real_of_int s))"

definition make_room :: "real \<Rightarrow> mem_cache \<Rightarrow> mem_cache" where
  \<comment> \<open>the eviction at the head of \<open>set\<close>\<close>
  "make_room now m =
     (if mc_max m \<le> length (mc_cache m) then
        let m1 = cleanup_expired now m in
        if mc_max m1 \<le> length (mc_cache m1) then
          m1\<lparr>mc_cache := dict_del_all (take (mc_max m1 div 10) (dict_keys (mc_cache m1))) (mc_cache m1)\<rparr>
        else m1
      else m)"

definition mem_set ::
  "string \<Rightarrow> string \<Rightarrow> int option \<Rightarrow> real \<Rightarrow> real \<Rightarrow> mem_cache \<Rightarrow> mem_cache \<times> bool" where
  "mem_set key value ttl now1 now2 m =
     (let m1 = make_room now1 m;
          expiry = expiry_of ttl now2
      in (m1\<lparr>mc_cache := dict_set key (value, expiry) (mc_cache m1)\<rparr>, True))"

definition mem_setnx ::
  "string \<Rightarrow> string \<Rightarrow> int option \<Rightarrow> real \<Rightarrow> real \<Rightarrow> mem_cache \<Rightarrow> mem_cache \<times> bool" where
  "mem_setnx key value ttl now1 now2 m =
     (let store = (m\<lparr>mc_cache := dict_set key (value, expiry_of ttl now2) (mc_cache m)\<rparr>, True)
      in case dict_get (mc_cache m) key of
           Some (_, expiry) \<Rightarrow> if \<not> is_expired expiry now1 then (m, False) else store
         | None \<Rightarrow> store)"

definition mem_delete :: "string \<Rightarrow> mem_cache \<Rightarrow> mem_cache \<times> bool" where
  "mem_delete key m =
     (if dict_has (mc_cache m) key then (m\<lparr>mc_cache := dict_del key (mc_cache m)\<rparr>, True)
      else (m, False))"

subsection \<open>Glob patterns\<close>

text \<open>
  \<open>fnmatch.fnmatch\<close> on POSIX, where names keep their case.  A bracket expression is read
  left to right: \<open>x-y\<close> is a range, any other character stands for itself, an empty range
  is dropped, a leading \<open>!\<close> negates.  A \<open>[\<close> with no closing bracket is a plain character.
\<close>

datatype glob_item = GSingle char | GRange char char

datatype glob = GStar | GAny | GChar char | GClass bool "glob_item list"

fun class_items :: "string \<Rightarrow> glob_item list" where
  "class_items (x # h # y # s) =
     (if h = CHR ''-'' then GRange x y # class_items s else GSingle x # class_items (h # y # s))"
| "class_items (x # s) = GSingle x # class_items s"
| "class_items [] = []"

fun item_empty :: "glob_item \<Rightarrow> bool" where
  "item_empty (GSingle _) = False"
| "item_empty (GRange a b) = (ordc b < ordc a)"

definition glob_class :: "string \<Rightarrow> glob" where
  \<comment> \<open>empty ranges go first, so a \<open>!\<close> that follows them negates as well\<close>
  "glob_class s =
     (if take 1 s = ''!'' then GClass True (class_items (drop 1 s))
      else case dropWhile item_empty (class_items s) of
             GSingle c # r \<Rightarrow> if c = CHR ''!'' then GClass True r else GClass False (GSingle c # r)
           | GRange c d # r \<Rightarrow>
               if c = CHR ''!'' then GClass True (GSingle CHR ''-'' # GSingle d # r)
               else GClass False (GRange c d # r)
           | [] \<Rightarrow> GClass False [])"

definition class_split :: "string \<Rightarrow> (string \<times> string) option" where
  \<comment> \<open>the text of a bracket expression (the input follows the \<open>[\<close>) and what is after it\<close>
  "class_split s =
     (let neg = takeWhile (\<lambda>c. c = CHR ''!'') (take 1 s);
          s1 = drop (length neg) s;
          first = takeWhile (\<lambda>c. c = CHR '']'') (take 1 s1);
          s2 = drop (length first) s1;
          body = takeWhile (\<lambda>c. c \<noteq> CHR '']'') s2
      in if length body < length s2
         then Some (neg @ first @ body, drop (Suc (length body)) s2) else None)"

lemma class_split_shorter: "class_split s = Some (b, r) \<Longrightarrow> length r < length s"
  by (auto simp: class_split_def Let_def split: if_splits)

function glob_parse :: "string \<Rightarrow> glob list" where
  "glob_parse s =
     (case s of [] \<Rightarrow> []
      | c # r \<Rightarrow>
          if c = CHR ''*'' then GStar # glob_parse r
          else if c = CHR ''?'' then GAny # glob_parse r
          else if c = CHR ''['' then
            (case class_split r of
               None \<Rightarrow> GChar c # glob_parse r
             | Some (body, rest) \<Rightarrow> glob_class body # glob_parse rest)
          else GChar c # glob_parse r)"
  by pat_completeness auto
termination
  by (relation "measure length") (auto dest: class_split_shorter)

declare glob_parse.simps [simp del]

fun item_match :: "glob_item \<Rightarrow> char \<Rightarrow> bool" where
  "item_match (GSingle a) c = (c = a)"
| "item_match (GRange a b) c = (ordc a \<le> ordc c \<and> ordc c \<le> ordc b)"

fun glob_match :: "glob list \<Rightarrow> string \<Rightarrow> bool" where
  "glob_match [] s = (s = [])"
| "glob_match (GStar # ps) [] = glob_match ps []"
| "glob_match (GStar # ps) (c # s) = (glob_match ps (c # s) \<or> glob_match (GStar # ps) s)"
| "glob_match (GAny # ps) s = (case s of [] \<Rightarrow> False | c # s' \<Rightarrow> glob_match ps s')"
| "glob_match (GChar a # ps) s = (case s of [] \<Rightarrow> False | c # s' \<Rightarrow> c = a \<and> glob_match ps s')"
| "glob_match (GClass neg is # ps) s =
     (case s of [] \<Rightarrow> False
      | c # s' \<Rightarrow> (list_ex (\<lambda>i. item_match i c) is \<noteq> neg) \<and> glob_match ps s')"

definition fnmatch :: "string \<Rightarrow> string \<Rightarrow> bool" where
  "fnmatch name pat = glob_match (glob_parse pat) name"

definition mem_delete_pattern :: "string \<Rightarrow> mem_cache \<Rightarrow> mem_cache \<times> nat" where
  \<comment> \<open>\<open>pattern.replace('*', '*')\<close> is the pattern itself\<close>
  "mem_delete_pattern pattern m =
     (let ks = filter (\<lambda>k. fnmatch k pattern) (dict_keys (mc_cache m))
      in (m\<lparr>mc_cache := dict_del_all ks (mc_cache m)\<rparr>, length ks))"

definition mem_ping :: "mem_cache \<Rightarrow> bool" where
  "mem_ping m = True"

definition mem_close :: "mem_cache \<Rightarrow> mem_cache" where
  "mem_close m = m\<lparr>mc_cache := []\<rparr>"

subsection \<open>Invariant and abstract view\<close>

definition mem_wf :: "mem_cache \<Rightarrow> bool" where
  "mem_wf m \<longleftrightarrow> distinct (dict_keys (mc_cache m))"

definition mem_live :: "mem_cache \<Rightarrow> real \<Rightarrow> string \<Rightarrow> string option" where
  "mem_live m t key =
     (case dict_get (mc_cache m) key of
        None \<Rightarrow> None | Some (v, e) \<Rightarrow> if is_expired e t then None else Some v)"

lemma is_expired_mono: "is_expired e t \<Longrightarrow> t \<le> t' \<Longrightarrow> is_expired e t'"
  by (cases e) auto

lemma expiry_of_live: "is_expired (expiry_of ttl now) t \<longleftrightarrow>
   (case ttl of None \<Rightarrow> False | Some s \<Rightarrow> s \<noteq> 0 \<and> now + real_of_int s < t)"
  by (auto simp: expiry_of_def split: option.splits)

lemma cleanup_expired_get:
  assumes "mem_wf m"
  shows "dict_get (mc_cache (cleanup_expired now m)) k =
    (case dict_get (mc_cache m) k of
       Some (v, Some e) \<Rightarrow> if e \<noteq> 0 \<and> now > e then None else Some (v, Some e)
     | r \<Rightarrow> r)"
proof -
  let ?P = "\<lambda>p. case snd (snd p) of None \<Rightarrow> False | Some x \<Rightarrow> x \<noteq> 0 \<and> now > x"
  have k: "k \<in> fst ` {p \<in> set (mc_cache m). ?P p} \<longleftrightarrow>
      (case dict_get (mc_cache m) k of Some (v, Some e) \<Rightarrow> e \<noteq> 0 \<and> now > e | _ \<Rightarrow> False)"
  proof
    assume "k \<in> fst ` {p \<in> set (mc_cache m). ?P p}"
    then obtain v e where p: "(k, v, e) \<in> set (mc_cache m)" "?P (k, v, e)"
      by (force split: option.splits)
    then have "dict_get (mc_cache m) k = Some (v, e)"
      using assms by (simp add: mem_wf_def)
    with p(2) show "case dict_get (mc_cache m) k of Some (v, Some e) \<Rightarrow> e \<noteq> 0 \<and> now > e | _ \<Rightarrow> False"
      by (simp split: option.splits)
  next
    assume a: "case dict_get (mc_cache m) k of Some (v, Some e) \<Rightarrow> e \<noteq> 0 \<and> now > e | _ \<Rightarrow> False"
    then obtain v e where g: "dict_get (mc_cache m) k = Some (v, Some e)" "e \<noteq> 0 \<and> now > e"
      by (auto split: option.splits prod.splits)
    then have "(k, v, Some e) \<in> set (mc_cache m)" by (simp add: map_of_SomeD)
    then show "k \<in> fst ` {p \<in> set (mc_cache m). ?P p}" using g(2) by force
  qed
  show ?thesis
    using k by (auto simp: cleanup_expired_def dict_get_del_all case_prod_unfold
        split: option.splits)
qed

lemma cleanup_expired_wf [simp]: "mem_wf m \<Longrightarrow> mem_wf (cleanup_expired now m)"
  by (auto simp: mem_wf_def cleanup_expired_def Let_def)

lemma cleanup_expired_max [simp]: "mc_max (cleanup_expired now m) = mc_max m"
  by (simp add: cleanup_expired_def Let_def)

lemma cleanup_expired_live:
  "mem_wf m \<Longrightarrow> now \<le> t \<Longrightarrow> mem_live (cleanup_expired now m) t = mem_live m t"
  by (rule ext) (auto simp: mem_live_def cleanup_expired_get split: option.splits prod.splits)

lemma cleanup_expired_length: "length (mc_cache (cleanup_expired now m)) \<le> length (mc_cache m)"
  by (simp add: cleanup_expired_def dict_del_all_filter)

lemma make_room_wf [simp]: "mem_wf m \<Longrightarrow> mem_wf (make_room now m)"
proof -
  assume "mem_wf m"
  then have "mem_wf (cleanup_expired now m)" by simp
  then show ?thesis using \<open>mem_wf m\<close>
    by (auto simp: make_room_def mem_wf_def Let_def)
qed

lemma make_room_max [simp]: "mc_max (make_room now m) = mc_max m"
  by (simp add: make_room_def Let_def)

text \<open>Making room never invents a binding, and below the limit it changes nothing.\<close>

lemma make_room_live:
  assumes "mem_wf m" "now \<le> t"
  shows "mem_live (make_room now m) t k \<in> {mem_live m t k, None}"
proof -
  have d: "mem_live (m1\<lparr>mc_cache := dict_del_all ks (mc_cache m1)\<rparr>) t k =
      (if k \<in> set ks then None else mem_live m1 t k)"
    for m1 ks by (simp add: mem_live_def dict_get_del_all)
  show ?thesis
    using cleanup_expired_live [OF assms] by (simp add: make_room_def Let_def d)
qed

lemma make_room_below: "length (mc_cache m) < mc_max m \<Longrightarrow> make_room now m = m"
  by (simp add: make_room_def)

lemma make_room_length:
  assumes "mem_wf m" "length (mc_cache m) \<le> mc_max m" "10 \<le> mc_max m"
  shows "length (mc_cache (make_room now m)) < mc_max m"
proof -
  let ?c = "cleanup_expired now m"
  have "mem_wf ?c" using assms by simp
  then have "dict_del_all (take n (dict_keys (mc_cache ?c))) (mc_cache ?c) = drop n (mc_cache ?c)" for n
    by (simp add: mem_wf_def dict_del_all_take)
  moreover have "length (mc_cache ?c) \<le> mc_max m"
    using cleanup_expired_length [of now m] assms(2) by linarith
  ultimately show ?thesis
    using assms(2,3) by (auto simp: make_room_def Let_def)
qed

subsection \<open>Laws of the operations\<close>

lemma mem_init_wf [simp]: "mem_wf (mem_init n)"
  by (simp add: mem_wf_def mem_init_def)

lemma mem_get_wf [simp]: "mem_wf m \<Longrightarrow> mem_wf (fst (mem_get key now m))"
  by (auto simp: mem_get_def mem_wf_def split: option.splits)

lemma mem_set_wf [simp]: "mem_wf m \<Longrightarrow> mem_wf (fst (mem_set key v ttl t1 t2 m))"
  using make_room_wf [of m t1] by (auto simp: mem_set_def mem_wf_def Let_def)

lemma mem_setnx_wf [simp]: "mem_wf m \<Longrightarrow> mem_wf (fst (mem_setnx key v ttl t1 t2 m))"
  by (auto simp: mem_setnx_def mem_wf_def Let_def split: option.splits)

lemma mem_delete_wf [simp]: "mem_wf m \<Longrightarrow> mem_wf (fst (mem_delete key m))"
  by (auto simp: mem_delete_def mem_wf_def)

lemma mem_delete_pattern_wf [simp]: "mem_wf m \<Longrightarrow> mem_wf (fst (mem_delete_pattern p m))"
  by (auto simp: mem_delete_pattern_def mem_wf_def Let_def)

lemma mem_get_result: "snd (mem_get key now m) = mem_live m now key"
  by (auto simp: mem_get_def mem_live_def split: option.splits)

lemma mem_get_live: "now \<le> t \<Longrightarrow> mem_live (fst (mem_get key now m)) t = mem_live m t"
  by (rule ext) (auto simp: mem_get_def mem_live_def dest: is_expired_mono split: option.splits)

lemma mem_set_result [simp]: "snd (mem_set key v ttl t1 t2 m) = True"
  by (simp add: mem_set_def Let_def)

lemma mem_set_own:
  "mem_live (fst (mem_set key v ttl t1 t2 m)) t key =
     (if is_expired (expiry_of ttl t2) t then None else Some v)"
  by (simp add: mem_set_def mem_live_def Let_def)

lemma mem_set_frame:
  "mem_wf m \<Longrightarrow> t1 \<le> t \<Longrightarrow> k \<noteq> key \<Longrightarrow>
     mem_live (fst (mem_set key v ttl t1 t2 m)) t k \<in> {mem_live m t k, None}"
  using make_room_live [of m t1 t k] by (simp add: mem_set_def mem_live_def Let_def)

lemma mem_set_below:
  "length (mc_cache m) < mc_max m \<Longrightarrow> k \<noteq> key \<Longrightarrow>
     mem_live (fst (mem_set key v ttl t1 t2 m)) t k = mem_live m t k"
  by (simp add: mem_set_def mem_live_def Let_def make_room_below)

lemma mem_setnx_result: "snd (mem_setnx key v ttl t1 t2 m) \<longleftrightarrow> mem_live m t1 key = None"
  by (auto simp: mem_setnx_def mem_live_def Let_def split: option.splits)

lemma mem_setnx_live:
  "mem_live (fst (mem_setnx key v ttl t1 t2 m)) t =
     (if mem_live m t1 key = None
      then (mem_live m t)(key := if is_expired (expiry_of ttl t2) t then None else Some v)
      else mem_live m t)"
  by (rule ext) (auto simp: mem_setnx_def mem_live_def Let_def split: option.splits)

lemma mem_delete_live: "mem_live (fst (mem_delete key m)) t = (mem_live m t)(key := None)"
  by (rule ext) (auto simp: mem_delete_def mem_live_def dict_has_get split: option.splits)

lemma mem_delete_result: "snd (mem_delete key m) \<longleftrightarrow> dict_has (mc_cache m) key"
  by (simp add: mem_delete_def)

lemma mem_delete_pattern_live:
  "mem_live (fst (mem_delete_pattern p m)) t k = (if fnmatch k p then None else mem_live m t k)"
proof (cases "k \<in> set (dict_keys (mc_cache m))")
  case True
  then show ?thesis by (simp add: mem_delete_pattern_def mem_live_def Let_def dict_get_del_all)
next
  case False
  then have "dict_get (mc_cache m) k = None" by (simp add: map_of_eq_None_iff)
  then show ?thesis by (simp add: mem_delete_pattern_def mem_live_def Let_def dict_get_del_all)
qed

lemma mem_close_live: "mem_live (mem_close m) t k = None"
  by (simp add: mem_close_def mem_live_def)

lemmas mem_wf_ops = mem_init_wf mem_get_wf mem_set_wf mem_setnx_wf mem_delete_wf mem_delete_pattern_wf

subsection \<open>Globs without brackets\<close>

definition plain_char :: "char \<Rightarrow> bool" where
  "plain_char c \<longleftrightarrow> c \<noteq> CHR ''*'' \<and> c \<noteq> CHR ''?'' \<and> c \<noteq> CHR ''[''"

lemma glob_parse_Nil [simp]: "glob_parse [] = []"
  by (subst glob_parse.simps) simp

lemma glob_parse_star [simp]: "glob_parse (CHR ''*'' # s) = GStar # glob_parse s"
  by (subst glob_parse.simps) simp

lemma glob_parse_plain: "list_all plain_char p \<Longrightarrow> glob_parse (p @ s) = map GChar p @ glob_parse s"
proof (induction p)
  case (Cons c p)
  then show ?case by (simp, subst glob_parse.simps) (simp add: plain_char_def)
qed simp

lemma glob_match_chars:
  "glob_match (map GChar p @ ps) s \<longleftrightarrow> (\<exists>u. s = p @ u \<and> glob_match ps u)"
  by (induction p arbitrary: s) (auto split: list.splits)

lemma glob_match_star: "glob_match (GStar # ps) s \<longleftrightarrow> (\<exists>u v. s = u @ v \<and> glob_match ps v)"
proof (induction s)
  case (Cons c s)
  show ?case
  proof
    assume "glob_match (GStar # ps) (c # s)"
    then consider "glob_match ps (c # s)" | "glob_match (GStar # ps) s" by auto
    then show "\<exists>u v. c # s = u @ v \<and> glob_match ps v"
    proof cases
      case 1
      then show ?thesis by (metis append_Nil)
    next
      case 2
      then show ?thesis using Cons.IH by (metis append_Cons)
    qed
  next
    assume "\<exists>u v. c # s = u @ v \<and> glob_match ps v"
    then show "glob_match (GStar # ps) (c # s)"
      using Cons.IH by (auto simp: Cons_eq_append_conv)
  qed
qed auto

lemma fnmatch_star:
  assumes "list_all plain_char p" "list_all plain_char q"
  shows "fnmatch s (p @ ''*'' @ q) \<longleftrightarrow> (\<exists>u. s = p @ u @ q)"
proof -
  have q: "glob_parse q = map GChar q" using glob_parse_plain [OF assms(2), of "[]"] by simp
  have "glob_match (map GChar q) v \<longleftrightarrow> v = q" for v
    using glob_match_chars [of q "[]" v] by simp
  then show ?thesis
    by (auto simp: fnmatch_def glob_parse_plain [OF assms(1)] q glob_match_chars glob_match_star)
qed

lemma fnmatch_plain: "list_all plain_char p \<Longrightarrow> fnmatch s p \<longleftrightarrow> s = p"
  using glob_parse_plain [of p "[]"] glob_match_chars [of p "[]" s] by (simp add: fnmatch_def)

subsection \<open>Traces\<close>

datatype mem_op =
    MGet string real
  | MSet string string "int option" real real
  | MSetnx string string "int option" real real
  | MDelete string
  | MDeletePattern string
  | MClose

fun mem_exec :: "mem_op \<Rightarrow> mem_cache \<Rightarrow> mem_cache" where
  "mem_exec (MGet k t) m = fst (mem_get k t m)"
| "mem_exec (MSet k v ttl t1 t2) m = fst (mem_set k v ttl t1 t2 m)"
| "mem_exec (MSetnx k v ttl t1 t2) m = fst (mem_setnx k v ttl t1 t2 m)"
| "mem_exec (MDelete k) m = fst (mem_delete k m)"
| "mem_exec (MDeletePattern p) m = fst (mem_delete_pattern p m)"
| "mem_exec MClose m = mem_close m"

fun is_setnx :: "mem_op \<Rightarrow> bool" where
  "is_setnx (MSetnx _ _ _ _ _) = True"
| "is_setnx _ = False"

lemma mem_exec_wf: "mem_wf m \<Longrightarrow> mem_wf (mem_exec op m)"
  by (cases op) (auto simp: mem_close_def mem_wf_def [of "mem_cache.mc_cache_update _ _"])

lemma mem_exec_max: "mc_max (mem_exec op m) = mc_max m"
  by (cases op) (auto simp: mem_get_def mem_set_def mem_setnx_def mem_delete_def
      mem_delete_pattern_def mem_close_def Let_def split: option.splits)

lemma mem_exec_bound:
  assumes "mem_wf m" "10 \<le> mc_max m" "length (mc_cache m) \<le> mc_max m" "\<not> is_setnx op"
  shows "length (mc_cache (mem_exec op m)) \<le> mc_max m"
proof (cases op)
  case (MGet k t)
  then show ?thesis using assms length_dict_del_le [of k "mc_cache m"]
    by (auto simp: mem_get_def split: option.splits)
next
  case (MSet k v ttl t1 t2)
  have "length (mc_cache (make_room t1 m)) < mc_max m" using assms by (simp add: make_room_length)
  then show ?thesis
    using MSet length_dict_set_le [of k "(v, expiry_of ttl t2)" "mc_cache (make_room t1 m)"]
    by (simp add: mem_set_def Let_def)
next
  case (MDelete k)
  then show ?thesis using assms length_dict_del_le [of k "mc_cache m"]
    by (auto simp: mem_delete_def)
next
  case (MDeletePattern p)
  then show ?thesis using assms
    by (auto simp: mem_delete_pattern_def Let_def dict_del_all_filter intro: order_trans [OF length_filter_le])
qed (use assms in \<open>simp_all add: mem_close_def\<close>)

definition mem_run :: "mem_op list \<Rightarrow> mem_cache \<Rightarrow> mem_cache" where
  "mem_run ops m = fold mem_exec ops m"

lemma mem_run_wf: "mem_wf m \<Longrightarrow> mem_wf (mem_run ops m)"
  unfolding mem_run_def by (induction ops arbitrary: m) (auto simp: mem_exec_wf)

lemma mem_run_max: "mc_max (mem_run ops m) = mc_max m"
  unfolding mem_run_def by (induction ops arbitrary: m) (auto simp: mem_exec_max)

lemma mem_run_bound:
  assumes "mem_wf m" "10 \<le> mc_max m" "length (mc_cache m) \<le> mc_max m" "list_all (\<lambda>op. \<not> is_setnx op) ops"
  shows "length (mc_cache (mem_run ops m)) \<le> mc_max m"
  using assms unfolding mem_run_def
proof (induction ops arbitrary: m)
  case (Cons op ops)
  have "length (mc_cache (mem_exec op m)) \<le> mc_max m"
    using Cons.prems by (intro mem_exec_bound) auto
  then show ?case
    using Cons.prems Cons.IH [of "mem_exec op m"] by (simp add: mem_exec_wf mem_exec_max)
qed simp

text \<open>An operation that may take a held lock away before its time: it deletes, overwrites,
  or makes room.\<close>

fun may_release :: "string \<Rightarrow> mem_op \<Rightarrow> bool" where
  "may_release k (MSet _ _ _ _ _) = True"
| "may_release k (MDelete k') = (k' = k)"
| "may_release k (MDeletePattern p) = fnmatch k p"
| "may_release k MClose = True"
| "may_release k _ = False"

fun op_times :: "mem_op \<Rightarrow> real set" where
  "op_times (MGet _ t) = {t}"
| "op_times (MSet _ _ _ t1 t2) = {t1, t2}"
| "op_times (MSetnx _ _ _ t1 t2) = {t1, t2}"
| "op_times _ = {}"

lemma mem_exec_keeps_lock:
  assumes "dict_get (mc_cache m) k = Some (v, e)" "\<not> may_release k op"
    "\<And>t. t \<in> op_times op \<Longrightarrow> \<not> is_expired e t"
  shows "dict_get (mc_cache (mem_exec op m)) k = Some (v, e)"
  using assms
  by (cases op) (auto simp: mem_get_def mem_setnx_def mem_delete_def mem_delete_pattern_def
      dict_get_del_all Let_def split: option.splits)

lemma mem_run_keeps_lock:
  assumes "dict_get (mc_cache m) k = Some (v, e)" "list_all (\<lambda>op. \<not> may_release k op) ops"
    "\<And>t. t \<in> \<Union> (op_times ` set ops) \<Longrightarrow> \<not> is_expired e t"
  shows "dict_get (mc_cache (mem_run ops m)) k = Some (v, e)"
  using assms unfolding mem_run_def
proof (induction ops arbitrary: m)
  case (Cons op ops)
  have "dict_get (mc_cache (mem_exec op m)) k = Some (v, e)"
    using Cons.prems by (intro mem_exec_keeps_lock) auto
  then show ?case using Cons by simp
qed simp

subsection \<open>Refinement of a map that forgets at expiry\<close>

text \<open>The specification of the cache: its state is what is visible at each time.\<close>

type_synonym view = "real \<Rightarrow> string \<Rightarrow> string option"

definition spec_store :: "string \<Rightarrow> string \<Rightarrow> int option \<Rightarrow> real \<Rightarrow> view \<Rightarrow> view" where
  "spec_store k v ttl now w =
     (\<lambda>t. (w t)(k := if is_expired (expiry_of ttl now) t then None else Some v))"

fun spec_exec :: "mem_op \<Rightarrow> view \<Rightarrow> view" where
  "spec_exec (MGet _ _) w = w"
| "spec_exec (MSet k v ttl _ t2) w = spec_store k v ttl t2 w"
| "spec_exec (MSetnx k v ttl t1 t2) w = (if w t1 k = None then spec_store k v ttl t2 w else w)"
| "spec_exec (MDelete k) w = (\<lambda>t. (w t)(k := None))"
| "spec_exec (MDeletePattern p) w = (\<lambda>t k. if fnmatch k p then None else w t k)"
| "spec_exec MClose w = (\<lambda>t k. None)"

fun time_ordered :: "real \<Rightarrow> mem_op list \<Rightarrow> bool" where
  \<comment> \<open>the clock never goes back: neither within an operation nor from one to the next\<close>
  "time_ordered t [] = True"
| "time_ordered t (MGet k t1 # ops) = (t \<le> t1 \<and> time_ordered t1 ops)"
| "time_ordered t (MSet k v ttl t1 t2 # ops) = (t \<le> t1 \<and> t1 \<le> t2 \<and> time_ordered t2 ops)"
| "time_ordered t (MSetnx k v ttl t1 t2 # ops) = (t \<le> t1 \<and> t1 \<le> t2 \<and> time_ordered t2 ops)"
| "time_ordered t (MDelete k # ops) = time_ordered t ops"
| "time_ordered t (MDeletePattern p # ops) = time_ordered t ops"
| "time_ordered t (MClose # ops) = time_ordered t ops"

lemma mem_exec_refines:
  assumes "mem_wf m" "length (mc_cache m) < mc_max m" "\<And>s. s \<in> op_times op \<Longrightarrow> s \<le> t"
  shows "mem_live (mem_exec op m) t = spec_exec op (mem_live m) t"
proof (cases op)
  case (MSet k v ttl t1 t2)
  show ?thesis
  proof (rule ext)
    fix x
    show "mem_live (mem_exec op m) t x = spec_exec op (mem_live m) t x"
      using MSet assms(2) by (cases "x = k") (auto simp: spec_store_def mem_set_own mem_set_below)
  qed
next
  case (MDeletePattern p)
  then show ?thesis by (simp add: mem_delete_pattern_live fun_eq_iff)
qed (use assms in \<open>simp_all add: mem_get_live mem_setnx_live mem_delete_live mem_close_live
      spec_store_def fun_eq_iff\<close>)

lemma mem_exec_length: "length (mc_cache (mem_exec op m)) \<le> Suc (length (mc_cache m))"
proof (cases op)
  case (MSet k v ttl t1 t2)
  have "length (mc_cache (make_room t1 m)) \<le> length (mc_cache m)"
    using cleanup_expired_length [of t1 m]
    by (auto simp: make_room_def Let_def dict_del_all_filter intro: order_trans [OF length_filter_le])
  moreover have "length (mc_cache (mem_exec op m)) \<le> Suc (length (mc_cache (make_room t1 m)))"
    using MSet by (simp add: mem_set_def Let_def length_dict_set_le)
  ultimately show ?thesis by linarith
qed (auto simp: mem_get_def mem_setnx_def mem_delete_def mem_delete_pattern_def mem_close_def Let_def
    length_dict_set dict_del_filter dict_del_all_filter le_SucI length_filter_le
    split: option.splits)

lemma time_ordered_mono: "time_ordered t ops \<Longrightarrow> s \<le> t \<Longrightarrow> time_ordered s ops"
  by (induction t ops rule: time_ordered.induct) auto

lemma spec_exec_cong:
  assumes "\<And>t. t0 \<le> t \<Longrightarrow> w t = w' t" "time_ordered t0 [op]" "t0 \<le> t"
  shows "spec_exec op w t = spec_exec op w' t"
  using assms by (cases op) (auto simp: spec_store_def)

lemma time_ordered_Cons:
  assumes "time_ordered t0 (op # ops)" "\<And>s. s \<in> \<Union> (op_times ` set (op # ops)) \<Longrightarrow> s \<le> t" "t0 \<le> t"
  obtains t1 where "t0 \<le> t1" "t1 \<le> t" "time_ordered t0 [op]" "time_ordered t1 ops"
    "\<And>s. s \<in> op_times op \<Longrightarrow> s \<le> t1"
proof (cases op)
  case (MGet k t1) then show ?thesis using assms that [of t1] by auto
next
  case (MSet k v ttl t1 t2) then show ?thesis using assms that [of t2] by auto
next
  case (MSetnx k v ttl t1 t2) then show ?thesis using assms that [of t2] by auto
qed (use assms that [of t0] in auto)

lemma spec_run_cong:
  assumes "\<And>t. t0 \<le> t \<Longrightarrow> w t = w' t" "time_ordered t0 ops" "t0 \<le> t"
    "\<And>s. s \<in> \<Union> (op_times ` set ops) \<Longrightarrow> s \<le> t"
  shows "fold spec_exec ops w t = fold spec_exec ops w' t"
  using assms
proof (induction ops arbitrary: w w' t0)
  case (Cons op ops)
  obtain t1 where t1: "t0 \<le> t1" "t1 \<le> t" "time_ordered t0 [op]" "time_ordered t1 ops"
    using time_ordered_Cons [OF Cons.prems(2,4,3)] by blast
  have "spec_exec op w s = spec_exec op w' s" if "t1 \<le> s" for s
    using spec_exec_cong [OF Cons.prems(1) t1(3)] that t1(1) by (meson order_trans)
  then show ?case using Cons.IH [of t1 "spec_exec op w" "spec_exec op w'"] t1 Cons.prems(4) by simp
qed simp

subsection \<open>Properties\<close>

text \<open>C6. Refinement: as long as the cache stays below its limit, what is visible after any
  time-ordered sequence of operations is what the abstract map of bindings with expiry
  times shows.\<close>

theorem mem_refines_view:
  assumes "mem_wf m" "length (mc_cache m) + length ops \<le> mc_max m" "time_ordered t0 ops"
    "t0 \<le> t" "\<forall>s \<in> \<Union> (op_times ` set ops). s \<le> t"
  shows "mem_live (mem_run ops m) t = fold spec_exec ops (mem_live m) t"
  using assms unfolding mem_run_def
proof (induction ops arbitrary: m t0)
  case (Cons op ops)
  obtain t1 where t1: "t0 \<le> t1" "t1 \<le> t" "time_ordered t0 [op]" "time_ordered t1 ops"
    "\<And>s. s \<in> op_times op \<Longrightarrow> s \<le> t1"
    using time_ordered_Cons [OF Cons.prems(3) _ Cons.prems(4)] Cons.prems(5) by blast
  have r: "mem_live (mem_exec op m) s = spec_exec op (mem_live m) s" if "t1 \<le> s" for s
  proof (rule mem_exec_refines)
    show "length (mc_cache m) < mc_max m" using Cons.prems(2) by simp
    show "u \<le> s" if "u \<in> op_times op" for u using t1(5) [OF that] \<open>t1 \<le> s\<close> by simp
  qed (rule Cons.prems(1))
  have "mem_live (fold mem_exec ops (mem_exec op m)) t
      = fold spec_exec ops (mem_live (mem_exec op m)) t"
    using Cons.IH [of "mem_exec op m" t1] Cons.prems t1 mem_exec_length [of op m]
    by (simp add: mem_exec_wf mem_exec_max)
  also have "\<dots> = fold spec_exec ops (spec_exec op (mem_live m)) t"
    using Cons.prems(5) by (intro spec_run_cong [OF r t1(4) t1(2)]) auto
  finally show ?case by simp
qed simp

theorem mem_refines_view_witness:
  "mem_live (mem_run [MSet ''a'' ''1'' (Some 5) 1 2, MSetnx ''a'' ''2'' None 3 3, MDelete ''b'']
     (mem_init 10)) 7
   = fold spec_exec [MSet ''a'' ''1'' (Some 5) 1 2, MSetnx ''a'' ''2'' None 3 3, MDelete ''b'']
       (mem_live (mem_init 10)) 7"
  by (rule mem_refines_view [of _ _ 0]) (auto simp: mem_init_def mem_wf_def)

text \<open>C7. Mutual exclusion: once \<open>setnx\<close> has stored a key, every further \<open>setnx\<close> on it fails
  and every \<open>get\<close> returns the stored value until the entry expires, whatever operations that
  cannot release it run in between.\<close>

theorem mem_lock_exclusive:
  assumes "snd (mem_setnx k v ttl t1 t2 m)"
    and "list_all (\<lambda>op. \<not> may_release k op) ops"
    and "\<forall>s \<in> \<Union> (op_times ` set ops). \<not> is_expired (expiry_of ttl t2) s"
    and "\<not> is_expired (expiry_of ttl t2) t"
  shows "let m' = mem_run ops (fst (mem_setnx k v ttl t1 t2 m)) in
           \<not> snd (mem_setnx k w ttl' t t' m') \<and> snd (mem_get k t m') = Some v"
proof -
  have "dict_get (mc_cache (fst (mem_setnx k v ttl t1 t2 m))) k = Some (v, expiry_of ttl t2)"
    using assms(1) by (auto simp: mem_setnx_def Let_def split: option.splits if_splits)
  then have "dict_get (mc_cache (mem_run ops (fst (mem_setnx k v ttl t1 t2 m)))) k
      = Some (v, expiry_of ttl t2)"
    using assms(2,3) by (intro mem_run_keeps_lock) auto
  then show ?thesis
    using assms(4) by (simp add: Let_def mem_setnx_result mem_get_result mem_live_def)
qed

theorem mem_lock_exclusive_witness:
  "let m' = mem_run [MGet ''k'' 3, MSetnx ''j'' ''x'' None 4 4, MDelete ''j'']
        (fst (mem_setnx ''k'' ''a'' (Some 300) 1 2 (mem_init 10)))
   in \<not> snd (mem_setnx ''k'' ''b'' (Some 300) 5 5 m') \<and> snd (mem_get ''k'' 5 m') = Some ''a''"
  by (rule mem_lock_exclusive) (auto simp: mem_init_def mem_setnx_def expiry_of_def)

text \<open>C8. Capacity: with a limit of at least ten, no sequence of operations other than
  \<open>setnx\<close> takes a fresh cache over its limit; \<open>setnx\<close> on an absent key grows the cache by
  one entry whatever the limit.\<close>

theorem mem_capacity:
  assumes "10 \<le> max_size" "list_all (\<lambda>op. \<not> is_setnx op) ops"
  shows "length (mc_cache (mem_run ops (mem_init max_size))) \<le> max_size \<and>
    (\<forall>m k v ttl t1 t2. dict_get (mc_cache m) k = None \<longrightarrow>
       length (mc_cache (fst (mem_setnx k v ttl t1 t2 m))) = Suc (length (mc_cache m)))"
proof -
  have "length (mc_cache (mem_run ops (mem_init max_size))) \<le> mc_max (mem_init max_size)"
    using assms by (intro mem_run_bound) (auto simp: mem_init_def mem_wf_def)
  moreover have "length (mc_cache (fst (mem_setnx k v ttl t1 t2 m))) = Suc (length (mc_cache m))"
    if "dict_get (mc_cache m) k = None" for m k v ttl t1 t2
  proof -
    have "k \<notin> fst ` set (mc_cache m)" using that by (simp add: map_of_eq_None_iff)
    then show ?thesis using that by (simp add: mem_setnx_def Let_def length_dict_set)
  qed
  ultimately show ?thesis by (simp add: mem_init_def)
qed

theorem mem_capacity_witness:
  "length (mc_cache (mem_run [MSet ''a'' ''1'' None 1 1, MDelete ''a'', MSet ''b'' ''2'' None 2 2]
     (mem_init 10))) \<le> 10"
  using mem_capacity [of 10 "[MSet ''a'' ''1'' None 1 1, MDelete ''a'', MSet ''b'' ''2'' None 2 2]"]
  by simp

end
