(* ===== verification/KvStore.thy ===== *)
theory KvStore
  imports MemCache
begin

section \<open>What the clients of the cache rely on\<close>

text \<open>
  The contract of a cache with expiry, as the services on top of it use it: \<open>live s t k\<close> is
  the value a client sees under \<open>k\<close> at time \<open>t\<close>.  A write may drop other keys (both
  backends evict), but it never changes or invents one.  The clock of a call is a function
  from the number of the reading to the reading; readings 2 and 3 enclose the operation.
\<close>

type_synonym clock = "nat \<Rightarrow> real"

locale kv_store =
  fixes kget :: "string \<Rightarrow> clock \<Rightarrow> ('s, 'e, string option) act"
    and kset :: "string \<Rightarrow> string \<Rightarrow> int option \<Rightarrow> clock \<Rightarrow> ('s, 'e, bool) act"
    and ksetnx :: "string \<Rightarrow> string \<Rightarrow> int option \<Rightarrow> clock \<Rightarrow> ('s, 'e, bool) act"
    and kdel :: "string \<Rightarrow> clock \<Rightarrow> ('s, 'e, bool) act"
    and kinv :: "'s \<Rightarrow> bool"
    and klive :: "'s \<Rightarrow> real \<Rightarrow> string \<Rightarrow> string option"
  assumes get_law: "kinv s \<Longrightarrow> mono c \<Longrightarrow>
      \<exists>s'. kget k c s = (s', Inr (klive s (c 2) k)) \<and> kinv s' \<and>
        (\<forall>t \<ge> c 3. klive s' t = klive s t)"
    and set_law: "kinv s \<Longrightarrow> mono c \<Longrightarrow>
      \<exists>s'. kset k v ttl c s = (s', Inr True) \<and> kinv s' \<and>
        (\<forall>t \<ge> c 3. klive s' t k = (if is_expired (expiry_of ttl (c 3)) t then None else Some v) \<and>
           (\<forall>j. j \<noteq> k \<longrightarrow> klive s' t j \<in> {klive s t j, None}))"
    and setnx_law: "kinv s \<Longrightarrow> mono c \<Longrightarrow>
      \<exists>s' u. ksetnx k v ttl c s = (s', Inr (klive s (c 2) k = None)) \<and> kinv s' \<and>
        c 2 \<le> u \<and> u \<le> c 3 \<and>
        (klive s (c 2) k \<noteq> None \<longrightarrow> (\<forall>t \<ge> c 3. klive s' t = klive s t)) \<and>
        (klive s (c 2) k = None \<longrightarrow> (\<forall>t \<ge> c 3.
           klive s' t k = (if is_expired (expiry_of ttl u) t then None else Some v) \<and>
           (\<forall>j. j \<noteq> k \<longrightarrow> klive s' t j \<in> {klive s t j, None})))"
    and del_law: "kinv s \<Longrightarrow> mono c \<Longrightarrow>
      \<exists>s' b. kdel k c s = (s', Inr b) \<and> kinv s' \<and>
        (\<forall>t \<ge> c 3. klive s' t = (klive s t)(k := None))"
begin

text \<open>The results alone, in the form the client proofs rewrite with.\<close>

lemma get_result: "kinv s \<Longrightarrow> mono c \<Longrightarrow> snd (kget k c s) = Inr (klive s (c 2) k)"
  using get_law [of s c k] by auto

lemma get_state: "kinv s \<Longrightarrow> mono c \<Longrightarrow> kinv (fst (kget k c s))"
  using get_law [of s c k] by auto

lemma set_result: "kinv s \<Longrightarrow> mono c \<Longrightarrow> snd (kset k v ttl c s) = Inr True"
  using set_law [of s c k v ttl] by auto

lemma set_state: "kinv s \<Longrightarrow> mono c \<Longrightarrow> kinv (fst (kset k v ttl c s))"
  using set_law [of s c k v ttl] by auto

lemma del_state: "kinv s \<Longrightarrow> mono c \<Longrightarrow> kinv (fst (kdel k c s))"
  using del_law [of s c k] by auto

text \<open>Reading back what was written, and nothing after a delete.\<close>

lemma get_after_set:
  assumes "kinv s" "mono c" "mono c'" "c 3 \<le> c' 2"
  shows "snd (kget k c' (fst (kset k v ttl c s))) =
    Inr (if is_expired (expiry_of ttl (c 3)) (c' 2) then None else Some v)"
proof -
  obtain s' where s': "kset k v ttl c s = (s', Inr True)" "kinv s'"
    "klive s' (c' 2) k = (if is_expired (expiry_of ttl (c 3)) (c' 2) then None else Some v)"
    using set_law [of s c k v ttl] assms by blast
  then show ?thesis using get_result [of s' c' k] assms by simp
qed

lemma get_after_del:
  assumes "kinv s" "mono c" "mono c'" "c 3 \<le> c' 2"
  shows "snd (kget k c' (fst (kdel k c s))) = Inr None"
proof -
  obtain s' b where s': "kdel k c s = (s', Inr b)" "kinv s'"
    "klive s' (c' 2) = (klive s (c' 2))(k := None)"
    using del_law [of s c k] assms by blast
  then show ?thesis using get_result [of s' c' k] assms by simp
qed

end

end
