(* ===== verification/CacheService.thy ===== *)
theory CacheService
  imports PyExceptions KvStore
begin

section \<open>The cache service\<close>

text \<open>
  \<open>CacheService\<close> of \<open>core/infrastructure/cache/service.py\<close>: one Redis client behind a
  circuit breaker, with the in-memory cache as a fallback in local environments.

  The Redis client, the tracing hook and the circuit breaker are libraries: the record
  \<open>redis_env\<close> holds them as functions on a world \<open>'w\<close> of any type, with the class
  hierarchy of the library exceptions and the configured environment.  A command takes the
  time at which the server executes it.  A call of the service gets its clock readings as a
  function: readings 0 and 1 are those of the first \<open>_ensure_connected\<close>, 2 and 3 those of
  the command itself, 4 and 5 those of the \<open>_ensure_connected\<close> in
  \<open>_execute_redis_operation\<close>.  JSON encoding is a parameter as well.  Metrics are
  in \<open>CacheMetrics\<close>; log messages are left out.
\<close>

record 'w redis_env =
  re_ext :: "string \<Rightarrow> pyclass list"
  re_environment :: string
  rd_from_url :: "('w, exn, unit) act"
  rd_ping :: "('w, exn, unit) act"
  rd_instrument :: "('w, exn, unit) act"
  rd_get :: "string \<Rightarrow> real \<Rightarrow> ('w, exn, string option) act"
  rd_set :: "string \<Rightarrow> string \<Rightarrow> real \<Rightarrow> ('w, exn, unit) act"
  rd_setex :: "string \<Rightarrow> int \<Rightarrow> string \<Rightarrow> real \<Rightarrow> ('w, exn, unit) act"
  rd_set_nx :: "string \<Rightarrow> string \<Rightarrow> int option \<Rightarrow> real \<Rightarrow> ('w, exn, unit option) act"
  rd_delete :: "string list \<Rightarrow> real \<Rightarrow> ('w, exn, nat) act"
  rd_scan :: "nat \<Rightarrow> string \<Rightarrow> int \<Rightarrow> real \<Rightarrow> ('w, exn, nat \<times> string list) act"
  rd_eval :: "string \<Rightarrow> string list \<Rightarrow> string list \<Rightarrow> real \<Rightarrow> ('w, exn, string list option) act"
  rd_close :: "('w, exn, unit) act"
  rd_disconnect :: "('w, exn, unit) act"
  cb_enter :: "('w, exn, unit) act"
  cb_exit :: "exn option \<Rightarrow> 'w \<Rightarrow> 'w"

record 'w cache_svc =
  cs_world :: 'w
  cs_client :: bool
  cs_mem :: "mem_cache option"
  cs_init :: bool
  cs_fallback :: bool
  cs_last :: real
  cs_delay :: real
  cs_failures :: nat

type_synonym ('w, 'a) cact = "('w cache_svc, exn, 'a) act"

definition initial_retry_delay :: real where "initial_retry_delay = 1"
definition max_retry_delay :: real where "max_retry_delay = 60"
definition retry_backoff_factor :: real where "retry_backoff_factor = 2"

definition default_max_size :: nat where
  \<comment> \<open>\<open>InMemoryCache()\<close>\<close>
  "default_max_size = 10000"

definition cache_init :: "'w \<Rightarrow> 'w cache_svc" where
  "cache_init w = \<lparr>cs_world = w, cs_client = False, cs_mem = None, cs_init = False,
     cs_fallback = False, cs_last = 0, cs_delay = initial_retry_delay, cs_failures = 0\<rparr>"

definition should_use_fallback :: "'w redis_env \<Rightarrow> bool" where
  "should_use_fallback R \<longleftrightarrow> re_environment R \<in> {''local'', ''dev'', ''test''}"

definition should_attempt_connection :: "real \<Rightarrow> 'w cache_svc \<Rightarrow> bool" where
  "should_attempt_connection now st \<longleftrightarrow>
     (if cs_failures st = 0 then True else now - cs_last st \<ge> cs_delay st)"

definition record_connection_success :: "real \<Rightarrow> 'w cache_svc \<Rightarrow> 'w cache_svc" where
  "record_connection_success now st =
     st\<lparr>cs_failures := 0, cs_delay := initial_retry_delay, cs_last := now\<rparr>"

definition record_connection_failure :: "real \<Rightarrow> 'w cache_svc \<Rightarrow> 'w cache_svc" where
  "record_connection_failure now st =
     st\<lparr>cs_failures := cs_failures st + 1, cs_last := now,
        cs_delay := min (cs_delay st * retry_backoff_factor) max_retry_delay\<rparr>"

text \<open>A Redis command, run on the world inside the state of the service.\<close>

definition on_world :: "('w, exn, 'a) act \<Rightarrow> ('w, 'a) cact" where
  "on_world m st = (case m (cs_world st) of (w, r) \<Rightarrow> (st\<lparr>cs_world := w\<rparr>, r))"

definition modify :: "('w cache_svc \<Rightarrow> 'w cache_svc) \<Rightarrow> ('w, unit) cact" where
  "modify f st = (f st, Inr ())"

definition redis_connection_errors :: "pyclass list" where
  "redis_connection_errors =
     [Lib ''redis.exceptions.ConnectionError'', Lib ''redis.exceptions.TimeoutError'']"

definition start_fallback :: "'w redis_env \<Rightarrow> 'w cache_svc \<Rightarrow> 'w cache_svc" where
  "start_fallback R st =
     (if should_use_fallback R
      then st\<lparr>cs_mem := Some (mem_init default_max_size), cs_fallback := True\<rparr> else st)"

definition connection_failed :: "'w redis_env \<Rightarrow> real \<Rightarrow> exn \<Rightarrow> ('w, unit) cact" where
  \<comment> \<open>the two \<open>except\<close> clauses of \<open>_ensure_connected\<close>, which differ in the log message only\<close>
  "connection_failed R now e st =
     (if isinst (re_ext R) (exn_class e) redis_connection_errors
       \<or> isinst (re_ext R) (exn_class e) [Builtin ValueErrorC, Builtin TypeErrorC]
      then (start_fallback R (record_connection_failure now (st\<lparr>cs_client := False\<rparr>))
              \<lparr>cs_init := True\<rparr>, Inr ())
      else (st, Inl e))"

definition ensure_connected :: "'w redis_env \<Rightarrow> real \<Rightarrow> real \<Rightarrow> ('w, unit) cact" where
  "ensure_connected R t_check t_record st =
     (if cs_init st then (st, Inr ())
      else if \<not> should_attempt_connection t_check st then
        (if should_use_fallback R \<and> cs_mem st = None
         then st\<lparr>cs_mem := Some (mem_init default_max_size), cs_fallback := True\<rparr> else st, Inr ())
      else
        s_catch
          (s_bind (on_world (rd_from_url R)) (\<lambda>_.
           s_bind (modify (\<lambda>s. s\<lparr>cs_client := True\<rparr>)) (\<lambda>_.
           s_bind (on_world (rd_ping R)) (\<lambda>_.
           s_bind (on_world (rd_instrument R)) (\<lambda>_.
             modify (\<lambda>s. record_connection_success t_record (s\<lparr>cs_init := True\<rparr>)))))))
          (connection_failed R t_record) st)"

definition is_redis_available :: "'w cache_svc \<Rightarrow> bool" where
  "is_redis_available st \<longleftrightarrow> cs_client st"

definition is_cache_available :: "'w cache_svc \<Rightarrow> bool" where
  "is_cache_available st \<longleftrightarrow> cs_client st \<or> cs_mem st \<noteq> None"

definition using_memory :: "'w cache_svc \<Rightarrow> mem_cache option" where
  \<comment> \<open>\<open>self._using_fallback and self._in_memory_cache\<close>; the object itself is always true\<close>
  "using_memory st = (if cs_fallback st then cs_mem st else None)"

definition protected :: "'w redis_env \<Rightarrow> ('w, exn, 'a) act \<Rightarrow> ('w, exn, 'a) act" where
  \<comment> \<open>\<open>@_redis_circuit_breaker\<close>: entering may raise, leaving reports the outcome\<close>
  "protected R op =
     s_bind (cb_enter R) (\<lambda>_ w.
       case op w of (w', Inl e) \<Rightarrow> (cb_exit R (Some e) w', Inl e)
                  | (w', Inr x) \<Rightarrow> (cb_exit R None w', Inr x))"

definition swallowed :: "'w redis_env \<Rightarrow> exn \<Rightarrow> bool" where
  \<comment> \<open>the exceptions \<open>_execute_redis_operation\<close> turns into the default value\<close>
  "swallowed R e \<longleftrightarrow>
     isinst (re_ext R) (exn_class e) [Lib ''redis.exceptions.RedisError'']
     \<or> isinst (re_ext R) (exn_class e)
         [Builtin TypeErrorC, Builtin ValueErrorC, Lib ''orjson.JSONDecodeError'']
     \<or> is_exception (re_ext R) e \<and> class_name (exn_class e) = ''CircuitBreakerFailed''"

definition execute_redis_operation ::
  "'w redis_env \<Rightarrow> real \<Rightarrow> real \<Rightarrow> ('w, exn, 'a) act \<Rightarrow> 'a \<Rightarrow> ('w, 'a) cact" where
  "execute_redis_operation R t_check t_record op dflt =
     s_bind (ensure_connected R t_check t_record) (\<lambda>_ st.
       if \<not> is_redis_available st then (st, Inr dflt)
       else s_catch (on_world (protected R op))
              (\<lambda>e. if swallowed R e then s_ret dflt else s_raise e) st)"

definition on_memory :: "(mem_cache \<Rightarrow> mem_cache \<times> 'a) \<Rightarrow> mem_cache \<Rightarrow> ('w, 'a) cact" where
  "on_memory f m st = (case f m of (m', x) \<Rightarrow> (st\<lparr>cs_mem := Some m'\<rparr>, Inr x))"

definition cache_op ::
  "'w redis_env \<Rightarrow> clock \<Rightarrow> (mem_cache \<Rightarrow> mem_cache \<times> 'a) \<Rightarrow> ('w, exn, 'a) act \<Rightarrow> 'a \<Rightarrow> ('w, 'a) cact" where
  \<comment> \<open>the shape every operation shares: connect, use the memory cache if it is active,
     else run the protected Redis command\<close>
  "cache_op R c mem_op redis_op dflt =
     s_bind (ensure_connected R (c 0) (c 1)) (\<lambda>_ st.
       case using_memory st of
         Some m \<Rightarrow> on_memory mem_op m st
       | None \<Rightarrow> execute_redis_operation R (c 4) (c 5) redis_op dflt st)"

definition hash_key :: "(string \<Rightarrow> string) \<Rightarrow> string \<Rightarrow> string" where
  \<comment> \<open>\<open>sha256\<close> is the hex digest of the library\<close>
  "hash_key sha256 key = sha256 key"

definition generate_secure_key :: "(string \<Rightarrow> string) \<Rightarrow> string \<Rightarrow> string list \<Rightarrow> string" where
  "generate_secure_key sha256 prefix parts =
     prefix @ '':'' @ hash_key sha256 (join '':'' (filter (\<lambda>p. p \<noteq> []) parts))"

definition cache_get :: "'w redis_env \<Rightarrow> string \<Rightarrow> clock \<Rightarrow> ('w, string option) cact" where
  "cache_get R key c = cache_op R c (mem_get key (c 2)) (rd_get R key (c 2)) None"

definition redis_store :: "'w redis_env \<Rightarrow> string \<Rightarrow> string \<Rightarrow> int option \<Rightarrow> real \<Rightarrow> ('w, exn, bool) act" where
  \<comment> \<open>\<open>_set_operation\<close>: \<open>SETEX\<close> when the TTL is given and not zero\<close>
  "redis_store R key value ttl now =
     s_bind (case ttl of Some s \<Rightarrow> if s \<noteq> 0 then rd_setex R key s value now else rd_set R key value now
             | None \<Rightarrow> rd_set R key value now) (\<lambda>_. s_ret True)"

definition cache_set :: "'w redis_env \<Rightarrow> string \<Rightarrow> string \<Rightarrow> int option \<Rightarrow> clock \<Rightarrow> ('w, bool) cact" where
  "cache_set R key value ttl c =
     cache_op R c (mem_set key value ttl (c 2) (c 3)) (redis_store R key value ttl (c 3)) False"

definition cache_setnx :: "'w redis_env \<Rightarrow> string \<Rightarrow> string \<Rightarrow> int option \<Rightarrow> clock \<Rightarrow> ('w, bool) cact" where
  "cache_setnx R key value ttl c =
     cache_op R c (mem_setnx key value ttl (c 2) (c 3))
       (s_bind (rd_set_nx R key value ttl (c 2)) (\<lambda>r. s_ret (r \<noteq> None))) False"

definition cache_delete :: "'w redis_env \<Rightarrow> string \<Rightarrow> clock \<Rightarrow> ('w, bool) cact" where
  "cache_delete R key c =
     cache_op R c (mem_delete key)
       (s_bind (rd_delete R [key] (c 2)) (\<lambda>n. s_ret (n \<noteq> 0))) False"

subsection \<open>JSON values\<close>

text \<open>The codecs of the libraries: \<open>orjson.loads\<close>, \<open>orjson.dumps(default=str)\<close> and
  \<open>datetime.fromisoformat\<close>; a datetime is kept as whatever value the last one returns.\<close>

record codec =
  json_loads :: "string \<Rightarrow> exn + pyval"
  json_dumps :: "pyval \<Rightarrow> exn + string"
  from_iso :: "string \<Rightarrow> exn + pyval"

definition restore_datetime ::
  "codec \<Rightarrow> string \<Rightarrow> (string \<times> pyval) list \<Rightarrow> exn + (string \<times> pyval) list" where
  "restore_datetime J field d =
     (case dict_get d field of
        Some (PStr s) \<Rightarrow> bind_res (from_iso J s) (\<lambda>v. Inr (dict_set field v d))
      | _ \<Rightarrow> Inr d)"

definition decode_json :: "codec \<Rightarrow> string \<Rightarrow> exn + pyval option" where
  \<comment> \<open>a value that is not an object has no \<open>.get\<close>\<close>
  "decode_json J value =
     bind_res (json_loads J value) (\<lambda>v.
       case v of
         PDict d \<Rightarrow>
           bind_res (restore_datetime J ''created_at'' d) (\<lambda>d1.
           bind_res (restore_datetime J ''updated_at'' d1) (\<lambda>d2. Inr (Some (PDict d2))))
       | _ \<Rightarrow> Inl (EOther (Builtin AttributeErrorC) ''object has no attribute get''))"

definition lift_res :: "'e + 'a \<Rightarrow> ('s, 'e, 'a) act" where
  "lift_res r s = (s, r)"

definition decode_opt :: "codec \<Rightarrow> string option \<Rightarrow> ('s, exn, pyval option) act" where
  "decode_opt J v = (case v of None \<Rightarrow> s_ret None | Some s \<Rightarrow> lift_res (decode_json J s))"

definition cache_get_json :: "'w redis_env \<Rightarrow> codec \<Rightarrow> string \<Rightarrow> clock \<Rightarrow> ('w, pyval option) cact" where
  "cache_get_json R J key c =
     s_bind (ensure_connected R (c 0) (c 1)) (\<lambda>_ st.
       case using_memory st of
         Some m \<Rightarrow> s_bind (on_memory (mem_get key (c 2)) m) (decode_opt J) st
       | None \<Rightarrow> execute_redis_operation R (c 4) (c 5)
                   (s_bind (rd_get R key (c 2)) (decode_opt J)) None st)"

definition cache_set_json ::
  "'w redis_env \<Rightarrow> codec \<Rightarrow> string \<Rightarrow> pyval \<Rightarrow> int option \<Rightarrow> clock \<Rightarrow> ('w, bool) cact" where
  "cache_set_json R J key value ttl c =
     s_bind (ensure_connected R (c 0) (c 1)) (\<lambda>_ st.
       case using_memory st of
         Some m \<Rightarrow> s_bind (lift_res (json_dumps J value))
                     (\<lambda>js. on_memory (mem_set key js ttl (c 2) (c 3)) m) st
       | None \<Rightarrow> execute_redis_operation R (c 4) (c 5)
                   (s_bind (lift_res (json_dumps J value))
                      (\<lambda>js. redis_store R key js ttl (c 3))) False st)"

subsection \<open>Deleting by pattern\<close>

text \<open>The \<open>SCAN\<close> loop runs until the server returns the cursor 0, which it is free never to
  do: a loop that does not end is \<open>None\<close>.  The clock is read as reading 2 for every command
  of the loop.\<close>

partial_function (option) scan_delete ::
  "'w redis_env \<Rightarrow> string \<Rightarrow> int \<Rightarrow> real \<Rightarrow> nat \<Rightarrow> nat \<Rightarrow> 'w \<Rightarrow> ('w \<times> (exn + nat)) option" where
  "scan_delete R pattern batch now cursor deleted w =
     (case rd_scan R cursor pattern batch now w of
        (w1, Inl e) \<Rightarrow> Some (w1, Inl e)
      | (w1, Inr (cursor', ks)) \<Rightarrow>
          (case (if ks = [] then (w1, Inr 0) else rd_delete R ks now w1) of
             (w2, Inl e) \<Rightarrow> Some (w2, Inl e)
           | (w2, Inr n) \<Rightarrow>
               if cursor' = 0 then Some (w2, Inr (deleted + n))
               else scan_delete R pattern batch now cursor' (deleted + n) w2))"

definition cache_delete_pattern ::
  "'w redis_env \<Rightarrow> string \<Rightarrow> int \<Rightarrow> clock \<Rightarrow> 'w cache_svc \<Rightarrow> ('w cache_svc \<times> (exn + nat)) option" where
  \<comment> \<open>\<open>None\<close>: the call does not return.  The semaphore of five concurrent deletions delays a
     call and does not change what it does\<close>
  "cache_delete_pattern R pattern batch c st =
     (case ensure_connected R (c 0) (c 1) st of
        (st1, Inl e) \<Rightarrow> Some (st1, Inl e)
      | (st1, Inr _) \<Rightarrow>
          (case using_memory st1 of
             Some m \<Rightarrow> Some (on_memory (mem_delete_pattern pattern) m st1)
           | None \<Rightarrow>
               (case ensure_connected R (c 4) (c 5) st1 of
                  (st2, Inl e) \<Rightarrow> Some (st2, Inl e)
                | (st2, Inr _) \<Rightarrow>
                    if \<not> is_redis_available st2 then Some (st2, Inr 0)
                    else (case cb_enter R (cs_world st2) of
                        (w, Inl e) \<Rightarrow>
                          Some (st2\<lparr>cs_world := w\<rparr>, if swallowed R e then Inr 0 else Inl e)
                      | (w, Inr _) \<Rightarrow>
                          (case scan_delete R pattern batch (c 2) 0 0 w of
                             None \<Rightarrow> None
                           | Some (w', Inl e) \<Rightarrow>
                               Some (st2\<lparr>cs_world := cb_exit R (Some e) w'\<rparr>,
                                     if swallowed R e then Inr 0 else Inl e)
                           | Some (w', Inr n) \<Rightarrow>
                               Some (st2\<lparr>cs_world := cb_exit R None w'\<rparr>, Inr n))))))"

definition cache_invalidate ::
  "'w redis_env \<Rightarrow> string \<Rightarrow> int \<Rightarrow> clock \<Rightarrow> 'w cache_svc \<Rightarrow> ('w cache_svc \<times> (exn + nat)) option" where
  "cache_invalidate R pattern batch c = cache_delete_pattern R pattern batch c"

subsection \<open>Health, scripts, shutdown\<close>

definition cache_ping :: "'w redis_env \<Rightarrow> clock \<Rightarrow> ('w, bool) cact" where
  \<comment> \<open>the ping does not go through the circuit breaker\<close>
  "cache_ping R c =
     s_bind (ensure_connected R (c 0) (c 1)) (\<lambda>_ st.
       case using_memory st of
         Some m \<Rightarrow> (st, Inr (mem_ping m))
       | None \<Rightarrow>
           if \<not> is_redis_available st then (st, Inr False)
           else s_catch (s_bind (on_world (rd_ping R)) (\<lambda>_. s_ret True))
                  (\<lambda>e. if isinst (re_ext R) (exn_class e)
                            (Lib ''redis.exceptions.RedisError'' # redis_connection_errors)
                       then s_ret False else s_raise e) st)"

definition execute_lua_script ::
  "'w redis_env \<Rightarrow> string \<Rightarrow> string list \<Rightarrow> string list \<Rightarrow> clock \<Rightarrow> ('w, string list option) cact" where
  "execute_lua_script R script ks args c =
     s_bind (ensure_connected R (c 0) (c 1)) (\<lambda>_ st.
       if cs_fallback st then (st, Inr None)
       else if \<not> is_redis_available st then (st, Inr None)
       else execute_redis_operation R (c 4) (c 5) (rd_eval R script ks args (c 2)) None st)"

definition close_errors :: "pyclass list" where
  "close_errors = redis_connection_errors @ [Builtin AttributeErrorC]"

definition cache_close :: "'w redis_env \<Rightarrow> ('w, unit) cact" where
  \<comment> \<open>the client is dropped whatever closing it does; on an exception that is not caught the
     last assignment is not reached\<close>
  "cache_close R st =
     (let st1 = (case cs_mem st of
                   None \<Rightarrow> st
                 | Some _ \<Rightarrow> st\<lparr>cs_mem := None, cs_fallback := False\<rparr>);
          finish = modify (\<lambda>s. s\<lparr>cs_init := False\<rparr>)
      in if cs_client st1 then
           s_bind
             (s_finally
               (s_catch (s_bind (on_world (rd_close R)) (\<lambda>_. on_world (rd_disconnect R)))
                  (\<lambda>e. if isinst (re_ext R) (exn_class e) close_errors then s_ret () else s_raise e))
               (modify (\<lambda>s. s\<lparr>cs_client := False\<rparr>)))
             (\<lambda>_. finish) st1
         else finish st1)"

definition cache_aexit :: "'w redis_env \<Rightarrow> ('w, unit) cact" where
  "cache_aexit R st = (if cs_client st then on_world (rd_close R) st else (st, Inr ()))"

end
