(* ===== verification/CacheLaws.thy ===== *)
theory CacheLaws
  imports CacheService
begin

section \<open>Correctness of the cache service\<close>

text \<open>
  The service meets the contract \<open>kv_store\<close> in fallback mode (the interpretation \<open>mem\<close>) and,
  over a server that behaves as documented (\<open>redis_ok\<close>), in Redis mode
  (\<open>redis_kv_store\<close>); an invariant of all reachable states; the behaviour of the connection
  back-off; what callers see when the circuit breaker is open.
\<close>

subsection \<open>The modes of the service\<close>

text \<open>Once initialised the service is in one of three modes: fallback, Redis, or disabled.\<close>

definition memory_mode :: "'w cache_svc \<Rightarrow> bool" where
  "memory_mode st \<longleftrightarrow> cs_init st \<and> cs_fallback st \<and> (\<exists>m. cs_mem st = Some m \<and> mem_wf m)"

definition redis_mode :: "'w cache_svc \<Rightarrow> bool" where
  "redis_mode st \<longleftrightarrow> cs_init st \<and> \<not> cs_fallback st \<and> cs_client st"

definition disabled_mode :: "'w cache_svc \<Rightarrow> bool" where
  "disabled_mode st \<longleftrightarrow> cs_init st \<and> using_memory st = None \<and> \<not> cs_client st"

lemma ensure_connected_init [simp]: "cs_init st \<Longrightarrow> ensure_connected R a b st = (st, Inr ())"
  by (simp add: ensure_connected_def)

lemma cache_op_memory:
  "cs_init st \<Longrightarrow> using_memory st = Some m \<Longrightarrow>
     cache_op R c f g d st = (st\<lparr>cs_mem := Some (fst (f m))\<rparr>, Inr (snd (f m)))"
  by (simp add: cache_op_def s_bind_def on_memory_def split: prod.splits)

lemma execute_redis:
  "cs_init st \<Longrightarrow> cs_client st \<Longrightarrow>
     execute_redis_operation R a b g d st =
       s_catch (on_world (protected R g)) (\<lambda>e. if swallowed R e then s_ret d else s_raise e) st"
  by (simp add: execute_redis_operation_def s_bind_def is_redis_available_def)

lemma cache_op_redis:
  "redis_mode st \<Longrightarrow>
     cache_op R c f g d st =
       s_catch (on_world (protected R g)) (\<lambda>e. if swallowed R e then s_ret d else s_raise e) st"
  by (simp add: cache_op_def s_bind_def using_memory_def redis_mode_def execute_redis)

lemma cache_op_disabled: "disabled_mode st \<Longrightarrow> cache_op R c f g d st = (st, Inr d)"
  by (simp add: cache_op_def s_bind_def disabled_mode_def execute_redis_operation_def
      is_redis_available_def)

lemmas memory_mode_defs = memory_mode_def using_memory_def

text \<open>Outcome of a protected command: an error that is swallowed gives the default.\<close>

lemma cache_op_redis_cases:
  assumes "redis_mode st"
  shows "cache_op R c f g d st =
    (case protected R g (cs_world st) of
       (w, Inr x) \<Rightarrow> (st\<lparr>cs_world := w\<rparr>, Inr x)
     | (w, Inl e) \<Rightarrow> (st\<lparr>cs_world := w\<rparr>, if swallowed R e then Inr d else Inl e))"
  using assms
  by (auto simp: cache_op_redis s_catch_def on_world_def s_ret_def s_raise_def
      split: prod.splits sum.splits)

subsection \<open>The contract of the store, in fallback mode\<close>

definition memory_live :: "'w cache_svc \<Rightarrow> real \<Rightarrow> string \<Rightarrow> string option" where
  "memory_live st t k = (case cs_mem st of None \<Rightarrow> None | Some m \<Rightarrow> mem_live m t k)"

lemma memory_modeE:
  assumes "memory_mode st"
  obtains m where "cs_mem st = Some m" "mem_wf m" "using_memory st = Some m" "cs_init st" "cs_fallback st"
  using assms by (auto simp: memory_mode_defs)

interpretation mem: kv_store "cache_get R" "cache_set R" "cache_setnx R" "cache_delete R"
  memory_mode memory_live for R :: "'w redis_env"
proof unfold_locales
  fix st :: "'w cache_svc" and c :: clock and k
  assume st: "memory_mode st" and c: "mono c"
  obtain m where m: "cs_mem st = Some m" "mem_wf m" "using_memory st = Some m" "cs_init st" "cs_fallback st"
    by (rule memory_modeE [OF st])
  have c23: "c 2 \<le> c 3" using c by (rule monoD) simp
  show "\<exists>s'. cache_get R k c st = (s', Inr (memory_live st (c 2) k)) \<and> memory_mode s' \<and>
      (\<forall>t \<ge> c 3. memory_live s' t = memory_live st t)"
    using m c23 mem_get_wf [of m k "c 2"]
    by (simp add: cache_get_def cache_op_memory mem_get_result memory_live_def memory_mode_def
        mem_get_live fun_eq_iff)
  show "\<exists>s' b. cache_delete R k c st = (s', Inr b) \<and> memory_mode s' \<and>
      (\<forall>t \<ge> c 3. memory_live s' t = (memory_live st t)(k := None))"
    using m mem_delete_wf [of m k]
    by (simp add: cache_delete_def cache_op_memory memory_live_def memory_mode_def
        mem_delete_live fun_eq_iff)
  fix v ttl
  show "\<exists>s'. cache_set R k v ttl c st = (s', Inr True) \<and> memory_mode s' \<and>
      (\<forall>t \<ge> c 3. memory_live s' t k =
           (if is_expired (expiry_of ttl (c 3)) t then None else Some v) \<and>
         (\<forall>j. j \<noteq> k \<longrightarrow> memory_live s' t j \<in> {memory_live st t j, None}))"
  proof (intro exI conjI allI impI)
    show "cache_set R k v ttl c st =
        (st\<lparr>cs_mem := Some (fst (mem_set k v ttl (c 2) (c 3) m))\<rparr>, Inr True)"
      using m by (simp add: cache_set_def cache_op_memory)
  qed (use m c23 mem_set_frame [of m "c 2" _ _ k v ttl "c 3"] in
      \<open>auto simp: memory_mode_def memory_live_def mem_set_own\<close>)
  show "\<exists>s' u. cache_setnx R k v ttl c st = (s', Inr (memory_live st (c 2) k = None)) \<and>
      memory_mode s' \<and> c 2 \<le> u \<and> u \<le> c 3 \<and>
      (memory_live st (c 2) k \<noteq> None \<longrightarrow> (\<forall>t \<ge> c 3. memory_live s' t = memory_live st t)) \<and>
      (memory_live st (c 2) k = None \<longrightarrow> (\<forall>t \<ge> c 3.
         memory_live s' t k = (if is_expired (expiry_of ttl u) t then None else Some v) \<and>
         (\<forall>j. j \<noteq> k \<longrightarrow> memory_live s' t j \<in> {memory_live st t j, None})))"
    using m c23
    by (intro exI [of _ "st\<lparr>cs_mem := Some (fst (mem_setnx k v ttl (c 2) (c 3) m))\<rparr>"] exI [of _ "c 3"])
      (auto simp: cache_setnx_def cache_op_memory memory_mode_def memory_live_def
        mem_setnx_result mem_setnx_live fun_eq_iff)
qed

subsection \<open>The contract of the store, in Redis mode\<close>

text \<open>
  What the documentation of Redis says of the commands used, for a server that answers: the
  data of the server is seen through \<open>rlive\<close>, \<open>GET\<close> returns it, \<open>SET\<close>/\<open>SETEX\<close> bind one key
  (with an expiry), \<open>SET NX\<close> binds it only when it is absent, \<open>DEL\<close> unbinds it, none touches
  another key; the breaker is closed and leaves the data alone.
\<close>

definition runs_ok ::
  "('w \<Rightarrow> bool) \<Rightarrow> ('w \<Rightarrow> real \<Rightarrow> string \<Rightarrow> string option) \<Rightarrow> ('w, exn, 'a) act \<Rightarrow> 'w \<Rightarrow> ('a \<Rightarrow> bool) \<Rightarrow>
   real \<Rightarrow> (real \<Rightarrow> (string \<Rightarrow> string option) \<Rightarrow> string \<Rightarrow> string option) \<Rightarrow> bool" where
  \<comment> \<open>the command answers with a value in \<open>X\<close> and from time \<open>t\<close> on the data is updated by \<open>upd\<close>\<close>
  "runs_ok rinv rlive m w X t upd \<longleftrightarrow>
     (\<exists>w' x. m w = (w', Inr x) \<and> X x \<and> rinv w' \<and> (\<forall>u \<ge> t. rlive w' u = upd u (rlive w u)))"

definition timed :: "int option \<Rightarrow> real \<Rightarrow> string \<Rightarrow> real \<Rightarrow> string option" where
  \<comment> \<open>what a binding written at \<open>now\<close> shows at \<open>u\<close>\<close>
  "timed ttl now v u = (if is_expired (expiry_of ttl now) u then None else Some v)"

definition redis_ok :: "'w redis_env \<Rightarrow> ('w \<Rightarrow> bool) \<Rightarrow> ('w \<Rightarrow> real \<Rightarrow> string \<Rightarrow> string option) \<Rightarrow> bool" where
  "redis_ok R rinv rlive \<longleftrightarrow>
     (\<forall>w. rinv w \<longrightarrow> (\<exists>w'. cb_enter R w = (w', Inr ()) \<and> rinv w' \<and> rlive w' = rlive w)) \<and>
     (\<forall>w. rinv w \<longrightarrow> rinv (cb_exit R None w) \<and> rlive (cb_exit R None w) = rlive w) \<and>
     (\<forall>w k t. rinv w \<longrightarrow> runs_ok rinv rlive (rd_get R k t) w (\<lambda>x. x = rlive w t k) t (\<lambda>u d. d)) \<and>
     (\<forall>w k v t. rinv w \<longrightarrow>
        runs_ok rinv rlive (rd_set R k v t) w (\<lambda>_. True) t (\<lambda>u d. d(k := Some v))) \<and>
     (\<forall>w k s v t. rinv w \<longrightarrow> s \<noteq> 0 \<longrightarrow>
        runs_ok rinv rlive (rd_setex R k s v t) w (\<lambda>_. True) t (\<lambda>u d. d(k := timed (Some s) t v u))) \<and>
     (\<forall>w k v ttl t. rinv w \<longrightarrow>
        runs_ok rinv rlive (rd_set_nx R k v ttl t) w (\<lambda>x. (x \<noteq> None) = (rlive w t k = None)) t
          (\<lambda>u d. if rlive w t k = None then d(k := timed ttl t v u) else d)) \<and>
     (\<forall>w k t. rinv w \<longrightarrow> runs_ok rinv rlive (rd_delete R [k] t) w (\<lambda>_. True) t (\<lambda>u d. d(k := None)))"

lemma redis_okD:
  assumes "redis_ok R rinv rlive" "rinv w"
  shows redis_ok_enter: "\<exists>w'. cb_enter R w = (w', Inr ()) \<and> rinv w' \<and> rlive w' = rlive w"
    and redis_ok_exit: "rinv (cb_exit R None w)" "rlive (cb_exit R None w) = rlive w"
    and redis_ok_get: "runs_ok rinv rlive (rd_get R k t) w (\<lambda>x. x = rlive w t k) t (\<lambda>u d. d)"
    and redis_ok_set: "runs_ok rinv rlive (rd_set R k v t) w (\<lambda>_. True) t (\<lambda>u d. d(k := Some v))"
    and redis_ok_setex: "s \<noteq> 0 \<Longrightarrow> runs_ok rinv rlive (rd_setex R k s v t) w (\<lambda>_. True) t
        (\<lambda>u d. d(k := timed (Some s) t v u))"
    and redis_ok_set_nx: "runs_ok rinv rlive (rd_set_nx R k v ttl t) w
        (\<lambda>x. (x \<noteq> None) = (rlive w t k = None)) t
        (\<lambda>u d. if rlive w t k = None then d(k := timed ttl t v u) else d)"
    and redis_ok_delete: "runs_ok rinv rlive (rd_delete R [k] t) w (\<lambda>_. True) t (\<lambda>u d. d(k := None))"
  using assms by (simp_all add: redis_ok_def)

lemma runs_ok_bind:
  assumes "runs_ok rinv rlive m w X t upd" "\<And>x. X x \<Longrightarrow> Y (f x)"
  shows "runs_ok rinv rlive (s_bind m (\<lambda>x. s_ret (f x))) w Y t upd"
  using assms unfolding runs_ok_def s_bind_def s_ret_def by fastforce

text \<open>A command that succeeds behind a closed breaker.\<close>

lemma protected_ok:
  assumes "redis_ok R rinv rlive" "rinv w"
    and "\<And>w1. rinv w1 \<Longrightarrow> rlive w1 = rlive w \<Longrightarrow> runs_ok rinv rlive g w1 X t upd"
  shows "runs_ok rinv rlive (protected R g) w X t upd"
proof -
  obtain w1 where w1: "cb_enter R w = (w1, Inr ())" "rinv w1" "rlive w1 = rlive w"
    using redis_ok_enter [OF assms(1,2)] by blast
  obtain w2 x where w2: "g w1 = (w2, Inr x)" "X x" "rinv w2" "\<forall>u \<ge> t. rlive w2 u = upd u (rlive w1 u)"
    using assms(3) [OF w1(2,3)] unfolding runs_ok_def by blast
  have "protected R g w = (cb_exit R None w2, Inr x)"
    using w1 w2 by (simp add: protected_def s_bind_def)
  then show ?thesis
    using redis_ok_exit [OF assms(1) w2(3)] w2 w1(3) by (simp add: runs_ok_def)
qed

lemma cache_op_ok:
  assumes "redis_ok R rinv rlive" "redis_mode st" "rinv (cs_world st)"
    and "\<And>w1. rinv w1 \<Longrightarrow> rlive w1 = rlive (cs_world st) \<Longrightarrow> runs_ok rinv rlive g w1 X t upd"
  obtains st' x where "cache_op R c f g d st = (st', Inr x)" "X x" "redis_mode st'"
    "rinv (cs_world st')" "\<And>u. t \<le> u \<Longrightarrow> rlive (cs_world st') u = upd u (rlive (cs_world st) u)"
proof -
  obtain w' x where "protected R g (cs_world st) = (w', Inr x)" "X x" "rinv w'"
    "\<forall>u \<ge> t. rlive w' u = upd u (rlive (cs_world st) u)"
    using protected_ok [OF assms(1,3), of g X t upd] assms(4) unfolding runs_ok_def by blast
  then show ?thesis
    using assms(2) by (intro that [of "st\<lparr>cs_world := w'\<rparr>" x])
      (simp_all add: cache_op_redis_cases redis_mode_def)
qed

lemma redis_store_ok:
  assumes "redis_ok R rinv rlive" "rinv w"
  shows "runs_ok rinv rlive (redis_store R k v ttl t) w (\<lambda>x. x = True) t (\<lambda>u d. d(k := timed ttl t v u))"
proof (cases "ttl = None \<or> ttl = Some 0")
  case True
  then have "redis_store R k v ttl t = s_bind (rd_set R k v t) (\<lambda>_. s_ret True)"
    by (auto simp: redis_store_def)
  moreover have "timed ttl t v u = Some v" for u using True by (auto simp: timed_def expiry_of_def)
  ultimately show ?thesis by (simp, intro runs_ok_bind [OF redis_ok_set [OF assms]]) simp
next
  case False
  then obtain s where s: "ttl = Some s" "s \<noteq> 0" by auto
  then have "redis_store R k v ttl t = s_bind (rd_setex R k s v t) (\<lambda>_. s_ret True)"
    by (simp add: redis_store_def)
  then show ?thesis by (simp add: s(1), intro runs_ok_bind [OF redis_ok_setex [OF assms s(2)]]) simp
qed

lemma redis_kv_store:
  assumes R: "redis_ok R rinv rlive"
  shows "kv_store (cache_get R) (cache_set R) (cache_setnx R) (cache_delete R)
    (\<lambda>st. redis_mode st \<and> rinv (cs_world st)) (\<lambda>st. rlive (cs_world st))"
proof unfold_locales
  fix st :: "'a cache_svc" and c :: clock and k
  assume st: "redis_mode st \<and> rinv (cs_world st)" and c: "mono c"
  note ok = cache_op_ok [OF R conjunct1 [OF st] conjunct2 [OF st], where c = c]
  have c23: "c 2 \<le> c 3" using c by (rule monoD) simp
  let ?L = "rlive (cs_world st)"
  show "\<exists>s'. cache_get R k c st = (s', Inr (?L (c 2) k)) \<and>
      (redis_mode s' \<and> rinv (cs_world s')) \<and> (\<forall>t \<ge> c 3. rlive (cs_world s') t = ?L t)"
  proof -
    have "runs_ok rinv rlive (rd_get R k (c 2)) w1 (\<lambda>x. x = ?L (c 2) k) (c 2) (\<lambda>u d. d)"
      if "rinv w1" "rlive w1 = ?L" for w1
      using redis_ok_get [OF R that(1), of k "c 2"] that(2) by simp
    from ok [OF this, where f = "mem_get k (c 2)" and d = None] obtain st' x where
      "cache_get R k c st = (st', Inr x)" "x = ?L (c 2) k" "redis_mode st'" "rinv (cs_world st')"
      "\<And>u. c 2 \<le> u \<Longrightarrow> rlive (cs_world st') u = ?L u"
      unfolding cache_get_def by blast
    then show ?thesis using c23 by auto
  qed
  show "\<exists>s' b. cache_delete R k c st = (s', Inr b) \<and> (redis_mode s' \<and> rinv (cs_world s')) \<and>
      (\<forall>t \<ge> c 3. rlive (cs_world s') t = (?L t)(k := None))"
  proof -
    have "runs_ok rinv rlive (s_bind (rd_delete R [k] (c 2)) (\<lambda>n. s_ret (n \<noteq> 0))) w1 (\<lambda>_. True)
        (c 2) (\<lambda>u d. d(k := None))" if "rinv w1" for w1
      using redis_ok_delete [OF R that] by (rule runs_ok_bind) simp
    from ok [OF this, where f = "mem_delete k" and d = False] obtain st' x where
      "cache_delete R k c st = (st', Inr x)" "redis_mode st'" "rinv (cs_world st')"
      "\<And>u. c 2 \<le> u \<Longrightarrow> rlive (cs_world st') u = (?L u)(k := None)"
      unfolding cache_delete_def by blast
    then show ?thesis using c23 by auto
  qed
  fix v ttl
  show "\<exists>s'. cache_set R k v ttl c st = (s', Inr True) \<and> (redis_mode s' \<and> rinv (cs_world s')) \<and>
      (\<forall>t \<ge> c 3. rlive (cs_world s') t k =
           (if is_expired (expiry_of ttl (c 3)) t then None else Some v) \<and>
         (\<forall>j. j \<noteq> k \<longrightarrow> rlive (cs_world s') t j \<in> {?L t j, None}))"
  proof -
    from ok [OF redis_store_ok [OF R], where f = "mem_set k v ttl (c 2) (c 3)" and d = False]
    obtain st' x where
      "cache_set R k v ttl c st = (st', Inr x)" "x = True" "redis_mode st'" "rinv (cs_world st')"
      "\<And>u. c 3 \<le> u \<Longrightarrow> rlive (cs_world st') u = (?L u)(k := timed ttl (c 3) v u)"
      unfolding cache_set_def by blast
    then show ?thesis by (auto simp: timed_def)
  qed
  show "\<exists>s' u. cache_setnx R k v ttl c st = (s', Inr (?L (c 2) k = None)) \<and>
      (redis_mode s' \<and> rinv (cs_world s')) \<and> c 2 \<le> u \<and> u \<le> c 3 \<and>
      (?L (c 2) k \<noteq> None \<longrightarrow> (\<forall>t \<ge> c 3. rlive (cs_world s') t = ?L t)) \<and>
      (?L (c 2) k = None \<longrightarrow> (\<forall>t \<ge> c 3.
         rlive (cs_world s') t k = (if is_expired (expiry_of ttl u) t then None else Some v) \<and>
         (\<forall>j. j \<noteq> k \<longrightarrow> rlive (cs_world s') t j \<in> {?L t j, None})))"
  proof -
    have "runs_ok rinv rlive (s_bind (rd_set_nx R k v ttl (c 2)) (\<lambda>r. s_ret (r \<noteq> None))) w1
        (\<lambda>x. x = (?L (c 2) k = None)) (c 2)
        (\<lambda>u d. if ?L (c 2) k = None then d(k := timed ttl (c 2) v u) else d)"
      if "rinv w1" "rlive w1 = ?L" for w1
      by (rule runs_ok_bind [OF redis_ok_set_nx [OF R that(1), of k v ttl "c 2", unfolded that(2)]])
    from ok [OF this, where f = "mem_setnx k v ttl (c 2) (c 3)" and d = False] obtain st' x where
      "cache_setnx R k v ttl c st = (st', Inr x)" "x = (?L (c 2) k = None)" "redis_mode st'"
      "rinv (cs_world st')"
      "\<And>u. c 2 \<le> u \<Longrightarrow> rlive (cs_world st') u =
         (if ?L (c 2) k = None then (?L u)(k := timed ttl (c 2) v u) else ?L u)"
      unfolding cache_setnx_def by blast
    then show ?thesis using c23
      by (intro exI [of _ st'] exI [of _ "c 2"]) (auto simp: timed_def)
  qed
qed

subsection \<open>Connecting\<close>

lemma connect_failed_state:
  assumes "isinst (re_ext R) (exn_class e) redis_connection_errors \<or>
      isinst (re_ext R) (exn_class e) [Builtin ValueErrorC, Builtin TypeErrorC]"
  shows "connection_failed R now e st =
    (start_fallback R (record_connection_failure now (st\<lparr>cs_client := False\<rparr>))\<lparr>cs_init := True\<rparr>, Inr ())"
  using assms by (simp add: connection_failed_def)

lemma start_fallback_simps [simp]:
  "cs_client (start_fallback R st) = cs_client st"
  "cs_init (start_fallback R st) = cs_init st"
  "cs_last (start_fallback R st) = cs_last st"
  "cs_delay (start_fallback R st) = cs_delay st"
  "cs_failures (start_fallback R st) = cs_failures st"
  "cs_world (start_fallback R st) = cs_world st"
  by (simp_all add: start_fallback_def)

lemma record_failure_simps [simp]:
  "cs_client (record_connection_failure now st) = cs_client st"
  "cs_mem (record_connection_failure now st) = cs_mem st"
  "cs_fallback (record_connection_failure now st) = cs_fallback st"
  "cs_last (record_connection_failure now st) = now"
  "cs_failures (record_connection_failure now st) = Suc (cs_failures st)"
  "cs_delay (record_connection_failure now st) = min (cs_delay st * 2) 60"
  by (simp_all add: record_connection_failure_def retry_backoff_factor_def max_retry_delay_def)

lemma record_success_simps [simp]:
  "cs_client (record_connection_success now st) = cs_client st"
  "cs_mem (record_connection_success now st) = cs_mem st"
  "cs_fallback (record_connection_success now st) = cs_fallback st"
  "cs_init (record_connection_success now st) = cs_init st"
  "cs_world (record_connection_success now st) = cs_world st"
  "cs_failures (record_connection_success now st) = 0"
  "cs_delay (record_connection_success now st) = 1"
  by (simp_all add: record_connection_success_def initial_retry_delay_def)

text \<open>The back-off after \<open>n\<close> failures in a row.\<close>

definition backoff :: "nat \<Rightarrow> real" where
  "backoff n = min (2 ^ n) 60"

lemma backoff_Suc: "min (backoff n * 2) 60 = backoff (Suc n)"
  unfolding backoff_def by (auto simp: min_def)

definition backoff_wf :: "'w cache_svc \<Rightarrow> bool" where
  "backoff_wf st \<longleftrightarrow> cs_delay st = backoff (cs_failures st)"

lemma backoff_wf_init: "backoff_wf (cache_init w)"
  by (simp add: backoff_wf_def backoff_def cache_init_def initial_retry_delay_def)

lemma backoff_wf_failure: "backoff_wf st \<Longrightarrow> backoff_wf (record_connection_failure now st)"
  by (simp add: backoff_wf_def backoff_Suc)

lemma backoff_wf_success: "backoff_wf (record_connection_success now st)"
  by (simp add: backoff_wf_def backoff_def)

lemma on_world_cases:
  "on_world m st = (st\<lparr>cs_world := fst (m (cs_world st))\<rparr>, snd (m (cs_world st)))"
  by (simp add: on_world_def split: prod.splits)

lemma backoff_wf_world [simp]:
  "backoff_wf (st\<lparr>cs_world := w\<rparr>) = backoff_wf st"
  "backoff_wf (st\<lparr>cs_client := b\<rparr>) = backoff_wf st"
  "backoff_wf (st\<lparr>cs_init := i\<rparr>) = backoff_wf st"
  "backoff_wf (st\<lparr>cs_mem := m\<rparr>) = backoff_wf st"
  "backoff_wf (st\<lparr>cs_mem := m, cs_fallback := f\<rparr>) = backoff_wf st"
  by (simp_all add: backoff_wf_def)

lemma backoff_wf_start_fallback [simp]: "backoff_wf (start_fallback R st) = backoff_wf st"
  by (simp add: backoff_wf_def)

lemma backoff_wf_failed: "backoff_wf st \<Longrightarrow> backoff_wf (fst (connection_failed R now e st))"
  using backoff_wf_failure [of "st\<lparr>cs_client := False\<rparr>" now] by (simp add: connection_failed_def)

lemma ensure_connected_backoff:
  assumes "backoff_wf st"
  shows "backoff_wf (fst (ensure_connected R a b st))"
  using assms
  by (auto simp: ensure_connected_def s_catch_def s_bind_def on_world_cases modify_def
      backoff_wf_failed backoff_wf_success split: sum.splits prod.splits)

subsection \<open>Reachable states\<close>

text \<open>
  The invariant of the service: the back-off matches the number of failures, the fallback
  flag and the memory cache go together, and outside the fallback environments there is no
  memory cache.
\<close>

definition svc_inv :: "'w redis_env \<Rightarrow> 'w cache_svc \<Rightarrow> bool" where
  "svc_inv R st \<longleftrightarrow>
     backoff_wf st \<and> (cs_fallback st \<longleftrightarrow> cs_mem st \<noteq> None) \<and>
     (\<forall>m. cs_mem st = Some m \<longrightarrow> mem_wf m \<and> should_use_fallback R)"

inductive svc_step :: "'w redis_env \<Rightarrow> 'w cache_svc \<Rightarrow> 'w cache_svc \<Rightarrow> bool" for R where
  step_connect: "svc_step R st (fst (ensure_connected R a b st))"
| step_get: "svc_step R st (fst (cache_get R k c st))"
| step_get_json: "svc_step R st (fst (cache_get_json R J k c st))"
| step_set: "svc_step R st (fst (cache_set R k v ttl c st))"
| step_set_json: "svc_step R st (fst (cache_set_json R J k x ttl c st))"
| step_setnx: "svc_step R st (fst (cache_setnx R k v ttl c st))"
| step_delete: "svc_step R st (fst (cache_delete R k c st))"
| step_delete_pattern: "cache_delete_pattern R p n c st = Some (st', r) \<Longrightarrow> svc_step R st st'"
| step_ping: "svc_step R st (fst (cache_ping R c st))"
| step_lua: "svc_step R st (fst (execute_lua_script R script ks args c st))"
| step_close: "svc_step R st (fst (cache_close R st))"
| step_aexit: "svc_step R st (fst (cache_aexit R st))"

inductive svc_reach :: "'w redis_env \<Rightarrow> 'w cache_svc \<Rightarrow> bool" for R where
  reach_init: "svc_reach R (cache_init w)"
| reach_step: "svc_reach R st \<Longrightarrow> svc_step R st st' \<Longrightarrow> svc_reach R st'"

lemma svc_inv_init: "svc_inv R (cache_init w)"
  by (simp add: svc_inv_def backoff_wf_init) (simp add: cache_init_def)

lemma svc_inv_simps [simp]:
  "svc_inv R (st\<lparr>cs_world := w\<rparr>) = svc_inv R st"
  "svc_inv R (st\<lparr>cs_client := b\<rparr>) = svc_inv R st"
  "svc_inv R (st\<lparr>cs_init := i\<rparr>) = svc_inv R st"
  by (simp_all add: svc_inv_def)

lemma svc_inv_fallback:
  "svc_inv R st \<Longrightarrow> should_use_fallback R \<Longrightarrow>
     svc_inv R (st\<lparr>cs_mem := Some (mem_init n), cs_fallback := True\<rparr>)"
  by (simp add: svc_inv_def)

lemma svc_inv_start_fallback: "svc_inv R st \<Longrightarrow> svc_inv R (start_fallback R st)"
  by (simp add: start_fallback_def svc_inv_fallback)

lemma svc_inv_failure: "svc_inv R st \<Longrightarrow> svc_inv R (record_connection_failure now st)"
  by (simp add: svc_inv_def backoff_wf_failure)

lemma svc_inv_success: "svc_inv R st \<Longrightarrow> svc_inv R (record_connection_success now st)"
  by (simp add: svc_inv_def backoff_wf_success)

lemma keeps_on_world [keeps_intros]: "keeps (svc_inv R) (on_world m)"
  by (simp add: keeps_def on_world_cases)

lemma keeps_modify:
  "(\<And>st. svc_inv R st \<Longrightarrow> svc_inv R (f st)) \<Longrightarrow> keeps (svc_inv R) (modify f)"
  by (simp add: keeps_def modify_def)

lemma keeps_failed [keeps_intros]: "keeps (svc_inv R) (connection_failed R now e)"
  by (simp add: keeps_def connection_failed_def svc_inv_start_fallback svc_inv_failure)

lemma keeps_ensure [keeps_intros]: "keeps (svc_inv R) (ensure_connected R a b)"
proof -
  have "keeps (svc_inv R)
      (s_catch
          (s_bind (on_world (rd_from_url R)) (\<lambda>_.
           s_bind (modify (\<lambda>s. s\<lparr>cs_client := True\<rparr>)) (\<lambda>_.
           s_bind (on_world (rd_ping R)) (\<lambda>_.
           s_bind (on_world (rd_instrument R)) (\<lambda>_.
             modify (\<lambda>s. record_connection_success b (s\<lparr>cs_init := True\<rparr>)))))))
          (connection_failed R b))"
    by (intro keeps_intros keeps_modify) (auto simp: svc_inv_success)
  then show ?thesis by (auto simp: keeps_def ensure_connected_def svc_inv_fallback)
qed

lemma keeps_memory:
  assumes "\<And>m. mem_wf m \<Longrightarrow> mem_wf (fst (f m))" "svc_inv R st" "using_memory st = Some m"
  shows "svc_inv R (fst (on_memory f m st))"
  using assms(2,3) assms(1) [of m]
  by (cases "f m") (auto simp: svc_inv_def on_memory_def using_memory_def backoff_wf_def
      split: if_splits)

lemma keeps_execute [keeps_intros]: "keeps (svc_inv R) (execute_redis_operation R a b g d)"
proof -
  have "keeps (svc_inv R) (\<lambda>st. if \<not> is_redis_available st then (st, Inr d)
       else s_catch (on_world (protected R g))
              (\<lambda>e. if swallowed R e then s_ret d else s_raise e) st)"
    by (intro keeps_if keeps_intros) (simp add: keeps_def)
  then show ?thesis unfolding execute_redis_operation_def by (intro keeps_bind keeps_ensure)
qed

lemma keeps_cache_op:
  assumes "\<And>m. mem_wf m \<Longrightarrow> mem_wf (fst (f m))"
  shows "keeps (svc_inv R) (cache_op R c f g d)"
  unfolding cache_op_def
proof (intro keeps_bind keeps_ensure)
  show "keeps (svc_inv R) (\<lambda>st. case using_memory st of Some m \<Rightarrow> on_memory f m st
      | None \<Rightarrow> execute_redis_operation R (c 4) (c 5) g d st)"
    using keeps_memory [OF assms] keepsD [OF keeps_execute]
    by (auto simp: keeps_def split: option.splits)
qed

lemma keeps_cache_ops [keeps_intros]:
  "keeps (svc_inv R) (cache_get R k c)"
  "keeps (svc_inv R) (cache_set R k v ttl c)"
  "keeps (svc_inv R) (cache_setnx R k v ttl c)"
  "keeps (svc_inv R) (cache_delete R k c)"
  unfolding cache_get_def cache_set_def cache_setnx_def cache_delete_def
  by (intro keeps_cache_op; simp)+

lemma fst_lift [simp]: "fst (lift_res r s) = s"
  by (simp add: lift_res_def)

lemma keeps_lift [keeps_intros]: "keeps I (lift_res r)"
  by (simp add: keeps_def)

lemma keeps_decode [keeps_intros]: "keeps I (decode_opt J v)"
  by (cases v) (auto simp: decode_opt_def intro: keeps_intros)

lemma fst_bind_pure:
  assumes "\<And>x s. fst (f x s) = s"
  shows "fst (s_bind m f s) = fst (m s)"
  using assms by (auto simp: s_bind_def split: prod.splits sum.splits)

lemma keeps_get_json [keeps_intros]: "keeps (svc_inv R) (cache_get_json R J k c)"
  unfolding cache_get_json_def
proof (intro keeps_bind keeps_ensure)
  have d: "fst (decode_opt J x s) = s" for x and s :: "'b cache_svc"
    by (cases x) (simp_all add: decode_opt_def s_ret_def)
  show "keeps (svc_inv R) (\<lambda>st. case using_memory st of
        Some m \<Rightarrow> s_bind (on_memory (mem_get k (c 2)) m) (decode_opt J) st
      | None \<Rightarrow> execute_redis_operation R (c 4) (c 5)
                   (s_bind (rd_get R k (c 2)) (decode_opt J)) None st)"
    using keeps_memory [of "mem_get k (c 2)" R] keepsD [OF keeps_execute]
    by (auto simp: keeps_def fst_bind_pure d split: option.splits)
qed

lemma keeps_set_json [keeps_intros]: "keeps (svc_inv R) (cache_set_json R J k x ttl c)"
  unfolding cache_set_json_def
proof (intro keeps_bind keeps_ensure)
  show "keeps (svc_inv R) (\<lambda>st. case using_memory st of
        Some m \<Rightarrow> s_bind (lift_res (json_dumps J x))
                     (\<lambda>js. on_memory (mem_set k js ttl (c 2) (c 3)) m) st
      | None \<Rightarrow> execute_redis_operation R (c 4) (c 5)
                   (s_bind (lift_res (json_dumps J x)) (\<lambda>js. redis_store R k js ttl (c 3))) False st)"
    using keeps_memory [of "mem_set k _ ttl (c 2) (c 3)" R] keepsD [OF keeps_execute]
    by (cases "json_dumps J x") (auto simp: keeps_def s_bind_def lift_res_def split: option.splits)
qed

lemma keeps_ping [keeps_intros]: "keeps (svc_inv R) (cache_ping R c)"
  unfolding cache_ping_def
proof (intro keeps_bind keeps_ensure)
  have "keeps (svc_inv R) (s_catch (s_bind (on_world (rd_ping R)) (\<lambda>_. s_ret True))
      (\<lambda>e. if isinst (re_ext R) (exn_class e)
                (Lib ''redis.exceptions.RedisError'' # redis_connection_errors)
           then s_ret False else s_raise e))"
    by (intro keeps_intros)
  then show "keeps (svc_inv R) (\<lambda>st. case using_memory st of
         Some m \<Rightarrow> (st, Inr (mem_ping m))
       | None \<Rightarrow>
           if \<not> is_redis_available st then (st, Inr False)
           else s_catch (s_bind (on_world (rd_ping R)) (\<lambda>_. s_ret True))
                  (\<lambda>e. if isinst (re_ext R) (exn_class e)
                            (Lib ''redis.exceptions.RedisError'' # redis_connection_errors)
                       then s_ret False else s_raise e) st)"
    by (simp add: keeps_def split: option.splits)
qed

lemma keeps_lua [keeps_intros]: "keeps (svc_inv R) (execute_lua_script R script ks args c)"
  unfolding execute_lua_script_def
  by (intro keeps_bind keeps_ensure keeps_if keeps_execute) (simp_all add: keeps_def)

lemma keeps_close [keeps_intros]: "keeps (svc_inv R) (cache_close R)"
proof -
  have "keeps (svc_inv R) (s_bind
             (s_finally
               (s_catch (s_bind (on_world (rd_close R)) (\<lambda>_. on_world (rd_disconnect R)))
                  (\<lambda>e. if isinst (re_ext R) (exn_class e) close_errors then s_ret () else s_raise e))
               (modify (\<lambda>s. s\<lparr>cs_client := False\<rparr>)))
             (\<lambda>_. modify (\<lambda>s. s\<lparr>cs_init := False\<rparr>)))"
    by (intro keeps_intros keeps_modify) auto
  moreover have "svc_inv R (st\<lparr>cs_mem := None, cs_fallback := False\<rparr>)" if "svc_inv R st" for st :: "'a cache_svc"
    using that by (simp add: svc_inv_def)
  ultimately show ?thesis
    by (auto simp: keeps_def cache_close_def Let_def modify_def split: option.splits)
qed

lemma ensure_connected_inv:
  "ensure_connected R a b st = (st', r) \<Longrightarrow> svc_inv R st \<Longrightarrow> svc_inv R st'"
  using keepsD [OF keeps_ensure, of R st a b] by simp

lemma keeps_delete_pattern:
  assumes "cache_delete_pattern R p n c st = Some (st', r)" "svc_inv R st"
  shows "svc_inv R st'"
proof -
  have "svc_inv R s'" if "using_memory s = Some m" "on_memory (mem_delete_pattern p) m s = (s', q)"
    "svc_inv R s" for s m s' and q :: "exn + nat"
    using keeps_memory [where f = "mem_delete_pattern p", OF _ that(3,1)] that(2) by simp
  then show ?thesis
    using assms
    by (auto simp: cache_delete_pattern_def
        dest!: ensure_connected_inv split: sum.splits option.splits prod.splits if_splits)
qed

lemma svc_step_inv: "svc_step R st st' \<Longrightarrow> svc_inv R st \<Longrightarrow> svc_inv R st'"
  by (induction rule: svc_step.induct)
    (auto intro: keepsD keeps_intros keeps_delete_pattern simp: cache_aexit_def on_world_cases)

lemma svc_reach_inv: "svc_reach R st \<Longrightarrow> svc_inv R st"
  by (induction rule: svc_reach.induct) (auto intro: svc_step_inv svc_inv_init)

inductive_cases svc_stepE: "svc_step R st st'"

subsection \<open>A sample server\<close>

text \<open>A server that keeps its data in a map, to show that the hypotheses on the library can
  hold: it never fails and its breaker never opens.\<close>

definition sample_live :: "(string \<Rightarrow> (string \<times> real option) option) \<Rightarrow> real \<Rightarrow> string \<Rightarrow> string option" where
  "sample_live w t k = (case w k of None \<Rightarrow> None | Some (v, e) \<Rightarrow> if is_expired e t then None else Some v)"

definition sample_redis :: "(string \<Rightarrow> (string \<times> real option) option) redis_env" where
  "sample_redis = \<lparr>re_ext = (\<lambda>_. []), re_environment = ''production'',
     rd_from_url = s_ret (), rd_ping = s_ret (), rd_instrument = s_ret (),
     rd_get = (\<lambda>k t w. (w, Inr (sample_live w t k))),
     rd_set = (\<lambda>k v t w. (w(k := Some (v, None)), Inr ())),
     rd_setex = (\<lambda>k s v t w. (w(k := Some (v, Some (t + real_of_int s))), Inr ())),
     rd_set_nx = (\<lambda>k v ttl t w.
        if sample_live w t k = None then (w(k := Some (v, expiry_of ttl t)), Inr (Some ()))
        else (w, Inr None)),
     rd_delete = (\<lambda>ks t w. (\<lambda>k. if k \<in> set ks then None else w k,
        Inr (length (filter (\<lambda>k. w k \<noteq> None) (remdups ks))))),
     rd_scan = (\<lambda>cur p n t w. (w, Inr (0, []))),
     rd_eval = (\<lambda>script ks args t w.
        case sample_live w t (ks ! 0) of
          Some v \<Rightarrow> (w, Inr (Some [''DUPLICATE'', v]))
        | None \<Rightarrow>
            if sample_live w t (ks ! 1) = None
            then (w(ks ! 1 := Some (''1'', Some (t + real (nat_of_string (args ! 0))))), Inr (Some [''NEW'', []]))
            else (w, Inr (Some [''IN_PROGRESS'', []]))),
     rd_close = s_ret (), rd_disconnect = s_ret (),
     cb_enter = s_ret (), cb_exit = (\<lambda>_ w. w)\<rparr>"

lemma sample_live_upd:
  "sample_live (w(k := Some (v, e))) u = (sample_live w u)(k := if is_expired e u then None else Some v)"
  by (auto simp: sample_live_def)

lemma sample_live_del:
  "sample_live (\<lambda>j. if j = k then None else w j) u = (sample_live w u)(k := None)"
  by (auto simp: sample_live_def)

lemma sample_redis_ok: "redis_ok sample_redis (\<lambda>_. True) sample_live"
  unfolding redis_ok_def runs_ok_def
  by (simp add: sample_redis_def s_ret_def sample_live_upd sample_live_del timed_def expiry_of_def)
    auto

definition sample_state :: "(string \<Rightarrow> (string \<times> real option) option) cache_svc" where
  "sample_state = fst (ensure_connected sample_redis 0 0 (cache_init (\<lambda>_. None)))"

lemma sample_state_redis: "redis_mode sample_state"
  by (simp add: sample_state_def ensure_connected_def cache_init_def should_attempt_connection_def
      s_catch_def s_bind_def on_world_cases modify_def sample_redis_def s_ret_def redis_mode_def)

definition sample_local :: "(string \<Rightarrow> (string \<times> real option) option) redis_env" where
  \<comment> \<open>a local environment with no server to connect to\<close>
  "sample_local = sample_redis\<lparr>re_environment := ''local'',
     rd_ping := s_raise (EOther (Lib ''redis.exceptions.ConnectionError'') ''refused'')\<rparr>"

definition sample_fallback :: "(string \<Rightarrow> (string \<times> real option) option) cache_svc" where
  "sample_fallback = fst (ensure_connected sample_local 0 0 (cache_init (\<lambda>_. None)))"

lemma sample_fallback_memory: "memory_mode sample_fallback"
  by (simp add: sample_fallback_def ensure_connected_def cache_init_def should_attempt_connection_def
      s_catch_def s_bind_def on_world_cases modify_def sample_local_def sample_redis_def s_ret_def
      s_raise_def connection_failed_def redis_connection_errors_def start_fallback_def
      should_use_fallback_def record_connection_failure_def memory_mode_def)

lemma mono_id: "mono (\<lambda>n. real n)" "mono (\<lambda>n. real n + x)"
  by (auto simp: mono_def)

definition sample_closed :: "(string \<Rightarrow> (string \<times> real option) option) cache_svc" where
  "sample_closed = fst (cache_close sample_local sample_fallback)"

lemma sample_closed_facts:
  "svc_reach sample_local sample_closed" "\<not> cs_init sample_closed" "cs_failures sample_closed = 1"
  "cs_last sample_closed = 0" "cs_delay sample_closed = 2" "cs_mem sample_closed = None"
  "\<not> cs_client sample_closed" "cs_world sample_closed = (\<lambda>_. None)"
proof -
  show "svc_reach sample_local sample_closed"
    unfolding sample_closed_def sample_fallback_def
    by (intro reach_step [OF reach_step [OF reach_init step_connect] step_close])
qed (simp_all add: sample_closed_def sample_fallback_def ensure_connected_def cache_init_def
      should_attempt_connection_def s_catch_def s_bind_def on_world_cases modify_def sample_local_def
      sample_redis_def s_ret_def s_raise_def connection_failed_def redis_connection_errors_def
      start_fallback_def should_use_fallback_def record_connection_failure_def cache_close_def
      initial_retry_delay_def retry_backoff_factor_def max_retry_delay_def)

subsection \<open>Properties\<close>



text \<open>C10. Production never falls back: in every reachable state of a service outside the
  fallback environments there is no in-memory cache; in every reachable state the fallback flag
  is set exactly when there is one, and the back-off delay is two to the number of consecutive
  failures, capped at sixty seconds.\<close>

theorem cache_reachable_states:
  assumes "svc_reach R st"
  shows "(\<not> should_use_fallback R \<longrightarrow> cs_mem st = None \<and> \<not> cs_fallback st) \<and>
    (cs_fallback st \<longleftrightarrow> cs_mem st \<noteq> None) \<and>
    cs_delay st = min (2 ^ cs_failures st) 60"
  using svc_reach_inv [OF assms] by (auto simp: svc_inv_def backoff_wf_def backoff_def)

theorem cache_reachable_states_witness:
  "cs_mem sample_closed = None \<and> \<not> cs_fallback sample_closed \<and>
    cs_delay sample_closed = min (2 ^ cs_failures sample_closed) 60"
  using cache_reachable_states [OF sample_closed_facts(1)] sample_closed_facts(6) by simp

text \<open>No reconnection: when the first connection attempt fails with a connection or
  configuration error the service counts as initialised, and from then on connecting again does
  nothing, at any time; without a fallback every read returns nothing and every write reports
  failure, whether or not Redis is back.\<close>

theorem cache_no_reconnect:
  assumes "\<not> cs_init st" "should_attempt_connection a st" "\<not> should_use_fallback R"
    and "cs_mem st = None"
    and "rd_from_url R (cs_world st) = (w1, Inr ())" "rd_ping R w1 = (w2, Inl e)"
    and "isinst (re_ext R) (exn_class e) redis_connection_errors"
  shows "let st' = fst (ensure_connected R a b st) in
    cs_init st' \<and> \<not> cs_client st' \<and> cs_failures st' = Suc (cs_failures st) \<and>
    ensure_connected R a' b' st' = (st', Inr ()) \<and>
    cache_get R k c st' = (st', Inr None) \<and> cache_set R k v ttl c st' = (st', Inr False) \<and>
    cache_setnx R k v ttl c st' = (st', Inr False)"
proof -
  have e: "ensure_connected R a b st =
      connection_failed R b e (st\<lparr>cs_client := True, cs_world := w2\<rparr>)"
    using assms by (simp add: ensure_connected_def s_catch_def s_bind_def on_world_cases modify_def)
  have "disabled_mode (fst (ensure_connected R a b st))"
    using assms by (simp add: e connection_failed_def start_fallback_def disabled_mode_def using_memory_def)
  then show ?thesis
    using assms by (simp add: Let_def cache_get_def cache_set_def cache_setnx_def cache_op_disabled)
      (simp add: e connection_failed_def start_fallback_def)
qed

definition sample_down :: "(string \<Rightarrow> (string \<times> real option) option) redis_env" where
  "sample_down = sample_local\<lparr>re_environment := ''production''\<rparr>"

theorem cache_no_reconnect_witness:
  "let st' = fst (ensure_connected sample_down 0 0 (cache_init (\<lambda>_. None))) in
    cs_init st' \<and> \<not> cs_client st' \<and> cs_failures st' = Suc 0 \<and>
    ensure_connected sample_down 1000 1000 st' = (st', Inr ()) \<and>
    cache_get sample_down ''k'' real st' = (st', Inr None) \<and>
    cache_set sample_down ''k'' ''v'' None real st' = (st', Inr False) \<and>
    cache_setnx sample_down ''k'' ''v'' None real st' = (st', Inr False)"
  using cache_no_reconnect [of "cache_init (\<lambda>_. None)" 0 sample_down "\<lambda>_. None" "\<lambda>_. None"
      "EOther (Lib ''redis.exceptions.ConnectionError'') ''refused''" 0 1000 1000 "''k''" real "''v''" None]
  by (simp add: cache_init_def should_attempt_connection_def sample_down_def sample_local_def
      sample_redis_def should_use_fallback_def s_ret_def s_raise_def redis_connection_errors_def)

text \<open>Back-off: after failures and a close, no connection is attempted before the delay has
  passed since the last attempt: the world is untouched and the service stays uninitialised.\<close>

theorem cache_backoff_skips:
  assumes "svc_reach R st" "\<not> cs_init st" "0 < cs_failures st"
    and "now < cs_last st + min (2 ^ cs_failures st) 60"
  shows "cs_world (fst (ensure_connected R now b st)) = cs_world st \<and>
    \<not> cs_init (fst (ensure_connected R now b st)) \<and>
    cs_failures (fst (ensure_connected R now b st)) = cs_failures st \<and>
    snd (ensure_connected R now b st) = Inr ()"
proof -
  have "cs_delay st = min (2 ^ cs_failures st) 60"
    using svc_reach_inv [OF assms(1)] by (simp add: svc_inv_def backoff_wf_def backoff_def)
  then have "\<not> should_attempt_connection now st"
    using assms(3,4) by (simp add: should_attempt_connection_def)
  then show ?thesis using assms(2) by (simp add: ensure_connected_def)
qed

theorem cache_backoff_skips_witness:
  "cs_world (fst (ensure_connected sample_local 1 1 sample_closed)) = cs_world sample_closed \<and>
    \<not> cs_init (fst (ensure_connected sample_local 1 1 sample_closed)) \<and>
    cs_failures (fst (ensure_connected sample_local 1 1 sample_closed)) = cs_failures sample_closed \<and>
    snd (ensure_connected sample_local 1 1 sample_closed) = Inr ()"
  by (rule cache_backoff_skips) (simp_all add: sample_closed_facts)

text \<open>The fallback outlives its cause: a call during the back-off activates the in-memory
  cache, and a later connection that succeeds leaves it active, so the service is connected to
  Redis and still serves reads from memory.\<close>

theorem cache_fallback_sticks:
  assumes "\<not> cs_init st" "cs_mem st = None" "should_use_fallback R"
    and "\<not> should_attempt_connection a st" "should_attempt_connection a' st"
    and "rd_from_url R (cs_world st) = (wa, Inr ())" "rd_ping R wa = (wb, Inr ())"
    and "rd_instrument R wb = (wc, Inr ())"
  shows "let st' = fst (ensure_connected R a' b' (fst (ensure_connected R a b st))) in
    cs_init st' \<and> cs_client st' \<and> using_memory st' = Some (mem_init default_max_size) \<and>
    snd (cache_get R k c st') = Inr None"
proof -
  have e1: "ensure_connected R a b st =
      (st\<lparr>cs_mem := Some (mem_init default_max_size), cs_fallback := True\<rparr>, Inr ())"
    using assms by (simp add: ensure_connected_def)
  have e2: "fst (ensure_connected R a' b' (fst (ensure_connected R a b st))) =
      record_connection_success b'
        (st\<lparr>cs_mem := Some (mem_init default_max_size), cs_fallback := True,
            cs_client := True, cs_world := wc, cs_init := True\<rparr>)" (is "_ = ?s")
    using assms by (simp add: e1 ensure_connected_def should_attempt_connection_def s_catch_def
        s_bind_def on_world_cases modify_def)
  have "using_memory ?s = Some (mem_init default_max_size)" "cs_init ?s" "cs_client ?s"
    by (simp_all add: using_memory_def)
  then show ?thesis
    unfolding Let_def e2 cache_get_def
    by (simp add: cache_op_memory mem_get_result mem_live_def mem_init_def)
qed

theorem cache_fallback_sticks_witness:
  "let st' = fst (ensure_connected (sample_local\<lparr>rd_ping := s_ret ()\<rparr>) 10 10
        (fst (ensure_connected (sample_local\<lparr>rd_ping := s_ret ()\<rparr>) 1 1 sample_closed))) in
    cs_init st' \<and> cs_client st' \<and> using_memory st' = Some (mem_init default_max_size) \<and>
    snd (cache_get (sample_local\<lparr>rd_ping := s_ret ()\<rparr>) ''k'' real st') = Inr None"
  by (rule cache_fallback_sticks [where wa = "\<lambda>_. None" and wb = "\<lambda>_. None" and wc = "\<lambda>_. None"])
    (simp_all add: sample_closed_facts should_attempt_connection_def should_use_fallback_def
      sample_local_def sample_redis_def s_ret_def)


definition sample_open :: "(string \<Rightarrow> (string \<times> real option) option) redis_env" where
  \<comment> \<open>a breaker that is open\<close>
  "sample_open = sample_redis\<lparr>re_ext := (\<lambda>_. [Builtin ExceptionC, Builtin BaseExceptionC]),
     cb_enter := s_raise (EOther (Lib ''purgatory.domain.model.OpenedState'') ''open'')\<rparr>"


end
