(* ===== verification/FeatureFlags.thy ===== *)
theory FeatureFlags
  imports CacheLaws
begin

section \<open>Feature flags\<close>

text \<open>
  \<open>FeatureFlagService\<close> of \<open>core/infrastructure/feature_flags.py\<close>.  The service is given its
  cache, so its operations take the cache operations they call as arguments; the laws are
  proved once over the contract \<open>kv_store\<close> and then hold for the cache service.
\<close>

datatype feature_flag =
    PADDLE_WEBHOOKS_ENABLED | STRIPE_WEBHOOKS_ENABLED | SUBSCRIPTION_RENEWALS_ENABLED
  | TELEGRAM_NOTIFICATIONS_ENABLED | EMAIL_NOTIFICATIONS_ENABLED
  | RATE_LIMITING_ENABLED | NEW_USER_REGISTRATION_ENABLED
  | MAINTENANCE_MODE | READ_ONLY_MODE

text \<open>Iterating the \<open>Enum\<close> class gives its members in the order of their definition.\<close>

definition all_flags :: "feature_flag list" where
  "all_flags = [PADDLE_WEBHOOKS_ENABLED, STRIPE_WEBHOOKS_ENABLED, SUBSCRIPTION_RENEWALS_ENABLED,
     TELEGRAM_NOTIFICATIONS_ENABLED, EMAIL_NOTIFICATIONS_ENABLED, RATE_LIMITING_ENABLED,
     NEW_USER_REGISTRATION_ENABLED, MAINTENANCE_MODE, READ_ONLY_MODE]"

lemma all_flags_UNIV: "set all_flags = UNIV"
proof -
  have "f \<in> set all_flags" for f by (cases f) (simp_all add: all_flags_def)
  then show ?thesis by auto
qed

instantiation feature_flag :: enum
begin

definition enum_feature_flag :: "feature_flag list" where
  "enum_feature_flag = all_flags"

definition enum_all_feature_flag :: "(feature_flag \<Rightarrow> bool) \<Rightarrow> bool" where
  "enum_all_feature_flag P = list_all P all_flags"

definition enum_ex_feature_flag :: "(feature_flag \<Rightarrow> bool) \<Rightarrow> bool" where
  "enum_ex_feature_flag P = list_ex P all_flags"

instance
proof
  show "(UNIV :: feature_flag set) = set enum_class.enum"
    by (simp add: enum_feature_flag_def all_flags_UNIV)
  show "distinct (enum_class.enum :: feature_flag list)"
    by (simp add: enum_feature_flag_def all_flags_def)
  show "enum_class.enum_all P = Ball UNIV P" for P :: "feature_flag \<Rightarrow> bool"
    by (simp add: enum_all_feature_flag_def list_all_iff all_flags_UNIV)
  show "enum_class.enum_ex P = Bex UNIV P" for P :: "feature_flag \<Rightarrow> bool"
    by (simp add: enum_ex_feature_flag_def list_ex_iff all_flags_UNIV)
qed

end

fun flag_value :: "feature_flag \<Rightarrow> string" where
  "flag_value PADDLE_WEBHOOKS_ENABLED = ''paddle_webhooks_enabled''"
| "flag_value STRIPE_WEBHOOKS_ENABLED = ''stripe_webhooks_enabled''"
| "flag_value SUBSCRIPTION_RENEWALS_ENABLED = ''subscription_renewals_enabled''"
| "flag_value TELEGRAM_NOTIFICATIONS_ENABLED = ''telegram_notifications_enabled''"
| "flag_value EMAIL_NOTIFICATIONS_ENABLED = ''email_notifications_enabled''"
| "flag_value RATE_LIMITING_ENABLED = ''rate_limiting_enabled''"
| "flag_value NEW_USER_REGISTRATION_ENABLED = ''new_user_registration_enabled''"
| "flag_value MAINTENANCE_MODE = ''maintenance_mode''"
| "flag_value READ_ONLY_MODE = ''read_only_mode''"

definition temporary_ttl :: int where
  "temporary_ttl = 3600"

definition critical_flags :: "feature_flag set" where
  "critical_flags = {PADDLE_WEBHOOKS_ENABLED, STRIPE_WEBHOOKS_ENABLED,
     SUBSCRIPTION_RENEWALS_ENABLED, MAINTENANCE_MODE, READ_ONLY_MODE, RATE_LIMITING_ENABLED}"

definition flag_key :: "feature_flag \<Rightarrow> string" where
  "flag_key flag = ''feature_flag'' @ '':'' @ flag_value flag"

definition truthy_values :: "string list" where
  "truthy_values = [''true'', ''1'', ''yes'', ''enabled'']"

definition falsy_values :: "string list" where
  "falsy_values = [''false'', ''0'', ''no'', ''disabled'']"

definition parse_flag :: "string option \<Rightarrow> bool \<Rightarrow> bool" where
  \<comment> \<open>what \<open>is_enabled\<close> makes of the cached value\<close>
  "parse_flag v dflt =
     (case v of
        None \<Rightarrow> dflt
      | Some s \<Rightarrow>
          let n = strip (lower s) in
          if n \<in> set truthy_values then True
          else if n \<in> set falsy_values then False
          else dflt)"

type_synonym ('s, 'e) getter = "string \<Rightarrow> clock \<Rightarrow> ('s, 'e, string option) act"
type_synonym ('s, 'e) setter = "string \<Rightarrow> string \<Rightarrow> int option \<Rightarrow> clock \<Rightarrow> ('s, 'e, bool) act"
type_synonym ('s, 'e) deleter = "string \<Rightarrow> clock \<Rightarrow> ('s, 'e, bool) act"

definition is_enabled :: "('s, 'e) getter \<Rightarrow> feature_flag \<Rightarrow> bool \<Rightarrow> clock \<Rightarrow> ('s, 'e, bool) act" where
  "is_enabled get flag dflt c = s_bind (get (flag_key flag) c) (\<lambda>v. s_ret (parse_flag v dflt))"

definition is_disabled :: "('s, 'e) getter \<Rightarrow> feature_flag \<Rightarrow> bool \<Rightarrow> clock \<Rightarrow> ('s, 'e, bool) act" where
  "is_disabled get flag dflt c = s_bind (is_enabled get flag dflt c) (\<lambda>b. s_ret (\<not> b))"

definition flag_ttl :: "feature_flag \<Rightarrow> bool option \<Rightarrow> int option" where
  "flag_ttl flag persistent =
     (case persistent of
        None \<Rightarrow> if flag \<in> critical_flags then None else Some temporary_ttl
      | Some p \<Rightarrow> if p then None else Some temporary_ttl)"

definition set_flag ::
  "('s, 'e) setter \<Rightarrow> feature_flag \<Rightarrow> bool \<Rightarrow> bool option \<Rightarrow> clock \<Rightarrow> ('s, 'e, unit) act" where
  "set_flag set' flag enabled persistent c =
     s_bind (set' (flag_key flag) (if enabled then ''true'' else ''false'') (flag_ttl flag persistent) c)
       (\<lambda>_. s_ret ())"

definition clear_flag :: "('s, 'e) deleter \<Rightarrow> feature_flag \<Rightarrow> clock \<Rightarrow> ('s, 'e, unit) act" where
  "clear_flag del flag c = s_bind (del (flag_key flag) c) (\<lambda>_. s_ret ())"

definition get_all_flags :: "('s, 'e) getter \<Rightarrow> clock list \<Rightarrow> ('s, 'e, (string \<times> bool) list) act" where
  \<comment> \<open>one clock for each of the flags\<close>
  "get_all_flags get cs =
     s_for (\<lambda>(flag, c). s_bind (is_enabled get flag True c) (\<lambda>b. s_ret (flag_value flag, b)))
       (zip enum_class.enum cs)"

definition set_maintenance_mode :: "('s, 'e) setter \<Rightarrow> bool \<Rightarrow> clock \<Rightarrow> ('s, 'e, unit) act" where
  "set_maintenance_mode set' enabled c = set_flag set' MAINTENANCE_MODE enabled None c"

definition is_maintenance_mode :: "('s, 'e) getter \<Rightarrow> clock \<Rightarrow> ('s, 'e, bool) act" where
  "is_maintenance_mode get c = is_enabled get MAINTENANCE_MODE False c"

subsection \<open>Lemmas\<close>

lemma flag_value_inj: "flag_value f = flag_value g \<Longrightarrow> f = g"
  by (cases f; cases g; simp)

lemma flag_key_inj: "flag_key f = flag_key g \<longleftrightarrow> f = g"
  by (auto simp: flag_key_def flag_value_inj)

lemma parse_flag_bool [simp]:
  "parse_flag (Some ''true'') d = True" "parse_flag (Some ''false'') d = False" "parse_flag None d = d"
proof -
  have "strip (lower ''true'') = ''true''" "strip (lower ''false'') = ''false''" by code_simp+
  then show "parse_flag (Some ''true'') d = True" "parse_flag (Some ''false'') d = False"
    "parse_flag None d = d"
    by (simp_all add: parse_flag_def truthy_values_def falsy_values_def)
qed

lemma parse_flag_default:
  "(\<forall>d. parse_flag v d = d) \<longleftrightarrow>
     (case v of None \<Rightarrow> True | Some s \<Rightarrow> strip (lower s) \<notin> set truthy_values \<union> set falsy_values)"
  by (auto simp: parse_flag_def Let_def truthy_values_def falsy_values_def split: option.splits)

lemma snd_bind_ret: "snd (s_bind m (\<lambda>x. s_ret (f x)) s) = map_sum id f (snd (m s))"
  by (auto simp: s_bind_def s_ret_def split: prod.splits sum.splits)

lemma fst_bind_ret: "fst (s_bind m (\<lambda>x. s_ret (f x)) s) = fst (m s)"
  by (auto simp: s_bind_def s_ret_def split: prod.splits sum.splits)

text \<open>Over any cache that meets the contract.\<close>

context kv_store
begin

lemma flag_enabled_result:
  "kinv s \<Longrightarrow> mono c \<Longrightarrow>
     snd (is_enabled kget flag d c s) = Inr (parse_flag (klive s (c 2) (flag_key flag)) d)"
  by (simp add: is_enabled_def snd_bind_ret get_result)

lemma flag_after_set:
  assumes "kinv s" "mono c" "mono c'" "c 3 \<le> c' 2"
  shows "snd (is_enabled kget flag d c' (fst (set_flag kset flag b p c s))) =
    Inr (if is_expired (expiry_of (flag_ttl flag p) (c 3)) (c' 2) then d else b)"
  using get_after_set [OF assms, of "flag_key flag" "if b then ''true'' else ''false''" "flag_ttl flag p"]
  by (cases b) (simp_all add: is_enabled_def set_flag_def snd_bind_ret fst_bind_ret)

lemma flag_after_clear:
  assumes "kinv s" "mono c" "mono c'" "c 3 \<le> c' 2"
  shows "snd (is_enabled kget flag d c' (fst (clear_flag kdel flag c s))) = Inr d"
  using get_after_del [OF assms, of "flag_key flag"]
  by (simp add: is_enabled_def clear_flag_def snd_bind_ret fst_bind_ret)

end

lemma mem_flag_laws:
  assumes "memory_mode st" "mono c" "mono c'" "c 3 \<le> c' 2"
  shows "snd (is_enabled (cache_get R) flag d c' (fst (set_flag (cache_set R) flag b p c st))) =
      Inr (if is_expired (expiry_of (flag_ttl flag p) (c 3)) (c' 2) then d else b)"
    and "snd (is_enabled (cache_get R) flag d c' (fst (clear_flag (cache_delete R) flag c st))) = Inr d"
  using assms by (rule mem.flag_after_set mem.flag_after_clear)+

lemma critical_never_expires:
  "flag \<in> critical_flags \<Longrightarrow> \<not> is_expired (expiry_of (flag_ttl flag None) t) u"
  by (simp add: flag_ttl_def expiry_of_def)

subsection \<open>Properties\<close>

text \<open>C12. Flags round-trip: through the in-memory cache and through a Redis server that behaves
  as documented, a flag reads as it was last set until its entry expires, then as the default;
  a kill switch set without an explicit choice never expires; a cleared flag reads as the default.\<close>

theorem flag_round_trip:
  assumes "memory_mode st \<or> redis_ok R rinv rlive \<and> redis_mode st \<and> rinv (cs_world st)"
    and "mono c" "mono c'" "c 3 \<le> c' 2"
  shows "snd (is_enabled (cache_get R) flag d c' (fst (set_flag (cache_set R) flag b p c st))) =
      Inr (if is_expired (expiry_of (flag_ttl flag p) (c 3)) (c' 2) then d else b) \<and>
    snd (is_enabled (cache_get R) flag d c' (fst (clear_flag (cache_delete R) flag c st))) = Inr d \<and>
    (flag \<in> critical_flags \<longrightarrow>
      snd (is_enabled (cache_get R) flag d c' (fst (set_flag (cache_set R) flag b None c st))) = Inr b)"
  using assms(1)
proof
  assume "memory_mode st"
  then show ?thesis
    using assms(2-4) by (simp add: mem_flag_laws critical_never_expires)
next
  assume r: "redis_ok R rinv rlive \<and> redis_mode st \<and> rinv (cs_world st)"
  note kv = redis_kv_store [OF conjunct1 [OF r]]
  show ?thesis
    using r assms(2-4)
    by (simp add: kv_store.flag_after_set [OF kv] kv_store.flag_after_clear [OF kv]
        critical_never_expires)
qed

theorem flag_round_trip_witness:
  "snd (is_enabled (cache_get sample_redis) MAINTENANCE_MODE False (\<lambda>n. real n + 1000000)
      (fst (set_flag (cache_set sample_redis) MAINTENANCE_MODE True None real sample_state))) = Inr True \<and>
   snd (is_enabled (cache_get sample_local) EMAIL_NOTIFICATIONS_ENABLED True (\<lambda>n. real n + 10000)
      (fst (set_flag (cache_set sample_local) EMAIL_NOTIFICATIONS_ENABLED False None real sample_fallback)))
     = Inr True"
  using flag_round_trip [of sample_state sample_redis "\<lambda>_. True" sample_live real
      "\<lambda>n. real n + 1000000" MAINTENANCE_MODE False True None]
    flag_round_trip [of sample_fallback sample_local "\<lambda>_. True" sample_live real
      "\<lambda>n. real n + 10000" EMAIL_NOTIFICATIONS_ENABLED True False None]
  by (simp add: sample_redis_ok sample_state_redis sample_fallback_memory mono_id
      critical_flags_def flag_ttl_def expiry_of_def temporary_ttl_def)

text \<open>Fail open: with caching disabled every flag reads as its default, and setting a flag
  returns normally without effect, so a kill switch cannot be turned.\<close>

theorem flag_fail_open:
  assumes "disabled_mode st"
  shows "set_flag (cache_set R) flag b p c st = (st, Inr ()) \<and>
    is_enabled (cache_get R) flag d c' st = (st, Inr d) \<and>
    is_maintenance_mode (cache_get R) c' st = (st, Inr False)"
  using assms
  by (simp add: set_flag_def is_enabled_def is_maintenance_mode_def s_bind_def s_ret_def
      cache_set_def cache_get_def cache_op_disabled)

theorem flag_fail_open_witness:
  "let st = fst (ensure_connected sample_down 0 0 (cache_init (\<lambda>_. None))) in
   is_enabled (cache_get sample_down) RATE_LIMITING_ENABLED True real
     (fst (set_flag (cache_set sample_down) RATE_LIMITING_ENABLED False (Some True) real st)) = (st, Inr True)"
proof -
  have "disabled_mode (fst (ensure_connected sample_down 0 0 (cache_init (\<lambda>_. None))))"
    by (simp add: ensure_connected_def cache_init_def should_attempt_connection_def
        s_catch_def s_bind_def on_world_cases modify_def sample_down_def sample_local_def
        sample_redis_def s_ret_def s_raise_def connection_failed_def redis_connection_errors_def
        start_fallback_def should_use_fallback_def record_connection_failure_def
        disabled_mode_def using_memory_def)
  from flag_fail_open [OF this] show ?thesis by (simp add: Let_def)
qed

end
