(* ===== verification/Idempotency.thy ===== *)
theory Idempotency
  imports CacheLaws
begin

section \<open>Idempotency\<close>

text \<open>
  \<open>IdempotencyService\<close> of \<open>core/infrastructure/idempotency/service.py\<close>: the atomic check by a
  Lua script, the fallback to two cache calls, storing and clearing, and the recovery scans.
  The hash is a parameter \<open>H\<close>, JSON the record \<open>codec\<close>, Redis the record \<open>redis_env\<close>.  A call
  takes one clock for each cache call it makes.
\<close>

datatype idem_status = NEW | DUPLICATE | IN_PROGRESS

record idem_result =
  ir_status :: idem_status
  ir_cached :: pyval

definition is_new :: "idem_result \<Rightarrow> bool" where "is_new r \<longleftrightarrow> ir_status r = NEW"
definition is_duplicate :: "idem_result \<Rightarrow> bool" where "is_duplicate r \<longleftrightarrow> ir_status r = DUPLICATE"
definition is_in_progress :: "idem_result \<Rightarrow> bool" where "is_in_progress r \<longleftrightarrow> ir_status r = IN_PROGRESS"

definition idem_res :: "idem_status \<Rightarrow> idem_result" where
  \<comment> \<open>\<open>IdempotencyResult(status=s)\<close>\<close>
  "idem_res s = \<lparr>ir_status = s, ir_cached = PNone\<rparr>"

definition idem_default_ttl :: int where "idem_default_ttl = 86400 * 7"
definition in_progress_ttl :: int where "in_progress_ttl = 300"
definition in_progress_suffix :: string where "in_progress_suffix = '':in_progress''"
definition idem_prefix :: string where "idem_prefix = ''idempotency''"

definition idem_key :: "(string \<Rightarrow> string) \<Rightarrow> string \<Rightarrow> string option \<Rightarrow> string" where
  \<comment> \<open>\<open>_build_key\<close>\<close>
  "idem_key H key ns =
     (let hashed = H key in
      if given ns then idem_prefix @ '':'' @ the ns @ '':'' @ hashed
      else idem_prefix @ '':'' @ hashed)"

definition idem_in_progress_key :: "(string \<Rightarrow> string) \<Rightarrow> string \<Rightarrow> string option \<Rightarrow> string" where
  "idem_in_progress_key H key ns = idem_key H key ns @ in_progress_suffix"

definition idem_script :: string where
  \<comment> \<open>stands for the text of \<open>IDEMPOTENCY_CHECK_LUA_SCRIPT\<close>\<close>
  "idem_script = ''IDEMPOTENCY_CHECK_LUA_SCRIPT''"

definition lua_check ::
  "'w redis_env \<Rightarrow> string \<Rightarrow> string \<Rightarrow> int \<Rightarrow> real \<Rightarrow> ('w, exn, string list option) act" where
  \<comment> \<open>what the script does, as one step of the server\<close>
  "lua_check R completed_key progress_key ttl t =
     s_bind (rd_get R completed_key t) (\<lambda>cached.
       case cached of
         Some v \<Rightarrow> s_ret (Some [''DUPLICATE'', v])
       | None \<Rightarrow>
           s_bind (rd_set_nx R progress_key ''1'' (Some ttl) t) (\<lambda>acquired.
             if acquired \<noteq> None then s_ret (Some [''NEW'', []])
             else s_ret (Some [''IN_PROGRESS'', []])))"

definition decode_error :: "(string \<Rightarrow> pyclass list) \<Rightarrow> exn \<Rightarrow> bool" where
  "decode_error ext e \<longleftrightarrow> isinst ext (exn_class e) [Lib ''orjson.JSONDecodeError'']"

definition check_non_atomic ::
  "(string \<Rightarrow> clock \<Rightarrow> ('s, exn, string option) act) \<Rightarrow>
   (string \<Rightarrow> string \<Rightarrow> int option \<Rightarrow> clock \<Rightarrow> ('s, exn, bool) act) \<Rightarrow>
   (string \<Rightarrow> pyclass list) \<Rightarrow> codec \<Rightarrow> (string \<Rightarrow> string) \<Rightarrow>
   string \<Rightarrow> string option \<Rightarrow> clock \<Rightarrow> clock \<Rightarrow> ('s, exn, idem_result) act" where
  "check_non_atomic get setnx ext J H key ns c_get c_set =
     (let acquire =
        s_bind (setnx (idem_in_progress_key H key ns) ''1'' (Some in_progress_ttl) c_set)
          (\<lambda>acquired. if acquired then s_ret (idem_res NEW) else s_ret (idem_res IN_PROGRESS))
      in s_bind (get (idem_key H key ns) c_get) (\<lambda>cached.
           case cached of
             Some s \<Rightarrow>
               (case json_loads J s of
                  Inr v \<Rightarrow> s_ret \<lparr>ir_status = DUPLICATE, ir_cached = v\<rparr>
                | Inl e \<Rightarrow> if decode_error ext e then acquire else s_raise e)
           | None \<Rightarrow> acquire))"

definition unavailable_message :: "string \<Rightarrow> string option \<Rightarrow> string" where
  "unavailable_message key ns =
     ''Cache unavailable for idempotency check (key='' @ key @ '', namespace='' @
     (case ns of None \<Rightarrow> ''None'' | Some n \<Rightarrow> n) @
     ''). Cannot proceed without idempotency protection.''"

definition idem_check ::
  "'w redis_env \<Rightarrow> codec \<Rightarrow> (string \<Rightarrow> string) \<Rightarrow> string \<Rightarrow> string option \<Rightarrow> (nat \<Rightarrow> clock) \<Rightarrow>
   ('w, idem_result) cact" where
  \<comment> \<open>clock 0 is for the script, 1 for the ping, 2 and 3 for the non-atomic check\<close>
  "idem_check R J H key ns cs =
     (let full = idem_key H key ns;
          progress = idem_in_progress_key H key ns;
          non_atomic = check_non_atomic (cache_get R) (cache_setnx R) (re_ext R) J H key ns (cs 2) (cs 3);
          no_result = (\<lambda>st.
            if using_memory st \<noteq> None then non_atomic st
            else s_bind (cache_ping R (cs 1)) (\<lambda>alive.
                   if \<not> alive then
                     s_raise (EOther (App IdempotencyCacheError) (unavailable_message key ns))
                   else non_atomic) st)
      in s_bind (execute_lua_script R idem_script [full, progress] [str_of_int in_progress_ttl] (cs 0)) (\<lambda>r.
           case r of
             None \<Rightarrow> no_result
           | Some [] \<Rightarrow> s_raise (EOther (Builtin IndexErrorC) ''list index out of range'')
           | Some (status # rest) \<Rightarrow>
               if status = ''DUPLICATE'' then
                 (if rest \<noteq> [] \<and> hd rest \<noteq> [] then
                    (case json_loads J (hd rest) of
                       Inr v \<Rightarrow> s_ret \<lparr>ir_status = DUPLICATE, ir_cached = v\<rparr>
                     | Inl e \<Rightarrow> if decode_error (re_ext R) e then no_result else s_raise e)
                  else s_ret (idem_res DUPLICATE))
               else if status = ''NEW'' then s_ret (idem_res NEW)
               else if status = ''IN_PROGRESS'' then s_ret (idem_res IN_PROGRESS)
               else no_result))"

definition store_ttl :: "int option \<Rightarrow> int" where
  \<comment> \<open>\<open>ttl or self.DEFAULT_TTL\<close>\<close>
  "store_ttl ttl = (case ttl of Some s \<Rightarrow> if s \<noteq> 0 then s else idem_default_ttl | None \<Rightarrow> idem_default_ttl)"

lemma store_ttl_nonzero [simp]: "store_ttl ttl \<noteq> 0"
  by (simp add: store_ttl_def idem_default_ttl_def split: option.splits)

definition idem_store ::
  "(string \<Rightarrow> string \<Rightarrow> int option \<Rightarrow> clock \<Rightarrow> ('s, exn, bool) act) \<Rightarrow>
   (string \<Rightarrow> clock \<Rightarrow> ('s, exn, bool) act) \<Rightarrow>
   (string \<Rightarrow> pyclass list) \<Rightarrow> codec \<Rightarrow> (string \<Rightarrow> string) \<Rightarrow>
   string \<Rightarrow> pyval \<Rightarrow> int option \<Rightarrow> string option \<Rightarrow> clock \<Rightarrow> clock \<Rightarrow> ('s, exn, unit) act" where
  \<comment> \<open>the result of \<open>set\<close> is not looked at\<close>
  "idem_store set' del ext J H key response ttl ns c_set c_del =
     (let ttl' = store_ttl ttl
      in s_bind
           (s_catch
             (s_bind (lift_res (json_dumps J response)) (\<lambda>serialized.
              s_bind (set' (idem_key H key ns) serialized (Some ttl') c_set) (\<lambda>_. s_ret ())))
             (\<lambda>e. if isinst ext (exn_class e) [Lib ''orjson.JSONEncodeError'', Builtin TypeErrorC]
                  then s_ret () else s_raise e))
           (\<lambda>_. s_bind (del (idem_in_progress_key H key ns) c_del) (\<lambda>_. s_ret ())))"

definition clear_in_progress ::
  "(string \<Rightarrow> clock \<Rightarrow> ('s, exn, bool) act) \<Rightarrow> (string \<Rightarrow> string) \<Rightarrow> string \<Rightarrow> string option \<Rightarrow> clock \<Rightarrow>
   ('s, exn, unit) act" where
  "clear_in_progress del H key ns c =
     s_bind (del (idem_in_progress_key H key ns) c) (\<lambda>_. s_ret ())"

definition idem_invalidate ::
  "(string \<Rightarrow> clock \<Rightarrow> ('s, exn, bool) act) \<Rightarrow> (string \<Rightarrow> string) \<Rightarrow> string \<Rightarrow> string option \<Rightarrow> clock \<Rightarrow> clock \<Rightarrow>
   ('s, exn, unit) act" where
  "idem_invalidate del H key ns c1 c2 =
     s_bind (del (idem_key H key ns) c1) (\<lambda>_.
     s_bind (del (idem_in_progress_key H key ns) c2) (\<lambda>_. s_ret ()))"

subsection \<open>Recovery scans\<close>

definition stuck_pattern :: "string option \<Rightarrow> string" where
  "stuck_pattern ns =
     (if given ns then idem_prefix @ '':'' @ the ns @ '':*'' @ in_progress_suffix
      else idem_prefix @ '':*'' @ in_progress_suffix)"

partial_function (option) scan_count ::
  "'w redis_env \<Rightarrow> string \<Rightarrow> real \<Rightarrow> nat \<Rightarrow> nat \<Rightarrow> 'w \<Rightarrow> ('w \<times> (exn + nat)) option" where
  "scan_count R pattern now cursor count w =
     (case rd_scan R cursor pattern 100 now w of
        (w1, Inl e) \<Rightarrow> Some (w1, Inl e)
      | (w1, Inr (cursor', ks)) \<Rightarrow>
          if cursor' = 0 then Some (w1, Inr (count + length ks))
          else scan_count R pattern now cursor' (count + length ks) w1)"

definition get_stuck_in_progress_count ::
  "'w redis_env \<Rightarrow> string option \<Rightarrow> real \<Rightarrow> 'w cache_svc \<Rightarrow> ('w cache_svc \<times> (exn + int)) option" where
  \<comment> \<open>\<open>None\<close>: the scan never ends\<close>
  "get_stuck_in_progress_count R ns now st =
     (if cs_fallback st \<or> \<not> is_redis_available st then Some (st, Inr (- 1))
      else case scan_count R (stuck_pattern ns) now 0 0 (cs_world st) of
             None \<Rightarrow> None
           | Some (w, Inl e) \<Rightarrow>
               Some (st\<lparr>cs_world := w\<rparr>, if is_exception (re_ext R) e then Inr (- 1) else Inl e)
           | Some (w, Inr n) \<Rightarrow> Some (st\<lparr>cs_world := w\<rparr>, Inr (int n)))"

fun delete_some :: "'w redis_env \<Rightarrow> real \<Rightarrow> int \<Rightarrow> string list \<Rightarrow> int \<Rightarrow> 'w \<Rightarrow> 'w \<times> exn option \<times> int" where
  \<comment> \<open>the \<open>for\<close> loop over the keys of one page: the world, the exception if one was raised, and
     the number cleaned so far\<close>
  "delete_some R now max_cleanup [] cleaned w = (w, None, cleaned)"
| "delete_some R now max_cleanup (k # ks) cleaned w =
     (if max_cleanup \<le> cleaned then (w, None, cleaned)
      else case rd_delete R [k] now w of
             (w1, Inl e) \<Rightarrow> (w1, Some e, cleaned)
           | (w1, Inr _) \<Rightarrow> delete_some R now max_cleanup ks (cleaned + 1) w1)"

partial_function (option) cleanup_loop ::
  "'w redis_env \<Rightarrow> string \<Rightarrow> real \<Rightarrow> int \<Rightarrow> nat \<Rightarrow> int \<Rightarrow> 'w \<Rightarrow> ('w \<times> exn option \<times> int) option" where
  "cleanup_loop R pattern now max_cleanup cursor cleaned w =
     (if max_cleanup \<le> cleaned then Some (w, None, cleaned)
      else case rd_scan R cursor pattern 100 now w of
        (w1, Inl e) \<Rightarrow> Some (w1, Some e, cleaned)
      | (w1, Inr (cursor', ks)) \<Rightarrow>
          (case delete_some R now max_cleanup ks cleaned w1 of
             (w2, Some e, n) \<Rightarrow> Some (w2, Some e, n)
           | (w2, None, n) \<Rightarrow>
               if cursor' = 0 then Some (w2, None, n)
               else cleanup_loop R pattern now max_cleanup cursor' n w2))"

definition cleanup_stuck_in_progress ::
  "'w redis_env \<Rightarrow> string option \<Rightarrow> int \<Rightarrow> real \<Rightarrow> 'w cache_svc \<Rightarrow> ('w cache_svc \<times> (exn + int)) option" where
  "cleanup_stuck_in_progress R ns max_cleanup now st =
     (if cs_fallback st \<or> \<not> is_redis_available st then Some (st, Inr 0)
      else case cleanup_loop R (stuck_pattern ns) now max_cleanup 0 0 (cs_world st) of
             None \<Rightarrow> None
           | Some (w, Some e, n) \<Rightarrow>
               Some (st\<lparr>cs_world := w\<rparr>, if is_exception (re_ext R) e then Inr n else Inl e)
           | Some (w, None, n) \<Rightarrow> Some (st\<lparr>cs_world := w\<rparr>, Inr n))"

subsection \<open>Keys\<close>

lemma idem_key_append: "idem_key H key ns = idem_prefix @ '':'' @ (if given ns then the ns @ '':'' else []) @ H key"
  by (simp add: idem_key_def Let_def)

lemma suffix_after_colon:
  assumes "xs @ CHR '':'' # h = ys @ CHR '':'' # h'" "CHR '':'' \<notin> set h" "CHR '':'' \<notin> set h'"
  shows "xs = ys \<and> h = h'"
proof -
  have r: "rev h @ CHR '':'' # rev xs = rev h' @ CHR '':'' # rev ys"
    using assms(1) by (metis append.assoc append_Cons append_Nil rev.simps(2) rev_append rev_rev_ident)
  have "takeWhile (\<lambda>c. c \<noteq> CHR '':'') (rev h @ CHR '':'' # rev xs) = rev h"
    "takeWhile (\<lambda>c. c \<noteq> CHR '':'') (rev h' @ CHR '':'' # rev ys) = rev h'"
    using assms(2,3) by (simp_all add: takeWhile_append2 takeWhile_tail)
      (metis (mono_tags) append_Nil2 set_rev takeWhile.simps(2) takeWhile_append2)+
  then have "h = h'" using r by simp
  then show ?thesis using assms(1) by simp
qed

lemma idem_key_inj:
  assumes "H k = H k' \<Longrightarrow> k = k'" "\<And>k. CHR '':'' \<notin> set (H k)"
  shows "idem_key H k ns = idem_key H k' ns' \<longleftrightarrow>
    k = k' \<and> (if given ns then ns else None) = (if given ns' then ns' else None)"
proof
  assume e: "idem_key H k ns = idem_key H k' ns'"
  let ?p = "\<lambda>n. (if given n then CHR '':'' # the n else []) :: string"
  have "idem_key H x n = (idem_prefix @ ?p n) @ CHR '':'' # H x" for x n
    by (simp add: idem_key_append)
  then have "(idem_prefix @ ?p ns) @ CHR '':'' # H k = (idem_prefix @ ?p ns') @ CHR '':'' # H k'"
    using e by metis
  then have "idem_prefix @ ?p ns = idem_prefix @ ?p ns' \<and> H k = H k'"
    using suffix_after_colon assms(2) by blast
  then show "k = k' \<and> (if given ns then ns else None) = (if given ns' then ns' else None)"
    using assms(1) by (cases ns; cases ns') (auto split: if_splits)
next
  assume "k = k' \<and> (if given ns then ns else None) = (if given ns' then ns' else None)"
  then show "idem_key H k ns = idem_key H k' ns'"
    by (cases ns; cases ns') (auto simp: idem_key_def split: if_splits)
qed

lemma progress_key_not_key:
  assumes "\<And>k. length (H k) = 64"  "\<And>k. CHR '':'' \<notin> set (H k)"
  shows "idem_in_progress_key H k ns \<noteq> idem_key H k' ns'"
proof
  assume "idem_in_progress_key H k ns = idem_key H k' ns'"
  then have "idem_key H k ns @ CHR '':'' # ''in_progress'' =
      (idem_prefix @ (if given ns' then CHR '':'' # the ns' else [])) @ CHR '':'' # H k'"
    by (simp add: idem_in_progress_key_def in_progress_suffix_def idem_key_append split: if_splits)
  then have "''in_progress'' = H k'" by (rule suffix_after_colon [THEN conjunct2]) (simp_all add: assms)
  then have "length ''in_progress'' = 64" using assms(1) by simp
  then show False by simp
qed

lemma progress_key_inj:
  "idem_in_progress_key H k ns = idem_in_progress_key H k' ns' \<longleftrightarrow> idem_key H k ns = idem_key H k' ns'"
  by (simp add: idem_in_progress_key_def)

subsection \<open>The contract of the check\<close>

definition call_span :: "(nat \<Rightarrow> clock) \<Rightarrow> real \<Rightarrow> real \<Rightarrow> bool" where
  \<comment> \<open>the clocks of the cache calls of one operation, which runs from \<open>a\<close> to \<open>b\<close>\<close>
  "call_span cs a b \<longleftrightarrow>
     (\<forall>i. mono (cs i)) \<and> (\<forall>i j m n. i < j \<longrightarrow> cs i m \<le> cs j n) \<and> (\<forall>i n. a \<le> cs i n \<and> cs i n \<le> b)"

fun spans :: "real \<Rightarrow> ((nat \<Rightarrow> clock) \<times> real \<times> real) list \<Rightarrow> bool" where
  \<comment> \<open>operations one after the other\<close>
  "spans t [] = True"
| "spans t ((cs, a, b) # rest) = (t \<le> a \<and> a \<le> b \<and> call_span cs a b \<and> spans b rest)"

lemma call_spanD:
  assumes "call_span cs a b"
  shows "mono (cs i)" "a \<le> cs i n" "cs i n \<le> b" "i < j \<Longrightarrow> cs i m \<le> cs j n"
  using assms by (auto simp: call_span_def)

lemma call_span_23: "call_span cs a b \<Longrightarrow> cs 2 m \<le> cs 3 n"
  by (simp add: call_span_def)

lemma call_span_const: "a \<le> x \<Longrightarrow> x \<le> b \<Longrightarrow> call_span (\<lambda>_ _. x) a b"
  by (simp add: call_span_def mono_def)

text \<open>
  What a caller may rely on, for one key: \<open>full\<close> holds the stored response and \<open>prog\<close> the
  lock.  The check answers \<open>DUPLICATE\<close> with a stored response, takes the lock when it is free
  and answers \<open>IN_PROGRESS\<close> when it is held.
\<close>

locale idempotent = kv_store kget kset ksetnx kdel kinv klive
  for kget :: "string \<Rightarrow> clock \<Rightarrow> ('s, exn, string option) act"
    and kset :: "string \<Rightarrow> string \<Rightarrow> int option \<Rightarrow> clock \<Rightarrow> ('s, exn, bool) act"
    and ksetnx :: "string \<Rightarrow> string \<Rightarrow> int option \<Rightarrow> clock \<Rightarrow> ('s, exn, bool) act"
    and kdel :: "string \<Rightarrow> clock \<Rightarrow> ('s, exn, bool) act"
    and kinv :: "'s \<Rightarrow> bool"
    and klive :: "'s \<Rightarrow> real \<Rightarrow> string \<Rightarrow> string option" +
  fixes chk :: "(nat \<Rightarrow> clock) \<Rightarrow> ('s, exn, idem_result) act"
    and full prog :: string
    and dec :: "string \<Rightarrow> pyval option"
  assumes keys: "prog \<noteq> full"
    and check_dup: "kinv s \<Longrightarrow> call_span cs a b \<Longrightarrow>
      (\<And>t. a \<le> t \<Longrightarrow> t \<le> b \<Longrightarrow> klive s t full = Some v) \<Longrightarrow> dec v = Some x \<Longrightarrow>
      \<exists>s'. chk cs s = (s', Inr \<lparr>ir_status = DUPLICATE, ir_cached = x\<rparr>) \<and> kinv s' \<and>
        (\<forall>t \<ge> b. klive s' t = klive s t)"
    and check_new: "kinv s \<Longrightarrow> call_span cs a b \<Longrightarrow>
      (\<And>t. a \<le> t \<Longrightarrow> t \<le> b \<Longrightarrow> klive s t full = None \<and> klive s t prog = None) \<Longrightarrow>
      \<exists>s' u. chk cs s = (s', Inr (idem_res NEW)) \<and> kinv s' \<and> a \<le> u \<and> u \<le> b \<and>
        (\<forall>t \<ge> b. klive s' t prog = timed (Some in_progress_ttl) u ''1'' t \<and>
           (\<forall>j. j \<noteq> prog \<longrightarrow> klive s' t j \<in> {klive s t j, None}))"
    and check_busy: "kinv s \<Longrightarrow> call_span cs a b \<Longrightarrow>
      (\<And>t. a \<le> t \<Longrightarrow> t \<le> b \<Longrightarrow> klive s t full = None \<and> klive s t prog \<noteq> None) \<Longrightarrow>
      \<exists>s'. chk cs s = (s', Inr (idem_res IN_PROGRESS)) \<and> kinv s' \<and> (\<forall>t \<ge> b. klive s' t = klive s t)"
begin

lemma busy_run:
  assumes "kinv s" "spans t0 calls" "list_all (\<lambda>(cs, a, b). b \<le> deadline) calls"
    and "\<And>t. t0 \<le> t \<Longrightarrow> klive s t full = None"
    and "\<And>t. t0 \<le> t \<Longrightarrow> t \<le> deadline \<Longrightarrow> klive s t prog \<noteq> None"
  shows "snd (s_for (\<lambda>call. chk (fst call)) calls s) = Inr (replicate (length calls) (idem_res IN_PROGRESS))"
  using assms
proof (induction calls arbitrary: s t0)
  case Nil
  then show ?case by (simp add: s_ret_def)
next
  case (Cons call calls)
  obtain cs a b where call: "call = (cs, a, b)" by (cases call)
  then have sp: "t0 \<le> a" "a \<le> b" "call_span cs a b" "spans b calls" "b \<le> deadline"
    using Cons.prems(2,3) by auto
  obtain s' where s': "chk cs s = (s', Inr (idem_res IN_PROGRESS))" "kinv s'"
    "\<forall>t \<ge> b. klive s' t = klive s t"
  proof -
    have "klive s t full = None \<and> klive s t prog \<noteq> None" if "a \<le> t" "t \<le> b" for t
      using Cons.prems(4,5) [of t] sp(1,5) that by simp
    then show ?thesis using check_busy [OF Cons.prems(1) sp(3)] that by blast
  qed
  have "snd (s_for (\<lambda>call. chk (fst call)) calls s') = Inr (replicate (length calls) (idem_res IN_PROGRESS))"
    using Cons.prems sp s' by (intro Cons.IH [of _ b]) auto
  then show ?case
    using s_for_Cons_ok [where f = "\<lambda>call. chk (fst call)" and x = call and s = s] s'(1) call by simp
qed

lemma one_new:
  assumes "kinv s" "spans t0 ((cs, a, b) # calls)" "list_all (\<lambda>(cs, a, b). b \<le> t0 + 300) calls"
    and "\<And>t. t0 \<le> t \<Longrightarrow> klive s t full = None" "\<And>t. t0 \<le> t \<Longrightarrow> klive s t prog = None"
  shows "snd (s_for (\<lambda>call. chk (fst call)) ((cs, a, b) # calls) s) =
    Inr (idem_res NEW # replicate (length calls) (idem_res IN_PROGRESS))"
proof -
  have sp: "t0 \<le> a" "a \<le> b" "call_span cs a b" "spans b calls" using assms(2) by auto
  obtain s' u where s': "chk cs s = (s', Inr (idem_res NEW))" "kinv s'" "a \<le> u"
    "\<forall>t \<ge> b. klive s' t prog = timed (Some in_progress_ttl) u ''1'' t \<and>
       (\<forall>j. j \<noteq> prog \<longrightarrow> klive s' t j \<in> {klive s t j, None})"
  proof -
    have "klive s t full = None \<and> klive s t prog = None" if "a \<le> t" for t
      using assms(4,5) [of t] sp(1) that by simp
    then show ?thesis using check_new [OF assms(1) sp(3)] that by blast
  qed
  have "snd (s_for (\<lambda>call. chk (fst call)) calls s') = Inr (replicate (length calls) (idem_res IN_PROGRESS))"
  proof (rule busy_run [OF s'(2) sp(4) assms(3)])
    fix t
    assume t: "b \<le> t"
    then show "klive s' t full = None"
      using s'(4) keys assms(4) [of t] sp(1,2) by force
    show "klive s' t prog \<noteq> None" if "t \<le> t0 + 300"
      using s'(3,4) t sp(1) that by (simp add: timed_def expiry_of_def in_progress_ttl_def)
  qed
  then show ?thesis
    using s_for_Cons_ok [where f = "\<lambda>call. chk (fst call)" and x = "(cs, a, b)" and s = s] s'(1) by simp
qed

lemma store_effect:
  assumes "kinv s" "call_span cs0 a0 b0" "json_dumps J r = Inr v"
    and "full = idem_key H key ns" "prog = idem_in_progress_key H key ns"
  obtains s' where "idem_store kset kdel ext J H key r ttl ns (cs0 0) (cs0 1) s = (s', Inr ())" "kinv s'"
    "\<And>t. b0 \<le> t \<Longrightarrow> t \<le> a0 + real_of_int (store_ttl ttl) \<Longrightarrow> klive s' t full = Some v"
    "\<And>t. b0 \<le> t \<Longrightarrow> klive s' t prog = None"
proof -
  define ttl' where "ttl' = store_ttl ttl"
  note sp = call_spanD [OF assms(2)]
  obtain s1 where s1: "kset full v (Some ttl') (cs0 0) s = (s1, Inr True)" "kinv s1"
    "\<And>t. cs0 0 3 \<le> t \<Longrightarrow> klive s1 t full = (if is_expired (expiry_of (Some ttl') (cs0 0 3)) t then None else Some v)"
    using set_law [OF assms(1) sp(1), of full v "Some ttl'" 0] by blast
  obtain s2 x where s2: "kdel prog (cs0 1) s1 = (s2, Inr x)" "kinv s2"
    "\<And>t. cs0 1 3 \<le> t \<Longrightarrow> klive s2 t = (klive s1 t)(prog := None)"
    using del_law [OF s1(2) sp(1), of prog 1] by blast
  have run: "idem_store kset kdel ext J H key r ttl ns (cs0 0) (cs0 1) s = (s2, Inr ())"
    using s1(1) s2(1) unfolding assms(4,5)
    by (simp add: idem_store_def ttl'_def s_bind_def s_catch_def s_ret_def lift_res_def assms(3))
  have le: "cs0 0 3 \<le> t" "cs0 1 3 \<le> t" if "b0 \<le> t" for t
    using sp(3) [of 0 3] sp(3) [of 1 3] that by simp_all
  have z: "ttl' \<noteq> 0" by (simp add: ttl'_def)
  show ?thesis
  proof (rule that [OF run s2(2), folded ttl'_def])
    show "klive s2 t full = Some v" if "b0 \<le> t" "t \<le> a0 + real_of_int ttl'" for t
    proof -
      have "t \<le> cs0 0 3 + real_of_int ttl'" using sp(2) [of 0 3] that(2) by linarith
      then have "\<not> is_expired (expiry_of (Some ttl') (cs0 0 3)) t" using z by (simp add: expiry_of_def)
      then show ?thesis using le [OF that(1)] s1(3) s2(3) keys by simp
    qed
    show "klive s2 t prog = None" if "b0 \<le> t" for t
      using le [OF that] s2(3) by simp
  qed
qed

lemma dup_after_store:
  assumes "kinv s" "call_span cs0 a0 b0" "json_dumps J r = Inr v" "dec v = Some r"
    and "full = idem_key H key ns" "prog = idem_in_progress_key H key ns"
    and "call_span cs a b" "b0 \<le> a"
    and "b \<le> a0 + real_of_int (store_ttl ttl)"
  shows "snd (chk cs (fst (idem_store kset kdel ext J H key r ttl ns (cs0 0) (cs0 1) s))) =
    Inr \<lparr>ir_status = DUPLICATE, ir_cached = r\<rparr>"
proof -
  obtain s' where s': "idem_store kset kdel ext J H key r ttl ns (cs0 0) (cs0 1) s = (s', Inr ())" "kinv s'"
    "\<And>t. b0 \<le> t \<Longrightarrow> t \<le> a0 + real_of_int (store_ttl ttl) \<Longrightarrow> klive s' t full = Some v"
    by (rule store_effect [OF assms(1,2,3,5,6)]) blast
  have "klive s' t full = Some v" if "a \<le> t" "t \<le> b" for t
    using s'(3) [of t] that assms(8,9) by linarith
  then obtain s2 where "chk cs s' = (s2, Inr \<lparr>ir_status = DUPLICATE, ir_cached = r\<rparr>)"
    using check_dup [OF s'(2) assms(7) _ assms(4)] by blast
  then show ?thesis using s'(1) by simp
qed

lemma new_after_clear:
  assumes "kinv s" "mono c" "c 3 \<le> a" "prog = idem_in_progress_key H key ns"
    and "call_span cs a b" "\<And>t. a \<le> t \<Longrightarrow> klive s t full = None"
  shows "snd (chk cs (fst (clear_in_progress kdel H key ns c s))) = Inr (idem_res NEW)"
proof -
  obtain s' x where s': "kdel prog c s = (s', Inr x)" "kinv s'"
    "\<And>t. c 3 \<le> t \<Longrightarrow> klive s' t = (klive s t)(prog := None)"
    using del_law [OF assms(1,2)] by blast
  have "klive s' t full = None \<and> klive s' t prog = None" if "a \<le> t" "t \<le> b" for t
    using s'(3) [of t] assms(3) assms(6) [of t] that keys by simp
  then obtain s2 where "chk cs s' = (s2, Inr (idem_res NEW))"
    using check_new [OF s'(2) assms(5)] by blast
  moreover have "fst (clear_in_progress kdel H key ns c s) = s'"
    using s'(1) assms(4) by (simp add: clear_in_progress_def s_bind_def s_ret_def)
  ultimately show ?thesis by simp
qed

end

subsection \<open>The check meets the contract\<close>

definition decoded :: "codec \<Rightarrow> string \<Rightarrow> pyval option" where
  "decoded J v = (if v = [] then None else case json_loads J v of Inr x \<Rightarrow> Some x | Inl _ \<Rightarrow> None)"

lemma decoded_Some: "decoded J v = Some x \<longleftrightarrow> v \<noteq> [] \<and> json_loads J v = Inr x"
  by (auto simp: decoded_def split: sum.splits)

lemma progress_key_neq: "idem_in_progress_key H key ns \<noteq> idem_key H key ns"
  by (simp add: idem_in_progress_key_def in_progress_suffix_def)

text \<open>The non-atomic check, over any store.\<close>

lemma non_atomic_idempotent:
  assumes kv: "kv_store get set' setnx del inv' live"
  shows "idempotent get set' setnx del inv' live
    (\<lambda>cs. check_non_atomic get setnx ext J H key ns (cs 2) (cs 3))
    (idem_key H key ns) (idem_in_progress_key H key ns) (decoded J)"
proof -
  let ?f = "idem_key H key ns" and ?p = "idem_in_progress_key H key ns"
  have get: "\<exists>s'. get k (cs 2) s = (s', Inr (live s (cs 2 2) k)) \<and> inv' s' \<and>
      (\<forall>t \<ge> cs 2 3. live s' t = live s t)" if "inv' s" "call_span cs a b" for s cs a b k
    using kv_store.get_law [OF kv that(1)] call_spanD(1) [OF that(2)] by blast
  show ?thesis
  proof (intro idempotent.intro kv idempotent_axioms.intro progress_key_neq)
    fix s cs a b v x
    assume s: "inv' s" and sp: "call_span cs a b" and l: "\<And>t. a \<le> t \<Longrightarrow> t \<le> b \<Longrightarrow> live s t ?f = Some v"
      and d: "decoded J v = Some x"
    obtain s' where s': "get ?f (cs 2) s = (s', Inr (Some v))" "inv' s'" "\<forall>t \<ge> cs 2 3. live s' t = live s t"
      using get [OF s sp, of ?f] l [of "cs 2 2"] call_spanD(2,3) [OF sp, of _ 2] by auto
    then show "\<exists>s'. check_non_atomic get setnx ext J H key ns (cs 2) (cs 3) s =
          (s', Inr \<lparr>ir_status = DUPLICATE, ir_cached = x\<rparr>) \<and> inv' s' \<and> (\<forall>t \<ge> b. live s' t = live s t)"
      using d call_spanD(3) [OF sp, of 2 3]
      by (intro exI [of _ s']) (auto simp: check_non_atomic_def Let_def s_bind_def s_ret_def decoded_Some)
  next
    fix s cs a b
    assume s: "inv' s" and sp: "call_span cs a b"
      and l: "\<And>t. a \<le> t \<Longrightarrow> t \<le> b \<Longrightarrow> live s t ?f = None \<and> live s t ?p = None"
    obtain s1 where s1: "get ?f (cs 2) s = (s1, Inr None)" "inv' s1" "\<forall>t \<ge> cs 2 3. live s1 t = live s t"
      using get [OF s sp, of ?f] l [of "cs 2 2"] call_spanD(2,3) [OF sp, of _ 2] by auto
    have n: "live s1 (cs 3 2) ?p = None"
      using s1(3) l [of "cs 3 2"] call_spanD(2,3) [OF sp, of 3] call_span_23 [OF sp] by simp
    obtain s2 u where s2: "setnx ?p ''1'' (Some in_progress_ttl) (cs 3) s1 = (s2, Inr True)" "inv' s2"
      "cs 3 2 \<le> u" "u \<le> cs 3 3"
      "\<forall>t \<ge> cs 3 3. live s2 t ?p = (if is_expired (expiry_of (Some in_progress_ttl) u) t then None else Some ''1'') \<and>
         (\<forall>j. j \<noteq> ?p \<longrightarrow> live s2 t j \<in> {live s1 t j, None})"
      using kv_store.setnx_law [OF kv s1(2) call_spanD(1) [OF sp, of 3], of ?p "''1''" "Some in_progress_ttl"] n
      by auto
    have "check_non_atomic get setnx ext J H key ns (cs 2) (cs 3) s = (s2, Inr (idem_res NEW))"
      using s1(1) s2(1) by (simp add: check_non_atomic_def Let_def s_bind_def s_ret_def)
    moreover have "a \<le> u" "u \<le> b"
      using s2(3,4) call_spanD(2) [OF sp, of 3 2] call_spanD(3) [OF sp, of 3 3] by linarith+
    moreover have "live s2 t ?p = timed (Some in_progress_ttl) u ''1'' t \<and>
        (\<forall>j. j \<noteq> ?p \<longrightarrow> live s2 t j \<in> {live s t j, None})" if "b \<le> t" for t
    proof -
      have "cs 3 3 \<le> t" "cs 2 3 \<le> t"
        using that call_spanD(3) [OF sp, of 3 3] call_spanD(3) [OF sp, of 2 3] by linarith+
      then have "live s1 t = live s t" using s1(3) by simp
      moreover note spec [OF s2(5), of t]
      ultimately show ?thesis using \<open>cs 3 3 \<le> t\<close> by (simp add: timed_def)
    qed
    ultimately show "\<exists>s' u. check_non_atomic get setnx ext J H key ns (cs 2) (cs 3) s = (s', Inr (idem_res NEW)) \<and>
        inv' s' \<and> a \<le> u \<and> u \<le> b \<and>
        (\<forall>t \<ge> b. live s' t ?p = timed (Some in_progress_ttl) u ''1'' t \<and>
           (\<forall>j. j \<noteq> ?p \<longrightarrow> live s' t j \<in> {live s t j, None}))"
      using s2(2) by blast
  next
    fix s cs a b
    assume s: "inv' s" and sp: "call_span cs a b"
      and l: "\<And>t. a \<le> t \<Longrightarrow> t \<le> b \<Longrightarrow> live s t ?f = None \<and> live s t ?p \<noteq> None"
    obtain s1 where s1: "get ?f (cs 2) s = (s1, Inr None)" "inv' s1" "\<forall>t \<ge> cs 2 3. live s1 t = live s t"
      using get [OF s sp, of ?f] l [of "cs 2 2"] call_spanD(2,3) [OF sp, of _ 2] by auto
    have n: "live s1 (cs 3 2) ?p \<noteq> None"
      using s1(3) l [of "cs 3 2"] call_spanD(2,3) [OF sp, of 3] call_span_23 [OF sp] by simp
    obtain s2 where s2: "setnx ?p ''1'' (Some in_progress_ttl) (cs 3) s1 = (s2, Inr False)" "inv' s2"
      "\<forall>t \<ge> cs 3 3. live s2 t = live s1 t"
      using kv_store.setnx_law [OF kv s1(2) call_spanD(1) [OF sp, of 3], of ?p "''1''" "Some in_progress_ttl"] n
      by auto
    show "\<exists>s'. check_non_atomic get setnx ext J H key ns (cs 2) (cs 3) s = (s', Inr (idem_res IN_PROGRESS)) \<and>
        inv' s' \<and> (\<forall>t \<ge> b. live s' t = live s t)"
    proof (intro exI conjI allI impI)
      show "check_non_atomic get setnx ext J H key ns (cs 2) (cs 3) s = (s2, Inr (idem_res IN_PROGRESS))"
        using s1(1) s2(1) by (simp add: check_non_atomic_def Let_def s_bind_def s_ret_def)
      show "live s2 t = live s t" if "b \<le> t" for t
      proof -
        have "cs 3 3 \<le> t" "cs 2 3 \<le> t"
          using that call_spanD(3) [OF sp, of 3 3] call_spanD(3) [OF sp, of 2 3] by linarith+
        then show ?thesis using s2(3) s1(3) by simp
      qed
    qed (rule s2(2))
  qed
qed

text \<open>In fallback mode the script is not run and the check is the non-atomic one.\<close>

lemma idem_check_memory:
  "memory_mode st \<Longrightarrow>
     idem_check R J H key ns cs st =
       check_non_atomic (cache_get R) (cache_setnx R) (re_ext R) J H key ns (cs 2) (cs 3) st"
  by (auto simp: idem_check_def Let_def execute_lua_script_def s_bind_def memory_mode_defs)

lemma idempotent_cong:
  assumes "idempotent get set' setnx del inv' live chk f p d" "\<And>cs s. inv' s \<Longrightarrow> chk' cs s = chk cs s"
  shows "idempotent get set' setnx del inv' live chk' f p d"
proof (intro idempotent.intro idempotent.axioms(1) [OF assms(1)] idempotent_axioms.intro
    idempotent.keys [OF assms(1)])
qed (use assms(2) idempotent.check_dup [OF assms(1)] idempotent.check_new [OF assms(1)]
    idempotent.check_busy [OF assms(1)] in auto)

interpretation idem_mem: idempotent "cache_get R" "cache_set R" "cache_setnx R" "cache_delete R"
  memory_mode memory_live "idem_check R J H key ns" "idem_key H key ns"
  "idem_in_progress_key H key ns" "decoded J" for R J H key ns
  by (rule idempotent_cong [OF non_atomic_idempotent [OF mem.kv_store_axioms, of _ "re_ext R" J H key ns]])
    (rule idem_check_memory)

text \<open>In Redis mode, over a server that runs the script as one step.\<close>

definition lua_ok :: "'w redis_env \<Rightarrow> bool" where
  "lua_ok R \<longleftrightarrow> (\<forall>a b n t w. 0 < n \<longrightarrow>
     rd_eval R idem_script [a, b] [str_of_int n] t w = lua_check R a b n t w)"

definition redis_state :: "('w \<Rightarrow> bool) \<Rightarrow> 'w cache_svc \<Rightarrow> bool" where
  "redis_state rinv st \<longleftrightarrow> redis_mode st \<and> rinv (cs_world st)"

definition script_outcome ::
  "string \<Rightarrow> string \<Rightarrow> int \<Rightarrow> real \<Rightarrow> (real \<Rightarrow> string \<Rightarrow> string option) \<Rightarrow>
   (real \<Rightarrow> string \<Rightarrow> string option) \<Rightarrow> string list \<Rightarrow> bool" where
  \<comment> \<open>the reply of the script at \<open>t\<close> and the data before and after it\<close>
  "script_outcome f p n t old new r \<longleftrightarrow>
     (case old t f of
        Some v \<Rightarrow> r = [''DUPLICATE'', v] \<and> (\<forall>u \<ge> t. new u = old u)
      | None \<Rightarrow>
          if old t p = None
          then r = [''NEW'', []] \<and> (\<forall>u \<ge> t. new u = (old u)(p := timed (Some n) t ''1'' u))
          else r = [''IN_PROGRESS'', []] \<and> (\<forall>u \<ge> t. new u = old u))"

lemma lua_check_ok:
  assumes R: "redis_ok R rinv rlive" and w: "rinv w"
  shows "\<exists>w' r. lua_check R f p n t w = (w', Inr (Some r)) \<and> rinv w' \<and>
    script_outcome f p n t (rlive w) (rlive w') r"
proof -
  obtain w1 where w1: "rd_get R f t w = (w1, Inr (rlive w t f))" "rinv w1" "\<forall>u \<ge> t. rlive w1 u = rlive w u"
    using redis_ok_get [OF R w, of f t] by (auto simp: runs_ok_def)
  obtain w2 x where w2: "rd_set_nx R p ''1'' (Some n) t w1 = (w2, Inr x)" "(x \<noteq> None) = (rlive w1 t p = None)"
    "rinv w2" "\<forall>u \<ge> t. rlive w2 u =
        (if rlive w1 t p = None then (rlive w1 u)(p := timed (Some n) t ''1'' u) else rlive w1 u)"
    using redis_ok_set_nx [OF R w1(2), of p "''1''" "Some n" t] unfolding runs_ok_def by (elim exE conjE) (rule that)
  show ?thesis
    using w1 w2
    by (cases "rlive w t f") (auto simp: lua_check_def s_bind_def s_ret_def script_outcome_def)
qed

text \<open>The reply of the script, as \<open>check\<close> gets it.\<close>

lemma redis_script:
  assumes R: "redis_ok R rinv rlive" and L: "lua_ok R" and st: "redis_state rinv st"
  obtains st' r where
    "execute_lua_script R idem_script [f, p] [str_of_int in_progress_ttl] c st = (st', Inr (Some r))"
    "redis_state rinv st'"
    "script_outcome f p in_progress_ttl (c 2) (rlive (cs_world st)) (rlive (cs_world st')) r"
proof -
  have m: "redis_mode st" "cs_init st" "\<not> cs_fallback st" "cs_client st" "rinv (cs_world st)"
    using st by (auto simp: redis_state_def redis_mode_def)
  obtain w1 where w1: "cb_enter R (cs_world st) = (w1, Inr ())" "rinv w1" "rlive w1 = rlive (cs_world st)"
    using redis_ok_enter [OF R m(5)] by blast
  obtain w2 r where w2: "lua_check R f p in_progress_ttl (c 2) w1 = (w2, Inr (Some r))" "rinv w2"
    "script_outcome f p in_progress_ttl (c 2) (rlive w1) (rlive w2) r"
    using lua_check_ok [OF R w1(2), of f p in_progress_ttl "c 2"] by blast
  have "rd_eval R idem_script [f, p] [str_of_int in_progress_ttl] (c 2) w1 = (w2, Inr (Some r))"
    using L w2(1) by (simp add: lua_ok_def in_progress_ttl_def)
  then have "execute_lua_script R idem_script [f, p] [str_of_int in_progress_ttl] c st =
      (st\<lparr>cs_world := cb_exit R None w2\<rparr>, Inr (Some r))"
    using m w1(1) by (simp add: execute_lua_script_def s_bind_def is_redis_available_def execute_redis
        s_catch_def on_world_def protected_def)
  moreover have "rlive (cb_exit R None w2) = rlive w2" "rinv (cb_exit R None w2)"
    using redis_ok_exit [OF R w2(2)] by auto
  ultimately show ?thesis
    using w2(3) w1(3) m(1) by (intro that [of "st\<lparr>cs_world := cb_exit R None w2\<rparr>" r])
      (simp_all add: redis_state_def redis_mode_def)
qed

lemma redis_idempotent:
  assumes R: "redis_ok R rinv rlive" and L: "lua_ok R"
  shows "idempotent (cache_get R) (cache_set R) (cache_setnx R) (cache_delete R) (redis_state rinv)
    (\<lambda>st. rlive (cs_world st)) (idem_check R J H key ns) (idem_key H key ns)
    (idem_in_progress_key H key ns) (decoded J)"
proof (intro idempotent.intro idempotent_axioms.intro progress_key_neq)
  let ?f = "idem_key H key ns" and ?p = "idem_in_progress_key H key ns"
  show "kv_store (cache_get R) (cache_set R) (cache_setnx R) (cache_delete R) (redis_state rinv)
      (\<lambda>st. rlive (cs_world st))"
    using redis_kv_store [OF R] by (simp add: redis_state_def [abs_def])
  fix st :: "'a cache_svc" and cs a b
  assume st: "redis_state rinv st" and sp: "call_span cs a b"
  let ?L = "rlive (cs_world st)" and ?c = "cs 0 2"
  have c: "a \<le> ?c" "?c \<le> b" using call_spanD(2,3) [OF sp] by auto
  obtain st' r where e: "execute_lua_script R idem_script [?f, ?p] [str_of_int in_progress_ttl] (cs 0) st
      = (st', Inr (Some r))" "redis_state rinv st'"
    and r: "script_outcome ?f ?p in_progress_ttl ?c ?L (rlive (cs_world st')) r"
    by (rule redis_script [OF R L st])
  note run = idem_check_def Let_def s_bind_def s_ret_def e(1) script_outcome_def
  show "\<exists>s'. idem_check R J H key ns cs st = (s', Inr \<lparr>ir_status = DUPLICATE, ir_cached = x\<rparr>) \<and>
      redis_state rinv s' \<and> (\<forall>t \<ge> b. rlive (cs_world s') t = ?L t)"
    if "\<And>t. a \<le> t \<Longrightarrow> t \<le> b \<Longrightarrow> ?L t ?f = Some v" "decoded J v = Some x" for v x
    using that(1) [OF c] that(2) r e(2) c(2)
    by (intro exI [of _ st']) (auto simp: run decoded_Some)
  show "\<exists>s' u. idem_check R J H key ns cs st = (s', Inr (idem_res NEW)) \<and> redis_state rinv s' \<and>
      a \<le> u \<and> u \<le> b \<and>
      (\<forall>t \<ge> b. rlive (cs_world s') t ?p = timed (Some in_progress_ttl) u ''1'' t \<and>
         (\<forall>j. j \<noteq> ?p \<longrightarrow> rlive (cs_world s') t j \<in> {?L t j, None}))"
    if "\<And>t. a \<le> t \<Longrightarrow> t \<le> b \<Longrightarrow> ?L t ?f = None \<and> ?L t ?p = None"
    using that [OF c] r e(2) c by (intro exI [of _ st'] exI [of _ ?c]) (auto simp: run)
  show "\<exists>s'. idem_check R J H key ns cs st = (s', Inr (idem_res IN_PROGRESS)) \<and> redis_state rinv s' \<and>
      (\<forall>t \<ge> b. rlive (cs_world s') t = ?L t)"
    if "\<And>t. a \<le> t \<Longrightarrow> t \<le> b \<Longrightarrow> ?L t ?f = None \<and> ?L t ?p \<noteq> None"
    using that [OF c] r e(2) c by (intro exI [of _ st']) (auto simp: run)
qed

subsection \<open>Sample instances\<close>

lemma sample_lua_ok: "lua_ok sample_redis"
proof -
  have "nat_of_string (str_of_int n) = nat n" if "0 < n" for n
    using that by (simp add: nat_of_string_def str_of_int_def nat_digits_value)
  then show ?thesis
    by (auto simp: lua_ok_def lua_check_def sample_redis_def s_bind_def s_ret_def expiry_of_def
        split: option.splits)
qed

definition sample_hash :: "string \<Rightarrow> string" where
  "sample_hash k = k"

definition sample_codec :: codec where
  \<comment> \<open>a codec for strings, which keeps the quotes out\<close>
  "sample_codec = \<lparr>json_loads = (\<lambda>s. Inr (PStr (tl s))),
     json_dumps = (\<lambda>v. case v of PStr s \<Rightarrow> Inr (CHR ''s'' # s)
        | _ \<Rightarrow> Inl (EOther (Lib ''orjson.JSONEncodeError'') [])),
     from_iso = (\<lambda>s. Inr (PStr s))\<rparr>"

lemma sample_state_world: "cs_world sample_state = (\<lambda>_. None)"
  by (simp add: sample_state_def ensure_connected_def cache_init_def should_attempt_connection_def
      s_catch_def s_bind_def on_world_cases modify_def sample_redis_def s_ret_def)

lemma sample_state_live: "redis_state (\<lambda>_. True) sample_state" "sample_live (cs_world sample_state) t k = None"
  by (simp_all add: redis_state_def sample_state_redis sample_state_world sample_live_def)

subsection \<open>Properties\<close>

text \<open>C1. At most one processor: of any number of checks of a key that was neither stored nor
  locked, made one after the other within five minutes, the first answers \<open>NEW\<close> and all others
  \<open>IN_PROGRESS\<close>; in Redis mode, where the script makes each check one step of the server, and in
  fallback mode.\<close>

theorem idem_at_most_one_new:
  assumes "memory_mode st \<and> live = memory_live st \<or>
      redis_ok R rinv rlive \<and> lua_ok R \<and> redis_state rinv st \<and> live = rlive (cs_world st)"
    and "spans t0 ((cs, a, b) # calls)" "list_all (\<lambda>(cs, a, b). b \<le> t0 + 300) calls"
    and "\<forall>t \<ge> t0. live t (idem_key H key ns) = None \<and> live t (idem_in_progress_key H key ns) = None"
  shows "snd (s_for (\<lambda>call. idem_check R J H key ns (fst call)) ((cs, a, b) # calls) st) =
    Inr (idem_res NEW # replicate (length calls) (idem_res IN_PROGRESS))"
  using assms(1)
proof
  assume "memory_mode st \<and> live = memory_live st"
  then show ?thesis using assms(2-4) by (intro idem_mem.one_new) auto
next
  assume r: "redis_ok R rinv rlive \<and> lua_ok R \<and> redis_state rinv st \<and> live = rlive (cs_world st)"
  then show ?thesis
    using assms(2-4) by (intro idempotent.one_new [OF redis_idempotent [of R rinv rlive]]) auto
qed

theorem idem_at_most_one_new_witness:
  "snd (s_for (\<lambda>call. idem_check sample_redis sample_codec sample_hash ''evt_1'' (Some ''paddle'') (fst call))
      [(\<lambda>_ _. 1, 1, 1), (\<lambda>_ _. 2, 2, 2), (\<lambda>_ _. 3, 3, 3)] sample_state) =
    Inr [idem_res NEW, idem_res IN_PROGRESS, idem_res IN_PROGRESS]"
  using idem_at_most_one_new [of sample_state "sample_live (cs_world sample_state)" sample_redis
      "\<lambda>_. True" sample_live 1 "\<lambda>_ _. 1" 1 1 "[(\<lambda>_ _. 2, 2, 2), (\<lambda>_ _. 3, 3, 3)]" sample_hash
      "''evt_1''" "Some ''paddle''" sample_codec]
  by (simp add: sample_redis_ok sample_lua_ok sample_state_live call_span_const numeral_2_eq_2)

text \<open>C2. Life cycle: after \<open>store\<close> a check answers \<open>DUPLICATE\<close> with the stored response until
  its TTL (seven days unless given), and after \<open>clear_in_progress\<close> without a stored response the
  next check answers \<open>NEW\<close>; for a response that JSON decodes back.\<close>

theorem idem_life_cycle:
  assumes "memory_mode st \<and> live = memory_live st \<or>
      redis_ok R rinv rlive \<and> lua_ok R \<and> redis_state rinv st \<and> live = rlive (cs_world st)"
    and "call_span cs0 a0 b0" "call_span cs a b" "b0 \<le> a" "b \<le> a0 + real_of_int (store_ttl ttl)"
    and "json_dumps J r = Inr v" "v \<noteq> []" "json_loads J v = Inr r"
  shows "snd (idem_check R J H key ns cs
      (fst (idem_store (cache_set R) (cache_delete R) ext J H key r ttl ns (cs0 0) (cs0 1) st))) =
      Inr \<lparr>ir_status = DUPLICATE, ir_cached = r\<rparr> \<and>
    ((\<forall>t \<ge> a. live t (idem_key H key ns) = None) \<longrightarrow>
      snd (idem_check R J H key ns cs (fst (clear_in_progress (cache_delete R) H key ns (cs0 0) st))) =
        Inr (idem_res NEW))"
proof -
  have d: "decoded J v = Some r" using assms(7,8) by (simp add: decoded_Some)
  have c: "mono (cs0 0)" "cs0 0 3 \<le> a"
    using call_spanD(1,3) [OF assms(2)] assms(4) by (auto intro: order_trans)
  note A = assms(2) assms(6) d refl refl assms(3,4,5)
  show ?thesis
    using assms(1)
  proof
    assume m: "memory_mode st \<and> live = memory_live st"
    then show ?thesis
      using idem_mem.dup_after_store [OF conjunct1 [OF m] A]
        idem_mem.new_after_clear [OF conjunct1 [OF m] c refl assms(3)] by blast
  next
    assume r: "redis_ok R rinv rlive \<and> lua_ok R \<and> redis_state rinv st \<and> live = rlive (cs_world st)"
    then have i: "idempotent (cache_get R) (cache_set R) (cache_setnx R) (cache_delete R)
        (redis_state rinv) (\<lambda>st. rlive (cs_world st)) (idem_check R J H key ns) (idem_key H key ns)
        (idem_in_progress_key H key ns) (decoded J)" and s: "redis_state rinv st"
      by (auto intro: redis_idempotent)
    show ?thesis
      using idempotent.dup_after_store [OF i s A] idempotent.new_after_clear [OF i s c refl assms(3)] r
      by blast
  qed
qed

theorem idem_life_cycle_witness:
  "snd (idem_check sample_redis sample_codec sample_hash ''e'' None (\<lambda>_ _. 1000)
      (fst (idem_store (cache_set sample_redis) (cache_delete sample_redis) (\<lambda>_. []) sample_codec
        sample_hash ''e'' (PStr ''ok'') None None (\<lambda>_. 1) (\<lambda>_. 1) sample_state))) =
      Inr \<lparr>ir_status = DUPLICATE, ir_cached = PStr ''ok''\<rparr>"
  using idem_life_cycle [of sample_state "sample_live (cs_world sample_state)" sample_redis
      "\<lambda>_. True" sample_live "\<lambda>_ _. 1" 1 1 "\<lambda>_ _. 1000" 1000 1000 None sample_codec "PStr ''ok''"
      "''sok''" sample_hash "''e''" None "\<lambda>_. []"]
  by (simp add: sample_redis_ok sample_lua_ok sample_state_live call_span_const store_ttl_def
      idem_default_ttl_def sample_codec_def)

text \<open>Fail closed: with neither Redis nor the fallback cache a check raises
  \<open>IdempotencyCacheError\<close>; it never answers \<open>NEW\<close>.\<close>

theorem idem_fail_closed:
  assumes "disabled_mode st"
  shows "idem_check R J H key ns cs st =
    (st, Inl (EOther (App IdempotencyCacheError) (unavailable_message key ns)))"
  using assms
  by (simp add: idem_check_def Let_def execute_lua_script_def cache_ping_def s_bind_def s_raise_def
      disabled_mode_def is_redis_available_def)

theorem idem_fail_closed_witness:
  "snd (idem_check sample_down sample_codec sample_hash ''e'' None (\<lambda>_ _. 1)
      \<lparr>cs_world = (\<lambda>_. None), cs_client = False, cs_mem = None, cs_init = True, cs_fallback = False,
       cs_last = 0, cs_delay = 2, cs_failures = 1\<rparr>) =
    Inl (EOther (App IdempotencyCacheError) (unavailable_message ''e'' None))"
  by (subst idem_fail_closed) (simp_all add: disabled_mode_def using_memory_def)

text \<open>A server whose next \<open>SETEX\<close> fails once.\<close>

definition lift_flaky :: "('w, exn, 'a) act \<Rightarrow> (bool \<times> 'w, exn, 'a) act" where
  "lift_flaky m s = (case m (snd s) of (w, r) \<Rightarrow> ((fst s, w), r))"

definition flaky_redis :: "(bool \<times> (string \<Rightarrow> (string \<times> real option) option)) redis_env" where
  "flaky_redis = \<lparr>re_ext = (\<lambda>_. [Lib ''redis.exceptions.RedisError'']), re_environment = ''production'',
     rd_from_url = s_ret (), rd_ping = s_ret (), rd_instrument = s_ret (),
     rd_get = (\<lambda>k t. lift_flaky (rd_get sample_redis k t)),
     rd_set = (\<lambda>k v t. lift_flaky (rd_set sample_redis k v t)),
     rd_setex = (\<lambda>k s v t w.
        if fst w then ((False, snd w), Inl (EOther (Lib ''redis.exceptions.TimeoutError'') ''timeout''))
        else lift_flaky (rd_setex sample_redis k s v t) w),
     rd_set_nx = (\<lambda>k v ttl t. lift_flaky (rd_set_nx sample_redis k v ttl t)),
     rd_delete = (\<lambda>ks t. lift_flaky (rd_delete sample_redis ks t)),
     rd_scan = (\<lambda>cur p n t. lift_flaky (rd_scan sample_redis cur p n t)),
     rd_eval = (\<lambda>script ks args t. lift_flaky (rd_eval sample_redis script ks args t)),
     rd_close = s_ret (), rd_disconnect = s_ret (), cb_enter = s_ret (), cb_exit = (\<lambda>_ w. w)\<rparr>"

lemma flaky_redis_ok: "redis_ok flaky_redis (\<lambda>w. \<not> fst w) (\<lambda>w. sample_live (snd w))"
  unfolding redis_ok_def runs_ok_def
  by (simp add: flaky_redis_def lift_flaky_def sample_redis_def s_ret_def sample_live_upd
      sample_live_del timed_def expiry_of_def) auto

lemma flaky_lua_ok: "lua_ok flaky_redis"
proof -
  have "lua_check flaky_redis a b n t w = lift_flaky (lua_check sample_redis a b n t) w" for a b n t w
    by (auto simp: lua_check_def lift_flaky_def flaky_redis_def s_bind_def s_ret_def
        split: prod.splits sum.splits option.splits)
  then show ?thesis using sample_lua_ok by (simp add: lua_ok_def flaky_redis_def lift_flaky_def)
qed

text \<open>C3. A lost response: when the write of the response fails with an error the cache service
  swallows and the lock is deleted, \<open>store\<close> returns normally, and the next check of the key
  answers \<open>NEW\<close>: the operation would be processed a second time.\<close>

theorem idem_store_lost:
  assumes "redis_ok R rinv rlive" "lua_ok R" "redis_mode st"
    and "cs_set = redis_store R (idem_key H key ns) v (Some (store_ttl ttl)) (c1 3)"
    and "protected R cs_set (cs_world st) = (w1, Inl e)" "swallowed R e" "rinv w1"
    and "\<forall>t. rlive w1 t (idem_key H key ns) = None"
    and "json_dumps J r = Inr v" "mono c2" "call_span cs a b" "c2 3 \<le> a"
  shows "snd (idem_store (cache_set R) (cache_delete R) ext J H key r ttl ns c1 c2 st) = Inr () \<and>
    snd (idem_check R J H key ns cs
      (fst (idem_store (cache_set R) (cache_delete R) ext J H key r ttl ns c1 c2 st))) = Inr (idem_res NEW)"
proof -
  let ?s1 = "st\<lparr>cs_world := w1\<rparr>"
  note m = assms(3)
  have set1: "cache_set R (idem_key H key ns) v (Some (store_ttl ttl)) c1 st = (?s1, Inr False)"
    using assms(4-6) by (simp add: cache_set_def cache_op_redis_cases [OF m])
  have s1: "redis_state rinv ?s1" using assms(3,7) by (simp add: redis_state_def redis_mode_def)
  note i = redis_idempotent [OF assms(1,2), of J H key ns]
  obtain s2 x where s2: "cache_delete R (idem_in_progress_key H key ns) c2 ?s1 = (s2, Inr x)"
    using kv_store.del_law [OF idempotent.axioms(1) [OF i] s1 assms(10)] by blast
  have store: "idem_store (cache_set R) (cache_delete R) ext J H key r ttl ns c1 c2 st = (s2, Inr ())"
    using set1 s2 assms(9)
    by (simp add: idem_store_def s_bind_def s_catch_def s_ret_def lift_res_def)
  have "fst (clear_in_progress (cache_delete R) H key ns c2 ?s1) = s2"
    using s2 by (simp add: clear_in_progress_def s_bind_def s_ret_def)
  moreover have "snd (idem_check R J H key ns cs (fst (clear_in_progress (cache_delete R) H key ns c2 ?s1)))
      = Inr (idem_res NEW)"
    using assms(8) by (intro idempotent.new_after_clear [OF i s1 assms(10,12) refl assms(11)]) simp
  ultimately show ?thesis using store by simp
qed

theorem idem_store_lost_witness:
  "let st = \<lparr>cs_world = (True, \<lambda>_. None), cs_client = True, cs_mem = None, cs_init = True,
       cs_fallback = False, cs_last = 0, cs_delay = 1, cs_failures = 0\<rparr>;
       st' = fst (idem_store (cache_set flaky_redis) (cache_delete flaky_redis) (\<lambda>_. []) sample_codec
         sample_hash ''e'' (PStr ''ok'') None None (\<lambda>_. 1) (\<lambda>_. 1) st)
   in snd (idem_check flaky_redis sample_codec sample_hash ''e'' None (\<lambda>_ _. 2) st') = Inr (idem_res NEW)"
proof -
  let ?c = "redis_store flaky_redis (idem_key sample_hash ''e'' None) ''sok'' (Some (store_ttl None)) 1"
  let ?e = "EOther (Lib ''redis.exceptions.TimeoutError'') ''timeout''"
  have "protected flaky_redis ?c (True, \<lambda>_. None) = ((False, \<lambda>_. None), Inl ?e)"
    by (simp add: protected_def s_bind_def s_ret_def redis_store_def flaky_redis_def)
  moreover have "swallowed flaky_redis ?e"
    by (simp add: swallowed_def isinst_def mro_def flaky_redis_def)
  ultimately show ?thesis
    using idem_store_lost [OF flaky_redis_ok flaky_lua_ok, of "\<lparr>cs_world = (True, \<lambda>_. None),
        cs_client = True, cs_mem = None, cs_init = True, cs_fallback = False, cs_last = 0,
        cs_delay = 1, cs_failures = 0\<rparr>" ?c sample_hash "''e''" None "''sok''" None "\<lambda>_. 1"
        "(False, \<lambda>_. None)" ?e sample_codec "PStr ''ok''" "\<lambda>_. 1" "\<lambda>_ _. 2" 2 2 "\<lambda>_. []"]
    by (simp add: redis_mode_def sample_live_def sample_codec_def mono_def call_span_const)
qed

text \<open>C5. Keys: when the hash gives 64 hexadecimal characters and does not collide on the two
  external keys, two operations share a key exactly when they have the same external key and the
  same namespace (an empty namespace counts as none), and no lock key is the key of a stored
  response.\<close>

theorem idem_keys_separate:
  assumes "H k = H k' \<longrightarrow> k = k'" "\<forall>x. length (H x) = 64 \<and> CHR '':'' \<notin> set (H x)"
  shows "(idem_key H k ns = idem_key H k' ns' \<longleftrightarrow>
      k = k' \<and> (if given ns then ns else None) = (if given ns' then ns' else None)) \<and>
    (idem_in_progress_key H k ns = idem_in_progress_key H k' ns' \<longleftrightarrow>
      idem_key H k ns = idem_key H k' ns') \<and>
    idem_in_progress_key H k ns \<noteq> idem_key H k' ns'"
  using assms idem_key_inj [of H k k' ns ns'] progress_key_not_key [of H k ns k' ns']
  by (simp add: progress_key_inj)

theorem idem_keys_separate_witness:
  "let H = (\<lambda>k. replicate 63 CHR ''0'' @ [if k = ''evt_1'' then CHR ''1'' else CHR ''2'']) in
    idem_key H ''evt_1'' (Some ''paddle'') \<noteq> idem_key H ''evt_2'' (Some ''paddle'') \<and>
    idem_key H ''evt_1'' (Some ''paddle'') \<noteq> idem_key H ''evt_1'' None"
  using idem_keys_separate [of "\<lambda>k. replicate 63 CHR ''0'' @ [if k = ''evt_1'' then CHR ''1'' else CHR ''2'']"
      "''evt_1''" "''evt_2''" "Some ''paddle''" "Some ''paddle''"]
    idem_keys_separate [of "\<lambda>k. replicate 63 CHR ''0'' @ [if k = ''evt_1'' then CHR ''1'' else CHR ''2'']"
      "''evt_1''" "''evt_1''" "Some ''paddle''" None]
  by (auto simp: Let_def)



end
