(* ===== verification/ErrorHandlers.thy ===== *)
theory ErrorHandlers
  imports PyExceptions
begin

section \<open>From exceptions to responses\<close>

text \<open>
  The handlers of \<open>core/exceptions/handlers.py\<close> and \<open>core/exceptions/error_to_response.py\<close>, and
  the formatter of \<open>core/exceptions/error_formatter.py\<close>; the decorator of
  \<open>core/exceptions/error_handler.py\<close> is in \<open>DbErrors\<close>.  A handler is a function from the request and the
  exception to the response; what it logs is left out.  \<open>to_str\<close> stands for \<open>str\<close> on a value
  of any type.
\<close>

record request =
  rq_path :: string
  rq_method :: string

definition build_error_response :: "int \<Rightarrow> string \<Rightarrow> string \<Rightarrow> (string \<times> pyval) list option \<Rightarrow> response" where
  "build_error_response status_code code message context =
     json_response status_code (error_body code message (or_else context []))"

definition http_exception_handler ::
  "(pyval \<Rightarrow> string) \<Rightarrow> request \<Rightarrow> int \<Rightarrow> pyval \<Rightarrow> response" where
  \<comment> \<open>for an \<open>HTTPException\<close> with its status code and detail\<close>
  "http_exception_handler to_str request status_code detail =
     (let ctx = Some [(''path'', PStr (rq_path request)), (''method'', PStr (rq_method request))]
      in if status_code = 404 then
           build_error_response 404 (code_value NOT_FOUND)
             (''The requested resource '' @ quoted (rq_path request) @ '' was not found.'') ctx
         else if status_code = 405 then
           build_error_response 405 (code_value METHOD_NOT_ALLOWED)
             (''Method '' @ quoted (rq_method request) @ '' is not allowed for '' @ quoted (rq_path request) @ ''.'')
             ctx
         else
           build_error_response status_code (''HTTP_'' @ str_of_int status_code)
             (if truthy detail then to_str detail else ''HTTP error '' @ str_of_int status_code) None)"

definition service_exception_handler :: "request \<Rightarrow> svc_exn \<Rightarrow> response" where
  "service_exception_handler request e = to_response e"

definition domain_status :: "app_class \<Rightarrow> int" where
  \<comment> \<open>the chain of \<open>isinstance\<close> tests\<close>
  "domain_status c =
     (if EntityNotFoundError \<in> set (app_mro c) then 404
      else if DomainConflictError \<in> set (app_mro c) then 409
      else if DomainAuthorizationError \<in> set (app_mro c) then 403
      else if DomainStateError \<in> set (app_mro c) then 422
      else if DomainValidationError \<in> set (app_mro c) then 400
      else 400)"

definition domain_exception_handler :: "request \<Rightarrow> dom_exn \<Rightarrow> response" where
  "domain_exception_handler request e =
     build_error_response (domain_status (de_class e)) (de_code e) (de_message e)
       (if de_context e \<noteq> [] then Some (de_context e) else None)"

definition unhandled_exception_handler :: "request \<Rightarrow> exn \<Rightarrow> response" where
  "unhandled_exception_handler request e =
     build_error_response 500 (code_value INTERNAL_SERVER_ERROR)
       ''An unexpected error occurred. Please try again later.'' None"

subsection \<open>Handlers for single status codes\<close>

text \<open>The exception of these handlers: one of the application's, or an \<open>HTTPException\<close> with a
  detail.\<close>

datatype http_exc = AppExc svc_exn | PlainExc int pyval

definition detail_message :: "(pyval \<Rightarrow> string) \<Rightarrow> pyval \<Rightarrow> string \<Rightarrow> string" where
  "detail_message to_str detail dflt = (if truthy detail then to_str detail else dflt)"

definition is_app :: "app_class \<Rightarrow> svc_exn \<Rightarrow> bool" where
  "is_app c e \<longleftrightarrow> c \<in> set (app_mro (sv_class e))"

definition handle_as :: "(pyval \<Rightarrow> string) \<Rightarrow> app_class \<Rightarrow> string \<Rightarrow> http_exc \<Rightarrow> response" where
  \<comment> \<open>the body the three handlers below share; the detail of an application exception is its payload\<close>
  "handle_as to_str c dflt e =
     (case e of
        AppExc s \<Rightarrow>
          if is_app c s then to_response s
          else to_response (mk_message c (detail_message to_str (PDict (sv_payload s)) dflt))
      | PlainExc st detail \<Rightarrow> to_response (mk_message c (detail_message to_str detail dflt)))"

definition not_found_exception :: "(pyval \<Rightarrow> string) \<Rightarrow> request \<Rightarrow> http_exc \<Rightarrow> response" where
  "not_found_exception to_str request e = handle_as to_str NotFoundError ''Resource not found'' e"

definition bad_request_exception :: "(pyval \<Rightarrow> string) \<Rightarrow> request \<Rightarrow> http_exc \<Rightarrow> response" where
  "bad_request_exception to_str request e = handle_as to_str RequestError ''Bad request'' e"

definition conflict_exception :: "(pyval \<Rightarrow> string) \<Rightarrow> request \<Rightarrow> http_exc \<Rightarrow> response" where
  "conflict_exception to_str request e = handle_as to_str ConflictError ''Conflict'' e"

definition server_error_exception :: "request \<Rightarrow> string \<Rightarrow> response" where
  \<comment> \<open>for an exception with the given text\<close>
  "server_error_exception request text = to_response (mk_message InternalServerError text)"

definition service_unavailable_exception :: "(pyval \<Rightarrow> string) \<Rightarrow> request \<Rightarrow> svc_exn \<Rightarrow> response" where
  "service_unavailable_exception to_str request e =
     (let retry_after = (if sv_meta e \<noteq> []
                         then (case dict_get (sv_meta e) ''retry_after'' of Some v \<Rightarrow> v | None \<Rightarrow> PInt 60)
                         else PInt 60);
          response = to_response e
      in response\<lparr>r_headers := dict_set ''Retry-After'' (to_str retry_after) (r_headers response)\<rparr>)"

subsection \<open>Validation errors\<close>

datatype loc_part = LStr string | LInt int

record validation_error =
  ve_loc :: "loc_part list"
  ve_type :: string
  ve_msg :: string

definition location_prefixes :: "string list" where
  "location_prefixes = [''body'', ''query'', ''path'', ''header'', ''cookie'']"

fun field_parts :: "loc_part list \<Rightarrow> string list" where
  \<comment> \<open>the loop of \<open>_format_field_path\<close>\<close>
  "field_parts [] = []"
| "field_parts (LInt i # loc) = field_parts loc"
| "field_parts (LStr s # loc) = (if s \<in> set location_prefixes then field_parts loc else s # field_parts loc)"

definition format_field_path :: "loc_part list \<Rightarrow> string" where
  "format_field_path loc =
     (if loc = [] then ''request''
      else if field_parts loc = [] then ''request body''
      else join ''.'' (field_parts loc))"

definition translate_validation_error :: "string \<Rightarrow> string \<Rightarrow> string \<Rightarrow> loc_part list option \<Rightarrow> string" where
  "translate_validation_error error_type error_msg field_path loc =
     (let display_field = quoted (if given loc then format_field_path (the loc) else field_path) in
      if error_type = ''json_invalid'' then
        ''The request body contains invalid JSON. Please check for syntax errors like missing quotes, commas, or brackets.''
      else if error_type = ''type_error'' then
        (if contains error_msg ''str'' \<and> contains error_msg ''int'' then display_field @ '' must be a number, not text.''
         else if contains error_msg ''int'' \<and> contains error_msg ''str'' then display_field @ '' must be text, not a number.''
         else if contains error_msg ''bool'' then display_field @ '' must be true or false.''
         else if contains (lower error_msg) ''none'' then display_field @ '' cannot be null.''
         else display_field @ '' has an invalid data type.'')
      else if error_type = ''missing'' then display_field @ '' is required.''
      else if error_type \<in> {''string_too_short'', ''string_too_long'', ''value_error''} then
        (if contains error_msg ''too_short'' \<or> error_type = ''string_too_short'' then display_field @ '' is too short.''
         else if contains error_msg ''too_long'' \<or> error_type = ''string_too_long'' then display_field @ '' is too long.''
         else if contains error_msg ''invalid'' then display_field @ '' contains an invalid value.''
         else display_field @ '' has an invalid value.'')
      else if error_type = ''enum'' then display_field @ '' must be one of the allowed values.''
      else if error_type = ''list_type'' then display_field @ '' must be a list.''
      else if error_type = ''dict_type'' then display_field @ '' must be an object.''
      else if error_type = ''string_type'' then display_field @ '' must be a string.''
      else if error_type = ''int_type'' then display_field @ '' must be an integer.''
      else if error_type = ''float_type'' then display_field @ '' must be a number.''
      else if error_type = ''bool_type'' then display_field @ '' must be true or false.''
      else if error_type = ''url_type'' \<or> error_type = ''url_parsing'' then display_field @ '' must be a valid URL.''
      else if error_type = ''email_type'' \<or> contains error_type ''email'' then
        display_field @ '' must be a valid email address.''
      else if error_type = ''uuid_type'' \<or> error_type = ''uuid_parsing'' then display_field @ '' must be a valid UUID.''
      else if error_type = ''datetime_type'' \<or> error_type = ''datetime_parsing'' then
        display_field @ '' must be a valid date/time.''
      else if error_type = ''date_type'' \<or> error_type = ''date_parsing'' then display_field @ '' must be a valid date.''
      else if contains error_type ''greater_than'' then display_field @ '' is too small.''
      else if contains error_type ''less_than'' then display_field @ '' is too large.''
      else display_field @ '' is invalid: '' @ error_msg)"

record error_detail =
  ed_field :: string
  ed_message :: string
  ed_type :: string

definition extract_validation_errors :: "validation_error list \<Rightarrow> error_detail list" where
  "extract_validation_errors errors =
     map (\<lambda>e. let display_field = format_field_path (ve_loc e) in
            \<lparr>ed_field = display_field,
             ed_message = translate_validation_error (ve_type e) (ve_msg e) display_field (Some (ve_loc e)),
             ed_type = ve_type e\<rparr>) errors"

definition detail_dict :: "error_detail \<Rightarrow> pyval" where
  "detail_dict d = PDict [(''field'', PStr (ed_field d)), (''message'', PStr (ed_message d)), (''type'', PStr (ed_type d))]"

definition overall_message :: "validation_error list \<Rightarrow> error_detail list \<Rightarrow> string" where
  "overall_message errors details =
     (let types = set (map ve_type errors) in
      if ''json_invalid'' \<in> types then ''Invalid JSON in request body. Please check for syntax errors.''
      else if ''missing'' \<in> types then
        (let missing_fields = map ed_field (filter (\<lambda>d. ed_type d = ''missing'') details) in
         if length missing_fields = 1 then ''Required field '' @ quoted (hd missing_fields) @ '' is missing.''
         else ''Required fields are missing: '' @ join '', '' missing_fields)
      else if length details = 1 then ed_message (hd details)
      else ''Validation failed for: '' @ join '', '' (map ed_field details))"

datatype validation_exc = AppValidation svc_exn | Errors "validation_error list"

definition validation_exception :: "request \<Rightarrow> validation_exc \<Rightarrow> response" where
  "validation_exception request e =
     (case e of
        AppValidation s \<Rightarrow> to_response s
      | Errors errors \<Rightarrow>
          let details = extract_validation_errors errors in
          to_response (mk_service ValidationError (Some (overall_message errors details)) None
            (PList (map detail_dict details)) None None))"

subsection \<open>The formatter of the identity kit\<close>

definition format_error :: "request \<Rightarrow> int \<Rightarrow> string \<Rightarrow> string \<Rightarrow> (string \<times> pyval) list option \<Rightarrow> pyval" where
  "format_error request status_code code message details = error_body code message (or_else details [])"

definition create_response :: "request \<Rightarrow> int \<Rightarrow> string \<Rightarrow> string \<Rightarrow> (string \<times> pyval) list option \<Rightarrow> response" where
  "create_response request status_code code message details =
     json_response status_code (format_error request status_code code message details)"

subsection \<open>Lemmas\<close>

definition standard_error :: "response \<Rightarrow> bool" where
  "standard_error r \<longleftrightarrow> (\<exists>code msg context. r_body r = error_body code msg context)"

lemma standard_json [simp]: "standard_error (json_response st (error_body c m x))"
  by (auto simp: standard_error_def json_response_def)

lemma standard_to_response [simp]: "standard_error (to_response e)"
  by (auto simp: standard_error_def to_response_def json_response_def Let_def)

lemma standard_build [simp]: "standard_error (build_error_response s c m x)"
  by (simp add: build_error_response_def)

lemma status_build [simp]: "r_status (build_error_response s c m x) = s"
  by (simp add: build_error_response_def json_response_def)

lemma status_to_response [simp]: "r_status (to_response e) = sv_status e"
  by (simp add: to_response_def json_response_def Let_def)

lemma mk_message_status: "sv_status (mk_message c m) = the (class_status c)"
  by (simp add: mk_message_def mk_service_def Let_def)

lemma standard_handle [simp]: "standard_error (handle_as ts c d e)"
  by (simp add: handle_as_def split: http_exc.splits)

lemma domain_status_range: "domain_status c \<in> {400, 403, 404, 409, 422}"
  by (simp add: domain_status_def)

text \<open>The payload of a service exception determines the context of its response.\<close>

lemma errors_of_payload:
  "dict_get (sv_payload (mk_service c m k errors s meta)) ''errors'' =
     (if truthy errors then Some errors else None)"
  by (simp add: mk_service_def Let_def)

lemma field_parts_clean: "p \<in> set (field_parts loc) \<Longrightarrow> p \<notin> set location_prefixes \<and> LStr p \<in> set loc"
  by (induction loc rule: field_parts.induct) (auto split: if_splits)

subsection \<open>Properties\<close>

text \<open>One error format: every handler answers in the application's error format, and with the
  status the exception stands for: the class of an application error fixes its status between 400
  and 599, unless the instance overrides it, and a domain error gives 400, 403, 404, 409 or 422.\<close>

theorem handlers_uniform:
  "standard_error (http_exception_handler ts req st d) \<and>
   r_status (http_exception_handler ts req st d) = st \<and>
   standard_error (service_exception_handler req e) \<and>
   standard_error (domain_exception_handler req de) \<and>
   r_status (domain_exception_handler req de) \<in> {400, 403, 404, 409, 422} \<and>
   standard_error (unhandled_exception_handler req x) \<and>
   standard_error (not_found_exception ts req h) \<and> standard_error (bad_request_exception ts req h) \<and>
   standard_error (conflict_exception ts req h) \<and> standard_error (server_error_exception req text) \<and>
   standard_error (validation_exception req v) \<and>
   standard_error (create_response req st code msg details) \<and>
   (is_service_class c \<longrightarrow>
     r_status (to_response (mk_service c m k errs None meta)) = the (class_status c) \<and>
     400 \<le> the (class_status c) \<and> the (class_status c) < 600)"
  using domain_status_range [of "de_class de"] service_class_attrs [of c]
  by (auto simp: http_exception_handler_def service_exception_handler_def domain_exception_handler_def
      unhandled_exception_handler_def not_found_exception_def bad_request_exception_def
      conflict_exception_def server_error_exception_def validation_exception_def create_response_def
      format_error_def Let_def mk_service_def split: validation_exc.splits)

theorem handlers_uniform_witness:
  "r_status (to_response (mk_service DatabaseTimeoutError None None PNone None None)) = 408"
proof -
  have "is_service_class DatabaseTimeoutError" "class_status DatabaseTimeoutError = Some 408"
    by (simp_all add: class_defs)
  then show ?thesis
    using handlers_uniform [where c = DatabaseTimeoutError and m = None and k = None and errs = PNone and meta = None]
    by simp
qed

text \<open>Domain errors: the class of a domain error, the feature's own errors included, decides
  the status of the response; its code, message and context are passed on unchanged.\<close>

theorem domain_error_mapping:
  "domain_exception_handler req e =
     json_response (domain_status (de_class e)) (error_body (de_code e) (de_message e) (de_context e)) \<and>
   map domain_status [EntityNotFoundError, DomainConflictError, DomainAuthorizationError, DomainStateError,
      DomainValidationError, DomainInvariantError, AggregateRootError, DomainError,
      PromptValidationError, TokenLimitExceededError, GenerationFailedError, QuotaExhaustedError] =
     [404, 409, 403, 422, 400, 400, 400, 400, 400, 400, 400, 400]"
proof -
  have "domain_exception_handler req e =
     json_response (domain_status (de_class e)) (error_body (de_code e) (de_message e) (de_context e))"
    by (simp add: domain_exception_handler_def build_error_response_def)
  moreover have "map domain_status [EntityNotFoundError, DomainConflictError, DomainAuthorizationError,
      DomainStateError, DomainValidationError, DomainInvariantError, AggregateRootError, DomainError,
      PromptValidationError, TokenLimitExceededError, GenerationFailedError, QuotaExhaustedError] =
     [404, 409, 403, 422, 400, 400, 400, 400, 400, 400, 400, 400]"
    by (simp add: domain_status_def)
  ultimately show ?thesis by blast
qed

text \<open>Validation errors: the response of a failed validation has status 422 and lists one
  entry for each error in order; no field name shows where in the request the value came from; and
  no type error is ever reported as \<open>must be text\<close>, because the test for it repeats the one before.\<close>

theorem validation_response:
  assumes "errors \<noteq> []"
  shows "r_status (validation_exception req (Errors errors)) = 422 \<and>
    (\<exists>msg. r_body (validation_exception req (Errors errors)) =
       error_body (code_value VALIDATION_ERROR) msg
         [(''errors'', PList (map detail_dict (extract_validation_errors errors)))]) \<and>
    map ed_type (extract_validation_errors errors) = map ve_type errors \<and>
    set (field_parts loc) \<inter> set location_prefixes = {} \<and>
    translate_validation_error ''type_error'' msg path l \<noteq>
      quoted (if given l then format_field_path (the l) else path) @ '' must be text, not a number.''"
proof -
  have c: "class_status ValidationError = Some 422" "class_code ValidationError = Some VALIDATION_ERROR"
    by (simp_all add: class_defs)
  let ?d = "map detail_dict (extract_validation_errors errors)"
  have d: "?d \<noteq> []" using assms by (simp add: extract_validation_errors_def)
  have code: "code_value VALIDATION_ERROR \<noteq> []" by simp
  have "\<exists>msg. r_body (validation_exception req (Errors errors)) =
       error_body (code_value VALIDATION_ERROR) msg [(''errors'', PList ?d)]"
    using d by (auto simp: validation_exception_def Let_def to_response_def json_response_def
        mk_service_def c)
  moreover have "r_status (validation_exception req (Errors errors)) = 422"
    by (simp add: validation_exception_def Let_def mk_service_def c)
  moreover have "map ed_type (extract_validation_errors errors) = map ve_type errors"
    by (simp add: extract_validation_errors_def Let_def)
  moreover have "translate_validation_error ''type_error'' msg path l \<noteq>
      quoted (if given l then format_field_path (the l) else path) @ '' must be text, not a number.''"
    by (simp add: translate_validation_error_def Let_def)
  ultimately show ?thesis using field_parts_clean by blast
qed

theorem validation_response_witness:
  "r_status (validation_exception \<lparr>rq_path = ''/x'', rq_method = ''POST''\<rparr>
     (Errors [\<lparr>ve_loc = [LStr ''body'', LStr ''email''], ve_type = ''missing'', ve_msg = ''Field required''\<rparr>])) = 422"
  using validation_response [where errors = "[\<lparr>ve_loc = [LStr ''body'', LStr ''email''],
      ve_type = ''missing'', ve_msg = ''Field required''\<rparr>]"] by blast

end
