(* ===== verification/IpAddress.thy ===== *)
theory IpAddress
  imports PyStrings "HOL-Library.Word"
begin

unbundle bit_operations_syntax

section \<open>IP addresses and networks\<close>

text \<open>
  What the program uses of Python's \<open>ipaddress\<close>: \<open>ip_address\<close>, \<open>ip_network(strict=False)\<close>
  and membership, on 32-bit and 128-bit words.  The parsers follow the library: four decimal
  octets of at most three digits without leading zeros; hexadecimal groups with one \<open>::\<close>, a
  dotted tail and a scope after \<open>%\<close>; a prefix length, or for IPv4 a netmask or hostmask, after
  the slash.  \<open>None\<close> is the \<open>ValueError\<close> of the library.
\<close>

datatype ip_addr = V4 "32 word" | V6 "128 word"

datatype ip_net = Net4 "32 word" nat | Net6 "128 word" nat

subsection \<open>Parsing\<close>

definition parse_octet :: "string \<Rightarrow> nat option" where
  "parse_octet s =
     (if s = [] \<or> \<not> list_all is_digit s then None
      else if 3 < length s then None
      else if s \<noteq> ''0'' \<and> hd s = CHR ''0'' then None
      else let n = nat_of_string s in if 255 < n then None else Some n)"

definition word_of_octets :: "nat \<Rightarrow> nat \<Rightarrow> nat \<Rightarrow> nat \<Rightarrow> 32 word" where
  "word_of_octets a b c d = of_nat (((a * 256 + b) * 256 + c) * 256 + d)"

definition parse_v4 :: "string \<Rightarrow> 32 word option" where
  "parse_v4 s =
     (case split_on CHR ''.'' s of
        [p, q, r, t] \<Rightarrow>
          (case (parse_octet p, parse_octet q, parse_octet r, parse_octet t) of
             (Some a, Some b, Some c, Some d) \<Rightarrow> Some (word_of_octets a b c d)
           | _ \<Rightarrow> None)
      | _ \<Rightarrow> None)"

definition hex_value :: "char \<Rightarrow> nat option" where
  "hex_value c =
     (if is_digit c then Some (ordc c - 48)
      else if 97 \<le> ordc c \<and> ordc c \<le> 102 then Some (ordc c - 87)
      else if 65 \<le> ordc c \<and> ordc c \<le> 70 then Some (ordc c - 55)
      else None)"

fun hex_digits :: "nat \<Rightarrow> string \<Rightarrow> nat option" where
  "hex_digits acc [] = Some acc"
| "hex_digits acc (c # cs) =
     (case hex_value c of None \<Rightarrow> None | Some d \<Rightarrow> hex_digits (16 * acc + d) cs)"

definition parse_hextet :: "string \<Rightarrow> nat option" where
  "parse_hextet s = (if s = [] \<or> 4 < length s then None else hex_digits 0 s)"

fun parse_hextets :: "string list \<Rightarrow> nat list option" where
  "parse_hextets [] = Some []"
| "parse_hextets (p # ps) =
     (case (parse_hextet p, parse_hextets ps) of (Some n, Some ns) \<Rightarrow> Some (n # ns) | _ \<Rightarrow> None)"

definition hextets_value :: "nat list \<Rightarrow> nat" where
  "hextets_value ns = foldl (\<lambda>acc n. acc * 65536 + n) 0 ns"

definition v6_parts :: "string \<Rightarrow> string list option" where
  "v6_parts s = (let ps = split_on CHR '':'' s in if length ps < 3 then None else Some ps)"

definition v6_tail :: "string list \<Rightarrow> (string list \<times> nat list) option" where
  \<comment> \<open>the groups before a dotted tail, and the tail's two numbers (none without one)\<close>
  "v6_tail ps =
     (if contains (last ps) ''.'' then
        (case parse_v4 (last ps) of
           None \<Rightarrow> None
         | Some w \<Rightarrow> Some (butlast ps, [unat w div 65536, unat w mod 65536]))
      else Some (ps, []))"

definition inner_blanks :: "bool list \<Rightarrow> nat list" where
  \<comment> \<open>the positions other than the ends of the empty groups\<close>
  "inner_blanks bs = filter (\<lambda>i. bs ! i) [1..<length bs - 1]"

definition v6_groups :: "string list \<Rightarrow> nat list \<Rightarrow> nat list option" where
  \<comment> \<open>the eight numbers; \<open>tail\<close> counts as that many non-empty groups at the end\<close>
  "v6_groups ps tail =
     (let n = length ps + length tail;
          blank = map (\<lambda>p. p = []) ps @ replicate (length tail) False in
      if 9 < n then None
      else case inner_blanks blank of
        [] \<Rightarrow>
          if n \<noteq> 8 \<or> blank ! 0 \<or> last blank then None
          else map_option (\<lambda>ns. ns @ tail) (parse_hextets ps)
      | [k] \<Rightarrow>
          let hi = (if blank ! 0 then k - 1 else k);
              lo = (if last blank then n - k - 2 else n - k - 1) in
          if blank ! 0 \<and> hi \<noteq> 0 \<or> last blank \<and> lo \<noteq> 0 \<or> 8 - (hi + lo) < 1 then None
          else
            (case (parse_hextets (take hi ps), parse_hextets (drop (n - lo) ps)) of
               (Some a, Some b) \<Rightarrow> Some (a @ replicate (8 - (hi + lo)) 0 @ b @ (if lo = 0 then [] else tail))
             | _ \<Rightarrow> None)
      | _ \<Rightarrow> None)"

definition strip_scope :: "string \<Rightarrow> string option" where
  "strip_scope s =
     (if CHR 0x25 \<notin> set s then Some s
      else let scope = tl (dropWhile (\<lambda>c. c \<noteq> CHR 0x25) s) in
        if scope = [] \<or> CHR 0x25 \<in> set scope then None
        else Some (takeWhile (\<lambda>c. c \<noteq> CHR 0x25) s))"

definition parse_v6 :: "string \<Rightarrow> 128 word option" where
  "parse_v6 s =
     (case strip_scope s of
        None \<Rightarrow> None
      | Some addr \<Rightarrow>
          (case v6_parts addr of
             None \<Rightarrow> None
           | Some ps \<Rightarrow>
               (case v6_tail ps of
                  None \<Rightarrow> None
                | Some (groups, tail) \<Rightarrow>
                    (case v6_groups groups tail of
                       None \<Rightarrow> None
                     | Some ns \<Rightarrow> Some (of_nat (hextets_value ns))))))"

definition ip_address :: "string \<Rightarrow> ip_addr option" where
  "ip_address s =
     (if CHR ''/'' \<in> set s then None
      else case parse_v4 s of
        Some w \<Rightarrow> Some (V4 w)
      | None \<Rightarrow> (case parse_v6 s of Some w \<Rightarrow> Some (V6 w) | None \<Rightarrow> None))"

definition parse_prefix :: "nat \<Rightarrow> string \<Rightarrow> nat option" where
  "parse_prefix max_len s =
     (if s = [] \<or> \<not> list_all is_digit s then None
      else let n = nat_of_string s in if max_len < n then None else Some n)"

definition net_mask :: "nat \<Rightarrow> 'a::len word" where
  "net_mask p = NOT (mask (LENGTH('a) - p))"

definition prefix_of_mask :: "32 word \<Rightarrow> nat option" where
  \<comment> \<open>the length of a mask of ones followed by zeros\<close>
  "prefix_of_mask w = find (\<lambda>p. w = net_mask p) (rev [0..<33])"

definition parse_mask4 :: "string \<Rightarrow> nat option" where
  "parse_mask4 s =
     (case parse_prefix 32 s of
        Some p \<Rightarrow> Some p
      | None \<Rightarrow>
          (case parse_v4 s of
             None \<Rightarrow> None
           | Some w \<Rightarrow>
               (case prefix_of_mask w of Some p \<Rightarrow> Some p | None \<Rightarrow> prefix_of_mask (NOT w))))"

definition split_mask :: "string \<Rightarrow> (string \<times> string option) option" where
  "split_mask s =
     (case split_on CHR ''/'' s of
        [a] \<Rightarrow> Some (a, None) | [a, m] \<Rightarrow> Some (a, Some m) | _ \<Rightarrow> None)"

definition mk_net4 :: "32 word \<Rightarrow> nat \<Rightarrow> ip_net" where
  "mk_net4 a p = Net4 (a AND net_mask p) p"

definition mk_net6 :: "128 word \<Rightarrow> nat \<Rightarrow> ip_net" where
  "mk_net6 a p = Net6 (a AND net_mask p) p"

definition parse_net4 :: "string \<Rightarrow> string option \<Rightarrow> ip_net option" where
  "parse_net4 addr m =
     (case parse_v4 addr of
        None \<Rightarrow> None
      | Some a \<Rightarrow> (case m of None \<Rightarrow> Some (mk_net4 a 32)
                  | Some t \<Rightarrow> map_option (mk_net4 a) (parse_mask4 t)))"

definition parse_net6 :: "string \<Rightarrow> string option \<Rightarrow> ip_net option" where
  "parse_net6 addr m =
     (case parse_v6 addr of
        None \<Rightarrow> None
      | Some a \<Rightarrow> (case m of None \<Rightarrow> Some (mk_net6 a 128)
                  | Some t \<Rightarrow> map_option (mk_net6 a) (parse_prefix 128 t)))"

definition ip_network :: "string \<Rightarrow> ip_net option" where
  \<comment> \<open>\<open>strict=False\<close>: host bits are cleared\<close>
  "ip_network s =
     (case split_mask s of
        None \<Rightarrow> None
      | Some (addr, m) \<Rightarrow>
          (case parse_net4 addr m of Some n \<Rightarrow> Some n | None \<Rightarrow> parse_net6 addr m))"

fun in_net :: "ip_addr \<Rightarrow> ip_net \<Rightarrow> bool" where
  "in_net (V4 a) (Net4 n p) = (a AND net_mask p = n)"
| "in_net (V6 a) (Net6 n p) = (a AND net_mask p = n)"
| "in_net _ _ = False"

fun prefix_len :: "ip_net \<Rightarrow> nat" where
  "prefix_len (Net4 _ p) = p"
| "prefix_len (Net6 _ p) = p"

subsection \<open>Decimal octets\<close>

lemma digit_char: "is_digit c \<Longrightarrow> char_of (48 + (ordc c - 48)) = c"
  by (simp add: is_digit_def ordc_def)

lemma digits_value_snoc: "digits_value acc (s @ [c]) = 10 * digits_value acc s + (ordc c - 48)"
  by (simp add: digits_value_append)

lemma digits_value_pos:
  "s \<noteq> [] \<Longrightarrow> is_digit (hd s) \<Longrightarrow> hd s \<noteq> CHR ''0'' \<Longrightarrow> 0 < digits_value 0 s"
proof (induction s rule: rev_induct)
  case (snoc c s)
  show ?case
  proof (cases "s = []")
    case True
    have "ordc c \<noteq> 48"
    proof
      assume "ordc c = 48"
      moreover have "char_of (ordc c) = c" by (simp add: ordc_def)
      moreover have "char_of (ordc CHR ''0'') = CHR ''0''" unfolding ordc_def by (rule char_of_char)
      moreover have "ordc CHR ''0'' = 48" by (simp add: ordc_def)
      ultimately have "c = CHR ''0''" by simp
      then show False using snoc.prems(3) True by simp
    qed
    then show ?thesis using snoc.prems True by (simp add: is_digit_def)
  next
    case False
    then show ?thesis using snoc by (simp add: digits_value_snoc)
  qed
qed simp

text \<open>A decimal number without leading zeros is the digits of its value.\<close>

lemma nat_digits_of_value:
  assumes "s \<noteq> []" "list_all is_digit s" "hd s \<noteq> CHR ''0'' \<or> s = ''0''"
  shows "nat_digits (digits_value 0 s) = s"
  using assms
proof (induction s rule: rev_induct)
  case (snoc c s)
  have c: "is_digit c" "ordc c - 48 < 10" using snoc.prems(2) by (auto simp: is_digit_def)
  show ?case
  proof (cases "s = []")
    case True
    then show ?thesis using c digit_char [OF c(1)] by (subst nat_digits.simps) simp
  next
    case False
    then have h: "hd s \<noteq> CHR ''0''" "list_all is_digit s" using snoc.prems by (auto split: if_splits)
    then have pos: "0 < digits_value 0 s"
      using digits_value_pos [OF False] False by (cases s) auto
    have "nat_digits (digits_value 0 s) = s" using snoc.IH [OF False] h by simp
    moreover have "(10 * digits_value 0 s + (ordc c - 48)) div 10 = digits_value 0 s"
      "(10 * digits_value 0 s + (ordc c - 48)) mod 10 = ordc c - 48"
      using c(2) by simp_all
    moreover have "\<not> 10 * digits_value 0 s + (ordc c - 48) < 10" using pos by simp
    ultimately show ?thesis
      using digit_char [OF c(1)] by (subst nat_digits.simps) (simp add: digits_value_snoc)
  qed
qed simp

lemma nat_digits_hd: "0 < n \<Longrightarrow> hd (nat_digits n) \<noteq> CHR ''0''"
proof (induction n rule: nat_digits.induct)
  case (1 n)
  show ?case
  proof (cases "n < 10")
    case True
    have "char_of (48 + n) \<noteq> CHR ''0''"
    proof
      assume "char_of (48 + n) = CHR ''0''"
      then have "ordc (char_of (48 + n)) = ordc CHR ''0''" by (rule arg_cong)
      then show False using 1(2) True by (simp add: ordc_def)
    qed
    then show ?thesis using True by (subst nat_digits.simps) simp
  next
    case False
    then show ?thesis using 1 by (subst nat_digits.simps) simp
  qed
qed

lemma nat_digits_short: "n < 1000 \<Longrightarrow> length (nat_digits n) \<le> 3"
proof -
  assume n: "n < 1000"
  have d: "nat_digits m = (if m < 10 then [char_of (48 + m)] else nat_digits (m div 10) @ [char_of (48 + m mod 10)])"
    for m by (rule nat_digits.simps)
  show ?thesis
    using n by (subst d, simp, subst d, simp, subst d) simp
qed

lemma parse_octet_digits: "n \<le> 255 \<Longrightarrow> parse_octet (nat_digits n) = Some n"
  using nat_digits_is_digit [of n] nat_digits_short [of n] nat_digits_value [of n] nat_digits_hd [of n]
  by (cases "n = 0") (auto simp: parse_octet_def nat_of_string_def Let_def nat_digits.simps [of 0])

lemma parse_octet_iff: "parse_octet s = Some n \<longleftrightarrow> n \<le> 255 \<and> s = nat_digits n"
proof
  assume p: "parse_octet s = Some n"
  then have "s \<noteq> []" "list_all is_digit s" "hd s \<noteq> CHR ''0'' \<or> s = ''0''" "n = digits_value 0 s" "n \<le> 255"
    by (auto simp: parse_octet_def Let_def nat_of_string_def split: if_splits)
  then show "n \<le> 255 \<and> s = nat_digits n" using nat_digits_of_value by simp
next
  assume "n \<le> 255 \<and> s = nat_digits n"
  then show "parse_octet s = Some n" by (simp add: parse_octet_digits)
qed

lemma nat_digits_no_dot: "CHR ''.'' \<notin> set (nat_digits n)"
proof
  assume "CHR ''.'' \<in> set (nat_digits n)"
  then have "is_digit CHR ''.''" using nat_digits_is_digit [of n] by (simp add: list_all_iff)
  then show False by (simp add: is_digit_def ordc_def)
qed

subsection \<open>Printing\<close>

definition octets_of :: "32 word \<Rightarrow> nat list" where
  "octets_of w = (let n = unat w in [n div 16777216, n div 65536 mod 256, n div 256 mod 256, n mod 256])"

definition show_v4 :: "32 word \<Rightarrow> string" where
  \<comment> \<open>\<open>str\<close> of an IPv4 address\<close>
  "show_v4 w = join ''.'' (map nat_digits (octets_of w))"

lemma unat_word_of_octets:
  assumes "a \<le> 255" "b \<le> 255" "c \<le> 255" "d \<le> 255"
  shows "unat (word_of_octets a b c d) = ((a * 256 + b) * 256 + c) * 256 + d"
proof -
  have "((a * 256 + b) * 256 + c) * 256 + d < 4294967296" using assms by simp
  then show ?thesis unfolding word_of_octets_def by (subst unat_of_nat, subst mod_less) simp_all
qed

lemma octets_of_word:
  assumes "a \<le> 255" "b \<le> 255" "c \<le> 255" "d \<le> 255"
  shows "octets_of (word_of_octets a b c d) = [a, b, c, d]"
proof -
  let ?n = "((a * 256 + b) * 256 + c) * 256 + d"
  note u = unat_word_of_octets [OF assms]
  have "(k * 256 + x) mod 256 = x" "(k * 256 + x) div 256 = k" if "x \<le> 255" for k x :: nat
    using that by simp_all
  from this [OF assms(4)] this [OF assms(3)] this [OF assms(2)]
  have "?n mod 256 = d" "?n div 256 = (a * 256 + b) * 256 + c"
    "((a * 256 + b) * 256 + c) mod 256 = c" "((a * 256 + b) * 256 + c) div 256 = a * 256 + b"
    "(a * 256 + b) mod 256 = b" "(a * 256 + b) div 256 = a" by blast+
  moreover have "m div 65536 = m div 256 div 256" "m div 16777216 = m div 256 div 256 div 256" for m :: nat
    by (simp_all add: div_mult2_eq [symmetric])
  ultimately show ?thesis unfolding octets_of_def u Let_def by (simp only:)
qed

lemma word_of_octets_of:
  "octets_of w = [a, b, c, d] \<Longrightarrow> word_of_octets a b c d = w \<and> a \<le> 255 \<and> b \<le> 255 \<and> c \<le> 255 \<and> d \<le> 255"
proof -
  assume "octets_of w = [a, b, c, d]"
  then have abcd: "a = unat w div 16777216" "b = unat w div 65536 mod 256"
    "c = unat w div 256 mod 256" "d = unat w mod 256"
    by (simp_all add: octets_of_def Let_def)
  have "unat w < 2 ^ LENGTH(32)" by (rule unsigned_less)
  then have "unat w < 4294967296" by simp
  then have a: "a \<le> 255" unfolding abcd by simp
  have "((a * 256 + b) * 256 + c) * 256 + d = unat w"
  proof -
    have s: "m div 65536 = m div 256 div 256" "m div 16777216 = m div 256 div 256 div 256" for m :: nat
      by (simp_all add: div_mult2_eq [symmetric])
    have "a * 256 + b = unat w div 256 div 256" unfolding abcd s by simp
    moreover have "(unat w div 256 div 256) * 256 + c = unat w div 256" unfolding abcd by simp
    ultimately have "(a * 256 + b) * 256 + c = unat w div 256" by simp
    then show ?thesis unfolding abcd by simp
  qed
  then have "word_of_octets a b c d = w" by (simp add: word_of_octets_def)
  moreover have "m mod 256 \<le> 255" for m :: nat
    using mod_less_divisor [of 256 m] by linarith
  ultimately show ?thesis using a unfolding abcd by blast
qed

lemma parse_v4_iff: "parse_v4 s = Some w \<longleftrightarrow> s = show_v4 w"
proof
  assume "parse_v4 s = Some w"
  then obtain p q r t a b c d where s: "split_on CHR ''.'' s = [p, q, r, t]"
    and o: "parse_octet p = Some a" "parse_octet q = Some b" "parse_octet r = Some c" "parse_octet t = Some d"
    and w: "w = word_of_octets a b c d"
    by (auto simp: parse_v4_def split: list.splits option.splits)
  have "octets_of w = [a, b, c, d]" using o unfolding w by (intro octets_of_word) (simp_all add: parse_octet_iff)
  then have "show_v4 w = join ''.'' [p, q, r, t]" using o by (simp add: show_v4_def parse_octet_iff)
  then show "s = show_v4 w" using join_split_on [of "CHR ''.''" s] s by simp
next
  assume s: "s = show_v4 w"
  obtain a b c d where abcd: "octets_of w = [a, b, c, d]" by (simp add: octets_of_def Let_def)
  have split: "split_on CHR ''.'' s = map nat_digits [a, b, c, d]"
    unfolding s show_v4_def abcd by (rule split_on_join) (auto simp: nat_digits_no_dot)
  have "parse_octet (nat_digits x) = Some x" if "x \<in> {a, b, c, d}" for x
    using word_of_octets_of [OF abcd] that by (auto simp: parse_octet_iff)
  then show "parse_v4 s = Some w"
    using word_of_octets_of [OF abcd] by (simp add: parse_v4_def split)
qed

lemma show_v4_octets:
  "a \<le> 255 \<Longrightarrow> b \<le> 255 \<Longrightarrow> c \<le> 255 \<Longrightarrow> d \<le> 255 \<Longrightarrow>
    show_v4 (word_of_octets a b c d) = join ''.'' (map nat_digits [a, b, c, d])"
  by (simp add: show_v4_def octets_of_word)

subsection \<open>Networks\<close>

lemma net_mask_eq:
  fixes a b :: "'a::len word"
  shows "a AND net_mask p = b AND net_mask p \<longleftrightarrow>
    drop_bit (LENGTH('a) - p) a = drop_bit (LENGTH('a) - p) b"
proof -
  let ?k = "LENGTH('a) - p"
  have "a AND NOT (mask ?k) = b AND NOT (mask ?k) \<longleftrightarrow> (\<forall>n. ?k \<le> n \<longrightarrow> bit a n = bit b n)"
    by (auto simp: bit_eq_iff bit_simps not_less dest: bit_imp_le_length)
  also have "\<dots> \<longleftrightarrow> (\<forall>n. bit a (?k + n) = bit b (?k + n))"
    by (auto dest!: le_Suc_ex)
  also have "\<dots> \<longleftrightarrow> drop_bit ?k a = drop_bit ?k b"
  proof
    assume "\<forall>n. bit a (?k + n) = bit b (?k + n)"
    then show "drop_bit ?k a = drop_bit ?k b" by (intro bit_eqI) (simp add: bit_drop_bit_eq)
  next
    assume "drop_bit ?k a = drop_bit ?k b"
    then have "bit (drop_bit ?k a) n = bit (drop_bit ?k b) n" for n by simp
    then show "\<forall>n. bit a (?k + n) = bit b (?k + n)" by (simp add: bit_drop_bit_eq)
  qed
  finally show ?thesis by (simp add: net_mask_def)
qed

lemma drop_bit_unat:
  fixes a b :: "'a::len word"
  shows "drop_bit k a = drop_bit k b \<longleftrightarrow> unat a div 2 ^ k = unat b div 2 ^ k"
  unfolding word_unat_eq_iff unat_drop_bit_eq drop_bit_eq_div [of _ "unat _"] by (rule refl)

text \<open>Membership compares the leading bits of the two addresses.\<close>

lemma in_net4_iff: "in_net (V4 a) (mk_net4 b p) \<longleftrightarrow> unat a div 2 ^ (32 - p) = unat b div 2 ^ (32 - p)"
  using net_mask_eq [of a p b] drop_bit_unat [of "32 - p" a b] by (simp add: mk_net4_def)

lemma in_net6_iff: "in_net (V6 a) (mk_net6 b p) \<longleftrightarrow> unat a div 2 ^ (128 - p) = unat b div 2 ^ (128 - p)"
  using net_mask_eq [of a p b] drop_bit_unat [of "128 - p" a b] by (simp add: mk_net6_def)

end
