(* ===== verification/ProxyValidation.thy ===== *)
theory ProxyValidation
  imports PyExceptions IpAddress
begin

section \<open>Trusted proxies and rate-limit keys\<close>

text \<open>
  \<open>core/security/proxy_validation.py\<close> and \<open>core/security/rate_limiting.py\<close>.  The configured
  CIDR strings are the argument \<open>cidrs\<close>; \<open>err_text\<close> is the text of the library's
  \<open>ValueError\<close> for a string that is not a network.  \<open>lru_cache\<close> keeps the result of a pure
  function of its argument; the operations use the function, and the last section shows that the cache
  gives the same.  The module \<open>backend.core.auth.jwt\<close>, which the
  repository does not contain, is the argument \<open>jwt\<close>: \<open>None\<close> when it cannot be imported.
\<close>

subsection \<open>Trusted proxies\<close>

definition config_error :: "(string \<Rightarrow> string) \<Rightarrow> string \<Rightarrow> exn" where
  "config_error err_text cidr =
     EOther (App ConfigurationError)
       (''Invalid CIDR '' @ quoted cidr @ '' in TRUSTED_PROXY_CIDRS: '' @ err_text cidr)"

definition parse_trusted_networks :: "(string \<Rightarrow> string) \<Rightarrow> string list \<Rightarrow> exn + ip_net list" where
  "parse_trusted_networks err_text cidrs =
     map_res (\<lambda>cidr. case ip_network cidr of
                Some n \<Rightarrow> Inr n | None \<Rightarrow> Inl (config_error err_text cidr)) cidrs"

definition is_trusted_proxy :: "(string \<Rightarrow> string) \<Rightarrow> string list \<Rightarrow> string \<Rightarrow> exn + bool" where
  "is_trusted_proxy err_text cidrs ip =
     (if ip = [] \<or> ip = ''unknown'' then Inr False
      else case ip_address ip of
        None \<Rightarrow> Inr False
      | Some addr \<Rightarrow>
          bind_res (parse_trusted_networks err_text cidrs) (\<lambda>networks. Inr (list_ex (in_net addr) networks)))"

fun rightmost_untrusted ::
  "(string \<Rightarrow> string) \<Rightarrow> string list \<Rightarrow> string list \<Rightarrow> exn + string option" where
  \<comment> \<open>the loop over the reversed entries: the address it returns, or \<open>None\<close> when it ends\<close>
  "rightmost_untrusted err_text cidrs [] = Inr None"
| "rightmost_untrusted err_text cidrs (p # ps) =
     (let ip = strip p in
      if ip = [] then rightmost_untrusted err_text cidrs ps
      else case ip_address ip of
        None \<Rightarrow> rightmost_untrusted err_text cidrs ps
      | Some _ \<Rightarrow>
          bind_res (is_trusted_proxy err_text cidrs ip)
            (\<lambda>trusted. if \<not> trusted then Inr (Some ip) else rightmost_untrusted err_text cidrs ps))"

definition extract_client_ip_secure ::
  "(string \<Rightarrow> string) \<Rightarrow> string list \<Rightarrow> string option \<Rightarrow> string option \<Rightarrow> exn + string" where
  "extract_client_ip_secure err_text cidrs x_forwarded_for direct =
     (let direct_ip = or_else direct ''unknown'' in
      if \<not> given x_forwarded_for then Inr direct_ip
      else bind_res (is_trusted_proxy err_text cidrs direct_ip) (\<lambda>trusted.
        if \<not> trusted then Inr direct_ip
        else
          let ips = map strip (split_on CHR '','' (the x_forwarded_for)) in
          bind_res (rightmost_untrusted err_text cidrs (rev ips)) (\<lambda>found.
            case found of
              Some ip \<Rightarrow> Inr ip
            | None \<Rightarrow>
                let client_ip = strip (hd ips) in
                Inr (if ip_address client_ip \<noteq> None then client_ip else direct_ip))))"

subsection \<open>Rate limiting\<close>

text \<open>What the key functions read of a request: its headers, by lower-case name, and the address
  of the connection.\<close>

record http_request =
  hr_headers :: "(string \<times> string) list"
  hr_client :: "string option"

definition header_get :: "http_request \<Rightarrow> string \<Rightarrow> string option" where
  "header_get request name = dict_get (hr_headers request) (lower name)"

definition extract_client_ip :: "(string \<Rightarrow> string) \<Rightarrow> string list \<Rightarrow> http_request \<Rightarrow> exn + string" where
  "extract_client_ip err_text cidrs request =
     extract_client_ip_secure err_text cidrs (header_get request ''x-forwarded-for'') (hr_client request)"

definition handled_token_errors :: "pyclass list" where
  "handled_token_errors =
     [Builtin ImportErrorC, App JWTTokenError, Builtin IndexErrorC, Builtin KeyErrorC]"

definition get_user_id_or_ip ::
  "(string \<Rightarrow> pyclass list) \<Rightarrow> (string \<Rightarrow> exn + (string \<times> pyval) list option) option \<Rightarrow> (pyval \<Rightarrow> string) \<Rightarrow>
   (string \<Rightarrow> string) \<Rightarrow> string list \<Rightarrow> http_request \<Rightarrow> exn + string" where
  "get_user_id_or_ip ext jwt to_str err_text cidrs request =
     (let by_ip = map_sum id (\<lambda>ip. ''ip:'' @ ip) (extract_client_ip err_text cidrs request);
          auth_header = header_get request ''Authorization''
      in if given auth_header \<and> startswith (the auth_header) ''Bearer '' then
           (case jwt of
              None \<Rightarrow> by_ip
            | Some jwt_decode \<Rightarrow>
                (case jwt_decode (split_on CHR '' '' (the auth_header) ! 1) of
                   Inr payload \<Rightarrow>
                     if given payload \<and> dict_has (the payload) ''user_id''
                     then Inr (''user:'' @ to_str (the (dict_get (the payload) ''user_id'')))
                     else by_ip
                 | Inl e \<Rightarrow> if isinst ext (exn_class e) handled_token_errors then by_ip else Inl e))
         else by_ip)"

definition retry_after_of :: "string option \<Rightarrow> int" where
  \<comment> \<open>from the detail of the exception, \<open>X per Y minute\<close>\<close>
  "retry_after_of detail =
     (if given detail then
        (let parts = split_ws (the detail) in
         if ''minute'' \<in> set parts then 60
         else if ''second'' \<in> set parts then 1
         else if ''hour'' \<in> set parts then 3600 else 60)
      else 60)"

definition rate_limit_exceeded_handler ::
  "(string \<Rightarrow> pyclass list) \<Rightarrow> (string \<Rightarrow> exn + (string \<times> pyval) list option) option \<Rightarrow> (pyval \<Rightarrow> string) \<Rightarrow>
   (string \<Rightarrow> string) \<Rightarrow> string list \<Rightarrow> http_request \<Rightarrow> string option \<Rightarrow> exn + response" where
  "rate_limit_exceeded_handler ext jwt to_str err_text cidrs request detail =
     bind_res (get_user_id_or_ip ext jwt to_str err_text cidrs request) (\<lambda>client_id.
       let retry_after = retry_after_of detail;
           response = json_response 429
             (PDict [(''success'', PBool False),
                (''error'', PDict [(''code'', PStr ''RATE_LIMIT_EXCEEDED''),
                   (''message'', PStr ''Rate limit exceeded. Please try again later.''),
                   (''context'', PDict [(''retry_after'', PInt retry_after)])])])
       in Inr (response\<lparr>r_headers := dict_set ''Retry-After'' (str_of_int retry_after) (r_headers response)\<rparr>))"

subsection \<open>Lemmas\<close>

definition networks_of :: "string list \<Rightarrow> ip_net list" where
  "networks_of cidrs = List.map_filter ip_network cidrs"

definition valid_cidrs :: "string list \<Rightarrow> bool" where
  "valid_cidrs cidrs \<longleftrightarrow> list_all (\<lambda>c. ip_network c \<noteq> None) cidrs"

definition trusted :: "string list \<Rightarrow> string \<Rightarrow> bool" where
  \<comment> \<open>an address inside one of the networks\<close>
  "trusted cidrs ip \<longleftrightarrow>
     (case ip_address ip of None \<Rightarrow> False | Some a \<Rightarrow> list_ex (in_net a) (networks_of cidrs))"

definition untrusted :: "string list \<Rightarrow> string \<Rightarrow> bool" where
  \<comment> \<open>an address outside all of them\<close>
  "untrusted cidrs ip \<longleftrightarrow> ip_address ip \<noteq> None \<and> \<not> trusted cidrs ip"

lemma parse_trusted_networks_valid:
  "valid_cidrs cidrs \<Longrightarrow> parse_trusted_networks err_text cidrs = Inr (networks_of cidrs)"
  by (induction cidrs)
    (auto simp: valid_cidrs_def parse_trusted_networks_def networks_of_def List.map_filter_simps)

lemma no_empty_address: "ip_address [] = None"
  by (simp add: ip_address_def parse_v4_def parse_v6_def strip_scope_def v6_parts_def Let_def)

lemma unknown_no_address: "ip_address ''unknown'' = None"
  by code_simp

lemma is_trusted_proxy_valid:
  "valid_cidrs cidrs \<Longrightarrow> is_trusted_proxy err_text cidrs ip = Inr (trusted cidrs ip)"
  using no_empty_address unknown_no_address
  by (auto simp: is_trusted_proxy_def trusted_def parse_trusted_networks_valid split: option.splits)

lemma rightmost_untrusted_valid:
  assumes "valid_cidrs cidrs"
  shows "rightmost_untrusted err_text cidrs ps = Inr (find (untrusted cidrs) (map strip ps))"
  by (induction ps)
    (auto simp: is_trusted_proxy_valid [OF assms] untrusted_def no_empty_address Let_def split: option.splits)

lemma find_rev: "find P (rev xs) = (if filter P xs = [] then None else Some (last (filter P xs)))"
  by (induction xs rule: rev_induct) auto

lemma last_filter_append:
  "filter P (xs @ ys) = [] \<longleftrightarrow> filter P xs = [] \<and> filter P ys = []"
  "filter P ys \<noteq> [] \<Longrightarrow> last (filter P (xs @ ys)) = last (filter P ys)"
  by (simp_all add: last_append)

lemma extract_untrusted_direct:
  assumes "valid_cidrs cidrs" "\<not> trusted cidrs (or_else direct ''unknown'')"
  shows "extract_client_ip_secure err_text cidrs xff direct = Inr (or_else direct ''unknown'')"
  using assms by (simp add: extract_client_ip_secure_def is_trusted_proxy_valid Let_def)

lemma extract_trusted_direct:
  assumes "valid_cidrs cidrs" "trusted cidrs direct" "xff \<noteq> []"
  shows "extract_client_ip_secure err_text cidrs (Some xff) (Some direct) =
    (let ips = map strip (split_on CHR '','' xff) in
     Inr (case filter (untrusted cidrs) ips of
            [] \<Rightarrow> if ip_address (hd ips) \<noteq> None then hd ips else direct
          | us \<Rightarrow> last us))"
proof -
  let ?ips = "map strip (split_on CHR '','' xff)"
  have d: "or_else (Some direct) ''unknown'' = direct"
    using assms(2) no_empty_address by (auto simp: trusted_def)
  have "rightmost_untrusted err_text cidrs (rev ?ips) =
      Inr (if filter (untrusted cidrs) ?ips = [] then None else Some (last (filter (untrusted cidrs) ?ips)))"
    using rightmost_untrusted_valid [OF assms(1)]
    by (simp add: rev_map [symmetric] find_rev comp_def)
  moreover have "strip (hd ?ips) = hd ?ips" by (simp add: hd_map)
  ultimately show ?thesis
    using assms d by (auto simp: extract_client_ip_secure_def is_trusted_proxy_valid Let_def split: list.splits)
qed

lemma extract_last:
  assumes "valid_cidrs cidrs" "trusted cidrs direct" "xff \<noteq> []"
    and "filter (untrusted cidrs) (map strip (split_on CHR '','' xff)) = us @ [c]"
  shows "extract_client_ip_secure err_text cidrs (Some xff) (Some direct) = Inr c"
  using extract_trusted_direct [OF assms(1-3)] assms(4) by (cases us) (auto simp: Let_def)

lemma split_on_join_append:
  "split_on c (s @ c # t) = split_on c s @ split_on c t"
  by (induction s) (auto split: list.splits)

lemma parse_prefix_digits: "n \<le> m \<Longrightarrow> parse_prefix m (nat_digits n) = Some n"
  by (simp add: parse_prefix_def nat_digits_is_digit nat_of_string_def nat_digits_value Let_def)

lemma no_slash:
  "CHR ''/'' \<notin> set (nat_digits n)" "CHR ''/'' \<notin> set (show_v4 w)"
proof -
  have d: "CHR ''/'' \<notin> set (nat_digits n)" for n
  proof
    assume "CHR ''/'' \<in> set (nat_digits n)"
    then have "is_digit CHR ''/''" using nat_digits_is_digit [of n] by (simp add: list_all_iff)
    then show False by (simp add: is_digit_def ordc_def)
  qed
  show "CHR ''/'' \<notin> set (nat_digits n)" by (rule d)
  show "CHR ''/'' \<notin> set (show_v4 w)" using d by (simp add: show_v4_def octets_of_def Let_def)
qed

lemma ip_address_show: "ip_address (show_v4 w) = Some (V4 w)"
  using parse_v4_iff [of "show_v4 w" w] no_slash(2) [of w] by (simp add: ip_address_def)

lemma ip_network_show:
  "p \<le> 32 \<Longrightarrow> ip_network (show_v4 w @ ''/'' @ nat_digits p) = Some (mk_net4 w p)"
  using parse_v4_iff [of "show_v4 w" w] no_slash
  by (simp add: ip_network_def split_mask_def split_on_append split_on_no_sep parse_net4_def
      parse_mask4_def parse_prefix_digits)

lemma show_v4_chars: "c \<in> set (show_v4 w) \<Longrightarrow> is_digit c \<or> c = CHR ''.''"
  using nat_digits_is_digit by (auto simp: show_v4_def octets_of_def Let_def list_all_iff)

lemma show_v4_plain: "strip (show_v4 w) = show_v4 w" "split_on CHR '','' (show_v4 w) = [show_v4 w]" "show_v4 w \<noteq> []"
proof -
  have "\<not> is_space c \<and> c \<noteq> CHR '',''" if "c \<in> set (show_v4 w)" for c
    using show_v4_chars [OF that] by (auto simp: is_space_def is_digit_def ordc_def)
  then show "strip (show_v4 w) = show_v4 w" "split_on CHR '','' (show_v4 w) = [show_v4 w]"
    by (auto intro: strip_no_space split_on_no_sep)
  show "show_v4 w \<noteq> []" by (simp add: show_v4_def octets_of_def Let_def)
qed

lemma any_network: "ip_network ''0.0.0.0/0'' = Some (mk_net4 (word_of_octets 0 0 0 0) 0)"
proof -
  have "join ''.'' (map nat_digits [0, 0, 0, 0]) @ ''/'' @ nat_digits 0 = ''0.0.0.0/0''" by code_simp
  then show ?thesis
    using ip_network_show [of 0 "word_of_octets 0 0 0 0"] show_v4_octets [of 0 0 0 0] by simp
qed

lemma all_trusted: "valid_cidrs [''0.0.0.0/0'']" "trusted [''0.0.0.0/0''] (show_v4 w)"
proof -
  show "valid_cidrs [''0.0.0.0/0'']" by (simp add: valid_cidrs_def any_network)
  have "unat a div 2 ^ 32 = 0" for a :: "32 word"
  proof -
    have "unat a < 2 ^ LENGTH(32)" by (rule unsigned_less)
    then show ?thesis by simp
  qed
  then show "trusted [''0.0.0.0/0''] (show_v4 w)"
    by (simp add: trusted_def ip_address_show networks_of_def List.map_filter_simps any_network in_net4_iff)
qed

text \<open>Addresses and networks of the witnesses.\<close>

definition sample_cidrs :: "string list" where
  "sample_cidrs = [''10.0.0.0/16'']"

lemma sample_network: "ip_network ''10.0.0.0/16'' = Some (mk_net4 (word_of_octets 10 0 0 0) 16)"
proof -
  have "join ''.'' (map nat_digits [10, 0, 0, 0]) @ ''/'' @ nat_digits 16 = ''10.0.0.0/16''" by code_simp
  then show ?thesis
    using ip_network_show [of 16 "word_of_octets 10 0 0 0"] show_v4_octets [of 10 0 0 0] by simp
qed

lemma sample_cidrs_valid: "valid_cidrs sample_cidrs"
  by (simp add: valid_cidrs_def sample_cidrs_def sample_network)

lemma sample_trusted_iff:
  assumes "a \<le> 255" "b \<le> 255" "c \<le> 255" "d \<le> 255" "s = join ''.'' (map nat_digits [a, b, c, d])"
  shows "trusted sample_cidrs s \<longleftrightarrow> a = 10 \<and> b = 0" "ip_address s = Some (V4 (word_of_octets a b c d))"
proof -
  show ip: "ip_address s = Some (V4 (word_of_octets a b c d))"
    using ip_address_show [of "word_of_octets a b c d"] show_v4_octets [OF assms(1-4)] assms(5) by simp
  have "(((a * 256 + b) * 256 + c) * 256 + d) div 65536 = a * 256 + b"
    using assms(3,4) by (intro div_nat_eqI) simp_all
  moreover have "a * 256 + b = 2560 \<longleftrightarrow> a = 10 \<and> b = 0" using assms(2) by presburger
  ultimately show "trusted sample_cidrs s \<longleftrightarrow> a = 10 \<and> b = 0"
    using unat_word_of_octets [OF assms(1-4)] unat_word_of_octets [of 10 0 0 0]
    by (simp add: trusted_def ip sample_cidrs_def networks_of_def List.map_filter_simps sample_network in_net4_iff)
qed

lemma sample_texts:
  "''10.0.0.9'' = join ''.'' (map nat_digits [10, 0, 0, 9])"
  "''10.0.0.4'' = join ''.'' (map nat_digits [10, 0, 0, 4])"
  "''1.2.3.4'' = join ''.'' (map nat_digits [1, 2, 3, 4])"
  "''203.0.113.7'' = join ''.'' (map nat_digits [203, 0, 113, 7])"
  by code_simp+

lemma sample_trusted: "trusted sample_cidrs ''10.0.0.9''" "trusted sample_cidrs ''10.0.0.4''"
  using sample_trusted_iff(1) [OF _ _ _ _ sample_texts(1)] sample_trusted_iff(1) [OF _ _ _ _ sample_texts(2)]
  by simp_all

lemma sample_untrusted: "untrusted sample_cidrs ''203.0.113.7''" "untrusted sample_cidrs ''1.2.3.4''"
  using sample_trusted_iff [OF _ _ _ _ sample_texts(3)] sample_trusted_iff [OF _ _ _ _ sample_texts(4)]
  by (simp_all add: untrusted_def)

lemma sample_port: "ip_address ''203.0.113.7:4711'' = None"
proof -
  have "split_on CHR ''.'' ''203.0.113.7:4711'' = [''203'', ''0'', ''113'', ''7:4711'']"
    "parse_octet ''7:4711'' = None" "split_on CHR '':'' ''203.0.113.7:4711'' = [''203.0.113.7'', ''4711'']"
    by code_simp+
  then have "parse_v4 ''203.0.113.7:4711'' = None" "v6_parts ''203.0.113.7:4711'' = None"
    by (auto simp: parse_v4_def v6_parts_def Let_def split: option.splits)
  then show ?thesis by (simp add: ip_address_def parse_v6_def strip_scope_def)
qed

lemma sample_proxy: "\<not> untrusted sample_cidrs ''10.0.0.4''"
  using sample_trusted by (simp add: untrusted_def)

subsection \<open>Properties\<close>

text \<open>Trusted networks: with IPv4 networks configured, an IPv4 address is a trusted proxy exactly
  when its leading bits are those of one of the networks, whatever host bits the configured
  networks carry.\<close>

theorem trusted_proxy_membership:
  assumes "\<forall>(b, p) \<in> set nets. p \<le> 32"
  shows "is_trusted_proxy err_text (map (\<lambda>(b, p). show_v4 b @ ''/'' @ nat_digits p) nets) (show_v4 a) =
    Inr (\<exists>(b, p) \<in> set nets. unat a div 2 ^ (32 - p) = unat b div 2 ^ (32 - p))"
proof -
  let ?cidrs = "map (\<lambda>(b, p). show_v4 b @ ''/'' @ nat_digits p) nets"
  have net: "ip_network (show_v4 b @ ''/'' @ nat_digits p) = Some (mk_net4 b p)" if "(b, p) \<in> set nets" for b p
    using assms that by (intro ip_network_show) auto
  have "valid_cidrs ?cidrs" using net by (auto simp: valid_cidrs_def list_all_iff)
  moreover have "networks_of ?cidrs = map (\<lambda>(b, p). mk_net4 b p) nets"
    using net by (induction nets) (auto simp: networks_of_def List.map_filter_simps)
  then have "trusted ?cidrs (show_v4 a) \<longleftrightarrow> (\<exists>(b, p) \<in> set nets. in_net (V4 a) (mk_net4 b p))"
    by (simp add: trusted_def ip_address_show list_ex_iff case_prod_beta)
  ultimately show ?thesis by (simp add: is_trusted_proxy_valid in_net4_iff)
qed

theorem trusted_proxy_membership_witness:
  "is_trusted_proxy (\<lambda>_. []) (map (\<lambda>(b, p). show_v4 b @ ''/'' @ nat_digits p) [(167772160, 16)]) (show_v4 167772169) =
    Inr True"
proof -
  have "\<forall>(b, p) \<in> set [(167772160 :: 32 word, 16 :: nat)]. p \<le> 32" by simp
  from trusted_proxy_membership [OF this, of "\<lambda>_. []" 167772169] show ?thesis by simp
qed

text \<open>C15. The client address cannot be forged: behind a trusted peer the client is the rightmost
  entry of the header that is an address outside the trusted networks, so that nothing the client
  writes before the entry its proxy appended changes the result; without such an entry it is the
  leftmost address; and a peer outside the networks is the client whatever the header says.\<close>

theorem client_ip_unspoofable:
  assumes "valid_cidrs cidrs" "trusted cidrs direct"
    and "CHR '','' \<notin> set client" "untrusted cidrs (strip client)"
    and "\<forall>p \<in> set proxies. CHR '','' \<notin> set p \<and> \<not> untrusted cidrs (strip p)"
    and "\<not> trusted cidrs peer" "peer \<noteq> []"
  shows "extract_client_ip_secure err_text cidrs (Some (forged @ '','' @ join '','' (client # proxies))) (Some direct) =
      Inr (strip client) \<and>
    extract_client_ip_secure err_text cidrs (Some (join '','' (client # proxies))) (Some direct) = Inr (strip client) \<and>
    extract_client_ip_secure err_text cidrs header (Some peer) = Inr peer"
proof -
  have split: "split_on CHR '','' (join '','' (client # proxies)) = client # proxies"
    using assms(3,5) by (intro split_on_join) auto
  have us: "filter (untrusted cidrs) (map strip (client # proxies)) = [strip client]"
    using assms(4,5) by (auto simp: filter_empty_conv)
  have ne: "join '','' (client # proxies) \<noteq> []"
    using assms(4) no_empty_address by (cases proxies) (auto simp: untrusted_def strip_def)
  have "extract_client_ip_secure err_text cidrs (Some (join '','' (client # proxies))) (Some direct) = Inr (strip client)"
    using extract_last [OF assms(1,2) ne, of "[]"] us unfolding split by simp
  moreover have "extract_client_ip_secure err_text cidrs (Some (forged @ '','' @ join '','' (client # proxies))) (Some direct) =
      Inr (strip client)"
    using us by (intro extract_last [OF assms(1,2)]) (simp_all add: split_on_join_append split)
  moreover have "or_else (Some peer) ''unknown'' = peer" using assms(7) by simp
  then have "extract_client_ip_secure err_text cidrs header (Some peer) = Inr peer"
    using extract_untrusted_direct [OF assms(1), of "Some peer"] assms(6) by simp
  ultimately show ?thesis by blast
qed

theorem client_ip_unspoofable_witness:
  "extract_client_ip_secure (\<lambda>_. []) sample_cidrs (Some (''1.2.3.4'' @ '','' @ join '','' ['' 203.0.113.7'', '' 10.0.0.4'']))
     (Some ''10.0.0.9'') = Inr (strip '' 203.0.113.7'')"
proof -
  have "strip '' 203.0.113.7'' = ''203.0.113.7''" "strip '' 10.0.0.4'' = ''10.0.0.4''" by code_simp+
  moreover have "\<not> trusted sample_cidrs ''203.0.113.7''" using sample_untrusted by (simp add: untrusted_def)
  ultimately show ?thesis
    using client_ip_unspoofable [OF sample_cidrs_valid sample_trusted(1), of "'' 203.0.113.7''" "['' 10.0.0.4'']"
        "''203.0.113.7''" "\<lambda>_. []" "''1.2.3.4''" None]
      sample_untrusted(1) sample_proxy by simp
qed

text \<open>An entry that is not a plain address is skipped: when the trusted proxy appends the client
  in another form, such as with its port, the entry before it, which the client wrote, is taken as
  the client address.\<close>

theorem client_ip_unparsed_entry:
  assumes "valid_cidrs cidrs" "trusted cidrs direct"
    and "CHR '','' \<notin> set client" "ip_address (strip client) = None"
    and "CHR '','' \<notin> set forged" "untrusted cidrs (strip forged)"
  shows "extract_client_ip_secure err_text cidrs (Some (forged @ '','' @ client)) (Some direct) = Inr (strip forged)"
proof -
  have "\<not> untrusted cidrs (strip client)" using assms(4) by (simp add: untrusted_def)
  then have "filter (untrusted cidrs) (map strip (split_on CHR '','' (forged @ '','' @ client))) = [] @ [strip forged]"
    using assms(3,5,6) by (simp add: split_on_append split_on_no_sep)
  then show ?thesis by (intro extract_last [OF assms(1,2)]) simp_all
qed

theorem client_ip_unparsed_entry_witness:
  "extract_client_ip_secure (\<lambda>_. []) sample_cidrs (Some (''1.2.3.4'' @ '','' @ ''203.0.113.7:4711''))
     (Some ''10.0.0.9'') = Inr (strip ''1.2.3.4'')"
proof -
  have "strip ''203.0.113.7:4711'' = ''203.0.113.7:4711''" "strip ''1.2.3.4'' = ''1.2.3.4''" by code_simp+
  then show ?thesis
    using client_ip_unparsed_entry [OF sample_cidrs_valid sample_trusted(1), of "''203.0.113.7:4711''" "''1.2.3.4''" "\<lambda>_. []"]
      sample_untrusted(2) sample_port by simp
qed

text \<open>An invalid network in the configuration is reported when a forwarded request is handled
  and not before: the first invalid entry raises \<open>ConfigurationError\<close>, for every request with a
  forwarding header from a peer with an address, while a request without the header is served.\<close>

theorem invalid_network_raises:
  assumes "valid_cidrs good" "ip_network bad = None"
    and "ip_address direct \<noteq> None" "xff \<noteq> []"
  shows "parse_trusted_networks err_text (good @ bad # rest) = Inl (config_error err_text bad) \<and>
    extract_client_ip_secure err_text (good @ bad # rest) (Some xff) (Some direct) = Inl (config_error err_text bad) \<and>
    extract_client_ip_secure err_text (good @ bad # rest) None (Some direct) = Inr direct"
proof -
  have p: "parse_trusted_networks err_text (good @ bad # rest) = Inl (config_error err_text bad)"
    unfolding parse_trusted_networks_def map_res_Inl using assms(1,2)
    by (intro exI [of _ good] exI [of _ bad] exI [of _ rest])
      (auto simp: valid_cidrs_def list_all_iff split: option.splits)
  have "direct \<noteq> []" "direct \<noteq> ''unknown''"
    using assms(3) no_empty_address unknown_no_address by auto
  then show ?thesis
    using p assms(3,4) by (auto simp: extract_client_ip_secure_def is_trusted_proxy_def Let_def)
qed

theorem invalid_network_raises_witness:
  "extract_client_ip_secure (\<lambda>_. []) (sample_cidrs @ ''10.0.0.0/33/1'' # []) (Some ''x'') (Some ''10.0.0.9'') =
     Inl (config_error (\<lambda>_. []) ''10.0.0.0/33/1'')"
proof -
  have "split_on CHR ''/'' ''10.0.0.0/33/1'' = [''10.0.0.0'', ''33'', ''1'']" by code_simp
  then have "ip_network ''10.0.0.0/33/1'' = None" by (simp add: ip_network_def split_mask_def)
  moreover have "ip_address ''10.0.0.9'' \<noteq> None"
    using sample_trusted(1) by (auto simp: trusted_def split: option.splits)
  ultimately show ?thesis
    using invalid_network_raises [OF sample_cidrs_valid, of "''10.0.0.0/33/1''" "''10.0.0.9''" "''x''"] by simp
qed

text \<open>Rate-limit keys: without the token module the key is the client address whatever the
  request's token, and so it is for a token that is refused; with it an accepted token's user id
  is the key.\<close>

theorem rate_limit_key:
  "get_user_id_or_ip ext None to_str err_text cidrs request =
     map_sum id (\<lambda>ip. ''ip:'' @ ip) (extract_client_ip err_text cidrs request) \<and>
   (header_get request ''Authorization'' = Some (''Bearer '' @ token) \<and> CHR '' '' \<notin> set token \<and>
      jwt_decode token = Inr (Some payload) \<and> dict_get payload ''user_id'' = Some v \<longrightarrow>
    get_user_id_or_ip ext (Some jwt_decode) to_str err_text cidrs request = Inr (''user:'' @ to_str v)) \<and>
   (header_get request ''Authorization'' = Some (''Bearer '' @ token) \<and> CHR '' '' \<notin> set token \<and>
      jwt_decode token = Inl (EService e) \<and> JWTTokenError \<in> set (app_mro (sv_class e)) \<longrightarrow>
    get_user_id_or_ip ext (Some jwt_decode) to_str err_text cidrs request =
      map_sum id (\<lambda>ip. ''ip:'' @ ip) (extract_client_ip err_text cidrs request))"
proof -
  have tok: "split_on CHR '' '' (''Bearer '' @ token) ! 1 = token" if "CHR '' '' \<notin> set token"
    using that by (simp add: split_on_no_sep)
  have ne: "payload \<noteq> []" if "dict_get payload ''user_id'' = Some v" using that by auto
  have jwt: "isinst ext (App (sv_class e)) handled_token_errors" if "JWTTokenError \<in> set (app_mro (sv_class e))"
    using that by (auto simp: isinst_def handled_token_errors_def mro_def Let_def)
  have sw: "startswith (''Bearer '' @ token) ''Bearer ''" by (rule startswith_append)
  show ?thesis
    using tok ne jwt sw
    by (auto simp: get_user_id_or_ip_def Let_def dict_has_get simp del: append_Cons split_on.simps
        split: option.splits)
qed

theorem rate_limit_key_witness:
  "get_user_id_or_ip (\<lambda>_. []) (Some (\<lambda>t. if t = ''abc'' then Inr (Some [(''user_id'', PStr ''7'')]) else Inr None))
     (\<lambda>v. case v of PStr s \<Rightarrow> s | _ \<Rightarrow> []) (\<lambda>_. []) sample_cidrs
     \<lparr>hr_headers = [(''authorization'', ''Bearer '' @ ''abc'')], hr_client = None\<rparr> = Inr ''user:7''"
proof -
  have "header_get \<lparr>hr_headers = [(''authorization'', ''Bearer '' @ ''abc'')], hr_client = None\<rparr> ''Authorization'' =
    Some (''Bearer '' @ ''abc'')"
    by code_simp
  then show ?thesis
    using rate_limit_key [where token = "''abc''" and v = "PStr ''7''" and payload = "[(''user_id'', PStr ''7'')]" and
        jwt_decode = "\<lambda>t. if t = ''abc'' then Inr (Some [(''user_id'', PStr ''7'')]) else Inr None" and
        request = "\<lparr>hr_headers = [(''authorization'', ''Bearer '' @ ''abc'')], hr_client = None\<rparr>" and
        to_str = "\<lambda>v. case v of PStr s \<Rightarrow> s | _ \<Rightarrow> []"]
    by simp
qed

text \<open>The response to an exceeded limit: status 429 in the error format of the application,
  with a \<open>Retry-After\<close> header that is the number of seconds in its body, read from the limit's
  unit.\<close>

theorem rate_limit_response:
  assumes "valid_cidrs cidrs"
  shows "\<exists>r. rate_limit_exceeded_handler ext None to_str err_text cidrs request detail = Inr r \<and>
      r_status r = 429 \<and>
      r_body r = error_body ''RATE_LIMIT_EXCEEDED'' ''Rate limit exceeded. Please try again later.''
        [(''retry_after'', PInt (retry_after_of detail))] \<and>
      dict_get (r_headers r) ''Retry-After'' = Some (str_of_int (retry_after_of detail)) \<and>
      retry_after_of detail \<in> {1, 60, 3600} \<and>
      retry_after_of (Some ''5 per 1 minute'') = 60 \<and> retry_after_of (Some ''5 per 1 second'') = 1 \<and>
      retry_after_of (Some ''5 per 1 hour'') = 3600 \<and> retry_after_of (Some ''5 per 1 day'') = 60"
proof -
  have "\<exists>ip. extract_client_ip err_text cidrs request = Inr ip"
    using rightmost_untrusted_valid [OF assms]
    by (auto simp: extract_client_ip_def extract_client_ip_secure_def is_trusted_proxy_valid [OF assms] Let_def
        split: option.splits)
  then have "\<exists>k. get_user_id_or_ip ext None to_str err_text cidrs request = Inr k"
    by (auto simp: get_user_id_or_ip_def Let_def)
  moreover have "retry_after_of detail \<in> {1, 60, 3600}"
    by (simp add: retry_after_of_def Let_def)
  moreover have "split_ws ''5 per 1 minute'' = [''5'', ''per'', ''1'', ''minute'']"
    "split_ws ''5 per 1 second'' = [''5'', ''per'', ''1'', ''second'']"
    "split_ws ''5 per 1 hour'' = [''5'', ''per'', ''1'', ''hour'']"
    "split_ws ''5 per 1 day'' = [''5'', ''per'', ''1'', ''day'']"
    by code_simp+
  ultimately show ?thesis
    by (auto simp: rate_limit_exceeded_handler_def Let_def json_response_def error_body_def retry_after_of_def)
qed

theorem rate_limit_response_witness:
  "\<exists>r. rate_limit_exceeded_handler (\<lambda>_. []) None (\<lambda>_. []) (\<lambda>_. []) sample_cidrs
     \<lparr>hr_headers = [], hr_client = Some ''10.0.0.9''\<rparr> (Some ''5 per 1 hour'') = Inr r \<and> r_status r = 429"
  using rate_limit_response [OF sample_cidrs_valid] by blast

subsection \<open>The cache of the networks\<close>

text \<open>\<open>lru_cache(maxsize=1)\<close> on the parsed networks: the last argument that was parsed and its result.
  An exception is not kept.\<close>

type_synonym networks_cache = "(string list \<times> ip_net list) option"

definition get_trusted_networks_cached ::
  "(string \<Rightarrow> string) \<Rightarrow> string list \<Rightarrow> networks_cache \<Rightarrow> networks_cache \<times> (exn + ip_net list)" where
  "get_trusted_networks_cached err_text cidrs cache =
     (case cache of
        Some (key, networks) \<Rightarrow>
          if key = cidrs then (cache, Inr networks)
          else (case parse_trusted_networks err_text cidrs of
             Inl e \<Rightarrow> (cache, Inl e)
           | Inr parsed \<Rightarrow> (Some (cidrs, parsed), Inr parsed))
      | None \<Rightarrow>
          (case parse_trusted_networks err_text cidrs of
             Inl e \<Rightarrow> (cache, Inl e)
           | Inr parsed \<Rightarrow> (Some (cidrs, parsed), Inr parsed)))"

definition cache_sound :: "(string \<Rightarrow> string) \<Rightarrow> networks_cache \<Rightarrow> bool" where
  "cache_sound err_text cache \<longleftrightarrow>
     (\<forall>cidrs networks. cache = Some (cidrs, networks) \<longrightarrow> parse_trusted_networks err_text cidrs = Inr networks)"

lemma cached_networks:
  assumes "cache_sound err_text cache"
  shows "snd (get_trusted_networks_cached err_text cidrs cache) = parse_trusted_networks err_text cidrs \<and>
    cache_sound err_text (fst (get_trusted_networks_cached err_text cidrs cache))"
  using assms by (auto simp: get_trusted_networks_cached_def cache_sound_def split: option.split sum.split)

text \<open>Whatever the settings were in between, every call gives the networks of the settings then.\<close>

lemma cached_networks_for:
  assumes "cache_sound err_text cache"
  shows "cache_sound err_text (fold (\<lambda>cidrs c. fst (get_trusted_networks_cached err_text cidrs c)) history cache) \<and>
    snd (get_trusted_networks_cached err_text cidrs
      (fold (\<lambda>cidrs c. fst (get_trusted_networks_cached err_text cidrs c)) history cache)) =
      parse_trusted_networks err_text cidrs"
  using assms by (induction history arbitrary: cache) (auto simp: cached_networks)

end
