(* ===== verification/AdminAuth.thy ===== *)
theory AdminAuth
  imports ProxyValidation
begin

section \<open>Access to the admin panel\<close>

text \<open>
  \<open>core/infrastructure/admin/auth_backend.py\<close>.  The class extends a backend of the identity
  kit: its \<open>login\<close>, \<open>logout\<close> and \<open>authenticate\<close> are the fields of \<open>ipk\<close>, computations on the
  session that may raise.  The session is a dictionary; \<open>mfa_verified\<close> and \<open>admin_client_ip\<close>
  are the entries this class writes.
\<close>

type_synonym session = "(string \<times> pyval) list"

datatype admin_answer = Redirect string int | Allowed bool

record ipk_backend =
  ipk_login :: "(session, exn, bool) act"
  ipk_logout :: "(session, exn, bool) act"
  ipk_authenticate :: "(session, exn, admin_answer) act"

record admin_settings =
  as_allowed_ips :: "string list"
  as_mfa_enabled :: bool

text \<open>What the backend reads of a request: the headers and the peer, the form, which is read when
  a login is refused, and the address of the login page.\<close>

record admin_request =
  ar_http :: http_request
  ar_form :: "exn + (string \<times> string) list"
  ar_login_url :: string

fun parse_admin_allowed_ips :: "string list \<Rightarrow> string list \<times> ip_net list" where
  "parse_admin_allowed_ips [] = ([], [])"
| "parse_admin_allowed_ips (entry # entries) =
     (let e = strip entry; rest = parse_admin_allowed_ips entries in
      if e = [] then rest
      else if contains e ''/'' then
        (case ip_network e of Some n \<Rightarrow> (fst rest, n # snd rest) | None \<Rightarrow> rest)
      else
        (case ip_address e of Some _ \<Rightarrow> (e # fst rest, snd rest) | None \<Rightarrow> rest))"

definition get_client_ip :: "(string \<Rightarrow> string) \<Rightarrow> string list \<Rightarrow> admin_request \<Rightarrow> exn + string" where
  "get_client_ip err_text cidrs request =
     extract_client_ip_secure err_text cidrs (header_get (ar_http request) ''X-Forwarded-For'')
       (hr_client (ar_http request))"

definition check_ip_allowed ::
  "admin_settings \<Rightarrow> (string \<Rightarrow> string) \<Rightarrow> string list \<Rightarrow> admin_request \<Rightarrow> exn + bool" where
  "check_ip_allowed st err_text cidrs request =
     (if as_allowed_ips st = [] then Inr True
      else bind_res (get_client_ip err_text cidrs request) (\<lambda>client_ip.
        let parsed = parse_admin_allowed_ips (as_allowed_ips st) in
        Inr (if client_ip \<in> set (fst parsed) then True
             else case ip_address client_ip of
                    None \<Rightarrow> False
                  | Some addr \<Rightarrow> list_ex (in_net addr) (snd parsed))))"

definition put :: "string \<Rightarrow> pyval \<Rightarrow> (session, exn, unit) act" where
  \<comment> \<open>\<open>request.session[k] = v\<close>\<close>
  "put k v = s_modify (dict_set k v)"

definition session_true :: "string \<Rightarrow> session \<Rightarrow> bool" where
  \<comment> \<open>\<open>request.session.get(k)\<close> as a condition\<close>
  "session_true k s = (case dict_get s k of None \<Rightarrow> False | Some v \<Rightarrow> truthy v)"

definition admin_login ::
  "ipk_backend \<Rightarrow> admin_settings \<Rightarrow> (string \<Rightarrow> string) \<Rightarrow> string list \<Rightarrow> admin_request \<Rightarrow> (session, exn, bool) act" where
  "admin_login ipk st err_text cidrs request =
     s_bind (s_lift (check_ip_allowed st err_text cidrs request)) (\<lambda>allowed.
       if \<not> allowed then
         s_bind (s_lift (get_client_ip err_text cidrs request)) (\<lambda>_.
         s_bind (s_lift (ar_form request)) (\<lambda>_. s_ret False))
       else
         s_bind (ipk_login ipk) (\<lambda>result.
           if result then
             s_bind (s_lift (get_client_ip err_text cidrs request)) (\<lambda>client_ip.
             s_bind (put ''admin_client_ip'' (PStr client_ip)) (\<lambda>_.
             if as_mfa_enabled st then
               s_bind (put ''mfa_verified'' (PBool False)) (\<lambda>_.
               s_bind (s_lift (get_client_ip err_text cidrs request)) (\<lambda>_. s_ret result))
             else s_ret result))
           else s_ret result))"

definition admin_logout ::
  "ipk_backend \<Rightarrow> (string \<Rightarrow> string) \<Rightarrow> string list \<Rightarrow> admin_request \<Rightarrow> (session, exn, bool) act" where
  \<comment> \<open>the client address is computed as the default of a lookup, whether or not it is used\<close>
  "admin_logout ipk err_text cidrs request =
     s_bind (s_lift (get_client_ip err_text cidrs request)) (\<lambda>_. ipk_logout ipk)"

definition admin_authenticate ::
  "ipk_backend \<Rightarrow> admin_settings \<Rightarrow> (string \<Rightarrow> string) \<Rightarrow> string list \<Rightarrow> admin_request \<Rightarrow>
   (session, exn, admin_answer) act" where
  "admin_authenticate ipk st err_text cidrs request =
     s_bind (s_lift (check_ip_allowed st err_text cidrs request)) (\<lambda>allowed.
       if \<not> allowed then
         s_bind (s_lift (get_client_ip err_text cidrs request)) (\<lambda>_. s_ret (Redirect (ar_login_url request) 302))
       else
         s_bind (s_get (\<lambda>s. as_mfa_enabled st \<and> session_true ''admin_authenticated'' s
             \<and> \<not> session_true ''mfa_verified'' s)) (\<lambda>mfa_required.
           if mfa_required then
             s_bind (s_lift (get_client_ip err_text cidrs request)) (\<lambda>_. s_ret (Redirect (ar_login_url request) 302))
           else ipk_authenticate ipk))"

text \<open>The requests of a session, in order.\<close>

datatype admin_call = Login admin_request | Logout admin_request | Authenticate admin_request

inductive admin_step ::
  "ipk_backend \<Rightarrow> admin_settings \<Rightarrow> (string \<Rightarrow> string) \<Rightarrow> string list \<Rightarrow> session \<Rightarrow> session \<Rightarrow> bool"
  for ipk st err_text cidrs where
  "admin_step ipk st err_text cidrs s (fst (admin_login ipk st err_text cidrs r s))"
| "admin_step ipk st err_text cidrs s (fst (admin_logout ipk err_text cidrs r s))"
| "admin_step ipk st err_text cidrs s (fst (admin_authenticate ipk st err_text cidrs r s))"

inductive_cases admin_stepE: "admin_step ipk st err_text cidrs s s'"

subsection \<open>Lemmas\<close>

definition ip_permitted :: "string list \<Rightarrow> string \<Rightarrow> bool" where
  \<comment> \<open>an entry with the same text, or a network that holds the address\<close>
  "ip_permitted allowed ip \<longleftrightarrow> allowed = [] \<or>
     (\<exists>e \<in> set allowed. strip e = ip \<and> ip_address ip \<noteq> None \<and> \<not> contains ip ''/'') \<or>
     (\<exists>e \<in> set allowed. \<exists>n a. contains (strip e) ''/'' \<and> ip_network (strip e) = Some n \<and>
        ip_address ip = Some a \<and> in_net a n)"

lemma parsed_exact:
  "ip \<in> set (fst (parse_admin_allowed_ips es)) \<longleftrightarrow>
    (\<exists>e \<in> set es. strip e = ip \<and> ip_address ip \<noteq> None \<and> \<not> contains ip ''/'')"
  by (induction es) (auto simp: Let_def no_empty_address split: option.splits)

lemma parsed_networks:
  "n \<in> set (snd (parse_admin_allowed_ips es)) \<longleftrightarrow>
    (\<exists>e \<in> set es. contains (strip e) ''/'' \<and> ip_network (strip e) = Some n)"
  by (induction es) (auto simp: Let_def split: option.splits)

lemma parsed_networks_contain:
  "list_ex (in_net a) (snd (parse_admin_allowed_ips es)) \<longleftrightarrow>
    (\<exists>e \<in> set es. \<exists>n. contains (strip e) ''/'' \<and> ip_network (strip e) = Some n \<and> in_net a n)"
  unfolding list_ex_iff Bex_def parsed_networks by blast

lemma check_ip_allowed_permitted:
  assumes "get_client_ip err_text cidrs request = Inr ip"
  shows "check_ip_allowed st err_text cidrs request = Inr (ip_permitted (as_allowed_ips st) ip)"
  using assms
  unfolding check_ip_allowed_def Let_def parsed_exact parsed_networks_contain ip_permitted_def
  by (cases "ip_address ip") auto

lemma session_true_put: "session_true k (dict_set j v s) \<longleftrightarrow> (if j = k then truthy v else session_true k s)"
  by (simp add: session_true_def)

text \<open>The contract of the identity kit's backend that the code relies on: only this class writes
  \<open>mfa_verified\<close>, and a session is accepted only after a login.\<close>

definition ipk_contract :: "ipk_backend \<Rightarrow> bool" where
  "ipk_contract ipk \<longleftrightarrow>
     (\<forall>s. session_true ''mfa_verified'' (fst (ipk_login ipk s)) \<longrightarrow> session_true ''mfa_verified'' s) \<and>
     (\<forall>s. session_true ''mfa_verified'' (fst (ipk_logout ipk s)) \<longrightarrow> session_true ''mfa_verified'' s) \<and>
     (\<forall>s. session_true ''mfa_verified'' (fst (ipk_authenticate ipk s)) \<longrightarrow> session_true ''mfa_verified'' s) \<and>
     (\<forall>s. snd (ipk_authenticate ipk s) = Inr (Allowed True) \<longrightarrow> session_true ''admin_authenticated'' s)"

abbreviation unverified :: "session \<Rightarrow> bool" where
  "unverified s \<equiv> \<not> session_true ''mfa_verified'' s"

lemma keeps_unverified_ipk:
  assumes "ipk_contract ipk"
  shows "keeps unverified (ipk_login ipk)" "keeps unverified (ipk_logout ipk)"
    "keeps unverified (ipk_authenticate ipk)"
  using assms unfolding keeps_def ipk_contract_def by blast+

lemma keeps_unverified_put:
  "k \<noteq> ''mfa_verified'' \<or> \<not> truthy v \<Longrightarrow> keeps unverified (put k v)"
  unfolding put_def by (rule keeps_s_modify) (auto simp: session_true_put)

lemma keeps_unverified:
  assumes "ipk_contract ipk"
  shows "keeps unverified (admin_login ipk st err_text cidrs r)"
    "keeps unverified (admin_logout ipk err_text cidrs r)"
    "keeps unverified (admin_authenticate ipk st err_text cidrs r)"
  unfolding admin_login_def admin_logout_def admin_authenticate_def
  by (intro keeps_intros keeps_unverified_ipk [OF assms] keeps_unverified_put; simp)+

lemma unverified_reachable:
  assumes "ipk_contract ipk" "(admin_step ipk st err_text cidrs)\<^sup>*\<^sup>* s t" "unverified s"
  shows "unverified t"
  using assms(2,3)
  by (induction rule: rtranclp_induct)
    (auto elim!: admin_stepE dest: keeps_unverified [OF assms(1), THEN keepsD])

text \<open>A backend with one user and a request from an address of the sample networks.\<close>

definition sample_ipk :: ipk_backend where
  "sample_ipk =
     \<lparr>ipk_login = (\<lambda>s. (dict_set ''admin_authenticated'' (PBool True) s, Inr True)),
      ipk_logout = (\<lambda>s. ([], Inr True)),
      ipk_authenticate = (\<lambda>s. (s, Inr (Allowed (session_true ''admin_authenticated'' s))))\<rparr>"

lemma sample_ipk_contract: "ipk_contract sample_ipk"
  by (simp add: ipk_contract_def sample_ipk_def session_true_def)

definition sample_request :: "string \<Rightarrow> admin_request" where
  "sample_request ip = \<lparr>ar_http = \<lparr>hr_headers = [], hr_client = Some ip\<rparr>, ar_form = Inr [], ar_login_url = ''/admin/login''\<rparr>"

lemma sample_client: "ip \<noteq> [] \<Longrightarrow> get_client_ip err_text cidrs (sample_request ip) = Inr ip"
  by (simp add: get_client_ip_def sample_request_def header_get_def extract_client_ip_secure_def Let_def)

subsection \<open>Properties\<close>

text \<open>C16. The allow list: a client that is neither listed by its own text nor inside a listed network
  is turned away before the identity kit sees the request, with the session unchanged; a permitted
  client without MFA is decided by the identity kit alone.\<close>

theorem admin_ip_allowlist:
  assumes "get_client_ip err_text cidrs request = Inr ip" "ar_form request = Inr form"
  shows "(\<not> ip_permitted (as_allowed_ips st) ip \<longrightarrow>
      admin_login ipk st err_text cidrs request s = (s, Inr False) \<and>
      admin_authenticate ipk st err_text cidrs request s = (s, Inr (Redirect (ar_login_url request) 302))) \<and>
    (ip_permitted (as_allowed_ips st) ip \<and> \<not> as_mfa_enabled st \<longrightarrow>
      snd (admin_login ipk st err_text cidrs request s) = snd (ipk_login ipk s) \<and>
      admin_authenticate ipk st err_text cidrs request s = ipk_authenticate ipk s)"
  using check_ip_allowed_permitted [OF assms(1), of st] assms
  by (auto simp: admin_login_def admin_authenticate_def act_simps put_def split: prod.splits sum.splits)

theorem admin_ip_allowlist_witness:
  "admin_login sample_ipk \<lparr>as_allowed_ips = [''10.0.0.0/16''], as_mfa_enabled = True\<rparr> (\<lambda>_. []) sample_cidrs
     (sample_request ''203.0.113.7'') [] = ([], Inr False)"
proof -
  have "\<not> ip_permitted [''10.0.0.0/16''] ''203.0.113.7''"
  proof -
    have "strip ''10.0.0.0/16'' = ''10.0.0.0/16''" "''10.0.0.0/16'' \<noteq> ''203.0.113.7''" by code_simp+
    then show ?thesis
      using sample_untrusted(1)
      by (auto simp: ip_permitted_def sample_network untrusted_def trusted_def sample_cidrs_def networks_of_def
          List.map_filter_simps)
  qed
  then show ?thesis
    using admin_ip_allowlist [OF sample_client, where ip = "''203.0.113.7''" and form = "[]"]
    by (simp add: sample_request_def)
qed

text \<open>With MFA enabled the admin panel is closed: no code path verifies a second factor, so that
  whatever logins and requests a session makes, no later request is ever accepted.\<close>

theorem admin_mfa_locks_out:
  assumes "ipk_contract ipk" "as_mfa_enabled st" "(admin_step ipk st err_text cidrs)\<^sup>*\<^sup>* [] s"
  shows "snd (admin_authenticate ipk st err_text cidrs request s) \<noteq> Inr (Allowed True)"
proof
  assume a: "snd (admin_authenticate ipk st err_text cidrs request s) = Inr (Allowed True)"
  have u: "unverified s" using unverified_reachable [OF assms(1,3)] by (simp add: session_true_def)
  have "session_true ''admin_authenticated'' s \<Longrightarrow> False"
    using a u assms(2)
    by (auto simp: admin_authenticate_def act_simps split: prod.splits sum.splits if_splits)
  moreover have "\<not> session_true ''admin_authenticated'' s \<Longrightarrow> snd (ipk_authenticate ipk s) = Inr (Allowed True)"
    using a by (auto simp: admin_authenticate_def act_simps split: prod.splits sum.splits if_splits)
  ultimately show False using assms(1) unfolding ipk_contract_def by blast
qed

theorem admin_mfa_locks_out_witness:
  "snd (admin_authenticate sample_ipk \<lparr>as_allowed_ips = [], as_mfa_enabled = True\<rparr> (\<lambda>_. []) sample_cidrs
     (sample_request ''10.0.0.9'')
     (fst (admin_login sample_ipk \<lparr>as_allowed_ips = [], as_mfa_enabled = True\<rparr> (\<lambda>_. []) sample_cidrs
       (sample_request ''10.0.0.9'') []))) \<noteq> Inr (Allowed True)"
  by (rule admin_mfa_locks_out [OF sample_ipk_contract]) (auto intro: admin_step.intros)

end
