(* ===== verification/Asyncio.thy ===== *)
theory Asyncio
  imports PyExceptions
begin

section \<open>Awaiting under a timeout\<close>

text \<open>
  One task of the event loop, for the components that work under \<open>asyncio.wait_for\<close>: the time,
  the timeouts in force and the calls the task has made to the outside.  The outside is a
  parameter \<open>env\<close>, which gives the duration and the outcome of a call from the calls made so
  far.  A timeout that expires while a call is awaited cancels the task there: the call raises
  \<open>CancelledError\<close>, which \<open>wait_for\<close> turns into \<open>TimeoutError\<close>.  A cancellation from outside
  is an outcome of \<open>env\<close>.

  \<open>core/security/timeout.py\<close> follows.
\<close>

type_synonym 'c environment = "'c list \<Rightarrow> real \<times> (exn + unit)"

text \<open>A timeout that has expired is \<open>None\<close>; the innermost comes first.\<close>

record 'c task =
  tk_now :: real
  tk_deadlines :: "real option list"
  tk_trace :: "'c list"

definition cancelled_error :: exn where
  "cancelled_error = EOther (Builtin CancelledErrorC) []"

definition timeout_error :: exn where
  "timeout_error = EOther (Builtin TimeoutErrorC) []"

fun first_deadline :: "real option list \<Rightarrow> real option" where
  \<comment> \<open>the earliest time at which one of the timeouts expires\<close>
  "first_deadline [] = None"
| "first_deadline (None # ds) = first_deadline ds"
| "first_deadline (Some d # ds) =
     (case first_deadline ds of None \<Rightarrow> Some d | Some e \<Rightarrow> Some (min d e))"

fun expire :: "real \<Rightarrow> real option list \<Rightarrow> real option list" where
  \<comment> \<open>the outermost timeout that is due is the one that has expired\<close>
  "expire t [] = []"
| "expire t (d # ds) =
     (if expire t ds \<noteq> ds then d # expire t ds else if d = Some t then None # ds else d # ds)"

definition perform :: "'c environment \<Rightarrow> 'c \<Rightarrow> (('c, 'm) task_scheme, exn, unit) act" where
  \<comment> \<open>await a call\<close>
  "perform env c s =
     (let trace = tk_trace s @ [c];
          finish = tk_now s + max 0 (fst (env trace))
      in case first_deadline (tk_deadlines s) of
           Some d \<Rightarrow>
             if d < finish
             then (s\<lparr>tk_trace := trace, tk_now := max (tk_now s) d, tk_deadlines := expire d (tk_deadlines s)\<rparr>,
                   Inl cancelled_error)
             else (s\<lparr>tk_trace := trace, tk_now := finish\<rparr>, snd (env trace))
         | None \<Rightarrow> (s\<lparr>tk_trace := trace, tk_now := finish\<rparr>, snd (env trace)))"

definition perform_sync :: "'c environment \<Rightarrow> 'c \<Rightarrow> (('c, 'm) task_scheme, exn, unit) act" where
  \<comment> \<open>a call that is not awaited cannot be cancelled\<close>
  "perform_sync env c s =
     (let trace = tk_trace s @ [c]
      in (s\<lparr>tk_trace := trace, tk_now := tk_now s + max 0 (fst (env trace))\<rparr>, snd (env trace)))"

definition wait_for :: "real \<Rightarrow> (('c, 'm) task_scheme, exn, 'a) act \<Rightarrow> (('c, 'm) task_scheme, exn, 'a) act" where
  "wait_for seconds f s =
     (case f (s\<lparr>tk_deadlines := Some (tk_now s + seconds) # tk_deadlines s\<rparr>) of
        (t, r) \<Rightarrow>
          (t\<lparr>tk_deadlines := tl (tk_deadlines t)\<rparr>,
           if r = Inl cancelled_error \<and> hd (tk_deadlines t) = None then Inl timeout_error else r))"

subsection \<open>The timeout decorator\<close>

definition request_timeout_error :: exn where
  "request_timeout_error =
     EService (mk_service RequestTimeoutError (Some ''Request timed out. Please try again.'') None PNone None
       (Some [(''retry_after'', PInt 5),
              (''suggestion'', PStr ''System is under load. Please retry with exponential backoff.'')]))"

definition wrap_async_function ::
  "(string \<Rightarrow> pyclass list) \<Rightarrow> (('c, 'm) task_scheme \<Rightarrow> ('c, 'm) task_scheme) \<Rightarrow> real \<Rightarrow>
   (('c, 'm) task_scheme, exn, 'a) act \<Rightarrow> (('c, 'm) task_scheme, exn, 'a) act" where
  \<comment> \<open>\<open>on_timeout\<close> sets \<open>_timeout_occurred\<close> on the instance, or does nothing\<close>
  "wrap_async_function ext on_timeout timeout_seconds func =
     s_catch (wait_for timeout_seconds func) (\<lambda>e.
       if isinst ext (exn_class e) [Builtin TimeoutErrorC]
       then s_bind (s_modify on_timeout) (\<lambda>_. s_raise request_timeout_error)
       else s_raise e)"

definition timeout_decorator ::
  "(string \<Rightarrow> pyclass list) \<Rightarrow> (real \<Rightarrow> string) \<Rightarrow> (('c, 'm) task_scheme \<Rightarrow> ('c, 'm) task_scheme) \<Rightarrow> real \<Rightarrow>
   bool \<Rightarrow> string \<Rightarrow> (('c, 'm) task_scheme, exn, 'a) act \<Rightarrow> exn + (('c, 'm) task_scheme, exn, 'a) act" where
  \<comment> \<open>\<open>timeout(seconds)(func)\<close>: \<open>show\<close> is \<open>str\<close> on a number, \<open>qualname\<close> the function's name\<close>
  "timeout_decorator ext show on_timeout seconds is_coroutine qualname func =
     (if seconds \<le> 0 then
        Inl (EOther (Builtin ValueErrorC) (''Timeout must be positive, got '' @ show seconds))
      else if \<not> is_coroutine then
        Inl (EOther (Builtin TypeErrorC)
          (''@timeout decorator only supports async functions. Function '' @ quoted qualname @
           '' is not async. For sync DB operations, consider converting to async or using DB-level timeouts.''))
      else Inr (wrap_async_function ext on_timeout seconds func))"

subsection \<open>Lemmas\<close>

text \<open>The calls a computation can make, whether it returns or raises.\<close>

definition calls_only :: "'c set \<Rightarrow> (('c, 'm) task_scheme, exn, 'a) act \<Rightarrow> bool" where
  "calls_only A f \<longleftrightarrow> (\<forall>s. \<exists>cs. tk_trace (fst (f s)) = tk_trace s @ cs \<and> set cs \<subseteq> A)"

named_theorems calls_simps \<open>what a computation does to the trace\<close>

named_theorems calls_intros \<open>the calls of the control structures\<close>

lemma calls_onlyD: "calls_only A f \<Longrightarrow> \<exists>cs. tk_trace (fst (f s)) = tk_trace s @ cs \<and> set cs \<subseteq> A"
  by (simp add: calls_only_def)

lemma calls_only_mono: "calls_only A f \<Longrightarrow> A \<subseteq> B \<Longrightarrow> calls_only B f"
  unfolding calls_only_def by blast

lemma calls_only_same:
  assumes "\<And>s. tk_trace (fst (f s)) = tk_trace s"
  shows "calls_only A f"
  using assms by (simp add: calls_only_def)

lemma calls_only_simple [calls_intros]:
  "calls_only A (s_ret x)" "calls_only A (s_raise e)" "calls_only A (s_lift r)" "calls_only A (s_get g)"
  by (rule calls_only_same, simp add: act_simps)+

lemma calls_only_modify: "(\<And>s. tk_trace (f s) = tk_trace s) \<Longrightarrow> calls_only A (s_modify f)"
  by (rule calls_only_same) (simp add: act_simps)

lemma calls_only_trans:
  assumes "tk_trace t = tk_trace s @ cs" "set cs \<subseteq> A" "\<exists>ds. tk_trace u = tk_trace t @ ds \<and> set ds \<subseteq> A"
  shows "\<exists>cs. tk_trace u = tk_trace s @ cs \<and> set cs \<subseteq> A"
  using assms by auto

lemma calls_only_bind [calls_intros]:
  assumes "calls_only A m" "\<And>x. calls_only A (f x)"
  shows "calls_only A (s_bind m f)"
  unfolding calls_only_def
proof
  fix s
  obtain cs where cs: "tk_trace (fst (m s)) = tk_trace s @ cs" "set cs \<subseteq> A" using calls_onlyD [OF assms(1)] by blast
  show "\<exists>cs. tk_trace (fst (s_bind m f s)) = tk_trace s @ cs \<and> set cs \<subseteq> A"
  proof (cases "snd (m s)")
    case (Inl e)
    then show ?thesis using cs by (simp add: s_bind_raises)
  next
    case (Inr x)
    have "s_bind m f s = f x (fst (m s))" using Inr by (rule s_bind_returns)
    then show ?thesis using calls_only_trans [OF cs calls_onlyD [OF assms(2)]] by simp
  qed
qed

lemma calls_only_catch [calls_intros]:
  assumes "calls_only A m" "\<And>e. calls_only A (h e)"
  shows "calls_only A (s_catch m h)"
  unfolding calls_only_def
proof
  fix s
  obtain cs where cs: "tk_trace (fst (m s)) = tk_trace s @ cs" "set cs \<subseteq> A" using calls_onlyD [OF assms(1)] by blast
  show "\<exists>cs. tk_trace (fst (s_catch m h s)) = tk_trace s @ cs \<and> set cs \<subseteq> A"
  proof (cases "snd (m s)")
    case (Inr x)
    then show ?thesis using cs by (simp add: s_catch_returns)
  next
    case (Inl e)
    have "s_catch m h s = h e (fst (m s))" using Inl by (rule s_catch_raises)
    then show ?thesis using calls_only_trans [OF cs calls_onlyD [OF assms(2)]] by simp
  qed
qed

lemma calls_only_finally [calls_intros]:
  assumes "calls_only A m" "calls_only A c"
  shows "calls_only A (s_finally m c)"
  unfolding calls_only_def
proof
  fix s
  obtain cs where cs: "tk_trace (fst (m s)) = tk_trace s @ cs" "set cs \<subseteq> A" using calls_onlyD [OF assms(1)] by blast
  show "\<exists>cs. tk_trace (fst (s_finally m c s)) = tk_trace s @ cs \<and> set cs \<subseteq> A"
    using calls_only_trans [OF cs calls_onlyD [OF assms(2)]] by (simp add: s_finally_state)
qed

lemma calls_only_if [calls_intros]: "calls_only A m \<Longrightarrow> calls_only A n \<Longrightarrow> calls_only A (if P then m else n)"
  by simp

lemma calls_only_option [calls_intros]:
  "calls_only A m \<Longrightarrow> (\<And>x. calls_only A (n x)) \<Longrightarrow> calls_only A (case z of None \<Rightarrow> m | Some x \<Rightarrow> n x)"
  by (cases z) auto

lemma length_expire [simp]: "length (expire t ds) = length ds"
  by (induction ds) auto

lemma perform_trace [calls_simps]: "tk_trace (fst (perform env c s)) = tk_trace s @ [c]"
  by (simp add: perform_def Let_def split: option.splits)

lemma perform_sync_trace [calls_simps]: "tk_trace (fst (perform_sync env c s)) = tk_trace s @ [c]"
  by (simp add: perform_sync_def Let_def)

lemma wait_for_trace [calls_simps]:
  "tk_trace (fst (wait_for t f s)) = tk_trace (fst (f (s\<lparr>tk_deadlines := Some (tk_now s + t) # tk_deadlines s\<rparr>)))"
  by (simp add: wait_for_def split: prod.splits)

lemma calls_only_perform [calls_intros]:
  "c \<in> A \<Longrightarrow> calls_only A (perform env c)" "c \<in> A \<Longrightarrow> calls_only A (perform_sync env c)"
  by (simp_all add: calls_only_def calls_simps)

lemma calls_only_wait_for [calls_intros]: "calls_only A f \<Longrightarrow> calls_only A (wait_for t f)"
  unfolding calls_only_def
proof
  fix s
  assume "\<forall>s. \<exists>cs. tk_trace (fst (f s)) = tk_trace s @ cs \<and> set cs \<subseteq> A"
  then have "\<exists>cs. tk_trace (fst (f (s\<lparr>tk_deadlines := Some (tk_now s + t) # tk_deadlines s\<rparr>))) =
      tk_trace (s\<lparr>tk_deadlines := Some (tk_now s + t) # tk_deadlines s\<rparr>) @ cs \<and> set cs \<subseteq> A" by blast
  then show "\<exists>cs. tk_trace (fst (wait_for t f s)) = tk_trace s @ cs \<and> set cs \<subseteq> A"
    by (simp add: wait_for_trace)
qed

lemma calls_only_wrap [calls_intros]:
  "calls_only A f \<Longrightarrow> (\<And>s. tk_trace (g s) = tk_trace s) \<Longrightarrow> calls_only A (wrap_async_function ext g t f)"
  unfolding wrap_async_function_def by (intro calls_intros calls_only_modify)

lemma keeps_wait_for_general:
  assumes "keeps I f" "\<And>s ds. I (s\<lparr>tk_deadlines := ds\<rparr>) = I s"
  shows "keeps I (wait_for t f)"
  unfolding keeps_def
proof (intro allI impI)
  fix s
  assume "I s"
  then have "I (fst (f (s\<lparr>tk_deadlines := Some (tk_now s + t) # tk_deadlines s\<rparr>)))"
    using assms by (auto dest: keepsD)
  then show "I (fst (wait_for t f s))"
    by (cases "f (s\<lparr>tk_deadlines := Some (tk_now s + t) # tk_deadlines s\<rparr>)") (simp add: wait_for_def assms(2))
qed

text \<open>A call that finishes in time has its own outcome.\<close>

lemma wait_for_perform_in_time:
  assumes "max 0 (fst (env (tk_trace s @ [c]))) \<le> t"
    and "\<And>d. first_deadline (tk_deadlines s) = Some d \<Longrightarrow> tk_now s + max 0 (fst (env (tk_trace s @ [c]))) \<le> d"
  shows "wait_for t (perform env c) s =
    (s\<lparr>tk_trace := tk_trace s @ [c], tk_now := tk_now s + max 0 (fst (env (tk_trace s @ [c])))\<rparr>,
     snd (env (tk_trace s @ [c])))"
proof -
  let ?e = "env (tk_trace s @ [c])"
  let ?s = "s\<lparr>tk_deadlines := Some (tk_now s + t) # tk_deadlines s\<rparr>"
  have "perform env c ?s = (?s\<lparr>tk_trace := tk_trace s @ [c], tk_now := tk_now s + max 0 (fst ?e)\<rparr>, snd ?e)"
    using assms by (auto simp: perform_def Let_def split: option.splits)
  then show ?thesis by (simp add: wait_for_def)
qed

lemma perform_late:
  assumes "t < max 0 (fst (env (tk_trace s @ [c])))" "first_deadline (tk_deadlines s) = None"
  shows "perform env c (s\<lparr>tk_deadlines := Some (tk_now s + t) # tk_deadlines s\<rparr>) =
    (s\<lparr>tk_trace := tk_trace s @ [c], tk_now := max (tk_now s) (tk_now s + t), tk_deadlines := None # tk_deadlines s\<rparr>,
     Inl cancelled_error)"
proof -
  have e: "expire x ds = ds" if "first_deadline ds = None" for x ds
    using that by (induction ds rule: first_deadline.induct) (auto split: option.splits)
  show ?thesis using assms e [OF assms(2)] by (simp add: perform_def Let_def)
qed

text \<open>A call that does not finish in time, with no other timeout in force, is cancelled by this
  one.\<close>

lemma wait_for_perform_late:
  assumes "t < max 0 (fst (env (tk_trace s @ [c])))" "first_deadline (tk_deadlines s) = None"
  shows "wait_for t (perform env c) s =
    (s\<lparr>tk_trace := tk_trace s @ [c], tk_now := max (tk_now s) (tk_now s + t)\<rparr>, Inl timeout_error)"
  by (simp add: wait_for_def perform_late [where env = env, OF assms])


text \<open>An environment in which every call returns at once, and a task none of whose timeouts is due.\<close>

definition prompt_env :: "'c environment \<Rightarrow> bool" where
  "prompt_env env \<longleftrightarrow> (\<forall>cs. env cs = (0, Inr ()))"

definition in_time :: "('c, 'm) task_scheme \<Rightarrow> bool" where
  "in_time s \<longleftrightarrow> (case first_deadline (tk_deadlines s) of None \<Rightarrow> True | Some d \<Rightarrow> tk_now s \<le> d)"

lemma in_time_trace [simp]: "in_time (s\<lparr>tk_trace := tr\<rparr>) = in_time s"
  by (simp add: in_time_def split: option.splits)

lemma in_time_wait:
  "in_time s \<Longrightarrow> 0 \<le> t \<Longrightarrow> in_time (s\<lparr>tk_deadlines := Some (tk_now s + t) # tk_deadlines s\<rparr>)"
  by (auto simp: in_time_def split: option.splits)

lemma perform_prompt:
  assumes "prompt_env env" "in_time s"
  shows "perform env c s = (s\<lparr>tk_trace := tk_trace s @ [c]\<rparr>, Inr ())"
  using assms by (auto simp: perform_def prompt_env_def in_time_def Let_def not_less split: option.splits)

lemma perform_sync_prompt: "prompt_env env \<Longrightarrow> perform_sync env c s = (s\<lparr>tk_trace := tk_trace s @ [c]\<rparr>, Inr ())"
  by (simp add: perform_sync_def prompt_env_def)

lemma wait_for_returns:
  "f (s\<lparr>tk_deadlines := Some (tk_now s + t) # tk_deadlines s\<rparr>) = (u, Inr x) \<Longrightarrow>
   wait_for t f s = (u\<lparr>tk_deadlines := tl (tk_deadlines u)\<rparr>, Inr x)"
  by (simp add: wait_for_def)

lemma wrap_async_returns:
  "f (s\<lparr>tk_deadlines := Some (tk_now s + t) # tk_deadlines s\<rparr>) = (u, Inr x) \<Longrightarrow>
   wrap_async_function ext g t f s = (u\<lparr>tk_deadlines := tl (tk_deadlines u)\<rparr>, Inr x)"
  by (simp add: wrap_async_function_def s_catch_def wait_for_returns)

end
