(* ===== verification/DbErrors.thy ===== *)
theory DbErrors
  imports PyExceptions
begin

section \<open>Translation of exceptions at the service and database boundary\<close>

text \<open>
  The decorator \<open>database_error_handler\<close> and the log helpers of
  \<open>core/infrastructure/database/error_handler.py\<close>, and \<open>ServiceErrorHandler\<close> of
  \<open>core/exceptions/error_handler.py\<close>.  Exceptions of SQLAlchemy, asyncpg and purgatory are
  library classes: where they stand in the hierarchy is the parameter \<open>ext\<close>.
\<close>

definition asyncpg_connection_classes :: "pyclass list" where
  "asyncpg_connection_classes =
     [Lib ''asyncpg.exceptions.PostgresConnectionError'', Lib ''asyncpg.exceptions.ConnectionFailureError'',
      Lib ''asyncpg.exceptions.ConnectionDoesNotExistError'', Builtin OSErrorC, Builtin GaiErrorC]"

definition exception_handlers :: "(pyclass list \<times> string \<times> app_class option \<times> bool) list" where
  \<comment> \<open>the rows of \<open>_EXCEPTION_HANDLERS\<close>, in order\<close>
  "exception_handlers =
     [([App RequestTimeoutError], ''Timeout exception'', Some RequestTimeoutError, False),
      (asyncpg_connection_classes, ''Database disconnection error'', Some DatabaseDisconnectionError, False),
      ([Lib ''sqlalchemy.exc.TimeoutError''], ''Database timeout error'', Some DatabaseTimeoutError, True),
      ([Lib ''sqlalchemy.exc.OperationalError''], ''Database operational error'', Some DatabaseOperationalError, True),
      ([Lib ''sqlalchemy.exc.InterfaceError''], ''Database interface error'', Some DatabaseInterfaceError, False),
      ([Lib ''sqlalchemy.exc.DBAPIError''], ''Database DBAPI error'', Some DatabaseDBAPIError, True),
      ([Lib ''purgatory.CircuitBreakerFailed''], ''Circuit breaker open'', Some DatabaseCircuitBreakerOpenError, False)]"

definition db_handle_exception :: "(string \<Rightarrow> pyclass list) \<Rightarrow> exn \<Rightarrow> exn" where
  \<comment> \<open>the exception that \<open>_handle_exception\<close> raises for \<open>e\<close>\<close>
  "db_handle_exception ext e =
     (if isinst ext (exn_class e) [http_exception_class] then e
      else case find (\<lambda>(cs, m, t, q). isinst ext (exn_class e) cs) exception_handlers of
             Some (cs, m, Some t, q) \<Rightarrow> EService (mk_default t)
           | Some (cs, m, None, q) \<Rightarrow> e
           | None \<Rightarrow> EService (mk_default DatabaseError))"

definition database_error_handler :: "(string \<Rightarrow> pyclass list) \<Rightarrow> ('s, exn, 'a) act \<Rightarrow> ('s, exn, 'a) act" where
  \<comment> \<open>both wrappers; an exception that is not an \<open>Exception\<close> is not caught\<close>
  "database_error_handler ext f =
     s_catch f (\<lambda>e. if is_exception ext e then s_raise (db_handle_exception ext e) else s_raise e)"

subsection \<open>Query information for the log\<close>

definition sensitive_field_patterns :: "string list" where
  "sensitive_field_patterns =
     [''password'', ''passwd'', ''pwd'', ''secret'', ''token'', ''api_key'', ''apikey'', ''api-key'',
      ''access_token'', ''refresh_token'', ''auth'', ''authorization'', ''credential'', ''private_key'',
      ''privatekey'', ''credit_card'', ''creditcard'', ''card_number'', ''cvv'', ''ssn'', ''social_security'']"

definition redacted_value :: string where
  "redacted_value = ''[REDACTED]''"

definition is_alnum :: "char \<Rightarrow> bool" where
  \<comment> \<open>\<open>str.isalnum\<close> on a code point below 256\<close>
  "is_alnum c \<longleftrightarrow> is_digit c \<or> is_upper c \<or> is_lower c \<or>
     ordc c \<in> {170, 178, 179, 181, 185, 186, 188, 189, 190} \<or>
     192 \<le> ordc c \<and> ordc c \<noteq> 215 \<and> ordc c \<noteq> 247"

definition str_isalnum :: "string \<Rightarrow> bool" where
  "str_isalnum s \<longleftrightarrow> s \<noteq> [] \<and> list_all is_alnum s"

definition sensitive_key :: "string \<Rightarrow> bool" where
  "sensitive_key key \<longleftrightarrow> list_ex (contains (lower key)) sensitive_field_patterns"

definition looks_secret :: "(pyval \<Rightarrow> string) \<Rightarrow> pyval \<Rightarrow> bool" where
  "looks_secret to_str v =
     (let s = (if v \<noteq> PNone then to_str v else []) in 32 < length s \<and> str_isalnum s)"

text \<open>The parameters of a statement: named, or positional in a tuple or a list.\<close>

datatype params = Named "(string \<times> pyval) list" | Positional bool "pyval list"

definition sanitize_named :: "(string \<times> pyval) list \<Rightarrow> (string \<times> pyval) list" where
  "sanitize_named ps = map (\<lambda>(k, v). (k, if sensitive_key k then PStr redacted_value else v)) ps"

definition sanitize_positional :: "(pyval \<Rightarrow> string) \<Rightarrow> pyval list \<Rightarrow> pyval list" where
  "sanitize_positional to_str vs = map (\<lambda>v. if looks_secret to_str v then PStr redacted_value else v) vs"

definition sanitize_params :: "(pyval \<Rightarrow> string) \<Rightarrow> (params \<Rightarrow> string) \<Rightarrow> params option \<Rightarrow> string" where
  \<comment> \<open>\<open>show\<close> is \<open>str\<close> on the dictionary, tuple or list\<close>
  "sanitize_params to_str show_params ps =
     (case ps of
        None \<Rightarrow> []
      | Some (Named d) \<Rightarrow> show_params (Named (sanitize_named d))
      | Some (Positional is_tuple vs) \<Rightarrow> show_params (Positional is_tuple (sanitize_positional to_str vs)))"

text \<open>The attributes of a SQLAlchemy exception that are read: missing and falsy are the same.\<close>

record query_exc =
  qx_statement :: "string option"
  qx_params :: "params option"
  qx_orig :: "string option"

definition params_truthy :: "params option \<Rightarrow> bool" where
  "params_truthy ps = (case ps of None \<Rightarrow> False | Some (Named d) \<Rightarrow> d \<noteq> [] | Some (Positional _ vs) \<Rightarrow> vs \<noteq> [])"

definition truncated :: "nat \<Rightarrow> string \<Rightarrow> string" where
  "truncated n s = (if n < length s then take n s @ ''...'' else s)"

definition query_statement_max :: nat where "query_statement_max = 500"
definition query_params_max :: nat where "query_params_max = 200"

definition extract_query_info ::
  "bool \<Rightarrow> (pyval \<Rightarrow> string) \<Rightarrow> (params \<Rightarrow> exn + string) \<Rightarrow> query_exc \<Rightarrow> (string \<times> string) list" where
  \<comment> \<open>\<open>include_params\<close> is the module constant for the DEBUG log level; showing the parameters may
     raise, which gives the fixed text\<close>
  "extract_query_info include_params to_str show_params e =
     (let statement = (if given (qx_statement e)
            then [(''query_statement'', truncated query_statement_max (the (qx_statement e)))] else []);
          sanitized = (case qx_params e of
              Some (Named d) \<Rightarrow> show_params (Named (sanitize_named d))
            | Some (Positional b vs) \<Rightarrow> show_params (Positional b (sanitize_positional to_str vs))
            | None \<Rightarrow> Inr []);
          params = (if include_params \<and> params_truthy (qx_params e) then
              [(''query_params'', case sanitized of Inr s \<Rightarrow> truncated query_params_max s
                  | Inl _ \<Rightarrow> ''[Unable to serialize params]'')]
            else if params_truthy (qx_params e) then
              [(''query_params'', ''[REDACTED - set LOG_LEVEL=DEBUG to view]'')]
            else []);
          orig = (if given (qx_orig e) then [(''database_error'', the (qx_orig e))] else [])
      in statement @ params @ orig)"

subsection \<open>Startup helpers\<close>

definition is_dns_resolution_error :: "(string \<Rightarrow> pyclass list) \<Rightarrow> pyclass \<Rightarrow> int \<Rightarrow> bool" where
  \<comment> \<open>for an exception of the class with the first argument \<open>errno\<close>\<close>
  "is_dns_resolution_error ext c errno = (if isinst ext c [Builtin GaiErrorC] then errno = 8 else False)"

definition is_auth_error :: "(string \<Rightarrow> pyclass list) \<Rightarrow> pyclass \<Rightarrow> bool" where
  "is_auth_error ext c = isinst ext c [Lib ''asyncpg.exceptions.InvalidPasswordError'',
     Lib ''asyncpg.exceptions.InvalidAuthorizationSpecificationError'']"

subsection \<open>The service error handler\<close>

definition sensitive_fields :: "string list" where
  "sensitive_fields = [''password'', ''token'', ''secret'', ''api_key'', ''authorization'',
     ''access_token'', ''refresh_token'', ''credential'', ''private_key'']"

text \<open>\<open>C(message=m)\<close>, or \<open>C()\<close> for \<open>None\<close>.  A class whose constructor has no such parameter, or
  needs one, raises \<open>TypeError\<close>; \<open>lib\<close> is the constructor of the library classes.\<close>

definition type_error :: "exn + exn" where
  "type_error = Inl (EOther (Builtin TypeErrorC) ''unexpected or missing argument'')"

definition construct_domain :: "app_class \<Rightarrow> string \<Rightarrow> dom_exn option" where
  "construct_domain c m =
     (case c of
        DomainError \<Rightarrow> Some (mk_domain c m None None)
      | DomainValidationError \<Rightarrow> Some (mk_domain_validation c m None PNone None)
      | DomainConflictError \<Rightarrow> Some (mk_domain_conflict (\<lambda>_. []) m None PNone None)
      | DomainStateError \<Rightarrow> Some (mk_domain_state m None None None None)
      | DomainAuthorizationError \<Rightarrow> Some (mk_domain_authorization m None None None None)
      | DomainInvariantError \<Rightarrow> Some (mk_domain_invariant m None None)
      | AggregateRootError \<Rightarrow> Some (mk_aggregate_root m None None)
      | AiGenerationError \<Rightarrow> Some (mk_ai_generation c m None None)
      | PromptValidationError \<Rightarrow> Some (mk_prompt_validation m None None)
      | TokenLimitExceededError \<Rightarrow> Some (mk_token_limit m None None None)
      | GenerationFailedError \<Rightarrow> Some (mk_generation_failed m None None None)
      | QuotaExhaustedError \<Rightarrow> Some (mk_quota_exhausted (Some m) None None)
      | _ \<Rightarrow> None)"

definition construct ::
  "(string \<Rightarrow> string option \<Rightarrow> exn + exn) \<Rightarrow> pyclass \<Rightarrow> string option \<Rightarrow> exn + exn" where
  "construct lib c message =
     (case c of
        App a \<Rightarrow>
          if is_service_class a then
            Inr (EService (case message of Some m \<Rightarrow> mk_message a m | None \<Rightarrow> mk_default a))
          else if is_domain_class a then
            (case message of
               Some m \<Rightarrow> (case construct_domain a m of Some d \<Rightarrow> Inr (EDomain d) | None \<Rightarrow> type_error)
             | None \<Rightarrow> if a = QuotaExhaustedError then Inr (EDomain (mk_quota_exhausted None None None))
                       else type_error)
          else (case message of Some _ \<Rightarrow> type_error | None \<Rightarrow> Inr (EOther (App a) []))
      | Builtin b \<Rightarrow> (case message of Some _ \<Rightarrow> type_error | None \<Rightarrow> Inr (EOther (Builtin b) []))
      | Lib n \<Rightarrow> lib n message)"

record service_error_handler =
  sh_default :: pyclass
  sh_map :: "(pyclass \<times> pyclass) list"
  sh_preserve :: "pyclass list"
  sh_extractors :: "(string \<times> (pyval \<Rightarrow> exn + pyval)) list"

definition mk_handler ::
  "(pyval \<Rightarrow> exn + pyval) \<Rightarrow> pyclass \<Rightarrow> (pyclass \<times> pyclass) list option \<Rightarrow> pyclass list option \<Rightarrow>
   (string \<times> (pyval \<Rightarrow> exn + pyval)) list option \<Rightarrow> service_error_handler" where
  \<comment> \<open>\<open>safe_id\<close> is \<open>safe_get_id_str\<close>\<close>
  "mk_handler safe_id dflt exception_map preserve extractors =
     \<lparr>sh_default = dflt, sh_map = or_else exception_map [], sh_preserve = or_else preserve [],
      sh_extractors = dict_set ''user_id'' safe_id (or_else extractors [])\<rparr>"

definition skipped_errors :: "pyclass list" where
  "skipped_errors = [Builtin IndexErrorC, Builtin AttributeErrorC, Builtin TypeErrorC]"

fun extract_kwargs :: "(pyval \<Rightarrow> exn + pyval) \<Rightarrow> (string \<times> pyval) list \<Rightarrow> exn + pyval option" where
  \<comment> \<open>the loop over the keyword arguments: the first truthy result\<close>
  "extract_kwargs f [] = Inr None"
| "extract_kwargs f ((key, v) # kwargs) =
     (if lower key \<in> set sensitive_fields then extract_kwargs f kwargs
      else bind_res (f v) (\<lambda>x. if truthy x then Inr (Some x) else extract_kwargs f kwargs))"

definition extract_field ::
  "(pyval \<Rightarrow> exn + pyval) \<Rightarrow> pyval list \<Rightarrow> (string \<times> pyval) list \<Rightarrow> exn + pyval option" where
  "extract_field f args kwargs =
     (case args of
        [] \<Rightarrow> if kwargs \<noteq> [] then extract_kwargs f kwargs else Inr None
      | a # rest \<Rightarrow> map_sum id Some (f (case rest of b # _ \<Rightarrow> b | [] \<Rightarrow> a)))"

fun extract_context ::
  "(string \<Rightarrow> pyclass list) \<Rightarrow> (string \<times> (pyval \<Rightarrow> exn + pyval)) list \<Rightarrow> pyval list \<Rightarrow> (string \<times> pyval) list \<Rightarrow>
   (string \<times> pyval) list \<Rightarrow> exn + (string \<times> pyval) list" where
  "extract_context ext [] args kwargs context = Inr context"
| "extract_context ext ((field, f) # fs) args kwargs context =
     (if lower field \<in> set sensitive_fields then extract_context ext fs args kwargs context
      else case extract_field f args kwargs of
             Inr (Some x) \<Rightarrow> extract_context ext fs args kwargs (dict_set field x context)
           | Inr None \<Rightarrow> extract_context ext fs args kwargs context
           | Inl e \<Rightarrow> if isinst ext (exn_class e) skipped_errors
                      then extract_context ext fs args kwargs context else Inl e)"

definition build_target ::
  "(string \<Rightarrow> pyclass list) \<Rightarrow> (string \<Rightarrow> string option \<Rightarrow> exn + exn) \<Rightarrow> pyclass \<Rightarrow> string \<Rightarrow> exn" where
  \<comment> \<open>\<open>try: return C(message=m)\<close>, \<open>except TypeError: return C()\<close>; the exception that ends up raised\<close>
  "build_target ext lib c m =
     (case construct lib c (Some m) of
        Inr e \<Rightarrow> e
      | Inl x \<Rightarrow> if isinst ext (exn_class x) [Builtin TypeErrorC]
                 then (case construct lib c None of Inr e \<Rightarrow> e | Inl y \<Rightarrow> y) else x)"

definition get_target_exception ::
  "(string \<Rightarrow> pyclass list) \<Rightarrow> (string \<Rightarrow> string option \<Rightarrow> exn + exn) \<Rightarrow> (exn \<Rightarrow> string) \<Rightarrow>
   service_error_handler \<Rightarrow> exn \<Rightarrow> exn" where
  "get_target_exception ext lib text h e =
     (case find (\<lambda>(source, target). isinst ext (exn_class e) [source]) (sh_map h) of
        Some (source, target) \<Rightarrow> build_target ext lib target (text e)
      | None \<Rightarrow> build_target ext lib (sh_default h) (text e))"

definition service_handle_exception ::
  "(string \<Rightarrow> pyclass list) \<Rightarrow> (string \<Rightarrow> string option \<Rightarrow> exn + exn) \<Rightarrow> (exn \<Rightarrow> string) \<Rightarrow>
   service_error_handler \<Rightarrow> pyval list \<Rightarrow> (string \<times> pyval) list \<Rightarrow> exn \<Rightarrow> exn" where
  \<comment> \<open>the exception that \<open>_handle_exception\<close> raises\<close>
  "service_handle_exception ext lib text h args kwargs e =
     (if list_ex (\<lambda>c. isinst ext (exn_class e) [c]) (sh_preserve h) then e
      else case extract_context ext (sh_extractors h) args kwargs [] of
             Inl x \<Rightarrow> x
           | Inr _ \<Rightarrow> get_target_exception ext lib text h e)"

definition service_error_wrapper ::
  "(string \<Rightarrow> pyclass list) \<Rightarrow> (string \<Rightarrow> string option \<Rightarrow> exn + exn) \<Rightarrow> (exn \<Rightarrow> string) \<Rightarrow>
   service_error_handler \<Rightarrow> pyval list \<Rightarrow> (string \<times> pyval) list \<Rightarrow> ('s, exn, 'a) act \<Rightarrow> ('s, exn, 'a) act" where
  "service_error_wrapper ext lib text h args kwargs f =
     s_catch f (\<lambda>e. if is_exception ext e then s_raise (service_handle_exception ext lib text h args kwargs e)
       else s_raise e)"

definition cache_service_error_handler :: "(pyval \<Rightarrow> exn + pyval) \<Rightarrow> service_error_handler" where
  "cache_service_error_handler safe_id =
     mk_handler safe_id (App InternalServerError) None
       (Some [Builtin ValueErrorC, Builtin TypeErrorC, Builtin KeyErrorC]) None"

subsection \<open>Lemmas\<close>

lemma service_exn_is_http:
  "is_service_class (sv_class s) \<Longrightarrow> isinst ext (exn_class (EService s)) [http_exception_class]"
proof -
  have "is_service_class c \<Longrightarrow> last (app_mro c) = ServiceException" for c
    by (cases c) (simp_all add: class_defs)
  then show "is_service_class (sv_class s) \<Longrightarrow> ?thesis"
    by (simp add: isinst_def mro_def http_exception_class_def)
qed

fun mask_kwargs :: "(string \<times> pyval) list \<Rightarrow> (string \<times> pyval) list" where
  \<comment> \<open>keyword arguments with the sensitive values left out\<close>
  "mask_kwargs [] = []"
| "mask_kwargs ((k, v) # kw) = (k, if lower k \<in> set sensitive_fields then PNone else v) # mask_kwargs kw"

lemma mask_kwargs_Nil: "mask_kwargs kw = [] \<longleftrightarrow> kw = []"
  by (cases kw) auto

lemma extract_kwargs_mask: "extract_kwargs f (mask_kwargs kw) = extract_kwargs f kw"
  by (induction kw rule: mask_kwargs.induct) (simp_all cong: if_cong)

lemma extract_field_mask: "extract_field f args (mask_kwargs kw) = extract_field f args kw"
  by (simp add: extract_field_def extract_kwargs_mask mask_kwargs_Nil split: list.splits)

lemma extract_context_mask: "extract_context ext fs args (mask_kwargs kw) acc = extract_context ext fs args kw acc"
proof (induction fs arbitrary: acc)
  case (Cons p fs)
  then show ?case
    by (cases p) (simp add: extract_field_mask split: sum.splits option.splits)
qed simp

lemma extract_context_keys:
  "extract_context ext fs args kw acc = Inr ctx \<Longrightarrow> k \<in> set (dict_keys ctx) \<Longrightarrow>
     lower k \<notin> set sensitive_fields \<or> k \<in> set (dict_keys acc)"
proof (induction fs arbitrary: acc)
  case (Cons p fs)
  obtain field f where p: "p = (field, f)" by (cases p)
  consider "lower field \<in> set sensitive_fields" | "lower field \<notin> set sensitive_fields" by blast
  then show ?case
  proof cases
    case 1
    then show ?thesis using Cons p by simp
  next
    case 2
    show ?thesis
    proof (cases "\<exists>x. extract_field f args kw = Inr (Some x)")
      case True
      then obtain x where x: "extract_field f args kw = Inr (Some x)" by blast
      have "lower k \<notin> set sensitive_fields \<or> k \<in> set (dict_keys (dict_set field x acc))"
        using Cons.prems 2 p x by (intro Cons.IH) simp_all
      then show ?thesis using 2 by (auto simp: dom_update)
    next
      case False
      then have "extract_context ext fs args kw acc = Inr ctx"
        using Cons.prems(1) 2 p by (auto split: sum.splits option.splits if_splits)
      then show ?thesis using Cons.IH Cons.prems(2) by blast
    qed
  qed
qed simp

lemma truncated_length: "length (truncated n s) \<le> n + 3"
  by (simp add: truncated_def)

subsection \<open>Properties\<close>

lemma request_timeout_is_http:
  "isinst ext (App c) [App RequestTimeoutError] \<Longrightarrow> isinst ext (App c) [http_exception_class]"
proof -
  assume "isinst ext (App c) [App RequestTimeoutError]"
  moreover have "App RequestTimeoutError \<in> set (mro ext (App c)) \<Longrightarrow> is_service_class c \<or>
      App RequestTimeoutError \<in> set (ext ''fastapi.HTTPException'')"
    by (cases c) (simp_all add: mro_def class_defs http_exception_class_def)
  ultimately show ?thesis
    by (cases c) (auto simp: isinst_def mro_def http_exception_class_def)
qed

text \<open>C13. Database errors: every exception the decorator catches leaves as an application error, or
  as the HTTP exception it already was; application errors pass unchanged, so the first row of the
  table never applies to them; operating-system errors, the built-in \<open>TimeoutError\<close> included,
  become \<open>DatabaseDisconnectionError\<close> with status 503, and one that no row matches becomes
  \<open>DatabaseError\<close>.\<close>

theorem db_error_translation:
  "((\<exists>s. db_handle_exception ext e = EService s \<and> is_service_class (sv_class s)) \<or>
     db_handle_exception ext e = e \<and> isinst ext (exn_class e) [http_exception_class]) \<and>
   (is_service_class (sv_class s) \<longrightarrow> db_handle_exception ext (EService s) = EService s) \<and>
   (isinst ext (App c) [App RequestTimeoutError] \<longrightarrow>
      db_handle_exception ext (EOther (App c) msg) = EOther (App c) msg) \<and>
   db_handle_exception ext (EOther (Builtin TimeoutErrorC) msg) =
      EService (mk_default DatabaseDisconnectionError) \<and>
   db_handle_exception ext (EOther (Builtin GaiErrorC) msg) =
      EService (mk_default DatabaseDisconnectionError) \<and>
   db_handle_exception ext (EOther (Builtin RuntimeErrorC) msg) = EService (mk_default DatabaseError) \<and>
   sv_status (mk_default DatabaseDisconnectionError) = 503"
proof -
  have d: "sv_class (mk_default c) = c" for c by (simp add: mk_default_def mk_service_def Let_def)
  have sc: "is_service_class RequestTimeoutError" "is_service_class DatabaseDisconnectionError"
    "is_service_class DatabaseTimeoutError" "is_service_class DatabaseOperationalError"
    "is_service_class DatabaseInterfaceError" "is_service_class DatabaseDBAPIError"
    "is_service_class DatabaseCircuitBreakerOpenError" "is_service_class DatabaseError"
    by (simp_all add: class_defs)
  have "(\<exists>s. db_handle_exception ext e = EService s \<and> is_service_class (sv_class s)) \<or>
     db_handle_exception ext e = e \<and> isinst ext (exn_class e) [http_exception_class]"
    unfolding db_handle_exception_def exception_handlers_def using d sc by (simp split: if_splits)
  moreover have "is_service_class (sv_class s) \<longrightarrow> db_handle_exception ext (EService s) = EService s"
    using service_exn_is_http [of s ext] by (simp add: db_handle_exception_def)
  moreover have "isinst ext (App c) [App RequestTimeoutError] \<longrightarrow>
      db_handle_exception ext (EOther (App c) msg) = EOther (App c) msg"
    using request_timeout_is_http by (simp add: db_handle_exception_def)
  moreover have "db_handle_exception ext (EOther (Builtin TimeoutErrorC) msg) =
      EService (mk_default DatabaseDisconnectionError)"
    "db_handle_exception ext (EOther (Builtin GaiErrorC) msg) = EService (mk_default DatabaseDisconnectionError)"
    "db_handle_exception ext (EOther (Builtin RuntimeErrorC) msg) = EService (mk_default DatabaseError)"
    by (simp_all add: db_handle_exception_def exception_handlers_def isinst_def mro_def
        http_exception_class_def asyncpg_connection_classes_def)
  moreover have "sv_status (mk_default DatabaseDisconnectionError) = 503"
    by (simp add: mk_default_def mk_service_def Let_def class_defs)
  ultimately show ?thesis by blast
qed

theorem db_error_translation_witness:
  "db_handle_exception (\<lambda>_. []) (EService (mk_default ConflictError)) = EService (mk_default ConflictError)"
proof -
  have "is_service_class (sv_class (mk_default ConflictError))"
    by (simp add: mk_default_def mk_service_def Let_def class_defs)
  then show ?thesis using db_error_translation [where s = "mk_default ConflictError" and ext = "\<lambda>_. []"] by blast
qed



text \<open>Sensitive arguments stay out of the log context: what the service error handler extracts
  does not depend on the values of the sensitive keyword arguments, and no key of the context is a
  sensitive name; a preserved exception is raised again as it is, before anything is extracted.\<close>

theorem handler_context_noninterference:
  "(mask_kwargs kw = mask_kwargs kw' \<longrightarrow>
      extract_context ext fs args kw [] = extract_context ext fs args kw' []) \<and>
   (extract_context ext fs args kw [] = Inr ctx \<longrightarrow> k \<in> set (dict_keys ctx) \<longrightarrow>
      lower k \<notin> set sensitive_fields) \<and>
   (isinst ext (exn_class e) [c] \<longrightarrow> c \<in> set (sh_preserve h) \<longrightarrow>
      service_handle_exception ext lib text h args kw e = e)"
proof -
  have "mask_kwargs kw = mask_kwargs kw' \<longrightarrow>
      extract_context ext fs args kw [] = extract_context ext fs args kw' []"
    using extract_context_mask by metis
  moreover have "extract_context ext fs args kw [] = Inr ctx \<longrightarrow> k \<in> set (dict_keys ctx) \<longrightarrow>
      lower k \<notin> set sensitive_fields"
    using extract_context_keys [of ext fs args kw "[]" ctx k] by simp
  moreover have "isinst ext (exn_class e) [c] \<longrightarrow> c \<in> set (sh_preserve h) \<longrightarrow>
      service_handle_exception ext lib text h args kw e = e"
    by (auto simp: service_handle_exception_def list_ex_iff)
  ultimately show ?thesis by blast
qed

theorem handler_context_noninterference_witness:
  "extract_context (\<lambda>_. []) [(''user_id'', \<lambda>v. Inr v)] [] [(''Password'', PStr ''a''), (''id'', PInt 7)] [] =
   extract_context (\<lambda>_. []) [(''user_id'', \<lambda>v. Inr v)] [] [(''Password'', PStr ''b''), (''id'', PInt 7)] []"
proof -
  have "lower ''Password'' \<in> set sensitive_fields" by code_simp
  then have "mask_kwargs [(''Password'', PStr ''a''), (''id'', PInt 7)] =
      mask_kwargs [(''Password'', PStr ''b''), (''id'', PInt 7)]" by simp
  then show ?thesis using handler_context_noninterference by blast
qed

end
