(* ===== verification/UnitOfWork.thy ===== *)
theory UnitOfWork
  imports Asyncio DbErrors
begin

section \<open>The unit of work\<close>

text \<open>
  \<open>core/infrastructure/database/uow.py\<close> and \<open>core/infrastructure/database/session.py\<close>.
  A session of SQLAlchemy is known by a number; its methods, and the session factory, are calls to
  the environment.  \<open>register\<close> is the abstract method \<open>_register_repositories\<close> of a subclass.
  \<open>ext\<close> gives the classes of the libraries, as in \<open>DbErrors\<close>.
\<close>

datatype uow_call =
    CreateSession
  | Commit nat
  | Rollback nat
  | Flush nat
  | Close nat
  | SyncClose nat
  | CleanupDelay

record uow = "uow_call task" +
  uw_session :: "nat option"
  uw_has_factory :: bool
  uw_repositories :: "(string \<times> nat) list"
  uw_auto_commit :: bool
  uw_owns_session :: bool
  uw_timeout_occurred :: bool
  uw_shared_lock :: "nat option"

record uow_timeouts =
  ut_context :: real
  ut_transaction :: real
  ut_session_close :: real

definition uow_init :: "nat option \<Rightarrow> bool \<Rightarrow> bool \<Rightarrow> uow" where
  \<comment> \<open>\<open>__init__(session, session_factory, auto_commit)\<close>, in a new task\<close>
  "uow_init session has_factory auto_commit =
     \<lparr>tk_now = 0, tk_deadlines = [], tk_trace = [], uw_session = session, uw_has_factory = has_factory,
      uw_repositories = [], uw_auto_commit = auto_commit, uw_owns_session = (session = None),
      uw_timeout_occurred = False, uw_shared_lock = None\<rparr>"

definition runtime_error :: "string \<Rightarrow> exn" where
  "runtime_error text = EOther (Builtin RuntimeErrorC) text"

definition get_session :: "(uow, exn, nat) act" where
  \<comment> \<open>the property \<open>session\<close>\<close>
  "get_session s =
     (case uw_session s of None \<Rightarrow> (s, Inl (runtime_error ''Session not initialized'')) | Some h \<Rightarrow> (s, Inr h))"

definition set_session :: "nat \<Rightarrow> uow \<Rightarrow> uow" where
  "set_session h s = s\<lparr>uw_session := Some h\<rparr>"

definition configure_for_shared_session :: "nat \<Rightarrow> nat option \<Rightarrow> uow \<Rightarrow> uow" where
  "configure_for_shared_session h shared_lock s =
     s\<lparr>uw_session := Some h, uw_auto_commit := False, uw_owns_session := False, uw_shared_lock := shared_lock\<rparr>"

definition set_timeout_occurred :: "uow \<Rightarrow> uow" where
  "set_timeout_occurred s = s\<lparr>uw_timeout_occurred := True\<rparr>"

definition add_repository :: "string \<Rightarrow> nat \<Rightarrow> uow \<Rightarrow> uow" where
  "add_repository name repository s = s\<lparr>uw_repositories := dict_set name repository (uw_repositories s)\<rparr>"

definition uow_getattr :: "string \<Rightarrow> string \<Rightarrow> uow \<Rightarrow> exn + nat" where
  \<comment> \<open>\<open>__getattr__\<close>: \<open>cls\<close> is the name of the class\<close>
  "uow_getattr cls name s =
     (case dict_get (uw_repositories s) name of
        Some r \<Rightarrow> Inr r
      | None \<Rightarrow> Inl (EOther (Builtin AttributeErrorC) (quoted cls @ '' has no attribute '' @ quoted name)))"

definition clear_repositories :: "uow \<Rightarrow> uow" where
  "clear_repositories s = s\<lparr>uw_repositories := []\<rparr>"

subsection \<open>Transactions\<close>

definition is_timeout :: "(string \<Rightarrow> pyclass list) \<Rightarrow> exn \<Rightarrow> bool" where
  "is_timeout ext e \<longleftrightarrow> isinst ext (exn_class e) [Builtin TimeoutErrorC]"

definition is_os_or_runtime :: "(string \<Rightarrow> pyclass list) \<Rightarrow> exn \<Rightarrow> bool" where
  "is_os_or_runtime ext e \<longleftrightarrow> isinst ext (exn_class e) [Builtin OSErrorC, Builtin RuntimeErrorC]"

definition with_session :: "string \<Rightarrow> (nat \<Rightarrow> (uow, exn, 'a) act) \<Rightarrow> (uow, exn, 'a) act" where
  \<comment> \<open>\<open>if not self._session: raise RuntimeError(msg)\<close>\<close>
  "with_session msg f =
     s_bind (s_get uw_session) (\<lambda>x. case x of None \<Rightarrow> s_raise (runtime_error msg) | Some h \<Rightarrow> f h)"

definition uow_rollback ::
  "(string \<Rightarrow> pyclass list) \<Rightarrow> uow_timeouts \<Rightarrow> uow_call environment \<Rightarrow> (uow, exn, unit) act" where
  "uow_rollback ext ts env =
     database_error_handler ext (with_session ''Cannot rollback without active session'' (\<lambda>h.
       s_catch (wait_for (ut_session_close ts) (perform env (Rollback h))) (\<lambda>e.
         if is_timeout ext e then s_modify set_timeout_occurred
         else if is_exception ext e then s_ret ()
         else s_raise e)))"

definition uow_commit ::
  "(string \<Rightarrow> pyclass list) \<Rightarrow> uow_timeouts \<Rightarrow> uow_call environment \<Rightarrow> (uow, exn, unit) act" where
  "uow_commit ext ts env =
     wrap_async_function ext set_timeout_occurred (ut_transaction ts)
       (database_error_handler ext (with_session ''Cannot commit without active session'' (\<lambda>h.
         s_catch (perform env (Commit h)) (\<lambda>e.
           if is_exception ext e then s_bind (uow_rollback ext ts env) (\<lambda>_. s_raise e) else s_raise e))))"

definition uow_flush ::
  "(string \<Rightarrow> pyclass list) \<Rightarrow> uow_timeouts \<Rightarrow> uow_call environment \<Rightarrow> (uow, exn, unit) act" where
  "uow_flush ext ts env =
     wrap_async_function ext set_timeout_occurred (ut_transaction ts)
       (database_error_handler ext (with_session ''Cannot flush without active session'' (\<lambda>h.
         perform env (Flush h))))"

definition safe_rollback ::
  "(string \<Rightarrow> pyclass list) \<Rightarrow> uow_timeouts \<Rightarrow> uow_call environment \<Rightarrow> (uow, exn, unit) act" where
  "safe_rollback ext ts env =
     s_bind (s_get uw_session) (\<lambda>x. case x of
       None \<Rightarrow> s_ret ()
     | Some h \<Rightarrow>
         s_catch (wait_for (ut_session_close ts) (perform env (Rollback h))) (\<lambda>e.
           if is_timeout ext e then s_modify set_timeout_occurred
           else if is_os_or_runtime ext e then s_ret ()
           else s_raise e))"

definition close_session ::
  "(string \<Rightarrow> pyclass list) \<Rightarrow> uow_timeouts \<Rightarrow> uow_call environment \<Rightarrow> nat \<Rightarrow> (uow, exn, unit) act" where
  \<comment> \<open>the \<open>try\<close> of \<open>_cleanup\<close>, without its \<open>finally\<close>\<close>
  "close_session ext ts env h =
     s_catch (wait_for (ut_session_close ts) (perform env (Close h))) (\<lambda>e.
       if is_timeout ext e then
         s_catch (perform_sync env (SyncClose h)) (\<lambda>e'.
           if isinst ext (exn_class e') [Builtin OSErrorC, Builtin RuntimeErrorC, Builtin AttributeErrorC]
           then s_ret () else s_raise e')
       else if isinst ext (exn_class e) [Builtin CancelledErrorC] then s_ret ()
       else if is_os_or_runtime ext e then s_ret ()
       else s_raise e)"

definition uow_cleanup ::
  "(string \<Rightarrow> pyclass list) \<Rightarrow> uow_timeouts \<Rightarrow> uow_call environment \<Rightarrow> (uow, exn, unit) act" where
  "uow_cleanup ext ts env =
     s_bind (s_get uw_session) (\<lambda>x. case x of
       None \<Rightarrow> s_modify clear_repositories
     | Some h \<Rightarrow>
         s_bind (s_bind (s_get uw_timeout_occurred) (\<lambda>occurred.
           if occurred then perform env CleanupDelay else s_ret ())) (\<lambda>_.
         s_bind (s_finally (close_session ext ts env h) (s_modify (\<lambda>s. s\<lparr>uw_session := None\<rparr>))) (\<lambda>_.
         s_modify clear_repositories)))"

subsection \<open>Entering and leaving the context\<close>

definition create_session ::
  "(string \<Rightarrow> pyclass list) \<Rightarrow> uow_call environment \<Rightarrow> (uow, exn, unit) act" where
  \<comment> \<open>\<open>self._session = SessionFactory.create_session()\<close>; a new session has the next number\<close>
  "create_session ext env =
     s_bind (database_error_handler ext (perform_sync env CreateSession)) (\<lambda>_.
     s_modify (\<lambda>s. s\<lparr>uw_session := Some (length (filter (\<lambda>c. c = CreateSession) (tk_trace s)))\<rparr>))"

definition uow_enter_body ::
  "(string \<Rightarrow> pyclass list) \<Rightarrow> uow_call environment \<Rightarrow> (uow, exn, unit) act \<Rightarrow> (uow, exn, unit) act" where
  "uow_enter_body ext env register =
     s_bind (s_bind (s_get uw_owns_session) (\<lambda>owns.
       if owns then
         s_bind (s_get uw_has_factory) (\<lambda>has.
           if \<not> has then s_raise (runtime_error ''Session factory not provided'') else create_session ext env)
       else s_ret ())) (\<lambda>_. register)"

definition uow_enter ::
  "(string \<Rightarrow> pyclass list) \<Rightarrow> uow_timeouts \<Rightarrow> uow_call environment \<Rightarrow> (uow, exn, unit) act \<Rightarrow>
   (uow, exn, unit) act" where
  \<comment> \<open>\<open>__aenter__\<close>\<close>
  "uow_enter ext ts env register =
     wrap_async_function ext set_timeout_occurred (ut_context ts) (database_error_handler ext
       (s_catch (uow_enter_body ext env register) (\<lambda>e.
         if is_exception ext e then
           s_bind (s_get (\<lambda>s. if uw_owns_session s then uw_session s else None)) (\<lambda>x. case x of
             None \<Rightarrow> s_raise e
           | Some h \<Rightarrow>
               s_bind (s_catch (perform env (Close h)) (\<lambda>e'.
                 if is_exception ext e' then s_ret () else s_raise e')) (\<lambda>_. s_raise e))
         else s_raise e)))"

definition http_exception_names :: "string list" where
  \<comment> \<open>the classes that \<open>http_exceptions.py\<close> declares\<close>
  "http_exception_names = map (\<lambda>(c, _). app_class_name c) http_attrs"

definition import_http_exception :: "string \<Rightarrow> exn + unit" where
  \<comment> \<open>\<open>from backend.core.exceptions.http_exceptions import name\<close>, for a class\<close>
  "import_http_exception name =
     (if name \<in> set http_exception_names then Inr ()
      else Inl (EOther (Builtin ImportErrorC) (''cannot import name '' @ quoted name)))"

definition detect_timeout :: "(string \<Rightarrow> pyclass list) \<Rightarrow> exn \<Rightarrow> (uow, exn, unit) act" where
  \<comment> \<open>the first \<open>if\<close> of \<open>__aexit__\<close>, for a raised exception\<close>
  "detect_timeout ext e =
     s_bind (s_lift (import_http_exception ''TimeoutException'')) (\<lambda>_.
       if isinst ext (exn_class e)
            [Lib ''http_exceptions.TimeoutException'', App DatabaseTimeoutError, Builtin TimeoutErrorC]
       then s_modify set_timeout_occurred else s_ret ())"

definition uow_exit ::
  "(string \<Rightarrow> pyclass list) \<Rightarrow> uow_timeouts \<Rightarrow> uow_call environment \<Rightarrow> exn option \<Rightarrow> (uow, exn, unit) act" where
  \<comment> \<open>\<open>__aexit__\<close>, given the exception of the body\<close>
  "uow_exit ext ts env exc =
     s_finally
       (s_bind (case exc of None \<Rightarrow> s_ret () | Some e \<Rightarrow> detect_timeout ext e) (\<lambda>_.
         case exc of
           Some e \<Rightarrow>
             s_bind (s_get uw_owns_session) (\<lambda>owns. if owns then safe_rollback ext ts env else s_ret ())
         | None \<Rightarrow>
             s_bind (s_get uw_auto_commit) (\<lambda>auto. if auto then uow_commit ext ts env else s_ret ())))
       (s_bind (s_get uw_owns_session) (\<lambda>owns.
         if owns then uow_cleanup ext ts env else s_modify clear_repositories))"

definition with_uow ::
  "(string \<Rightarrow> pyclass list) \<Rightarrow> uow_timeouts \<Rightarrow> uow_call environment \<Rightarrow> (uow, exn, unit) act \<Rightarrow>
   (uow, exn, 'a) act \<Rightarrow> (uow, exn, 'a) act" where
  \<comment> \<open>\<open>async with uow: body\<close>; \<open>__aexit__\<close> returns \<open>None\<close>, which lets the exception go on\<close>
  "with_uow ext ts env register body =
     s_bind (uow_enter ext ts env register) (\<lambda>_.
       s_bind (s_catch (s_bind body (\<lambda>x. s_ret (Inr x))) (\<lambda>e. s_ret (Inl e))) (\<lambda>r. case r of
         Inr x \<Rightarrow> s_bind (uow_exit ext ts env None) (\<lambda>_. s_ret x)
       | Inl e \<Rightarrow> s_bind (uow_exit ext ts env (Some e)) (\<lambda>_. s_raise e)))"

subsection \<open>Lemmas\<close>

definition import_error :: exn where
  "import_error = EOther (Builtin ImportErrorC) (''cannot import name '' @ quoted ''TimeoutException'')"

lemma import_fails: "import_http_exception ''TimeoutException'' = Inl import_error"
  by (simp add: import_http_exception_def http_exception_names_def http_attrs_def import_error_def)

lemma uow_exit_exception:
  "uow_exit ext ts env (Some e) =
     s_finally (s_raise import_error)
       (s_bind (s_get uw_owns_session) (\<lambda>owns.
         if owns then uow_cleanup ext ts env else s_modify clear_repositories))"
  by (simp add: uow_exit_def detect_timeout_def import_fails fun_eq_iff act_simps)

lemma calls_only_database_handler [calls_intros]:
  "calls_only A f \<Longrightarrow> calls_only A (database_error_handler ext f)"
  unfolding database_error_handler_def by (intro calls_intros)

lemma calls_only_cleanup:
  "calls_only {c. \<exists>h. c = CleanupDelay \<or> c = Close h \<or> c = SyncClose h} (uow_cleanup ext ts env)"
  unfolding uow_cleanup_def close_session_def
  by (intro calls_intros calls_only_modify) (simp_all add: clear_repositories_def)

text \<open>The session and its ownership through the control structures.\<close>

abbreviation holds_session :: "nat \<Rightarrow> bool \<Rightarrow> uow \<Rightarrow> bool" where
  "holds_session h owns s \<equiv> uw_session s = Some h \<and> uw_owns_session s = owns"

lemma keeps_perform [keeps_intros]:
  "keeps (holds_session h b) (perform env c)" "keeps (holds_session h b) (perform_sync env c)"
  by (auto simp: keeps_def perform_def perform_sync_def Let_def split: option.splits)

lemma keeps_wait_for [keeps_intros]:
  "keeps (holds_session h b) f \<Longrightarrow> keeps (holds_session h b) (wait_for t f)"
  by (rule keeps_wait_for_general) simp_all

lemma keeps_set_timeout [keeps_intros]: "keeps (holds_session h b) (s_modify set_timeout_occurred)"
  by (rule keeps_s_modify) (simp add: set_timeout_occurred_def)

lemma keeps_with_session [keeps_intros]:
  "(\<And>h'. keeps (holds_session h b) (f h')) \<Longrightarrow> keeps (holds_session h b) (with_session msg f)"
  by (auto simp: keeps_def with_session_def act_simps split: option.splits)

lemma keeps_database_handler [keeps_intros]:
  "keeps (holds_session h b) f \<Longrightarrow> keeps (holds_session h b) (database_error_handler ext f)"
  unfolding database_error_handler_def by (intro keeps_intros)

lemma keeps_wrap [keeps_intros]:
  "keeps (holds_session h b) f \<Longrightarrow>
    keeps (holds_session h b) (wrap_async_function ext set_timeout_occurred t f)"
  unfolding wrap_async_function_def by (intro keeps_intros)

lemma keeps_commit: "keeps (holds_session h b) (uow_commit ext ts env)"
  unfolding uow_commit_def uow_rollback_def by (intro keeps_intros)

lemma close_session_trace:
  "\<exists>cs. tk_trace (fst (close_session ext ts env h s)) = tk_trace s @ Close h # cs"
proof -
  let ?w = "wait_for (ut_session_close ts) (perform env (Close h))"
  have w: "tk_trace (fst (?w s)) = tk_trace s @ [Close h]" by (simp add: calls_simps)
  show ?thesis
  proof (cases "snd (?w s)")
    case (Inr x)
    then show ?thesis using w by (simp add: close_session_def s_catch_returns)
  next
    case (Inl e)
    let ?h = "if is_timeout ext e then
         s_catch (perform_sync env (SyncClose h)) (\<lambda>e'.
           if isinst ext (exn_class e') [Builtin OSErrorC, Builtin RuntimeErrorC, Builtin AttributeErrorC]
           then s_ret () else s_raise e')
       else if isinst ext (exn_class e) [Builtin CancelledErrorC] then s_ret ()
       else if is_os_or_runtime ext e then s_ret ()
       else s_raise e"
    have "close_session ext ts env h s = ?h (fst (?w s))"
      unfolding close_session_def using Inl by (rule s_catch_raises)
    moreover have "calls_only UNIV ?h" by (intro calls_intros) simp
    then obtain cs where "tk_trace (fst (?h (fst (?w s)))) = tk_trace (fst (?w s)) @ cs"
      using calls_onlyD by blast
    ultimately have "tk_trace (fst (close_session ext ts env h s)) = tk_trace s @ Close h # cs"
      by (simp only: w append_assoc append_Cons append_Nil)
    then show ?thesis by blast
  qed
qed

lemma cleanup_closes:
  assumes "uw_session s = Some h"
  shows "(uw_session (fst (uow_cleanup ext ts env s)) = None \<or>
       (\<exists>e. snd (uow_cleanup ext ts env s) = Inl e \<and>
         tk_trace (fst (uow_cleanup ext ts env s)) = tk_trace s @ [CleanupDelay])) \<and>
     (uw_session (fst (uow_cleanup ext ts env s)) = None \<longrightarrow>
       (\<exists>cs ds. tk_trace (fst (uow_cleanup ext ts env s)) = tk_trace s @ cs @ Close h # ds))"
proof -
  let ?delay = "s_bind (s_get uw_timeout_occurred) (\<lambda>occurred.
           if occurred then perform env CleanupDelay else s_ret ())"
  let ?close = "s_finally (close_session ext ts env h) (s_modify (\<lambda>s. s\<lparr>uw_session := None\<rparr>))"
  let ?rest = "s_bind ?close (\<lambda>_. s_modify clear_repositories)"
  have c: "uow_cleanup ext ts env s = s_bind ?delay (\<lambda>_. ?rest) s"
    by (simp add: uow_cleanup_def s_bind_def s_get_def assms)
  have k: "uw_session (fst (?delay s)) = Some h"
    using assms by (auto simp: act_simps perform_def Let_def split: option.splits)
  have rest: "uw_session (fst (?rest t)) = None \<and> (\<exists>ds. tk_trace (fst (?rest t)) = tk_trace t @ Close h # ds)" for t
    using close_session_trace [of ext ts env h t]
    by (auto simp: act_simps clear_repositories_def split: prod.splits sum.splits)
  show ?thesis
  proof (cases "snd (?delay s)")
    case (Inl e)
    then have o: "uw_timeout_occurred s" by (auto simp: act_simps split: if_splits)
    then have "tk_trace (fst (?delay s)) = tk_trace s @ [CleanupDelay]"
      by (simp add: s_bind_def s_get_def perform_trace)
    then show ?thesis using Inl k by (simp add: c s_bind_raises)
  next
    case (Inr x)
    have d: "\<exists>cs. tk_trace (fst (?delay s)) = tk_trace s @ cs"
      by (cases "uw_timeout_occurred s") (simp_all add: s_bind_def s_get_def s_ret_def perform_trace)
    have "uow_cleanup ext ts env s = ?rest (fst (?delay s))"
      unfolding c using Inr by (rule s_bind_returns)
    moreover obtain cs where "tk_trace (fst (?delay s)) = tk_trace s @ cs" using d by blast
    moreover obtain ds where
      "tk_trace (fst (?rest (fst (?delay s)))) = tk_trace (fst (?delay s)) @ Close h # ds"
      using rest by blast
    ultimately have "tk_trace (fst (uow_cleanup ext ts env s)) = tk_trace s @ cs @ Close h # ds"
      "uw_session (fst (uow_cleanup ext ts env s)) = None"
      using rest by simp_all
    then show ?thesis by blast
  qed
qed

text \<open>A unit of work that owns the session \<open>h\<close>, outside every other timeout, before a timeout has
  occurred.\<close>

definition quiet :: "nat \<Rightarrow> uow \<Rightarrow> bool" where
  "quiet h s \<longleftrightarrow> uw_owns_session s \<and> uw_session s = Some h \<and> tk_deadlines s = [] \<and> \<not> uw_timeout_occurred s"

definition returns_within :: "uow_call environment \<Rightarrow> uow_call list \<Rightarrow> real \<Rightarrow> bool" where
  \<comment> \<open>the last of the calls returns normally before the time is over\<close>
  "returns_within env cs t \<longleftrightarrow> max 0 (fst (env cs)) \<le> t \<and> snd (env cs) = Inr ()"

definition advanced :: "uow_call list \<Rightarrow> real \<Rightarrow> uow \<Rightarrow> uow" where
  "advanced cs d s = s\<lparr>tk_trace := tk_trace s @ cs, tk_now := tk_now s + d\<rparr>"

lemma advanced_simps [simp]:
  "tk_trace (advanced cs d s) = tk_trace s @ cs" "uw_session (advanced cs d s) = uw_session s"
  "uw_owns_session (advanced cs d s) = uw_owns_session s" "tk_deadlines (advanced cs d s) = tk_deadlines s"
  "uw_timeout_occurred (advanced cs d s) = uw_timeout_occurred s"
  "uw_repositories (advanced cs d s) = uw_repositories s" "uw_auto_commit (advanced cs d s) = uw_auto_commit s"
  "tk_now (advanced cs d s) = tk_now s + d"
  by (simp_all add: advanced_def)

lemma close_in_time:
  assumes "tk_deadlines s = []" "returns_within env (tk_trace s @ [Close h]) (ut_session_close ts)"
  shows "close_session ext ts env h s = (advanced [Close h] (max 0 (fst (env (tk_trace s @ [Close h])))) s, Inr ())"
proof -
  have "wait_for (ut_session_close ts) (perform env (Close h)) s =
      (advanced [Close h] (max 0 (fst (env (tk_trace s @ [Close h])))) s, Inr ())"
    using assms by (subst wait_for_perform_in_time) (simp_all add: returns_within_def advanced_def)
  then show ?thesis by (simp add: close_session_def s_catch_ok)
qed

lemma cleanup_in_time:
  assumes "tk_deadlines s = []" "uw_session s = Some h" "\<not> uw_timeout_occurred s"
    "returns_within env (tk_trace s @ [Close h]) (ut_session_close ts)"
  shows "uow_cleanup ext ts env s =
    (clear_repositories
      ((advanced [Close h] (max 0 (fst (env (tk_trace s @ [Close h])))) s)\<lparr>uw_session := None\<rparr>), Inr ())"
  using assms close_in_time [OF assms(1,4)]
  by (simp add: uow_cleanup_def s_bind_def s_get_def s_ret_def s_finally_def s_modify_def)

lemma cleanup_after_delay:
  assumes "tk_deadlines s = []" "uw_session s = Some h" "uw_timeout_occurred s"
    "snd (env (tk_trace s @ [CleanupDelay])) = Inr ()"
    "returns_within env (tk_trace s @ [CleanupDelay, Close h]) (ut_session_close ts)"
  shows "snd (uow_cleanup ext ts env s) = Inr () \<and>
    tk_trace (fst (uow_cleanup ext ts env s)) = tk_trace s @ [CleanupDelay, Close h] \<and>
    uw_session (fst (uow_cleanup ext ts env s)) = None"
proof -
  let ?t = "advanced [CleanupDelay] (max 0 (fst (env (tk_trace s @ [CleanupDelay])))) s"
  have d: "perform env CleanupDelay s = (?t, Inr ())"
    using assms by (simp add: perform_def Let_def advanced_def)
  have "close_session ext ts env h ?t =
      (advanced [Close h] (max 0 (fst (env (tk_trace ?t @ [Close h])))) ?t, Inr ())"
    using assms by (intro close_in_time) simp_all
  then show ?thesis
    using assms d by (simp add: uow_cleanup_def s_bind_def s_get_def s_ret_def s_finally_def s_modify_def
        clear_repositories_def)
qed

lemma not_exception_cancelled [simp]:
  "is_exception ext cancelled_error = False" "isinst ext (exn_class cancelled_error) [Builtin TimeoutErrorC] = False"
  by (simp_all add: is_exception_def isinst_def mro_def cancelled_error_def)

lemma timeout_is_timeout [simp]: "isinst ext (exn_class timeout_error) [Builtin TimeoutErrorC]"
  by (simp add: timeout_error_def)

lemma commit_in_time:
  assumes "tk_deadlines s = []" "uw_session s = Some h"
    "returns_within env (tk_trace s @ [Commit h]) (ut_transaction ts)"
  shows "uow_commit ext ts env s = (advanced [Commit h] (max 0 (fst (env (tk_trace s @ [Commit h])))) s, Inr ())"
proof -
  have "\<not> ut_transaction ts < max 0 (fst (env (tk_trace s @ [Commit h])))"
    "snd (env (tk_trace s @ [Commit h])) = Inr ()"
    using assms(3) by (simp_all only: returns_within_def not_less)
  then show ?thesis using assms(1,2)
  by (simp add: uow_commit_def wrap_async_function_def s_catch_def wait_for_def database_error_handler_def
      with_session_def s_bind_def s_get_def perform_def Let_def advanced_def)
qed

lemma commit_late:
  assumes "tk_deadlines s = []" "uw_session s = Some h"
    "ut_transaction ts < max 0 (fst (env (tk_trace s @ [Commit h])))"
  shows "uow_commit ext ts env s =
    (set_timeout_occurred (s\<lparr>tk_trace := tk_trace s @ [Commit h],
       tk_now := max (tk_now s) (tk_now s + ut_transaction ts)\<rparr>), Inl request_timeout_error)"
  using assms
  by (simp add: uow_commit_def wrap_async_function_def s_catch_def wait_for_def database_error_handler_def
      with_session_def s_bind_def s_get_def s_modify_def s_raise_def perform_def Let_def set_timeout_occurred_def)

lemma commit_fails:
  assumes "tk_deadlines s = []" "uw_session s = Some h"
    "env (tk_trace s @ [Commit h]) = (d, Inl e)" "is_exception ext e"
    "\<not> isinst ext (exn_class (db_handle_exception ext e)) [Builtin TimeoutErrorC]"
    "returns_within env (tk_trace s @ [Commit h, Rollback h]) (ut_session_close ts)"
    "max 0 d + max 0 (fst (env (tk_trace s @ [Commit h, Rollback h]))) \<le> ut_transaction ts"
  shows "uow_commit ext ts env s =
    (advanced [Commit h, Rollback h] (max 0 d + max 0 (fst (env (tk_trace s @ [Commit h, Rollback h])))) s,
     Inl (db_handle_exception ext e))"
proof -
  let ?r = "max 0 (fst (env (tk_trace s @ [Commit h, Rollback h])))"
  let ?s = "s\<lparr>tk_deadlines := [Some (tk_now s + ut_transaction ts)]\<rparr>"
  let ?t = "advanced [Commit h] (max 0 d) ?s"
  have "\<not> ut_transaction ts < max 0 d" using assms(7) by linarith
  then have c: "perform env (Commit h) ?s = (?t, Inl e)"
    using assms(3) by (simp add: perform_def Let_def advanced_def)
  have "wait_for (ut_session_close ts) (perform env (Rollback h)) ?t =
      (advanced [Rollback h] ?r ?t, Inr ())"
    using assms(6,7) by (subst wait_for_perform_in_time) (simp_all add: returns_within_def advanced_def)
  then have "uow_rollback ext ts env ?t = (advanced [Rollback h] ?r ?t, Inr ())"
    using assms(2) by (simp add: uow_rollback_def database_error_handler_def s_catch_def with_session_def
        s_bind_def s_get_def)
  moreover have "db_handle_exception ext e \<noteq> cancelled_error"
  proof
    assume "db_handle_exception ext e = cancelled_error"
    then have "e = cancelled_error"
      by (auto simp: db_handle_exception_def exception_handlers_def cancelled_error_def split: if_splits)
    then show False using assms(4) by simp
  qed
  ultimately show ?thesis
    using assms c by (simp add: uow_commit_def wrap_async_function_def s_catch_def wait_for_def
        database_error_handler_def with_session_def s_bind_def s_get_def s_raise_def advanced_def)
qed

text \<open>A server that answers at once and fails the calls in \<open>bad\<close>.\<close>

definition sample_env :: "uow_call list \<Rightarrow> uow_call environment" where
  "sample_env bad cs = (1, if last cs \<in> set bad then Inl (runtime_error ''lost'') else Inr ())"

definition sample_timeouts :: uow_timeouts where
  "sample_timeouts = \<lparr>ut_context = 7, ut_transaction = 10, ut_session_close = 3\<rparr>"

definition sample_uow :: uow where
  "sample_uow = (uow_init None True True)\<lparr>uw_session := Some 1, tk_trace := [CreateSession]\<rparr>"

lemma sample_quiet: "quiet 1 sample_uow"
  by (simp add: quiet_def sample_uow_def uow_init_def)

subsection \<open>Properties\<close>

text \<open>C18. An exception of the body is lost: leaving the context with any exception fails with the
  \<open>ImportError\<close> of a class that does not exist, the transaction is neither rolled back nor
  committed, and no timeout is noted; a session that is owned is closed, a shared one is untouched.\<close>

theorem uow_exception_lost:
  "(\<exists>cs. tk_trace (fst (uow_exit ext ts env (Some e) s)) = tk_trace s @ cs \<and>
      (\<forall>h. Rollback h \<notin> set cs \<and> Commit h \<notin> set cs)) \<and>
   (\<exists>x. snd (uow_exit ext ts env (Some e) s) = Inl x) \<and>
   (\<not> uw_owns_session s \<longrightarrow> uow_exit ext ts env (Some e) s = (clear_repositories s, Inl import_error)) \<and>
   (quiet h s \<and> returns_within env (tk_trace s @ [Close h]) (ut_session_close ts) \<longrightarrow>
      snd (uow_exit ext ts env (Some e) s) = Inl import_error \<and>
      tk_trace (fst (uow_exit ext ts env (Some e) s)) = tk_trace s @ [Close h] \<and>
      uw_session (fst (uow_exit ext ts env (Some e) s)) = None)"
proof -
  let ?finish = "s_bind (s_get uw_owns_session) (\<lambda>owns.
         if owns then uow_cleanup ext ts env else s_modify clear_repositories)"
  have exit: "uow_exit ext ts env (Some e) s =
      (fst (?finish s), case snd (?finish s) of Inl x \<Rightarrow> Inl x | Inr _ \<Rightarrow> Inl import_error)"
    by (simp add: uow_exit_exception s_finally_def s_raise_def split: prod.splits sum.splits)
  have "calls_only {c. \<exists>h. c = CleanupDelay \<or> c = Close h \<or> c = SyncClose h} ?finish"
    by (intro calls_intros calls_only_cleanup calls_only_modify) (simp add: clear_repositories_def)
  then obtain cs where "tk_trace (fst (?finish s)) = tk_trace s @ cs"
    "set cs \<subseteq> {c. \<exists>h. c = CleanupDelay \<or> c = Close h \<or> c = SyncClose h}"
    using calls_onlyD by blast
  then have "\<exists>cs. tk_trace (fst (uow_exit ext ts env (Some e) s)) = tk_trace s @ cs \<and>
      (\<forall>h. Rollback h \<notin> set cs \<and> Commit h \<notin> set cs)"
    unfolding exit by (intro exI [of _ cs]) auto
  moreover have "\<exists>x. snd (uow_exit ext ts env (Some e) s) = Inl x"
    unfolding exit by (simp split: sum.splits)
  moreover have "\<not> uw_owns_session s \<longrightarrow> uow_exit ext ts env (Some e) s = (clear_repositories s, Inl import_error)"
    unfolding exit by (simp add: s_bind_def s_get_def s_modify_def)
  moreover have "quiet h s \<and> returns_within env (tk_trace s @ [Close h]) (ut_session_close ts) \<longrightarrow>
      snd (uow_exit ext ts env (Some e) s) = Inl import_error \<and>
      tk_trace (fst (uow_exit ext ts env (Some e) s)) = tk_trace s @ [Close h] \<and>
      uw_session (fst (uow_exit ext ts env (Some e) s)) = None"
    using cleanup_in_time [of s h env ts ext] unfolding exit
    by (auto simp: quiet_def s_bind_def s_get_def clear_repositories_def)
  ultimately show ?thesis by blast
qed

theorem uow_exception_lost_witness:
  "snd (uow_exit (\<lambda>_. []) sample_timeouts (sample_env []) (Some (runtime_error ''body'')) sample_uow) = Inl import_error"
proof -
  have "returns_within (sample_env []) (tk_trace sample_uow @ [Close 1]) (ut_session_close sample_timeouts)"
    by (simp add: returns_within_def sample_env_def sample_timeouts_def)
  then show ?thesis using uow_exception_lost [where h = 1 and s = sample_uow] sample_quiet by blast
qed

text \<open>C17. Leaving the context normally commits: a commit in time is followed by closing the session;
  one that fails is rolled back and its error translated; one that takes longer than the transaction
  timeout is not rolled back, the session is closed after the cleanup delay and the caller gets the
  timeout error.\<close>

theorem uow_commit_protocol:
  assumes "quiet h s" "uw_auto_commit s"
  shows "(returns_within env (tk_trace s @ [Commit h]) (ut_transaction ts) \<and>
      returns_within env (tk_trace s @ [Commit h, Close h]) (ut_session_close ts) \<longrightarrow>
      snd (uow_exit ext ts env None s) = Inr () \<and>
      tk_trace (fst (uow_exit ext ts env None s)) = tk_trace s @ [Commit h, Close h]) \<and>
    (env (tk_trace s @ [Commit h]) = (d, Inl e) \<and> is_exception ext e \<and>
      \<not> isinst ext (exn_class (db_handle_exception ext e)) [Builtin TimeoutErrorC] \<and>
      returns_within env (tk_trace s @ [Commit h, Rollback h]) (ut_session_close ts) \<and>
      max 0 d + max 0 (fst (env (tk_trace s @ [Commit h, Rollback h]))) \<le> ut_transaction ts \<and>
      returns_within env (tk_trace s @ [Commit h, Rollback h, Close h]) (ut_session_close ts) \<longrightarrow>
      snd (uow_exit ext ts env None s) = Inl (db_handle_exception ext e) \<and>
      tk_trace (fst (uow_exit ext ts env None s)) = tk_trace s @ [Commit h, Rollback h, Close h]) \<and>
    (ut_transaction ts < max 0 (fst (env (tk_trace s @ [Commit h]))) \<and>
      snd (env (tk_trace s @ [Commit h, CleanupDelay])) = Inr () \<and>
      returns_within env (tk_trace s @ [Commit h, CleanupDelay, Close h]) (ut_session_close ts) \<longrightarrow>
      snd (uow_exit ext ts env None s) = Inl request_timeout_error \<and>
      tk_trace (fst (uow_exit ext ts env None s)) = tk_trace s @ [Commit h, CleanupDelay, Close h])"
proof -
  have q: "uw_owns_session s" "uw_session s = Some h" "tk_deadlines s = []" "\<not> uw_timeout_occurred s"
    using assms(1) by (simp_all add: quiet_def)
  have exit: "uow_exit ext ts env None s =
      (let c = uow_commit ext ts env s; u = uow_cleanup ext ts env (fst c) in
       (fst u, case snd u of Inl x \<Rightarrow> Inl x | Inr _ \<Rightarrow> snd c))" if "uw_owns_session (fst (uow_commit ext ts env s))"
    using that assms(2)
    by (cases "uow_commit ext ts env s"; cases "uow_cleanup ext ts env (fst (uow_commit ext ts env s))")
      (auto simp: uow_exit_def s_finally_def s_bind_def s_ret_def s_get_def Let_def split: sum.splits)
  show ?thesis
  proof (intro conjI impI; elim conjE)
    assume c: "returns_within env (tk_trace s @ [Commit h]) (ut_transaction ts)"
      and cl: "returns_within env (tk_trace s @ [Commit h, Close h]) (ut_session_close ts)"
    show "snd (uow_exit ext ts env None s) = Inr ()"
      "tk_trace (fst (uow_exit ext ts env None s)) = tk_trace s @ [Commit h, Close h]"
      using commit_in_time [OF q(3,2) c, of ext] q cl exit
        cleanup_in_time [where s = "fst (uow_commit ext ts env s)" and h = h]
      by (simp_all add: Let_def clear_repositories_def)
  next
    assume c: "env (tk_trace s @ [Commit h]) = (d, Inl e)" "is_exception ext e"
        "\<not> isinst ext (exn_class (db_handle_exception ext e)) [Builtin TimeoutErrorC]"
        "returns_within env (tk_trace s @ [Commit h, Rollback h]) (ut_session_close ts)"
        "max 0 d + max 0 (fst (env (tk_trace s @ [Commit h, Rollback h]))) \<le> ut_transaction ts"
      and cl: "returns_within env (tk_trace s @ [Commit h, Rollback h, Close h]) (ut_session_close ts)"
    show "snd (uow_exit ext ts env None s) = Inl (db_handle_exception ext e)"
      "tk_trace (fst (uow_exit ext ts env None s)) = tk_trace s @ [Commit h, Rollback h, Close h]"
      using commit_fails [OF q(3,2) c] q cl exit
        cleanup_in_time [where s = "fst (uow_commit ext ts env s)" and h = h]
      by (simp_all add: Let_def clear_repositories_def)
  next
    assume c: "ut_transaction ts < max 0 (fst (env (tk_trace s @ [Commit h])))"
      and cl: "snd (env (tk_trace s @ [Commit h, CleanupDelay])) = Inr ()"
        "returns_within env (tk_trace s @ [Commit h, CleanupDelay, Close h]) (ut_session_close ts)"
    show "snd (uow_exit ext ts env None s) = Inl request_timeout_error"
      "tk_trace (fst (uow_exit ext ts env None s)) = tk_trace s @ [Commit h, CleanupDelay, Close h]"
      using commit_late [of s h ts env ext, OF q(3,2) c] q cl exit
        cleanup_after_delay [where s = "fst (uow_commit ext ts env s)" and h = h]
      by (simp_all add: Let_def set_timeout_occurred_def)
  qed
qed

theorem uow_commit_protocol_witness:
  "snd (uow_exit (\<lambda>_. []) sample_timeouts (sample_env [Commit 1]) None sample_uow) =
      Inl (EService (mk_default DatabaseError)) \<and>
   tk_trace (fst (uow_exit (\<lambda>_. []) sample_timeouts (sample_env [Commit 1]) None sample_uow)) =
      [CreateSession, Commit 1, Rollback 1, Close 1]"
proof -
  have "db_handle_exception (\<lambda>_. []) (runtime_error ''lost'') = EService (mk_default DatabaseError)"
    by (simp add: runtime_error_def db_handle_exception_def exception_handlers_def isinst_def mro_def
        http_exception_class_def asyncpg_connection_classes_def)
  moreover have "is_exception (\<lambda>_. []) (runtime_error ''lost'')"
    by (simp add: is_exception_def runtime_error_def isinst_def mro_def)
  moreover have "\<not> isinst (\<lambda>_. []) (exn_class (EService (mk_default DatabaseError))) [Builtin TimeoutErrorC]"
    by (simp add: isinst_def mro_def mk_default_def mk_service_def Let_def http_exception_class_def)
  ultimately show ?thesis
    using uow_commit_protocol [OF sample_quiet, where ext = "\<lambda>_. []" and ts = sample_timeouts and
        env = "sample_env [Commit 1]" and d = 1 and e = "runtime_error ''lost''"]
    by (simp add: sample_env_def sample_timeouts_def returns_within_def sample_uow_def uow_init_def)
qed



end
