(* ===== verification/Repository.thy ===== *)
theory Repository
  imports Asyncio DbErrors
begin

section \<open>The repository layer\<close>

text \<open>
  \<open>core/infrastructure/database/repositories/base.py\<close>, \<open>utils.py\<close> and
  \<open>core/infrastructure/database/models/base.py\<close>.  The calls a repository
  makes to its session are calls to the environment; \<open>answer\<close> gives the rows a statement
  returned and \<open>merged\<close> the instance that \<open>merge\<close> returned.  The mapped objects live in a store
  from object numbers to attributes.  \<open>breaker\<close> is the decorator of the circuit-breaker library.
  A method is the body defined here under the decorator \<open>repository_method\<close>.
\<close>

subsection \<open>Statements, rows and results\<close>

record select_stmt =
  ss_base :: string
  ss_where :: "(string \<times> pyval) list"
  ss_ordered :: bool
  ss_limit :: "int option"
  ss_offset :: "int option"
  ss_lock :: "(bool \<times> bool) option"

text \<open>The new value of a column in \<open>ON CONFLICT DO UPDATE\<close>: a given one or the proposed one.\<close>

datatype set_value = Given pyval | Excluded string

datatype conflict = DoNothing "string list" | DoUpdate "string list" "(string \<times> set_value) list"

record insert_stmt =
  is_mapping :: string
  is_rows :: "(string \<times> pyval) list list"
  is_conflict :: "conflict option"
  is_returning :: bool

datatype stmt = Select select_stmt | Count select_stmt | Insert insert_stmt | Core string

text \<open>A column of a row holds a mapped object or a value.\<close>

datatype cell = Object nat | Value pyval

type_synonym row = "(string \<times> cell) list"

datatype repo_call =
    Execute stmt
  | Add nat
  | AddAll "nat list"
  | FlushSession
  | Refresh cell "string list"
  | Merge nat
  | Delete nat
  | BulkSave "nat list" bool
  | BulkMappings string "(string \<times> pyval) list list"

record repo = "repo_call task" +
  rp_objects :: "(nat \<times> (string \<times> pyval) list) list"

type_synonym 'a repo_act = "(repo, exn, 'a) act"

type_synonym answers = "repo_call list \<Rightarrow> row list"

record 'e paginated_result =
  pr_items :: "'e list"
  pr_current_page :: int
  pr_total_pages :: int
  pr_total_results :: int
  pr_page_size :: int
  pr_has_next :: bool
  pr_has_previous :: bool

datatype select_mode = SelectOne | SelectAll | SelectUniqueEntity | SelectDict | SelectUniqueDict | SelectAllDict | SelectRow | SelectScalarList

datatype selected =
    OneCell "cell option"
  | Cells "cell list"
  | OneDict "(string \<times> cell) list"
  | Dicts "(string \<times> cell) list list"
  | Rows "row list"

definition not_null :: "cell \<Rightarrow> cell option" where
  \<comment> \<open>a NULL is \<open>None\<close>\<close>
  "not_null c = (if c = Value PNone then None else Some c)"

definition scalar :: "row list \<Rightarrow> cell option" where
  \<comment> \<open>\<open>result.scalar()\<close>: the first column of the first row\<close>
  "scalar rows = (case rows of [] \<Rightarrow> None | r # _ \<Rightarrow> (case r of [] \<Rightarrow> None | (_, c) # _ \<Rightarrow> not_null c))"

fun unique_rows :: "row list \<Rightarrow> row list" where
  \<comment> \<open>\<open>result.unique()\<close>: the first of equal rows\<close>
  "unique_rows [] = []"
| "unique_rows (r # rs) = r # filter (\<lambda>x. x \<noteq> r) (unique_rows rs)"

definition first_cell :: "row \<Rightarrow> cell" where
  "first_cell r = (case r of [] \<Rightarrow> Value PNone | (_, c) # _ \<Rightarrow> c)"

definition cell_truthy :: "cell \<Rightarrow> bool" where
  "cell_truthy c = (case c of Object _ \<Rightarrow> True | Value v \<Rightarrow> truthy v)"

definition as_dict :: "row option \<Rightarrow> (string \<times> cell) list" where
  "as_dict r = (case r of None \<Rightarrow> [] | Some r \<Rightarrow> r)"

subsection \<open>Decorators\<close>

definition repository_method ::
  "(string \<Rightarrow> pyclass list) \<Rightarrow> real \<Rightarrow> ('a repo_act \<Rightarrow> 'a repo_act) \<Rightarrow> 'a repo_act \<Rightarrow> 'a repo_act" where
  \<comment> \<open>\<open>apply_repository_decorators\<close>: error handler around timeout around circuit breaker\<close>
  "repository_method ext repository_timeout breaker func =
     database_error_handler ext (wrap_async_function ext (\<lambda>s. s) repository_timeout (breaker func))"

subsection \<open>Select\<close>

definition execute :: "repo_call environment \<Rightarrow> answers \<Rightarrow> stmt \<Rightarrow> row list repo_act" where
  "execute env answer stmt =
     s_bind (perform env (Execute stmt)) (\<lambda>_. s_get (\<lambda>s. answer (tk_trace s)))"

definition execute_select ::
  "repo_call environment \<Rightarrow> answers \<Rightarrow> stmt \<Rightarrow> select_mode \<Rightarrow> selected repo_act" where
  "execute_select env answer stmt mode =
     s_bind (execute env answer stmt) (\<lambda>rows. s_ret (case mode of
         SelectOne \<Rightarrow> OneCell (scalar rows)
       | SelectAll \<Rightarrow> Cells (map first_cell rows)
       | SelectUniqueEntity \<Rightarrow> Cells (map first_cell (unique_rows rows))
       | SelectDict \<Rightarrow> OneDict (as_dict (case rows of [] \<Rightarrow> None | r # _ \<Rightarrow> Some r))
       | SelectUniqueDict \<Rightarrow> Dicts (map (\<lambda>r. as_dict (Some r)) (unique_rows rows))
       | SelectAllDict \<Rightarrow> Dicts (map (\<lambda>r. as_dict (Some r)) rows)
       | SelectRow \<Rightarrow> Rows rows
       | SelectScalarList \<Rightarrow> Cells (map first_cell rows)))"

definition cells_of :: "selected \<Rightarrow> cell list" where
  "cells_of r = (case r of Cells cs \<Rightarrow> cs | _ \<Rightarrow> [])"

definition bool_check :: "repo_call environment \<Rightarrow> answers \<Rightarrow> stmt \<Rightarrow> bool repo_act" where
  "bool_check env answer stmt = s_bind (execute env answer stmt) (\<lambda>rows. s_ret (scalar rows \<noteq> None))"

definition refresh_entity :: "repo_call environment \<Rightarrow> cell option \<Rightarrow> string list option \<Rightarrow> unit repo_act" where
  \<comment> \<open>\<open>if entity and refresh_attrs: await self.session.refresh(entity, refresh_attrs)\<close>\<close>
  "refresh_entity env entity refresh_attrs =
     (case entity of
        Some c \<Rightarrow> if cell_truthy c \<and> given refresh_attrs then perform env (Refresh c (the refresh_attrs)) else s_ret ()
      | None \<Rightarrow> s_ret ())"

definition select_one_orm ::
  "repo_call environment \<Rightarrow> answers \<Rightarrow> stmt \<Rightarrow> bool \<Rightarrow> string list option \<Rightarrow> cell option repo_act" where
  \<comment> \<open>\<open>_select_one_orm_internal\<close>\<close>
  "select_one_orm env answer stmt unique refresh_attrs =
     s_bind (if unique then
         s_bind (execute_select env answer stmt SelectUniqueEntity) (\<lambda>r.
           s_ret (case cells_of r of [] \<Rightarrow> None | c # _ \<Rightarrow> not_null c))
       else
         s_bind (execute_select env answer stmt SelectOne) (\<lambda>r.
           s_ret (case r of OneCell c \<Rightarrow> c | _ \<Rightarrow> None))) (\<lambda>entity.
     s_bind (refresh_entity env entity refresh_attrs) (\<lambda>_. s_ret entity))"

definition select_many_orm :: "repo_call environment \<Rightarrow> answers \<Rightarrow> stmt \<Rightarrow> bool \<Rightarrow> cell list repo_act" where
  "select_many_orm env answer stmt unique =
     s_bind (execute_select env answer stmt (if unique then SelectUniqueEntity else SelectAll)) (\<lambda>r. s_ret (cells_of r))"

definition with_for_update :: "bool \<Rightarrow> bool \<Rightarrow> select_stmt \<Rightarrow> select_stmt" where
  "with_for_update skip_locked nowait stmt = stmt\<lparr>ss_lock := Some (skip_locked, nowait)\<rparr>"

definition select_one_for_update ::
  "repo_call environment \<Rightarrow> answers \<Rightarrow> select_stmt \<Rightarrow> bool \<Rightarrow> bool \<Rightarrow> bool \<Rightarrow> string list option \<Rightarrow>
   cell option repo_act" where
  "select_one_for_update env answer stmt skip_locked nowait unique refresh_attrs =
     select_one_orm env answer (Select (with_for_update skip_locked nowait stmt)) unique refresh_attrs"

definition select_many_for_update ::
  "repo_call environment \<Rightarrow> answers \<Rightarrow> select_stmt \<Rightarrow> bool \<Rightarrow> bool \<Rightarrow> bool \<Rightarrow> cell list repo_act" where
  "select_many_for_update env answer stmt skip_locked nowait unique =
     select_many_orm env answer (Select (with_for_update skip_locked nowait stmt)) unique"

definition select_scalar_list :: "repo_call environment \<Rightarrow> answers \<Rightarrow> stmt \<Rightarrow> cell list repo_act" where
  "select_scalar_list env answer stmt =
     s_bind (execute_select env answer stmt SelectScalarList) (\<lambda>r. s_ret (cells_of r))"

subsection \<open>Pagination\<close>

definition count_of :: "row list \<Rightarrow> int" where
  \<comment> \<open>\<open>count_result.scalar() or 0\<close>\<close>
  "count_of rows = (case scalar rows of Some (Value (PInt n)) \<Rightarrow> n | _ \<Rightarrow> 0)"

definition pages_of :: "int \<Rightarrow> int \<Rightarrow> exn + int" where
  \<comment> \<open>\<open>(total + size - 1) // size if total_results > 0 else 1\<close>\<close>
  "pages_of total_results page_size =
     (if total_results > 0 then
        (if page_size = 0
         then Inl (EOther (Builtin ZeroDivisionErrorC) ''integer division or modulo by zero'')
         else Inr ((total_results + page_size - 1) div page_size))
      else Inr 1)"

definition paginated_select_with_metadata ::
  "repo_call environment \<Rightarrow> answers \<Rightarrow> select_stmt \<Rightarrow> int \<Rightarrow> int \<Rightarrow> cell paginated_result repo_act" where
  "paginated_select_with_metadata env answer stmt page_size page_number =
     s_bind (execute env answer (Count (stmt\<lparr>ss_ordered := False\<rparr>))) (\<lambda>count_result.
     let total_results = count_of count_result in
     s_bind (s_lift (pages_of total_results page_size)) (\<lambda>total_pages.
     let has_next = page_number < total_pages;
         has_previous = page_number > 1;
         offset = (page_number - 1) * page_size in
     s_bind (execute_select env answer (Select (stmt\<lparr>ss_limit := Some page_size, ss_offset := Some offset\<rparr>)) SelectAll) (\<lambda>items.
     s_ret \<lparr>pr_items = cells_of items, pr_current_page = page_number, pr_total_pages = total_pages,
            pr_total_results = total_results, pr_page_size = page_size, pr_has_next = has_next,
            pr_has_previous = has_previous\<rparr>)))"

definition py_prefix :: "int \<Rightarrow> 'a list \<Rightarrow> 'a list" where
  \<comment> \<open>\<open>xs[:n]\<close>: a negative bound counts from the end\<close>
  "py_prefix n xs = take (if 0 \<le> n then nat n else nat (int (length xs) + n)) xs"

definition paginated_select_fast ::
  "repo_call environment \<Rightarrow> answers \<Rightarrow> select_stmt \<Rightarrow> int \<Rightarrow> int \<Rightarrow> cell paginated_result repo_act" where
  "paginated_select_fast env answer stmt page_size page_number =
     (let offset = (page_number - 1) * page_size;
          limit = page_size + 1 in
      s_bind (execute_select env answer (Select (stmt\<lparr>ss_limit := Some limit, ss_offset := Some offset\<rparr>)) SelectAll) (\<lambda>r.
        let items = cells_of r;
            has_next = int (length items) > page_size in
        s_ret \<lparr>pr_items = (if has_next then py_prefix page_size items else items), pr_current_page = page_number,
               pr_total_pages = -1, pr_total_results = -1, pr_page_size = page_size, pr_has_next = has_next,
               pr_has_previous = page_number > 1\<rparr>))"

definition map_paginated_result :: "'a paginated_result \<Rightarrow> ('a \<Rightarrow> 'b) \<Rightarrow> 'b paginated_result" where
  "map_paginated_result p mapper =
     \<lparr>pr_items = map mapper (pr_items p), pr_current_page = pr_current_page p, pr_total_pages = pr_total_pages p,
      pr_total_results = pr_total_results p, pr_page_size = pr_page_size p, pr_has_next = pr_has_next p,
      pr_has_previous = pr_has_previous p\<rparr>"

subsection \<open>Mapped objects\<close>

text \<open>What the code uses of a mapped class: its name, the keys of its columns in order, and the
  other names that \<open>hasattr\<close> finds.\<close>

record model =
  md_name :: string
  md_columns :: "string list"
  md_other_attributes :: "string list"

definition has_attribute :: "model \<Rightarrow> (string \<times> pyval) list \<Rightarrow> string \<Rightarrow> bool" where
  "has_attribute m d field \<longleftrightarrow> field \<in> set (md_columns m) \<or> field \<in> set (md_other_attributes m) \<or> dict_has d field"

fun set_attributes :: "(string \<Rightarrow> pyval \<Rightarrow> (string \<times> pyval) list \<Rightarrow> bool) \<Rightarrow> (string \<times> pyval) list \<Rightarrow>
    (string \<times> pyval) list \<Rightarrow> (string \<times> pyval) list" where
  \<comment> \<open>\<open>for field, value in data.items(): if ...: setattr(entity, field, value)\<close>\<close>
  "set_attributes ok [] d = d"
| "set_attributes ok ((field, v) # data) d = set_attributes ok data (if ok field v d then dict_set field v d else d)"

definition attributes :: "nat \<Rightarrow> repo \<Rightarrow> (string \<times> pyval) list" where
  "attributes n s = (case dict_get (rp_objects s) n of None \<Rightarrow> [] | Some d \<Rightarrow> d)"

definition change_object :: "nat \<Rightarrow> ((string \<times> pyval) list \<Rightarrow> (string \<times> pyval) list) \<Rightarrow> repo \<Rightarrow> repo" where
  "change_object n f s = s\<lparr>rp_objects := dict_set n (f (attributes n s)) (rp_objects s)\<rparr>"

definition to_dict :: "model \<Rightarrow> (string \<times> pyval) list \<Rightarrow> (string \<times> pyval) list" where
  \<comment> \<open>an attribute of a column that was never set reads as \<open>None\<close>\<close>
  "to_dict m d = map (\<lambda>c. (c, case dict_get d c of None \<Rightarrow> PNone | Some v \<Rightarrow> v)) (md_columns m)"

definition from_dict :: "model \<Rightarrow> (string \<times> pyval) list \<Rightarrow> (string \<times> pyval) list" where
  "from_dict m data = set_attributes (\<lambda>field v d. has_attribute m d field) data []"

definition update_object :: "model \<Rightarrow> (string \<times> pyval) list \<Rightarrow> (string \<times> pyval) list \<Rightarrow> (string \<times> pyval) list" where
  \<comment> \<open>\<open>DbBaseModel.update\<close>\<close>
  "update_object m kwargs d = set_attributes (\<lambda>field v d. has_attribute m d field) kwargs d"

definition tablename :: "model \<Rightarrow> string" where
  "tablename m = lower (md_name m) @ ''s''"

definition base_to_domain :: "model \<Rightarrow> (string \<times> pyval) list \<Rightarrow> exn + 'd" where
  \<comment> \<open>\<open>to_domain\<close> of a class that does not override it\<close>
  "base_to_domain m d = Inl (EOther (Builtin NotImplementedErrorC)
     (md_name m @ '' must implement to_domain() method. Use explicit mapper functions from the feature'' @
      CHR 0x27 # ''s mappers module.''))"

definition base_from_domain :: "model \<Rightarrow> 'd \<Rightarrow> exn + (string \<times> pyval) list" where
  "base_from_domain m d = Inl (EOther (Builtin NotImplementedErrorC)
     (md_name m @ '' must implement from_domain() class method. Use explicit mapper functions from the feature'' @
      CHR 0x27 # ''s mappers module.''))"

definition is_deleted :: "(string \<times> pyval) list \<Rightarrow> bool" where
  "is_deleted d \<longleftrightarrow> dict_get d ''deleted_at'' \<noteq> None \<and> dict_get d ''deleted_at'' \<noteq> Some PNone"

definition soft_delete :: "pyval \<Rightarrow> (string \<times> pyval) list \<Rightarrow> (string \<times> pyval) list" where
  \<comment> \<open>\<open>now\<close> is the value of \<open>datetime.now(UTC)\<close>\<close>
  "soft_delete now d = dict_set ''deleted_at'' now d"

definition restore :: "(string \<times> pyval) list \<Rightarrow> (string \<times> pyval) list" where
  "restore d = dict_set ''deleted_at'' PNone d"

subsection \<open>Insert and upsert\<close>

definition flush_and_refresh :: "repo_call environment \<Rightarrow> cell \<Rightarrow> bool \<Rightarrow> string list option \<Rightarrow> unit repo_act" where
  "flush_and_refresh env entity flush refresh_attrs =
     (if flush then
        s_bind (perform env FlushSession) (\<lambda>_.
        if given refresh_attrs then perform env (Refresh entity (the refresh_attrs)) else s_ret ())
      else s_ret ())"

definition insert_one_orm :: "repo_call environment \<Rightarrow> nat \<Rightarrow> bool \<Rightarrow> string list option \<Rightarrow> nat repo_act" where
  "insert_one_orm env inst flush refresh_attrs =
     s_bind (perform_sync env (Add inst)) (\<lambda>_.
     s_bind (flush_and_refresh env (Object inst) flush refresh_attrs) (\<lambda>_. s_ret inst))"

definition upsert_one_orm ::
  "repo_call environment \<Rightarrow> (repo_call list \<Rightarrow> nat) \<Rightarrow> nat \<Rightarrow> bool \<Rightarrow> string list option \<Rightarrow> nat repo_act" where
  "upsert_one_orm env merged inst flush refresh_attrs =
     s_bind (s_bind (perform env (Merge inst)) (\<lambda>_. s_get (\<lambda>s. merged (tk_trace s)))) (\<lambda>merged_instance.
     s_bind (flush_and_refresh env (Object merged_instance) flush refresh_attrs) (\<lambda>_. s_ret merged_instance))"

definition multiple_results :: exn where
  "multiple_results = EOther (Lib ''sqlalchemy.exc.MultipleResultsFound'')
     ''Multiple rows were found when one or none was required''"

definition scalar_one_or_none :: "row list \<Rightarrow> exn + cell option" where
  "scalar_one_or_none rows =
     (case rows of [] \<Rightarrow> Inr None | [r] \<Rightarrow> Inr (not_null (first_cell r)) | _ \<Rightarrow> Inl multiple_results)"

definition excluded_column :: "model \<Rightarrow> string \<Rightarrow> exn + string \<times> set_value" where
  \<comment> \<open>\<open>stmt.excluded[k]\<close>\<close>
  "excluded_column m k =
     (if k \<in> set (md_columns m) then Inr (k, Excluded k) else Inl (EOther (Builtin KeyErrorC) k))"

definition conflict_clause ::
  "(string list \<Rightarrow> (string \<times> set_value) list \<Rightarrow> exn + conflict) \<Rightarrow> (string \<times> pyval) list \<Rightarrow> model \<Rightarrow> string list \<Rightarrow>
   string list option \<Rightarrow> bool \<Rightarrow> exn + conflict" where
  \<comment> \<open>\<open>do_update\<close> is the method \<open>on_conflict_do_update\<close> of the library's statement\<close>
  "conflict_clause do_update data mapping conflict_fields update_fields do_nothing_on_conflict =
     (if do_nothing_on_conflict \<or> update_fields = Some [] then Inr (DoNothing conflict_fields)
      else bind_res
        (case update_fields of
           None \<Rightarrow> Inr (map (\<lambda>(k, v). (k, Given v)) (filter (\<lambda>(k, v). k \<notin> set conflict_fields) data))
         | Some names \<Rightarrow> map_res (excluded_column mapping) (filter (dict_has data) names))
        (\<lambda>update_dict. do_update conflict_fields update_dict))"

definition upsert_one_core ::
  "repo_call environment \<Rightarrow> answers \<Rightarrow> (string list \<Rightarrow> (string \<times> set_value) list \<Rightarrow> exn + conflict) \<Rightarrow>
   (string \<times> pyval) list \<Rightarrow> model \<Rightarrow> string list \<Rightarrow> string list option \<Rightarrow> bool \<Rightarrow> bool \<Rightarrow> cell option repo_act" where
  "upsert_one_core env answer do_update data mapping conflict_fields update_fields return_entity
     do_nothing_on_conflict =
     s_bind (s_lift (conflict_clause do_update data mapping conflict_fields update_fields do_nothing_on_conflict)) (\<lambda>c.
     let stmt = \<lparr>is_mapping = md_name mapping, is_rows = [data], is_conflict = Some c, is_returning = False\<rparr> in
     if return_entity then
       s_bind (execute env answer (Insert (stmt\<lparr>is_returning := True\<rparr>))) (\<lambda>rows. s_lift (scalar_one_or_none rows))
     else s_bind (execute env answer (Insert stmt)) (\<lambda>_. s_ret None))"

definition insert_many_orm :: "repo_call environment \<Rightarrow> nat list \<Rightarrow> bool \<Rightarrow> nat list repo_act" where
  "insert_many_orm env instances flush =
     s_bind (perform_sync env (AddAll instances)) (\<lambda>_.
     s_bind (if flush then perform env FlushSession else s_ret ()) (\<lambda>_. s_ret instances))"

definition bulk_insert_orm :: "repo_call environment \<Rightarrow> nat list \<Rightarrow> bool \<Rightarrow> nat list repo_act" where
  "bulk_insert_orm env instances return_defaults =
     s_bind (perform env (BulkSave instances return_defaults)) (\<lambda>_. s_ret instances)"

definition bulk_insert_core ::
  "repo_call environment \<Rightarrow> (string \<times> pyval) list list \<Rightarrow> model \<Rightarrow> (string \<times> pyval) list list repo_act" where
  "bulk_insert_core env instances mapping =
     s_bind (perform env (BulkMappings (md_name mapping) instances)) (\<lambda>_. s_ret instances)"

definition bulk_upsert_core ::
  "repo_call environment \<Rightarrow> answers \<Rightarrow> (string \<times> pyval) list list \<Rightarrow> model \<Rightarrow>
   (insert_stmt \<Rightarrow> exn + insert_stmt) \<Rightarrow> cell list repo_act" where
  "bulk_upsert_core env answer instances mapping on_conflict =
     s_bind (s_lift (on_conflict
       \<lparr>is_mapping = md_name mapping, is_rows = instances, is_conflict = None, is_returning = False\<rparr>)) (\<lambda>stmt.
     s_bind (execute env answer (Insert (stmt\<lparr>is_returning := True\<rparr>))) (\<lambda>rows. s_ret (map first_cell rows)))"

subsection \<open>Update and delete\<close>

definition update_one_orm ::
  "repo_call environment \<Rightarrow> model \<Rightarrow> nat \<Rightarrow> bool \<Rightarrow> string list option \<Rightarrow> (string \<times> pyval) list \<Rightarrow> nat repo_act" where
  \<comment> \<open>\<open>_update_one_orm_internal\<close>; \<open>m\<close> is the class of the entity\<close>
  "update_one_orm env m entity flush refresh_attrs update_data =
     s_bind (s_modify (change_object entity
       (set_attributes (\<lambda>field v d. field \<in> set (md_columns m) \<and> v \<noteq> PNone) update_data))) (\<lambda>_.
     s_bind (perform_sync env (Add entity)) (\<lambda>_.
     s_bind (flush_and_refresh env (Object entity) flush refresh_attrs) (\<lambda>_. s_ret entity)))"

definition update_many_orm ::
  "repo_call environment \<Rightarrow> model \<Rightarrow> nat list \<Rightarrow> (string \<times> pyval) list \<Rightarrow> bool \<Rightarrow> unit repo_act" where
  "update_many_orm env m entities payload flush =
     s_bind (s_for (\<lambda>entity.
       s_bind (s_modify (change_object entity
         (set_attributes (\<lambda>field v d. has_attribute m d field) payload))) (\<lambda>_.
       perform_sync env (Add entity))) entities) (\<lambda>_.
     if flush then perform env FlushSession else s_ret ())"

definition run_update_stmt :: "repo_call environment \<Rightarrow> answers \<Rightarrow> string \<Rightarrow> unit repo_act" where
  "run_update_stmt env answer stmt = s_bind (execute env answer (Core stmt)) (\<lambda>_. s_ret ())"

definition delete_one_orm :: "repo_call environment \<Rightarrow> nat \<Rightarrow> bool \<Rightarrow> unit repo_act" where
  "delete_one_orm env entity flush =
     s_bind (perform env (Delete entity)) (\<lambda>_. if flush then perform env FlushSession else s_ret ())"

definition run_delete_stmt :: "repo_call environment \<Rightarrow> answers \<Rightarrow> string \<Rightarrow> row list repo_act" where
  "run_delete_stmt env answer stmt = execute env answer (Core stmt)"

subsection \<open>Domain objects\<close>

definition attribute_error :: exn where
  "attribute_error = EOther (Builtin AttributeErrorC) ''the value is not a mapped object''"

definition call_to_domain :: "((string \<times> pyval) list \<Rightarrow> exn + 'd) \<Rightarrow> cell \<Rightarrow> 'd repo_act" where
  \<comment> \<open>\<open>entity.to_domain()\<close>\<close>
  "call_to_domain to_domain c =
     (case c of Object n \<Rightarrow> s_bind (s_get (attributes n)) (\<lambda>d. s_lift (to_domain d))
      | Value _ \<Rightarrow> s_raise attribute_error)"

definition to_domain_or_none :: "((string \<times> pyval) list \<Rightarrow> exn + 'd) \<Rightarrow> cell option \<Rightarrow> 'd option repo_act" where
  \<comment> \<open>\<open>entity.to_domain() if entity else None\<close>\<close>
  "to_domain_or_none to_domain entity =
     (case entity of
        Some c \<Rightarrow> if cell_truthy c then s_bind (call_to_domain to_domain c) (\<lambda>d. s_ret (Some d)) else s_ret None
      | None \<Rightarrow> s_ret None)"

definition select_as_domain ::
  "repo_call environment \<Rightarrow> answers \<Rightarrow> ((string \<times> pyval) list \<Rightarrow> exn + 'd) \<Rightarrow> stmt \<Rightarrow> bool \<Rightarrow> bool \<Rightarrow>
   ('d option + 'd list) repo_act" where
  "select_as_domain env answer to_domain stmt one unique =
     (if one then
        s_bind (select_one_orm env answer stmt unique None) (\<lambda>entity.
        s_bind (to_domain_or_none to_domain entity) (\<lambda>d. s_ret (Inl d)))
      else
        s_bind (select_many_orm env answer stmt unique) (\<lambda>entities.
        s_bind (s_for (call_to_domain to_domain) entities) (\<lambda>ds. s_ret (Inr ds))))"

definition execute_returning_as_domain ::
  "repo_call environment \<Rightarrow> answers \<Rightarrow> ((string \<times> pyval) list \<Rightarrow> exn + 'd) \<Rightarrow> string \<Rightarrow> string list option \<Rightarrow>
   'd option repo_act" where
  "execute_returning_as_domain env answer to_domain stmt refresh_attrs =
     s_bind (s_bind (execute env answer (Core stmt)) (\<lambda>rows. s_lift (scalar_one_or_none rows))) (\<lambda>entity.
     s_bind (refresh_entity env entity refresh_attrs) (\<lambda>_. to_domain_or_none to_domain entity))"

definition get_model_class :: "string \<Rightarrow> model option \<Rightarrow> exn + model" where
  \<comment> \<open>\<open>base\<close> is the type argument of the class \<open>cls\<close>, if it has one\<close>
  "get_model_class cls base =
     (case base of
        Some m \<Rightarrow> Inr m
      | None \<Rightarrow> Inl (EOther (Builtin RuntimeErrorC)
          (cls @ '' must properly inherit from PgBaseRepository[ModelClass] with an explicit model type'')))"

definition update_data_of :: "model \<Rightarrow> (string \<times> pyval) list \<Rightarrow> (string \<times> pyval) list" where
  \<comment> \<open>the columns to write: not the key, not the creation time, no \<open>None\<close>\<close>
  "update_data_of m updated_values =
     map (\<lambda>field. (field, the (dict_get updated_values field)))
       (filter (\<lambda>field. field \<notin> {''id'', ''created_at''} \<and> dict_has updated_values field \<and>
                dict_get updated_values field \<noteq> Some PNone) (md_columns m))"

definition update_from_domain ::
  "repo_call environment \<Rightarrow> answers \<Rightarrow> string \<Rightarrow> model option \<Rightarrow> ('d \<Rightarrow> pyval) \<Rightarrow>
   ('d \<Rightarrow> exn + (string \<times> pyval) list) \<Rightarrow> 'd \<Rightarrow> bool \<Rightarrow> string list option \<Rightarrow> nat option repo_act" where
  \<comment> \<open>the statement selects mapped objects, so the first column of a row is one\<close>
  "update_from_domain env answer cls base domain_id from_domain domain flush refresh_attrs =
     s_bind (s_lift (get_model_class cls base)) (\<lambda>m.
     s_bind (select_one_orm env answer (Select \<lparr>ss_base = md_name m, ss_where = [(''id'', domain_id domain)],
         ss_ordered = False, ss_limit = None, ss_offset = None, ss_lock = Some (False, False)\<rparr>) False None)
       (\<lambda>existing_entity.
     case existing_entity of
       Some (Object n) \<Rightarrow>
         s_bind (s_lift (from_domain domain)) (\<lambda>updated_values.
         s_bind (update_one_orm env m n flush refresh_attrs (update_data_of m updated_values)) (\<lambda>e. s_ret (Some e)))
     | _ \<Rightarrow> s_ret None))"

subsection \<open>Lemmas\<close>

text \<open>A circuit breaker that lets every call through.\<close>

definition closed_breaker :: "('a repo_act \<Rightarrow> 'a repo_act) \<Rightarrow> bool" where
  "closed_breaker breaker \<longleftrightarrow> (\<forall>f. breaker f = f)"

text \<open>The server answers a statement from a table whose rows do not change.\<close>

definition answers_from :: "row list \<Rightarrow> select_stmt \<Rightarrow> answers \<Rightarrow> bool" where
  "answers_from table stmt answer \<longleftrightarrow>
     (\<forall>tr. answer (tr @ [Execute (Count (stmt\<lparr>ss_ordered := False\<rparr>))]) =
        [[(''count'', Value (PInt (int (length table))))]]) \<and>
     (\<forall>tr n k. 0 \<le> n \<longrightarrow> 0 \<le> k \<longrightarrow>
        answer (tr @ [Execute (Select (stmt\<lparr>ss_limit := Some n, ss_offset := Some k\<rparr>))]) =
        take (nat n) (drop (nat k) table))"

lemma answers_from_select:
  "answers_from table stmt answer \<Longrightarrow> 0 \<le> n \<Longrightarrow> 0 \<le> k \<Longrightarrow>
   answer (tr @ [Execute (Select (stmt\<lparr>ss_limit := Some n, ss_offset := Some k\<rparr>))]) =
   take (nat n) (drop (nat k) table)"
  by (simp add: answers_from_def)

definition page :: "row list \<Rightarrow> int \<Rightarrow> int \<Rightarrow> cell list" where
  "page table page_size page_number =
     map first_cell (take (nat page_size) (drop (nat ((page_number - 1) * page_size)) table))"

lemma execute_prompt:
  assumes "prompt_env env" "in_time s"
  shows "execute env answer stmt s =
    (s\<lparr>tk_trace := tk_trace s @ [Execute stmt]\<rparr>, Inr (answer (tk_trace s @ [Execute stmt])))"
  by (simp add: execute_def s_bind_def perform_prompt [OF assms] s_get_def)

lemma execute_select_prompt:
  assumes "prompt_env env" "in_time s"
  shows "execute_select env answer stmt SelectAll s =
    (s\<lparr>tk_trace := tk_trace s @ [Execute stmt]\<rparr>,
     Inr (Cells (map first_cell (answer (tk_trace s @ [Execute stmt])))))"
  by (simp add: execute_select_def s_bind_def execute_prompt [OF assms] s_ret_def)

lemma repository_method_returns:
  assumes "closed_breaker breaker"
    and "f (s\<lparr>tk_deadlines := Some (tk_now s + t) # tk_deadlines s\<rparr>) = (u, Inr x)"
  shows "repository_method ext t breaker f s = (u\<lparr>tk_deadlines := tl (tk_deadlines u)\<rparr>, Inr x)"
  using assms by (simp add: repository_method_def database_error_handler_def closed_breaker_def s_catch_def
      wrap_async_returns)

lemma fast_page:
  assumes "answers_from table stmt answer" "prompt_env env" "in_time s" "0 < page_size" "1 \<le> page_number"
  shows "\<exists>u. paginated_select_fast env answer stmt page_size page_number s =
    (u, Inr \<lparr>pr_items = page table page_size page_number, pr_current_page = page_number, pr_total_pages = -1,
             pr_total_results = -1, pr_page_size = page_size,
             pr_has_next = (page_number * page_size < int (length table)), pr_has_previous = page_number > 1\<rparr>)"
proof -
  let ?k = "(page_number - 1) * page_size"
  let ?st = "stmt\<lparr>ss_limit := Some (page_size + 1), ss_offset := Some ?k\<rparr>"
  let ?items = "map first_cell (take (nat (page_size + 1)) (drop (nat ?k) table))"
  have k: "0 \<le> ?k" using assms(4,5) by simp
  have pk: "page_number * page_size = ?k + page_size" by (simp add: algebra_simps)
  have ans: "answer (tk_trace s @ [Execute (Select ?st)]) = take (nat (page_size + 1)) (drop (nat ?k) table)"
    using assms(4) k by (intro answers_from_select [OF assms(1)]) simp_all
  have len: "int (length ?items) > page_size \<longleftrightarrow> page_number * page_size < int (length table)"
    unfolding pk using assms(4) k by (auto simp: min_def)
  have full: "?items = page table page_size page_number" if "\<not> int (length ?items) > page_size"
    using that assms(4) k by (auto simp: page_def min_def split: if_splits)
  have cut: "py_prefix page_size ?items = page table page_size page_number"
    using assms(4) by (simp add: py_prefix_def page_def take_map min_def)
  show ?thesis
    using len full cut
    by (auto simp: paginated_select_fast_def Let_def s_bind_def s_ret_def ans cells_of_def
        execute_select_prompt [OF assms(2,3)])
qed

lemma le_div_iff_mult_le_int: "0 < (d::int) \<Longrightarrow> k \<le> n div d \<longleftrightarrow> k * d \<le> n"
proof
  assume d: "0 < d" and "k \<le> n div d"
  then have "k * d \<le> n div d * d" by (intro mult_right_mono) auto
  also have "\<dots> \<le> n" using d pos_mod_sign [of d n] div_mult_mod_eq [of n d] by linarith
  finally show "k * d \<le> n" .
next
  assume d: "0 < d" and "k * d \<le> n"
  then have "k * d div d \<le> n div d" by (intro zdiv_mono1)
  then show "k \<le> n div d" using d by simp
qed

lemma pages_of_positive:
  assumes "0 < page_size" "0 \<le> n"
  shows "\<exists>p. pages_of n page_size = Inr p \<and> 1 \<le> p \<and> (\<forall>k. 1 \<le> k \<longrightarrow> (k < p \<longleftrightarrow> k * page_size < n)) \<and> n \<le> p * page_size"
proof (cases "n = 0")
  case True
  then show ?thesis using assms by (auto simp: pages_of_def mult_less_0_iff)
next
  case False
  let ?p = "(n + page_size - 1) div page_size"
  have *: "k < ?p \<longleftrightarrow> k * page_size < n" for k
  proof -
    have "k < ?p \<longleftrightarrow> k + 1 \<le> ?p" by auto
    also have "\<dots> \<longleftrightarrow> (k + 1) * page_size \<le> n + page_size - 1"
      using le_div_iff_mult_le_int [OF assms(1)] by simp
    also have "\<dots> \<longleftrightarrow> k * page_size < n" by (auto simp: algebra_simps)
    finally show ?thesis .
  qed
  have "1 \<le> ?p" using * [of 0] False assms by simp
  moreover have "n \<le> ?p * page_size" using * [of ?p] by simp
  ultimately show ?thesis using * False assms by (simp add: pages_of_def)
qed


lemma count_of_count [simp]: "count_of [[(''count'', Value (PInt n))]] = n"
  by (simp add: count_of_def scalar_def not_null_def)

lemma metadata_page:
  assumes "answers_from table stmt answer" "prompt_env env" "in_time s" "0 < page_size" "1 \<le> page_number"
    and p: "pages_of (int (length table)) page_size = Inr total_pages"
  shows "\<exists>u. paginated_select_with_metadata env answer stmt page_size page_number s =
    (u, Inr \<lparr>pr_items = page table page_size page_number, pr_current_page = page_number,
             pr_total_pages = total_pages, pr_total_results = int (length table), pr_page_size = page_size,
             pr_has_next = (page_number < total_pages), pr_has_previous = page_number > 1\<rparr>)"
proof -
  let ?k = "(page_number - 1) * page_size"
  let ?u = "s\<lparr>tk_trace := tk_trace s @ [Execute (Count (stmt\<lparr>ss_ordered := False\<rparr>))]\<rparr>"
  let ?st = "stmt\<lparr>ss_limit := Some page_size, ss_offset := Some ?k\<rparr>"
  have k: "0 \<le> ?k" using assms(4,5) by simp
  have count: "execute env answer (Count (stmt\<lparr>ss_ordered := False\<rparr>)) s =
      (?u, Inr [[(''count'', Value (PInt (int (length table))))]])"
    using assms(1) by (simp add: execute_prompt [OF assms(2,3)] answers_from_def)
  have "in_time ?u" using assms(3) by simp
  moreover have "answer (tk_trace ?u @ [Execute (Select ?st)]) = take (nat page_size) (drop (nat ?k) table)"
    using assms(4) k by (intro answers_from_select [OF assms(1)]) simp_all
  ultimately have items: "snd (execute_select env answer (Select ?st) SelectAll ?u) =
      Inr (Cells (page table page_size page_number))"
    by (simp add: execute_select_prompt [OF assms(2)] page_def)
  then obtain w where "execute_select env answer (Select ?st) SelectAll ?u =
      (w, Inr (Cells (page table page_size page_number)))" by (metis prod.collapse)
  then show ?thesis
    by (simp add: paginated_select_with_metadata_def s_bind_def count p s_lift_def s_ret_def Let_def cells_of_def)
qed

text \<open>C20. Pagination without a count agrees with pagination with one: for a table that does not
  change, both return the requested slice of its rows and the same answers to \<open>has_next\<close> and
  \<open>has_previous\<close>; only the totals differ.\<close>

theorem paginated_equivalent:
  assumes "answers_from table stmt answer" "prompt_env env" "in_time s" "0 \<le> t" "closed_breaker breaker"
    and "0 < page_size" "1 \<le> page_number"
  shows "\<exists>u p v q.
    repository_method ext t breaker (paginated_select_fast env answer stmt page_size page_number) s = (u, Inr p) \<and>
    repository_method ext t breaker (paginated_select_with_metadata env answer stmt page_size page_number) s =
      (v, Inr q) \<and>
    p = q\<lparr>pr_total_pages := -1, pr_total_results := -1\<rparr> \<and>
    pr_items q = page table page_size page_number \<and> pr_total_results q = int (length table) \<and>
    (pr_has_next q \<longleftrightarrow> page_number * page_size < int (length table)) \<and> (pr_has_previous q \<longleftrightarrow> 1 < page_number)"
proof -
  let ?s = "s\<lparr>tk_deadlines := Some (tk_now s + t) # tk_deadlines s\<rparr>"
  have time: "in_time ?s" using assms(3,4) by (rule in_time_wait)
  obtain n where n: "pages_of (int (length table)) page_size = Inr n"
      "page_number < n \<longleftrightarrow> page_number * page_size < int (length table)"
    using pages_of_positive [OF assms(6), of "int (length table)"] assms(7) by auto
  obtain u where u: "paginated_select_fast env answer stmt page_size page_number ?s =
    (u, Inr \<lparr>pr_items = page table page_size page_number, pr_current_page = page_number, pr_total_pages = -1,
             pr_total_results = -1, pr_page_size = page_size,
             pr_has_next = (page_number * page_size < int (length table)), pr_has_previous = page_number > 1\<rparr>)"
    using fast_page [OF assms(1,2) time assms(6,7)] by blast
  obtain v where v: "paginated_select_with_metadata env answer stmt page_size page_number ?s =
    (v, Inr \<lparr>pr_items = page table page_size page_number, pr_current_page = page_number,
             pr_total_pages = n, pr_total_results = int (length table), pr_page_size = page_size,
             pr_has_next = (page_number < n), pr_has_previous = page_number > 1\<rparr>)"
    using metadata_page [OF assms(1,2) time assms(6,7) n(1)] by blast
  show ?thesis
    using repository_method_returns [of breaker "paginated_select_fast env answer stmt page_size page_number",
        OF assms(5) u]
      repository_method_returns [of breaker "paginated_select_with_metadata env answer stmt page_size page_number",
        OF assms(5) v] n(2)
    by simp
qed


definition table_answer :: "row list \<Rightarrow> answers" where
  \<comment> \<open>a server with one table\<close>
  "table_answer table tr =
     (case last tr of
        Execute (Count _) \<Rightarrow> [[(''count'', Value (PInt (int (length table))))]]
      | Execute (Select st) \<Rightarrow> take (nat (the (ss_limit st))) (drop (nat (the (ss_offset st))) table)
      | _ \<Rightarrow> [])"

definition sample_table :: "row list" where
  "sample_table = map (\<lambda>n. [(''id'', Object n)]) [10, 11, 12, 13, 14]"

definition sample_stmt :: select_stmt where
  "sample_stmt = \<lparr>ss_base = ''users'', ss_where = [], ss_ordered = True, ss_limit = None, ss_offset = None,
     ss_lock = None\<rparr>"

definition sample_repo :: repo where
  "sample_repo = \<lparr>tk_now = 0, tk_deadlines = [], tk_trace = [],
     rp_objects = [(7, [(''id'', PInt 1), (''name'', PStr ''old''), (''note'', PStr ''kept'')])]\<rparr>"

lemma table_answer_answers: "answers_from table stmt (table_answer table)"
  by (simp add: answers_from_def table_answer_def)

lemma prompt_now: "prompt_env (\<lambda>_. (0, Inr ()))"
  by (simp add: prompt_env_def)

lemma closed_breaker_id: "closed_breaker (\<lambda>f. f)"
  by (simp add: closed_breaker_def)

lemma in_time_sample: "in_time sample_repo"
  by (simp add: in_time_def sample_repo_def)

theorem paginated_equivalent_witness:
  "\<exists>u p v q.
    repository_method (\<lambda>_. []) 30 (\<lambda>f. f)
      (paginated_select_fast (\<lambda>_. (0, Inr ())) (table_answer sample_table) sample_stmt 2 3) sample_repo = (u, Inr p) \<and>
    repository_method (\<lambda>_. []) 30 (\<lambda>f. f)
      (paginated_select_with_metadata (\<lambda>_. (0, Inr ())) (table_answer sample_table) sample_stmt 2 3) sample_repo =
      (v, Inr q) \<and>
    pr_items p = [Object 14] \<and> pr_items q = [Object 14] \<and> pr_total_results q = 5 \<and> \<not> pr_has_next p"
proof -
  have "page sample_table 2 3 = [Object 14]" by (simp add: page_def sample_table_def first_cell_def)
  moreover have "length sample_table = 5" by (simp add: sample_table_def)
  ultimately show ?thesis
    using paginated_equivalent [OF table_answer_answers prompt_now in_time_sample _ closed_breaker_id,
        of 30 2 3 "\<lambda>_. []" sample_table sample_stmt] by fastforce
qed

definition items_of :: "'s \<times> ('e + 'a paginated_result) \<Rightarrow> 'a list" where
  "items_of r = (case snd r of Inl _ \<Rightarrow> [] | Inr p \<Rightarrow> pr_items p)"

lemma concat_pages:
  assumes "0 < page_size" "0 \<le> m"
  shows "concat (map (page table page_size) [1..m]) = map first_cell (take (nat (m * page_size)) table)"
  using assms(2)
proof (induction m rule: int_ge_induct)
  case base
  then show ?case by simp
next
  case (step m)
  have "nat ((m + 1) * page_size) = nat (m * page_size) + nat page_size"
    using assms(1) step.hyps by (simp add: distrib_right nat_add_distrib)
  then show ?case
    using step by (simp add: upto_rec2 page_def take_add)
qed

text \<open>C21. The pages of a paginated query partition its rows: the numbers of pages 1 to
  \<open>total_pages\<close>, which every one of them reports, give every row exactly once and in order.\<close>

theorem pages_partition:
  assumes "answers_from table stmt answer" "prompt_env env" "in_time s" "0 \<le> t" "closed_breaker breaker"
    and "0 < page_size"
  shows "\<exists>total_pages. 1 \<le> total_pages \<and>
    (\<forall>k \<in> {1..total_pages}. \<exists>u p.
       repository_method ext t breaker (paginated_select_with_metadata env answer stmt page_size k) s = (u, Inr p) \<and>
       pr_total_pages p = total_pages \<and> (pr_has_next p \<longleftrightarrow> k \<noteq> total_pages)) \<and>
    concat (map (\<lambda>k. items_of
       (repository_method ext t breaker (paginated_select_with_metadata env answer stmt page_size k) s))
      [1..total_pages]) = map first_cell table"
proof -
  let ?s = "s\<lparr>tk_deadlines := Some (tk_now s + t) # tk_deadlines s\<rparr>"
  let ?run = "\<lambda>k. repository_method ext t breaker (paginated_select_with_metadata env answer stmt page_size k) s"
  have time: "in_time ?s" using assms(3,4) by (rule in_time_wait)
  obtain n where n: "pages_of (int (length table)) page_size = Inr n" "1 \<le> n" "int (length table) \<le> n * page_size"
    using pages_of_positive [OF assms(6), of "int (length table)"] by auto
  have run: "\<exists>u p. ?run k = (u, Inr p) \<and> pr_total_pages p = n \<and> (pr_has_next p \<longleftrightarrow> k < n) \<and>
      pr_items p = page table page_size k" if k: "1 \<le> k" for k
  proof -
    obtain v p where "paginated_select_with_metadata env answer stmt page_size k ?s = (v, Inr p)"
      "pr_total_pages p = n" "pr_has_next p \<longleftrightarrow> k < n" "pr_items p = page table page_size k"
      using metadata_page [OF assms(1,2) time assms(6) k n(1)] by auto
    then show ?thesis
      using repository_method_returns [of breaker "paginated_select_with_metadata env answer stmt page_size k",
          OF assms(5)] by blast
  qed
  have "items_of (?run k) = page table page_size k" if "1 \<le> k" for k
    using run [OF that] by (auto simp: items_of_def)
  then have "concat (map (\<lambda>k. items_of (?run k)) [1..n]) = concat (map (page table page_size) [1..n])"
    by (intro arg_cong [where f = concat] map_cong) auto
  also have "\<dots> = map first_cell table"
    using n(3) concat_pages [OF assms(6), of n table] n(2) by simp
  finally have all: "concat (map (\<lambda>k. items_of (?run k)) [1..n]) = map first_cell table" .
  have "\<forall>k \<in> {1..n}. \<exists>u p. ?run k = (u, Inr p) \<and> pr_total_pages p = n \<and> (pr_has_next p \<longleftrightarrow> k \<noteq> n)"
    using run by fastforce
  then show ?thesis using all n(2) by blast
qed

theorem pages_partition_witness:
  "\<exists>total_pages. 1 \<le> total_pages \<and>
    concat (map (\<lambda>k. items_of (repository_method (\<lambda>_. []) 30 (\<lambda>f. f)
       (paginated_select_with_metadata (\<lambda>_. (0, Inr ())) (table_answer sample_table) sample_stmt 2 k) sample_repo))
      [1..total_pages]) = [Object 10, Object 11, Object 12, Object 13, Object 14]"
  using pages_partition [OF table_answer_answers prompt_now in_time_sample _ closed_breaker_id,
      of 30 2 "\<lambda>_. []" sample_table sample_stmt]
  by (fastforce simp: sample_table_def first_cell_def)


lemma set_attributes_get:
  assumes "distinct (dict_keys data)"
  shows "dict_get (set_attributes (\<lambda>field v d. P field v) data d) k =
    (case dict_get data k of Some v \<Rightarrow> if P k v then Some v else dict_get d k | None \<Rightarrow> dict_get d k)"
  using assms
proof (induction data arbitrary: d)
  case Nil
  then show ?case by simp
next
  case (Cons x data)
  obtain f v where x: "x = (f, v)" by (cases x)
  have "dict_get data f = None" using Cons.prems by (simp add: x map_of_eq_None_iff)
  then show ?case using Cons by (simp add: x split: option.splits)
qed

lemma update_data_of_get:
  "dict_get (update_data_of m values) k =
    (if k \<in> set (md_columns m) \<and> k \<notin> {''id'', ''created_at''} \<and> dict_get values k \<noteq> Some PNone
     then dict_get values k else None)"
  by (auto simp: update_data_of_def map_of_map_restrict restrict_map_def dict_has_get)

lemma distinct_update_data_of: "distinct (md_columns m) \<Longrightarrow> distinct (dict_keys (update_data_of m values))"
  by (simp add: update_data_of_def o_def distinct_map_filter)

lemma update_data_of_ok:
  "dict_get (update_data_of m values) k = Some v \<Longrightarrow> k \<in> set (md_columns m) \<and> v \<noteq> PNone"
  by (auto simp: update_data_of_get split: if_splits)

lemma update_data_stored:
  assumes "distinct (md_columns m)"
  shows "dict_get (set_attributes (\<lambda>field v d. field \<in> set (md_columns m) \<and> v \<noteq> PNone) (update_data_of m vs) d) k =
    (if k \<in> set (md_columns m) \<and> k \<notin> {''id'', ''created_at''} \<and> dict_get vs k \<notin> {None, Some PNone}
     then dict_get vs k else dict_get d k)"
proof (cases "dict_get (update_data_of m vs) k")
  case None
  then show ?thesis
    unfolding set_attributes_get [OF distinct_update_data_of [OF assms]]
    by (auto simp: update_data_of_get split: if_splits)
next
  case (Some v)
  then show ?thesis
    unfolding set_attributes_get [OF distinct_update_data_of [OF assms]]
    using update_data_of_ok [OF Some] by (auto simp: update_data_of_get split: if_splits)
qed

lemma attributes_change [simp]:
  "attributes k (change_object n f s) = (if k = n then f (attributes n s) else attributes k s)"
  by (simp add: change_object_def attributes_def)

lemma attributes_task [simp]:
  "attributes n (s\<lparr>tk_trace := tr\<rparr>) = attributes n s" "attributes n (s\<lparr>tk_deadlines := ds\<rparr>) = attributes n s"
  by (simp_all add: attributes_def)

lemma change_object_task [simp]:
  "tk_trace (change_object n f s) = tk_trace s" "tk_deadlines (change_object n f s) = tk_deadlines s"
  "in_time (change_object n f s) = in_time s"
  by (simp_all add: change_object_def in_time_def split: option.splits)

lemma update_one_orm_prompt:
  assumes "prompt_env env" "in_time s" "\<not> given refresh_attrs"
  shows "update_one_orm env m n flush refresh_attrs data s =
    ((change_object n (set_attributes (\<lambda>field v d. field \<in> set (md_columns m) \<and> v \<noteq> PNone) data) s)
       \<lparr>tk_trace := tk_trace s @ Add n # (if flush then [FlushSession] else [])\<rparr>, Inr n)"
  using assms
  by (simp add: update_one_orm_def flush_and_refresh_def s_bind_def s_modify_def perform_sync_prompt perform_prompt
      s_ret_def)

definition locked_select :: "model \<Rightarrow> pyval \<Rightarrow> stmt" where
  "locked_select m i = Select \<lparr>ss_base = md_name m, ss_where = [(''id'', i)], ss_ordered = False, ss_limit = None,
     ss_offset = None, ss_lock = Some (False, False)\<rparr>"

text \<open>Updating an entity from a domain object first selects its row for update, and changes a
  column to the value of the domain object only where that is not \<open>None\<close>: the key, the creation
  time, every column the domain object has as \<open>None\<close> and every other object keep their values, so
  a nullable column cannot be cleared.\<close>

theorem update_keeps_none:
  assumes "prompt_env env" "in_time s" "0 \<le> t" "closed_breaker breaker" "\<not> given refresh_attrs"
    and "distinct (md_columns m)" "from_domain domain = Inr values"
    and "answer (tk_trace s @ [Execute (locked_select m (domain_id domain))]) = [(c, Object n)] # rows"
  shows "\<exists>u. repository_method ext t breaker
      (update_from_domain env answer cls (Some m) domain_id from_domain domain flush refresh_attrs) s = (u, Inr (Some n)) \<and>
    tk_trace u = tk_trace s @ [Execute (locked_select m (domain_id domain)), Add n] @ (if flush then [FlushSession] else []) \<and>
    (\<forall>k. dict_get (attributes n u) k =
       (if k \<in> set (md_columns m) \<and> k \<notin> {''id'', ''created_at''} \<and> dict_get values k \<notin> {None, Some PNone}
        then dict_get values k else dict_get (attributes n s) k)) \<and>
    (\<forall>k. k \<noteq> n \<longrightarrow> attributes k u = attributes k s)"
proof -
  let ?s = "s\<lparr>tk_deadlines := Some (tk_now s + t) # tk_deadlines s\<rparr>"
  let ?q = "locked_select m (domain_id domain)"
  let ?w = "?s\<lparr>tk_trace := tk_trace s @ [Execute ?q]\<rparr>"
  let ?data = "update_data_of m values"
  let ?u = "(change_object n (set_attributes (\<lambda>field v d. field \<in> set (md_columns m) \<and> v \<noteq> PNone) ?data) ?w)
       \<lparr>tk_trace := tk_trace ?w @ Add n # (if flush then [FlushSession] else [])\<rparr>"
  have time: "in_time ?s" using assms(2,3) by (rule in_time_wait)
  have "execute env answer ?q ?s = (?w, Inr ([(c, Object n)] # rows))"
    by (simp add: execute_prompt [OF assms(1) time] assms(8))
  then have "select_one_orm env answer ?q False None ?s = (?w, Inr (Some (Object n)))"
    by (simp add: select_one_orm_def execute_select_def s_bind_def s_ret_def scalar_def not_null_def
        refresh_entity_def)
  moreover have "in_time ?w" using time by simp
  ultimately have "update_from_domain env answer cls (Some m) domain_id from_domain domain flush refresh_attrs ?s =
      (?u, Inr (Some n))"
    by (simp add: update_from_domain_def get_model_class_def s_bind_def s_lift_def s_ret_def assms(7)
        update_one_orm_prompt [OF assms(1) _ assms(5)] flip: locked_select_def)
  note run = repository_method_returns [of breaker
      "update_from_domain env answer cls (Some m) domain_id from_domain domain flush refresh_attrs" s t,
      OF assms(4) this, of ext]
  have "dict_get (attributes n ?u) k =
       (if k \<in> set (md_columns m) \<and> k \<notin> {''id'', ''created_at''} \<and> dict_get values k \<notin> {None, Some PNone}
        then dict_get values k else dict_get (attributes n s) k)" for k
  proof -
    have "attributes n ?u = set_attributes (\<lambda>field v d. field \<in> set (md_columns m) \<and> v \<noteq> PNone) ?data (attributes n s)"
      by simp
    then show ?thesis
      by (simp only: update_data_stored [OF assms(6)])
  qed
  then show ?thesis using run by (auto intro!: exI [of _ "?u\<lparr>tk_deadlines := tl (tk_deadlines ?u)\<rparr>"])
qed

theorem update_keeps_none_witness:
  "\<exists>u. repository_method (\<lambda>_. []) 30 (\<lambda>f. f)
      (update_from_domain (\<lambda>_. (0, Inr ())) (\<lambda>_. [[(''User'', Object 7)]]) ''UserRepository''
        (Some \<lparr>md_name = ''User'', md_columns = [''id'', ''name'', ''note''], md_other_attributes = []\<rparr>)
        (\<lambda>_. PInt 1) (\<lambda>d. Inr d) [(''id'', PInt 2), (''name'', PStr ''new''), (''note'', PNone)] True None)
      sample_repo = (u, Inr (Some 7)) \<and>
    dict_get (attributes 7 u) ''name'' = Some (PStr ''new'') \<and> dict_get (attributes 7 u) ''note'' = Some (PStr ''kept'') \<and>
    dict_get (attributes 7 u) ''id'' = Some (PInt 1)"
proof -
  let ?m = "\<lparr>md_name = ''User'', md_columns = [''id'', ''name'', ''note''], md_other_attributes = []\<rparr>"
  have "attributes 7 sample_repo = [(''id'', PInt 1), (''name'', PStr ''old''), (''note'', PStr ''kept'')]"
    by (simp add: attributes_def sample_repo_def)
  then show ?thesis
    using update_keeps_none [OF prompt_now in_time_sample _ closed_breaker_id,
        where t = 30 and refresh_attrs = None and m = ?m and flush = True
        and domain = "[(''id'', PInt 2), (''name'', PStr ''new''), (''note'', PNone)]" and from_domain = "\<lambda>d. Inr d"
        and answer = "\<lambda>_. [[(''User'', Object 7)]]" and domain_id = "\<lambda>_. PInt 1" and n = 7 and c = "''User''"
        and rows = "[]" and ext = "\<lambda>_. []" and cls = "''UserRepository''"]
    by auto
qed

end
