(* ===== verification/Middleware.thy ===== *)
theory Middleware
  imports Asyncio ProxyValidation
begin

section \<open>The middleware stack\<close>

text \<open>
  \<open>core/api/middleware/admission_control.py\<close>, \<open>request_timeout.py\<close> and \<open>request_id.py\<close>, and
  \<open>_configure_middleware\<close> of \<open>features/main.py\<close>.  A middleware is a function of the request and
  of the rest of the stack, \<open>call_next\<close>.  The CORS middleware and \<open>add_middleware\<close> belong to
  Starlette and are parameters.  Headers are stored under their lower-case names.
\<close>

record web_request =
  wr_http :: http_request
  wr_path :: string
  wr_method :: string
  wr_request_id :: "string option"

definition set_header :: "string \<Rightarrow> string \<Rightarrow> response \<Rightarrow> response" where
  "set_header name v response = response\<lparr>r_headers := dict_set (lower name) v (r_headers response)\<rparr>"

subsection \<open>Admission control\<close>

record admission =
  am_max :: int
  am_semaphore :: "int option"
  am_current :: int
  am_rejected :: int

definition admission_init :: "int option \<Rightarrow> int \<Rightarrow> admission" where
  \<comment> \<open>\<open>max_concurrent or SETTINGS.APP.MAX_CONCURRENT_REQUESTS\<close>\<close>
  "admission_init max_concurrent default_max =
     \<lparr>am_max = (case max_concurrent of Some n \<Rightarrow> if n \<noteq> 0 then n else default_max | None \<Rightarrow> default_max),
      am_semaphore = None, am_current = 0, am_rejected = 0\<rparr>"

definition exempt_paths :: "string list" where
  "exempt_paths = [''/health'', ''/ready'', ''/live'', ''/metrics'']"

definition is_exempt :: "string \<Rightarrow> bool" where
  "is_exempt path = (let clean_path = rstrip_char (CHR ''/'') path in list_ex (endswith clean_path) exempt_paths)"

definition get_semaphore :: "(admission, exn, int) act" where
  \<comment> \<open>the value of the semaphore; \<open>asyncio.Semaphore\<close> refuses a negative one\<close>
  "get_semaphore st =
     (case am_semaphore st of
        Some v \<Rightarrow> (st, Inr v)
      | None \<Rightarrow>
          if am_max st < 0 then (st, Inl (EOther (Builtin ValueErrorC) ''Semaphore initial value must be >= 0''))
          else (st\<lparr>am_semaphore := Some (am_max st)\<rparr>, Inr (am_max st)))"

definition capacity_response :: response where
  "capacity_response =
     \<lparr>r_status = 503,
      r_body = PDict [(''detail'', PStr ''Service temporarily unavailable - server at capacity''), (''retry_after'', PInt 5)],
      r_headers = [(''retry-after'', ''5'')]\<rparr>"

datatype decision = Exempt | Rejected response | Admitted

definition admit :: "string \<Rightarrow> (admission, exn, decision) act" where
  \<comment> \<open>\<open>dispatch\<close> up to \<open>call_next\<close>.  Nothing is awaited between the test and \<open>acquire\<close>, which
    returns at once when the semaphore is not locked, so that no task ever waits for it and it is
    locked exactly when its value is 0.\<close>
  "admit path =
     (if is_exempt path then s_ret Exempt
      else s_bind get_semaphore (\<lambda>v.
        if v = 0 then
          s_bind (s_modify (\<lambda>st. st\<lparr>am_rejected := am_rejected st + 1\<rparr>)) (\<lambda>_. s_ret (Rejected capacity_response))
        else
          s_bind (s_modify (\<lambda>st. st\<lparr>am_semaphore := Some (v - 1), am_current := am_current st + 1\<rparr>)) (\<lambda>_.
          s_ret Admitted)))"

definition release :: "admission \<Rightarrow> admission" where
  \<comment> \<open>the \<open>finally\<close> block\<close>
  "release st = st\<lparr>am_current := am_current st - 1, am_semaphore := map_option (\<lambda>v. v + 1) (am_semaphore st)\<rparr>"

text \<open>The task of a request, with the state it shares with the others.\<close>

record 'c web_task = "'c task" +
  wt_admission :: admission
  wt_request_id :: string

type_synonym 'c handler = "web_request \<Rightarrow> ('c web_task, exn, response) act"

type_synonym 'c middleware = "'c handler \<Rightarrow> 'c handler"

definition on_admission :: "(admission, exn, 'a) act \<Rightarrow> ('c web_task, exn, 'a) act" where
  "on_admission f s = (case f (wt_admission s) of (st, r) \<Rightarrow> (s\<lparr>wt_admission := st\<rparr>, r))"

definition admission_control :: "'c middleware" where
  "admission_control call_next request =
     s_bind (on_admission (admit (wr_path request))) (\<lambda>d. case d of
       Exempt \<Rightarrow> call_next request
     | Rejected response \<Rightarrow> s_ret response
     | Admitted \<Rightarrow> s_finally (call_next request) (on_admission (s_modify release)))"

subsection \<open>Request identifiers\<close>

definition request_id_middleware :: "string \<Rightarrow> 'c middleware" where
  \<comment> \<open>\<open>uuid\<close> is the value of \<open>str(uuid.uuid4())\<close>\<close>
  "request_id_middleware uuid call_next request =
     (let request_id = or_else (header_get (wr_http request) ''X-Request-ID'') uuid in
      s_bind (s_modify (\<lambda>s. s\<lparr>wt_request_id := request_id\<rparr>)) (\<lambda>_.
      s_bind (call_next (request\<lparr>wr_request_id := Some request_id\<rparr>)) (\<lambda>response.
      s_ret (set_header ''X-Request-ID'' request_id response))))"

subsection \<open>Request timeout\<close>

definition timeout_response :: "real \<Rightarrow> response" where
  "timeout_response seconds =
     \<lparr>r_status = 504,
      r_body = error_body ''REQUEST_TIMEOUT'' ''Request timed out. Please try again.''
        [(''timeout_seconds'', PFloat seconds),
         (''suggestion'', PStr (''The server took too long to respond. '' @
            ''Try again or reduce the complexity of your request.''))],
      r_headers = [(''retry-after'', ''5'')]\<rparr>"

definition effective_timeout :: "real option \<Rightarrow> real \<Rightarrow> real" where
  \<comment> \<open>\<open>timeout or SETTINGS.TIMEOUTS.REQUEST_TIMEOUT\<close>\<close>
  "effective_timeout seconds default_timeout =
     (case seconds of Some t \<Rightarrow> if t \<noteq> 0 then t else default_timeout | None \<Rightarrow> default_timeout)"

definition request_timeout :: "(string \<Rightarrow> pyclass list) \<Rightarrow> real \<Rightarrow> 'c middleware" where
  "request_timeout ext seconds call_next request =
     (if is_exempt (wr_path request) then call_next request
      else s_catch (wait_for seconds (call_next request)) (\<lambda>e.
        if isinst ext (exn_class e) [Builtin TimeoutErrorC] then s_ret (timeout_response seconds) else s_raise e))"

subsection \<open>The stack\<close>

definition configured_middleware ::
  "(string \<Rightarrow> pyclass list) \<Rightarrow> 'c middleware \<Rightarrow> string \<Rightarrow> real \<Rightarrow> 'c middleware list" where
  \<comment> \<open>\<open>_configure_middleware\<close>: in the order of the calls of \<open>add_middleware\<close>\<close>
  "configured_middleware ext cors uuid seconds =
     [cors, request_id_middleware uuid, request_timeout ext seconds, admission_control]"

text \<open>FastAPI documents that each added middleware wraps the application: the last one added is
  the outermost.\<close>

definition last_added_outermost :: "('c middleware list \<Rightarrow> 'c middleware) \<Rightarrow> bool" where
  "last_added_outermost build \<longleftrightarrow>
     (\<forall>app. build [] app = app) \<and> (\<forall>ms m app. build (ms @ [m]) app = m (build ms app))"

subsection \<open>Lemmas\<close>

inductive admission_run :: "int \<Rightarrow> admission \<Rightarrow> string list \<Rightarrow> bool" for n where
  start: "admission_run n (admission_init (Some n) default_max) []"
| arrive: "admission_run n st inside \<Longrightarrow> admit path st = (st', Inr d) \<Longrightarrow>
    admission_run n st' (if d = Admitted then path # inside else inside)"
| leave: "admission_run n st (before @ path # after) \<Longrightarrow> admission_run n (release st) (before @ after)"

definition admission_inv :: "int \<Rightarrow> admission \<Rightarrow> nat \<Rightarrow> bool" where
  "admission_inv n st k \<longleftrightarrow> am_max st = n \<and> am_current st = int k \<and> int k \<le> n \<and>
     (case am_semaphore st of None \<Rightarrow> k = 0 | Some v \<Rightarrow> v = n - int k)"

lemma admission_inv_init: "1 \<le> n \<Longrightarrow> admission_inv n (admission_init (Some n) m) 0"
  by (simp add: admission_inv_def admission_init_def)

lemma admission_inv_admit:
  assumes "admission_inv n st k" "1 \<le> n" "admit path st = (st', Inr d)"
  shows "admission_inv n st' (if d = Admitted then Suc k else k)"
  using assms
  by (auto simp: admit_def admission_inv_def get_semaphore_def act_simps split: if_splits option.splits)

lemma admission_inv_release: "admission_inv n st (Suc k) \<Longrightarrow> admission_inv n (release st) k"
  by (auto simp: admission_inv_def release_def split: option.splits)

lemma admit_full:
  assumes "admission_inv n st k" "1 \<le> n" "\<not> is_exempt path"
  shows "snd (admit path st) = Inr (if int k = n then Rejected capacity_response else Admitted)"
  using assms by (auto simp: admit_def admission_inv_def get_semaphore_def act_simps split: option.splits)

lemma admission_run_inv: "admission_run n st inside \<Longrightarrow> 1 \<le> n \<Longrightarrow> admission_inv n st (length inside)"
proof (induction rule: admission_run.induct)
  case (start m)
  then show ?case by (simp add: admission_inv_init)
next
  case (arrive st inside path st' d)
  then show ?case using admission_inv_admit [of n st "length inside" path st' d] by auto
next
  case (leave st before path after)
  then show ?case using admission_inv_release [of n st "length (before @ after)"] by simp
qed

text \<open>C22. Admission control: however requests arrive and leave, the number inside is what the
  counter says and never exceeds the limit.  A request to a path that is not exempt is refused
  with 503 exactly when the limit is reached, and one to an exempt path is let through without
  being counted.\<close>

theorem admission_bounded:
  assumes "admission_run n st inside" "1 \<le> n"
  shows "am_current st = int (length inside) \<and> int (length inside) \<le> n \<and>
    (\<forall>path. snd (admit path st) = Inr
       (if is_exempt path then Exempt
        else if int (length inside) = n then Rejected capacity_response else Admitted)) \<and>
    (\<forall>path. is_exempt path \<longrightarrow> fst (admit path st) = st)"
proof -
  have i: "admission_inv n st (length inside)" using assms by (rule admission_run_inv)
  have "snd (admit path st) = Inr Exempt \<and> fst (admit path st) = st" if "is_exempt path" for path
    using that by (simp add: admit_def s_ret_def)
  then show ?thesis using i admit_full [OF i assms(2)] by (auto simp: admission_inv_def)
qed


theorem admission_bounded_witness:
  "\<exists>st. admission_run 1 st [''/users''] \<and> am_current st = 1 \<and>
    snd (admit ''/orders'' st) = Inr (Rejected capacity_response) \<and> snd (admit ''/api/v1/health/'' st) = Inr Exempt"
proof -
  let ?s0 = "admission_init (Some 1) 100"
  let ?s1 = "?s0\<lparr>am_semaphore := Some 0, am_current := 1\<rparr>"
  have e: "\<not> is_exempt ''/users''" "\<not> is_exempt ''/orders''" "is_exempt ''/api/v1/health/''" by code_simp+
  have "admit ''/users'' ?s0 = (?s1, Inr Admitted)"
    using e by (simp add: admit_def get_semaphore_def admission_init_def act_simps)
  then have "admission_run 1 ?s1 [''/users'']"
    using admission_run.arrive [of 1 ?s0 "[]" "''/users''" ?s1 Admitted] admission_run.start by simp
  then show ?thesis using admission_bounded [of 1 ?s1 "[''/users'']"] e by auto
qed

lemma configured_stack:
  assumes "last_added_outermost build"
  shows "build (configured_middleware ext cors uuid seconds) app =
    admission_control (request_timeout ext seconds (request_id_middleware uuid (cors app)))"
proof -
  have "configured_middleware ext cors uuid seconds =
      ((([] @ [cors]) @ [request_id_middleware uuid]) @ [request_timeout ext seconds]) @ [admission_control]"
    by (simp add: configured_middleware_def)
  then show ?thesis using assms unfolding last_added_outermost_def by metis
qed

text \<open>The admission control middleware is the outermost of the stack: a request that is refused
  at capacity is answered before it has a request identifier, and the answer carries neither the
  identifier nor anything of the CORS middleware.\<close>

theorem refused_without_request_id:
  assumes "last_added_outermost build" "am_semaphore (wt_admission s) = Some 0" "\<not> is_exempt (wr_path request)"
  shows "\<exists>u. build (configured_middleware ext cors uuid seconds) app request s = (u, Inr capacity_response) \<and>
    dict_get (r_headers capacity_response) ''x-request-id'' = None \<and>
    wt_request_id u = wt_request_id s \<and> tk_trace u = tk_trace s \<and>
    am_rejected (wt_admission u) = am_rejected (wt_admission s) + 1"
  using assms(2,3)
  by (simp add: configured_stack [OF assms(1)] admission_control_def admit_def get_semaphore_def on_admission_def
      act_simps capacity_response_def)

text \<open>What Starlette does with \<open>add_middleware\<close>, for the witnesses.\<close>

definition build_outermost_last :: "'c middleware list \<Rightarrow> 'c middleware" where
  "build_outermost_last ms app = foldl (\<lambda>h m. m h) app ms"

lemma build_outermost_last_ok: "last_added_outermost build_outermost_last"
  by (simp add: last_added_outermost_def build_outermost_last_def)

definition sample_request :: web_request where
  "sample_request = \<lparr>wr_http = \<lparr>hr_headers = [(''x-request-id'', ''abc'')], hr_client = Some ''10.0.0.9''\<rparr>,
     wr_path = ''/users'', wr_method = ''GET'', wr_request_id = None\<rparr>"

definition sample_web_task :: "int \<Rightarrow> string web_task" where
  "sample_web_task v = \<lparr>tk_now = 5, tk_deadlines = [], tk_trace = [],
     wt_admission = \<lparr>am_max = 2, am_semaphore = Some v, am_current = 2 - v, am_rejected = 0\<rparr>, wt_request_id = ''''\<rparr>"

theorem refused_without_request_id_witness:
  "\<exists>u. build_outermost_last (configured_middleware (\<lambda>_. []) (\<lambda>h. h) ''uuid'' 30)
      (\<lambda>_. s_ret (json_response 200 PNone)) sample_request (sample_web_task 0) = (u, Inr capacity_response) \<and>
    wt_request_id u = ''''"
proof -
  have "\<not> is_exempt (wr_path sample_request)" by code_simp
  moreover have "am_semaphore (wt_admission (sample_web_task 0)) = Some 0" "wt_request_id (sample_web_task 0) = ''''"
    by (simp_all add: sample_web_task_def)
  ultimately show ?thesis
    using refused_without_request_id [OF build_outermost_last_ok, of "sample_web_task 0" sample_request "\<lambda>_. []"
        "\<lambda>h. h" "''uuid''" 30 "\<lambda>_. s_ret (json_response 200 PNone)"] by auto
qed

text \<open>The CORS middleware does nothing to a request without an \<open>Origin\<close> header.\<close>

definition cors_passes :: "'c middleware \<Rightarrow> bool" where
  "cors_passes cors \<longleftrightarrow> (\<forall>h request. header_get (wr_http request) ''Origin'' = None \<longrightarrow> cors h request = h request)"

lemma cors_passes_id: "cors_passes (\<lambda>h. h)"
  by (simp add: cors_passes_def)

lemma header_get_id [simp]: "wr_http (request\<lparr>wr_request_id := i\<rparr>) = wr_http request"
  by simp

text \<open>A request that takes too long is answered with 504 when its time is up, and its slot is
  given back: the awaited call is cancelled, the clock shows the time limit, and the semaphore and
  the counter of the admission control are what they were before.\<close>

theorem slow_request_released:
  assumes "last_added_outermost build" "cors_passes cors" "header_get (wr_http request) ''Origin'' = None"
    and "\<not> is_exempt (wr_path request)" "am_semaphore (wt_admission s) = Some v" "0 < v"
    and "first_deadline (tk_deadlines s) = None" "0 \<le> seconds" "seconds < fst (env (tk_trace s @ [c]))"
  shows "\<exists>u. build (configured_middleware ext cors uuid seconds)
      (\<lambda>request. s_bind (perform env c) (\<lambda>_. s_ret response)) request s = (u, Inr (timeout_response seconds)) \<and>
    tk_now u = tk_now s + seconds \<and> tk_trace u = tk_trace s @ [c] \<and> wt_admission u = wt_admission s"
proof -
  let ?id = "or_else (header_get (wr_http request) ''X-Request-ID'') uuid"
  let ?a = "(wt_admission s)\<lparr>am_semaphore := Some (v - 1), am_current := am_current (wt_admission s) + 1\<rparr>"
  let ?s = "s\<lparr>wt_admission := ?a, wt_request_id := ?id\<rparr>"
  let ?app = "\<lambda>request. s_bind (perform env c) (\<lambda>_. s_ret response)"
  have late: "perform env c (?s\<lparr>tk_deadlines := Some (tk_now ?s + seconds) # tk_deadlines ?s\<rparr>) =
      (?s\<lparr>tk_trace := tk_trace ?s @ [c], tk_now := max (tk_now ?s) (tk_now ?s + seconds),
         tk_deadlines := None # tk_deadlines ?s\<rparr>, Inl cancelled_error)"
    by (rule perform_late) (use assms(7,9) in simp_all)
  have order: "s\<lparr>wt_admission := ?a, tk_deadlines := ds, wt_request_id := ?id\<rparr> = ?s\<lparr>tk_deadlines := ds\<rparr>" for ds
    by (cases s) simp
  have cors: "cors ?app (request\<lparr>wr_request_id := Some ?id\<rparr>) = s_bind (perform env c) (\<lambda>_. s_ret response)"
    using assms(2,3) by (simp add: cors_passes_def)
  have t: "isinst ext (exn_class timeout_error) [Builtin TimeoutErrorC]"
    by (simp add: timeout_error_def isinst_def mro_def)
  have "request_timeout ext seconds (request_id_middleware uuid (cors ?app)) request (s\<lparr>wt_admission := ?a\<rparr>) =
      (?s\<lparr>tk_trace := tk_trace s @ [c], tk_now := tk_now s + seconds\<rparr>, Inr (timeout_response seconds))"
    using late t assms(4,8)
    by (simp add: order request_timeout_def request_id_middleware_def cors s_catch_def wait_for_def s_bind_def s_modify_def
        s_ret_def Let_def)
  then show ?thesis
    using assms(4,5,6)
    by (simp add: configured_stack [OF assms(1)] admission_control_def admit_def get_semaphore_def on_admission_def
        s_bind_def s_modify_def s_ret_def s_finally_def release_def)
qed

theorem slow_request_released_witness:
  "\<exists>u. build_outermost_last (configured_middleware (\<lambda>_. []) (\<lambda>h. h) ''uuid'' 30)
      (\<lambda>_. s_bind (perform (\<lambda>_. (90, Inr ())) ''SELECT'') (\<lambda>_. s_ret (json_response 200 PNone)))
      sample_request (sample_web_task 1) = (u, Inr (timeout_response 30)) \<and>
    tk_now u = 35 \<and> am_semaphore (wt_admission u) = Some 1"
proof -
  have "\<not> is_exempt (wr_path sample_request)" by code_simp
  moreover have "header_get (wr_http sample_request) ''Origin'' = None" by code_simp
  ultimately show ?thesis
    using slow_request_released [OF build_outermost_last_ok cors_passes_id, of sample_request "sample_web_task 1" 1 30
        "\<lambda>_. (90, Inr ())" "''SELECT''" "\<lambda>_. []" "''uuid''" "json_response 200 PNone"]
    by (auto simp: sample_web_task_def)
qed

end
