(* ===== verification/Metrics.thy ===== *)
theory Metrics
  imports PyStrings PyExceptions
begin

section \<open>Prometheus metrics\<close>

text \<open>
  \<open>core/observability/metrics.py\<close>.  The registry of the client library is a table from a metric
  and the values of its labels to a number: a counter or gauge to its value, a histogram to the
  list of its observations.  Label values are in the order of the label names of the metric.
\<close>

type_synonym series = "string \<times> string list"

record prometheus =
  pm_values :: "(series \<times> int) list"
  pm_observed :: "(series \<times> real list) list"

definition metric_value :: "'m prometheus_scheme \<Rightarrow> string \<Rightarrow> string list \<Rightarrow> int" where
  "metric_value p name labels = (case dict_get (pm_values p) (name, labels) of None \<Rightarrow> 0 | Some v \<Rightarrow> v)"

definition observations :: "'m prometheus_scheme \<Rightarrow> string \<Rightarrow> string list \<Rightarrow> real list" where
  "observations p name labels = (case dict_get (pm_observed p) (name, labels) of None \<Rightarrow> [] | Some v \<Rightarrow> v)"

definition metric_set :: "string \<Rightarrow> string list \<Rightarrow> int \<Rightarrow> 'm prometheus_scheme \<Rightarrow> 'm prometheus_scheme" where
  "metric_set name labels v p = p\<lparr>pm_values := dict_set (name, labels) v (pm_values p)\<rparr>"

definition metric_inc :: "string \<Rightarrow> string list \<Rightarrow> 'm prometheus_scheme \<Rightarrow> 'm prometheus_scheme" where
  "metric_inc name labels p = metric_set name labels (metric_value p name labels + 1) p"

definition metric_dec :: "string \<Rightarrow> string list \<Rightarrow> 'm prometheus_scheme \<Rightarrow> 'm prometheus_scheme" where
  "metric_dec name labels p = metric_set name labels (metric_value p name labels - 1) p"

definition observe :: "string \<Rightarrow> string list \<Rightarrow> real \<Rightarrow> 'm prometheus_scheme \<Rightarrow> 'm prometheus_scheme" where
  "observe name labels x p =
     p\<lparr>pm_observed := dict_set (name, labels) (observations p name labels @ [x]) (pm_observed p)\<rparr>"

subsection \<open>Paths\<close>

definition is_hex :: "char \<Rightarrow> bool" where
  "is_hex c \<longleftrightarrow> is_digit c \<or> (97 \<le> ordc c \<and> ordc c \<le> 102) \<or> (65 \<le> ordc c \<and> ordc c \<le> 70)"

definition uuid_at :: "string \<Rightarrow> bool" where
  \<comment> \<open>the text starts with 8, 4, 4, 4 and 12 hexadecimal digits with dashes between them\<close>
  "uuid_at s \<longleftrightarrow> 36 \<le> length s \<and>
     (\<forall>i \<in> set [0..<36]. if i \<in> {8, 13, 18, 23} then s ! i = CHR ''-'' else is_hex (s ! i))"

function sub_uuid :: "string \<Rightarrow> string" where
  "sub_uuid s =
     (case s of
        [] \<Rightarrow> []
      | c # cs \<Rightarrow> if uuid_at s then ''{id}'' @ sub_uuid (drop 36 s) else c # sub_uuid cs)"
  by pat_completeness auto
termination by (relation "measure length") auto

declare sub_uuid.simps [simp del]

definition at_end :: "string \<Rightarrow> bool" where
  \<comment> \<open>\<open>$\<close> also matches before a final newline\<close>
  "at_end s \<longleftrightarrow> s = [] \<or> s = [CHR 0x0A]"

function sub_numeric :: "string \<Rightarrow> string" where
  \<comment> \<open>\<open>re.sub(r"/\d+(/|$)", "/{id}\\1", path)\<close>: a match consumes the slash that ends it\<close>
  "sub_numeric s =
     (case s of
        [] \<Rightarrow> []
      | c # cs \<Rightarrow>
          (let digits = takeWhile is_digit cs; rest = dropWhile is_digit cs in
           if c = CHR ''/'' \<and> digits \<noteq> [] \<and> (case rest of d # _ \<Rightarrow> d = CHR ''/'' | [] \<Rightarrow> False)
           then ''/{id}/'' @ sub_numeric (tl rest)
           else if c = CHR ''/'' \<and> digits \<noteq> [] \<and> at_end rest then ''/{id}'' @ rest
           else c # sub_numeric cs))"
  by pat_completeness auto
termination
proof (relation "measure length")
  fix s c cs digits rest
  assume *: "s = c # cs" "rest = dropWhile is_digit cs"
  have "length (tl (dropWhile is_digit cs)) \<le> length cs"
    using length_dropWhile_le [of is_digit cs] by simp
  then show "(tl rest, s) \<in> measure length" using * by simp
qed auto

declare sub_numeric.simps [simp del]

definition normalize_path :: "string \<Rightarrow> string" where
  "normalize_path path = sub_numeric (sub_uuid path)"


subsection \<open>The middleware\<close>

definition metrics_middleware ::
  "real \<Rightarrow> string \<Rightarrow> string \<Rightarrow> ('m prometheus_scheme, exn, response) act \<Rightarrow>
   ('m prometheus_scheme, exn, response) act" where
  \<comment> \<open>\<open>duration\<close> is the time \<open>call_next\<close> takes\<close>
  "metrics_middleware duration http_method request_path call_next s =
     (let path = normalize_path request_path in
      if path \<in> {''/metrics'', ''/api/v1/system/metrics''} then call_next s
      else (case call_next (metric_inc ''http_requests_in_progress'' [http_method, path] s) of
          (t, r) \<Rightarrow>
            let status_code = (case r of Inr response \<Rightarrow> str_of_int (r_status response) | Inl _ \<Rightarrow> ''500'') in
            (metric_dec ''http_requests_in_progress'' [http_method, path]
              (metric_inc ''http_requests_total'' [http_method, path, status_code]
                (observe ''http_request_duration_seconds'' [http_method, path] duration t)), r)))"

definition metrics_endpoint :: "exn + string \<Rightarrow> int \<times> string \<times> string" where
  \<comment> \<open>status, content and media type; \<open>latest\<close> is the outcome of \<open>generate_latest\<close>\<close>
  "metrics_endpoint latest =
     (case latest of
        Inr content \<Rightarrow> (200, content, ''text/plain; version=0.0.4; charset=utf-8'')
      | Inl _ \<Rightarrow> (500, ''# Error generating metrics'' @ [CHR 0x0A], ''text/plain''))"

subsection \<open>Recording\<close>

definition record_circuit_breaker_state :: "string \<Rightarrow> string \<Rightarrow> 'm prometheus_scheme \<Rightarrow> 'm prometheus_scheme" where
  "record_circuit_breaker_state name state =
     metric_set ''circuit_breaker_state'' [name]
       (case dict_get [(''closed'', 0), (''half-open'', 1), (''open'', 2)] (lower state) of Some v \<Rightarrow> v | None \<Rightarrow> - 1)"

definition record_circuit_breaker_failure :: "string \<Rightarrow> 'm prometheus_scheme \<Rightarrow> 'm prometheus_scheme" where
  "record_circuit_breaker_failure name = metric_inc ''circuit_breaker_failures_total'' [name]"

definition record_circuit_breaker_success :: "string \<Rightarrow> 'm prometheus_scheme \<Rightarrow> 'm prometheus_scheme" where
  "record_circuit_breaker_success name = metric_inc ''circuit_breaker_successes_total'' [name]"

definition update_db_pool_metrics :: "int \<Rightarrow> int \<Rightarrow> int \<Rightarrow> 'm prometheus_scheme \<Rightarrow> 'm prometheus_scheme" where
  "update_db_pool_metrics all_connections available in_use p =
     metric_set ''db_connections_in_use'' [] in_use
       (metric_set ''db_connections_available'' [] available (metric_set ''db_connections_total'' [] all_connections p))"

definition record_user_registration :: "string \<Rightarrow> 'm prometheus_scheme \<Rightarrow> 'm prometheus_scheme" where
  "record_user_registration registration_method = metric_inc ''user_registrations_total'' [registration_method]"

definition outcome_label :: "bool \<Rightarrow> string" where
  "outcome_label success = (if success then ''success'' else ''failure'')"

definition record_auth_attempt :: "string \<Rightarrow> bool \<Rightarrow> 'm prometheus_scheme \<Rightarrow> 'm prometheus_scheme" where
  "record_auth_attempt auth_method success = metric_inc ''auth_attempts_total'' [auth_method, outcome_label success]"

definition update_active_sessions :: "int \<Rightarrow> 'm prometheus_scheme \<Rightarrow> 'm prometheus_scheme" where
  "update_active_sessions n = metric_set ''active_sessions_total'' [] n"

definition record_api_usage :: "string \<Rightarrow> string \<Rightarrow> 'm prometheus_scheme \<Rightarrow> 'm prometheus_scheme" where
  "record_api_usage feature operation = metric_inc ''api_usage_total'' [feature, operation]"

definition record_cache_access :: "string \<Rightarrow> bool \<Rightarrow> 'm prometheus_scheme \<Rightarrow> 'm prometheus_scheme" where
  "record_cache_access cache_type hit =
     metric_inc (if hit then ''cache_hits_total'' else ''cache_misses_total'') [cache_type]"

definition record_cache_operation_failure :: "string \<Rightarrow> 'm prometheus_scheme \<Rightarrow> 'm prometheus_scheme" where
  "record_cache_operation_failure operation = metric_inc ''cache_operation_failures_total'' [operation]"

definition record_external_api_call ::
  "string \<Rightarrow> bool \<Rightarrow> real option \<Rightarrow> 'm prometheus_scheme \<Rightarrow> 'm prometheus_scheme" where
  "record_external_api_call service success latency_seconds p =
     (let q = metric_inc ''external_api_calls_total'' [service, outcome_label success] p in
      case latency_seconds of None \<Rightarrow> q | Some t \<Rightarrow> observe ''external_api_latency_seconds'' [service] t q)"

subsection \<open>Lemmas\<close>

lemma metric_value_set [simp]:
  "metric_value (metric_set name labels v p) name' labels' =
    (if name' = name \<and> labels' = labels then v else metric_value p name' labels')"
  by (simp add: metric_set_def metric_value_def)

lemma metric_value_observe [simp]: "metric_value (observe name labels x p) = metric_value p"
  by (simp add: observe_def metric_value_def fun_eq_iff)

definition path_of :: "string list \<Rightarrow> string" where
  "path_of segments = concat (map (\<lambda>s. CHR ''/'' # s) segments)"

definition numeric :: "string \<Rightarrow> bool" where
  "numeric s \<longleftrightarrow> s \<noteq> [] \<and> list_all is_digit s"

definition plain_segment :: "string \<Rightarrow> bool" where
  "plain_segment s \<longleftrightarrow> CHR ''/'' \<notin> set s \<and> CHR 0x0A \<notin> set s"

fun number_segments :: "string list \<Rightarrow> string list" where
  \<comment> \<open>the segment after a replaced one is not looked at\<close>
  "number_segments [] = []"
| "number_segments [d] = [if numeric d then ''{id}'' else d]"
| "number_segments (d # x # ss) = (if numeric d then ''{id}'' # x # number_segments ss else d # number_segments (x # ss))"

lemma path_of_simps [simp]: "path_of [] = []" "path_of (s # ss) = CHR ''/'' # s @ path_of ss"
  by (simp_all add: path_of_def)

lemma slash_not_digit [simp]: "\<not> is_digit (CHR ''/'')"
  by (simp add: is_digit_def ordc_def)

lemma sub_numeric_skip: "CHR ''/'' \<notin> set s \<Longrightarrow> sub_numeric (s @ t) = s @ sub_numeric t"
  by (induction s) (auto simp: sub_numeric.simps [of "_ # _"] Let_def)

lemma digits_of_path: "takeWhile is_digit (path_of ss) = []" "dropWhile is_digit (path_of ss) = path_of ss"
  by (cases ss; simp)+

lemma sub_numeric_number:
  assumes "numeric d"
  shows "sub_numeric (path_of [d]) = path_of [''{id}'']"
    and "sub_numeric (path_of (d # x # ss)) = ''/{id}/'' @ sub_numeric (x @ path_of ss)"
proof -
  have d: "takeWhile is_digit (d @ t) = d @ takeWhile is_digit t" "dropWhile is_digit (d @ t) = dropWhile is_digit t" for t
    using assms by (auto simp: numeric_def list_all_iff intro: takeWhile_append2 dropWhile_append2)
  show "sub_numeric (path_of [d]) = path_of [''{id}'']"
    using assms d [of "[]"] by (subst sub_numeric.simps) (simp add: Let_def at_end_def numeric_def del: dropWhile_eq_Nil_conv takeWhile_eq_all_conv)
  show "sub_numeric (path_of (d # x # ss)) = ''/{id}/'' @ sub_numeric (x @ path_of ss)"
    using assms by (subst sub_numeric.simps) (simp add: Let_def d numeric_def)
qed

lemma sub_numeric_other:
  assumes "\<not> numeric d" "plain_segment d"
  shows "sub_numeric (path_of (d # ss)) = CHR ''/'' # d @ sub_numeric (path_of ss)"
proof -
  let ?cs = "d @ path_of ss"
  have "takeWhile is_digit ?cs = [] \<or> (\<exists>e r. dropWhile is_digit ?cs = e # r \<and> e \<in> set d)"
  proof (cases "d = []")
    case True
    then show ?thesis by (simp add: digits_of_path)
  next
    case False
    then obtain e where e: "e \<in> set d" "\<not> is_digit e" using assms(1) by (auto simp: numeric_def list_all_iff)
    then have drop: "dropWhile is_digit ?cs = dropWhile is_digit d @ path_of ss" by (intro dropWhile_append1)
    have "dropWhile is_digit d \<noteq> []" using e by (auto simp: dropWhile_eq_Nil_conv)
    then obtain f r where f: "dropWhile is_digit d = f # r" by (cases "dropWhile is_digit d") auto
    then have "f \<in> set d" by (metis list.set_intros(1) set_dropWhileD)
    then show ?thesis using drop f by auto
  qed
  then have "takeWhile is_digit ?cs = [] \<or> \<not> at_end (dropWhile is_digit ?cs) \<and>
      \<not> (case dropWhile is_digit ?cs of f # _ \<Rightarrow> f = CHR ''/'' | [] \<Rightarrow> False)"
  proof (elim disjE exE conjE)
    fix e r
    assume *: "dropWhile is_digit ?cs = e # r" "e \<in> set d"
    then have "e \<noteq> CHR ''/''" "e \<noteq> CHR 0x0A" using assms(2) by (auto simp: plain_segment_def)
    then show ?thesis unfolding *(1) at_end_def by simp
  qed simp
  then have "sub_numeric (path_of (d # ss)) = CHR ''/'' # sub_numeric ?cs"
    unfolding path_of_simps by (subst sub_numeric.simps) (simp only: Let_def list.case, presburger)
  then show ?thesis using assms(2) by (simp add: sub_numeric_skip plain_segment_def)
qed

lemma sub_numeric_segments: "list_all plain_segment ss \<Longrightarrow> sub_numeric (path_of ss) = path_of (number_segments ss)"
proof (induction ss rule: number_segments.induct)
  case 1
  then show ?case by (simp add: sub_numeric.simps)
next
  case (2 d)
  show ?case
  proof (cases "numeric d")
    case True
    then show ?thesis using sub_numeric_number(1) [OF True] by simp
  next
    case False
    then show ?thesis using sub_numeric_other [OF False, of "[]"] 2 by (simp add: sub_numeric.simps [of "[]"])
  qed
next
  case (3 d x ss)
  show ?case
  proof (cases "numeric d")
    case True
    have "sub_numeric (x @ path_of ss) = x @ sub_numeric (path_of ss)"
      using 3(3) by (intro sub_numeric_skip) (simp add: plain_segment_def)
    then show ?thesis using sub_numeric_number(2) [OF True, of x ss] 3(1) [OF True] 3(3) True by simp
  next
    case False
    then show ?thesis using sub_numeric_other [OF False, of "x # ss"] 3(2) [OF False] 3(3) by simp
  qed
qed

lemma sub_uuid_none: "\<forall>k. \<not> uuid_at (drop k s) \<Longrightarrow> sub_uuid s = s"
proof (induction s)
  case Nil
  then show ?case by (simp add: sub_uuid.simps)
next
  case (Cons c s)
  have "\<not> uuid_at (c # s)" using Cons.prems [rule_format, of 0] by simp
  moreover have "sub_uuid s = s"
    using Cons.prems by (intro Cons.IH allI) (metis drop_Suc_Cons)
  ultimately show ?case by (simp add: sub_uuid.simps [of "c # s"])
qed

text \<open>The path label of the metrics: in a path without UUIDs every numeric segment becomes
  \<open>{id}\<close>, except that the segment after a replaced one is never looked at, so that two numbers in
  a row leave the second one in the label.\<close>

theorem normalize_path_segments:
  assumes "list_all plain_segment segments" "\<forall>k. \<not> uuid_at (drop k (path_of segments))"
  shows "normalize_path (path_of segments) = path_of (number_segments segments)"
  using assms by (simp add: normalize_path_def sub_uuid_none sub_numeric_segments)

theorem normalize_path_segments_witness:
  "normalize_path ''/orders/12/items/34'' = ''/orders/{id}/items/{id}'' \<and>
   normalize_path ''/orders/12/34'' = ''/orders/{id}/34''"
proof
  have u: "\<not> uuid_at (drop k s)" if "length s < 36" for k s
    using that by (simp add: uuid_at_def)
  have n: "numeric ''12''" "numeric ''34''" "\<not> numeric ''orders''" "\<not> numeric ''items''" by code_simp+
  have p: "list_all plain_segment [''orders'', ''12'', ''items'', ''34'']" by code_simp
  show "normalize_path ''/orders/12/items/34'' = ''/orders/{id}/items/{id}''"
    using normalize_path_segments [of "[''orders'', ''12'', ''items'', ''34'']"] p n u by simp
  show "normalize_path ''/orders/12/34'' = ''/orders/{id}/34''"
    using normalize_path_segments [of "[''orders'', ''12'', ''34'']"] p n u by simp
qed


lemma series_distinct [simp]:
  "''http_requests_total'' \<noteq> ''http_requests_in_progress''" "''http_requests_in_progress'' \<noteq> ''http_requests_total''"
  by simp_all

text \<open>Every request is accounted for once, whatever becomes of it: the gauge of the requests in
  progress is up by one while the rest of the application runs and back afterwards, the counter of
  its method, path and status grows by one, with status 500 for an exception, and the outcome is
  passed on unchanged.\<close>

theorem metrics_account:
  assumes "call_next (metric_inc ''http_requests_in_progress'' [m, normalize_path p] s) = (t, r)"
    and "metric_value t ''http_requests_in_progress'' [m, normalize_path p] =
      metric_value s ''http_requests_in_progress'' [m, normalize_path p] + 1"
    and "normalize_path p \<notin> {''/metrics'', ''/api/v1/system/metrics''}"
  shows "snd (metrics_middleware duration m p call_next s) = r \<and>
    (\<forall>name labels. metric_value (fst (metrics_middleware duration m p call_next s)) name labels =
      (if name = ''http_requests_in_progress'' \<and> labels = [m, normalize_path p]
       then metric_value s name labels
       else if name = ''http_requests_total'' \<and>
         labels = [m, normalize_path p, case r of Inr response \<Rightarrow> str_of_int (r_status response) | Inl _ \<Rightarrow> ''500'']
       then metric_value t name labels + 1
       else metric_value t name labels))"
  using assms by (simp add: metrics_middleware_def Let_def metric_inc_def metric_dec_def)

theorem metrics_account_witness:
  "snd (metrics_middleware 2 ''GET'' ''/orders/12'' (\<lambda>s. (s, Inl (EOther (Builtin KeyErrorC) ''k'')))
      \<lparr>pm_values = [], pm_observed = []\<rparr>) = Inl (EOther (Builtin KeyErrorC) ''k'') \<and>
   metric_value (fst (metrics_middleware 2 ''GET'' ''/orders/12'' (\<lambda>s. (s, Inl (EOther (Builtin KeyErrorC) ''k'')))
      \<lparr>pm_values = [], pm_observed = []\<rparr>)) ''http_requests_total'' [''GET'', ''/orders/{id}'', ''500''] = 1"
proof -
  have u: "\<not> uuid_at (drop k s)" if "length s < 36" for k s
    using that by (simp add: uuid_at_def)
  have n: "numeric ''12''" "\<not> numeric ''orders''" by code_simp+
  have "list_all plain_segment [''orders'', ''12'']" by code_simp
  then have p: "normalize_path ''/orders/12'' = ''/orders/{id}''"
    using sub_numeric_segments [of "[''orders'', ''12'']"] n u by (simp add: normalize_path_def sub_uuid_none)
  show ?thesis
    using metrics_account [of "\<lambda>s. (s, Inl (EOther (Builtin KeyErrorC) ''k''))" "''GET''" "''/orders/12''"
        "\<lparr>pm_values = [], pm_observed = []\<rparr>"] p
    by (simp add: metric_inc_def metric_value_def [of "\<lparr>pm_values = [], pm_observed = []\<rparr>"])
qed

end
