(* ===== verification/CircuitBreaker.thy ===== *)
theory CircuitBreaker
  imports Metrics
begin

section \<open>The circuit-breaker registry\<close>

text \<open>
  \<open>core/security/circuit_breaker.py\<close>.  The factories and breakers are those of the purgatory
  library: a factory is known by the threshold and the reset time it was created with, and
  entering a breaker around a call is the parameter \<open>breaker\<close>.  The registry keeps the factories
  and the states it has logged; its counters are those of \<open>Metrics\<close>.
\<close>

datatype cb_type = DATABASE | REDIS | EXTERNAL_API

record factory =
  fa_threshold :: int
  fa_ttl :: int

record breaker_settings =
  bs_threshold :: "cb_type \<Rightarrow> int"
  bs_reset :: "cb_type \<Rightarrow> int"

record registry = prometheus +
  cr_states :: "(string \<times> string) list"

definition jitter_factor :: real where
  "jitter_factor = 2 / 10"

definition py_int :: "real \<Rightarrow> int" where
  \<comment> \<open>\<open>int(x)\<close> truncates\<close>
  "py_int x = (if 0 \<le> x then \<lfloor>x\<rfloor> else \<lceil>x\<rceil>)"

definition apply_jitter :: "real \<Rightarrow> int \<Rightarrow> int" where
  \<comment> \<open>\<open>u\<close> is the value of \<open>random.uniform(0, CIRCUIT_BREAKER_JITTER_FACTOR)\<close>\<close>
  "apply_jitter u base_timeout = py_int (real_of_int base_timeout + u * real_of_int base_timeout)"

definition log_name :: "cb_type \<Rightarrow> string" where
  "log_name t = (case t of DATABASE \<Rightarrow> ''Database'' | EXTERNAL_API \<Rightarrow> ''External API'' | REDIS \<Rightarrow> ''Redis'')"

definition get_config :: "breaker_settings \<Rightarrow> real \<Rightarrow> cb_type \<Rightarrow> int \<times> int \<times> string" where
  "get_config settings u t = (bs_threshold settings t, apply_jitter u (bs_reset settings t), log_name t)"

subsection \<open>Creating factories\<close>

text \<open>\<open>get_factory\<close> is called from several threads.  Each step of a thread is one access to what
  the threads share: the dictionary of the factories and the lock.  \<open>fc_created\<close> lists the
  factories ever made.\<close>

datatype pc = Check | AcquireLock | Recheck | Create | ReleaseLock | ReadFactory | Returned nat

record factories =
  fc_factories :: "(cb_type \<times> nat) list"
  fc_created :: "(cb_type \<times> factory) list"
  fc_lock :: "nat option"
  fc_pc :: "nat \<Rightarrow> pc"

definition goto :: "nat \<Rightarrow> pc \<Rightarrow> factories \<Rightarrow> factories" where
  "goto t p s = s\<lparr>fc_pc := (fc_pc s)(t := p)\<rparr>"

definition create_factory :: "breaker_settings \<Rightarrow> real \<Rightarrow> cb_type \<Rightarrow> factories \<Rightarrow> factories" where
  "create_factory settings u cb s =
     (case get_config settings u cb of
        (failure_threshold, reset_timeout, _) \<Rightarrow>
          s\<lparr>fc_factories := dict_set cb (length (fc_created s)) (fc_factories s),
            fc_created := fc_created s @ [(cb, \<lparr>fa_threshold = failure_threshold, fa_ttl = reset_timeout\<rparr>)]\<rparr>)"

inductive get_factory_step :: "breaker_settings \<Rightarrow> (nat \<Rightarrow> cb_type) \<Rightarrow> factories \<Rightarrow> factories \<Rightarrow> bool"
  for settings wanted where
  check_present: "fc_pc s t = Check \<Longrightarrow> dict_has (fc_factories s) (wanted t) \<Longrightarrow>
    get_factory_step settings wanted s (goto t ReadFactory s)"
| check_absent: "fc_pc s t = Check \<Longrightarrow> \<not> dict_has (fc_factories s) (wanted t) \<Longrightarrow>
    get_factory_step settings wanted s (goto t AcquireLock s)"
| lock_free: "fc_pc s t = AcquireLock \<Longrightarrow> fc_lock s = None \<Longrightarrow>
    get_factory_step settings wanted s (goto t Recheck (s\<lparr>fc_lock := Some t\<rparr>))"
| recheck_present: "fc_pc s t = Recheck \<Longrightarrow> dict_has (fc_factories s) (wanted t) \<Longrightarrow>
    get_factory_step settings wanted s (goto t ReleaseLock s)"
| recheck_absent: "fc_pc s t = Recheck \<Longrightarrow> \<not> dict_has (fc_factories s) (wanted t) \<Longrightarrow>
    get_factory_step settings wanted s (goto t Create s)"
| creating: "fc_pc s t = Create \<Longrightarrow> 0 \<le> u \<Longrightarrow> u \<le> jitter_factor \<Longrightarrow>
    get_factory_step settings wanted s (goto t ReleaseLock (create_factory settings u (wanted t) s))"
| unlocking: "fc_pc s t = ReleaseLock \<Longrightarrow>
    get_factory_step settings wanted s (goto t ReadFactory (s\<lparr>fc_lock := None\<rparr>))"
| reading: "fc_pc s t = ReadFactory \<Longrightarrow> dict_get (fc_factories s) (wanted t) = Some f \<Longrightarrow>
    get_factory_step settings wanted s (goto t (Returned f) s)"

definition factories_init :: factories where
  "factories_init = \<lparr>fc_factories = [], fc_created = [], fc_lock = None, fc_pc = (\<lambda>_. Check)\<rparr>"

inductive get_factory_run :: "breaker_settings \<Rightarrow> (nat \<Rightarrow> cb_type) \<Rightarrow> factories \<Rightarrow> bool" for settings wanted where
  initial: "get_factory_run settings wanted factories_init"
| step: "get_factory_run settings wanted s \<Longrightarrow> get_factory_step settings wanted s s' \<Longrightarrow>
    get_factory_run settings wanted s'"

subsection \<open>Logging state changes\<close>

definition state_of :: "'m registry_scheme \<Rightarrow> string \<Rightarrow> string" where
  "state_of r name = (case dict_get (cr_states r) name of None \<Rightarrow> ''closed'' | Some st \<Rightarrow> st)"

definition log_circuit_open :: "string \<Rightarrow> 'm registry_scheme \<Rightarrow> 'm registry_scheme" where
  "log_circuit_open name r =
     record_circuit_breaker_state name ''open'' (r\<lparr>cr_states := dict_set name ''open'' (cr_states r)\<rparr>)"

definition log_circuit_success :: "string \<Rightarrow> 'm registry_scheme \<Rightarrow> 'm registry_scheme" where
  "log_circuit_success name r =
     (let q = record_circuit_breaker_state name ''closed'' (record_circuit_breaker_success name r) in
      if state_of r name = ''open'' then q\<lparr>cr_states := dict_set name ''closed'' (cr_states q)\<rparr> else q)"

definition log_circuit_failure :: "string \<Rightarrow> 'm registry_scheme \<Rightarrow> 'm registry_scheme" where
  "log_circuit_failure name r = record_circuit_breaker_failure name r"

definition opened_state :: exn where
  "opened_state = EOther (Lib ''purgatory.domain.model.OpenedState'') []"

definition observable_circuit_breaker ::
  "(string \<Rightarrow> pyclass list) \<Rightarrow> (('m registry_scheme, exn, 'a) act \<Rightarrow> ('m registry_scheme, exn, 'a) act) \<Rightarrow> string \<Rightarrow>
   ('m registry_scheme, exn, 'a) act \<Rightarrow> ('m registry_scheme, exn, 'a) act" where
  "observable_circuit_breaker ext breaker name func =
     breaker (s_catch
       (s_bind func (\<lambda>r. s_bind (s_modify (log_circuit_success name)) (\<lambda>_. s_ret r)))
       (\<lambda>e. if isinst ext (exn_class e) [Lib ''purgatory.domain.model.OpenedState''] then
              s_bind (s_modify (log_circuit_open name)) (\<lambda>_. s_raise e)
            else if is_exception ext e then
              s_bind (s_modify (log_circuit_failure name)) (\<lambda>_. s_raise e)
            else s_raise e))"


subsection \<open>Lemmas\<close>

lemma apply_jitter_bounds:
  assumes "0 \<le> u" "u \<le> jitter_factor" "0 \<le> base"
  shows "base \<le> apply_jitter u base" "apply_jitter u base \<le> base + base div 5"
proof -
  have u: "0 \<le> u * real_of_int base" "u * real_of_int base \<le> real_of_int base / 5"
    using assms mult_right_mono [of u "1 / 5" "real_of_int base"] by (simp_all add: jitter_factor_def)
  have eq: "apply_jitter u base = base + \<lfloor>u * real_of_int base\<rfloor>"
    using u assms(3) by (simp add: apply_jitter_def py_int_def)
  show "base \<le> apply_jitter u base" using u by (simp add: eq)
  have "\<lfloor>u * real_of_int base\<rfloor> \<le> \<lfloor>real_of_int base / real_of_int 5\<rfloor>" using u by (intro floor_mono) simp
  then show "apply_jitter u base \<le> base + base div 5" unfolding eq floor_divide_of_int_eq by simp
qed

definition critical :: "pc \<Rightarrow> bool" where
  "critical p \<longleftrightarrow> p = Recheck \<or> p = Create \<or> p = ReleaseLock"

definition configured :: "breaker_settings \<Rightarrow> cb_type \<times> factory \<Rightarrow> bool" where
  "configured settings cf \<longleftrightarrow> fa_threshold (snd cf) = bs_threshold settings (fst cf) \<and>
     bs_reset settings (fst cf) \<le> fa_ttl (snd cf) \<and>
     fa_ttl (snd cf) \<le> bs_reset settings (fst cf) + bs_reset settings (fst cf) div 5"

definition indexed :: "breaker_settings \<Rightarrow> factories \<Rightarrow> bool" where
  "indexed settings s \<longleftrightarrow>
     (\<forall>cb i. dict_get (fc_factories s) cb = Some i \<longleftrightarrow> i < length (fc_created s) \<and> fst (fc_created s ! i) = cb) \<and>
     list_all (configured settings) (fc_created s)"

definition pc_inv :: "cb_type \<Rightarrow> (cb_type \<times> nat) list \<Rightarrow> bool \<Rightarrow> pc \<Rightarrow> bool" where
  \<comment> \<open>what a thread that wants \<open>cb\<close> knows: whether it holds the lock, and what is in the dictionary\<close>
  "pc_inv cb fs holds p \<longleftrightarrow>
     (critical p \<longrightarrow> holds) \<and> (p = Create \<longrightarrow> dict_get fs cb = None) \<and>
     (p \<in> {ReleaseLock, ReadFactory} \<longrightarrow> dict_get fs cb \<noteq> None) \<and>
     (\<forall>f. p = Returned f \<longrightarrow> dict_get fs cb = Some f)"

definition factories_inv :: "breaker_settings \<Rightarrow> (nat \<Rightarrow> cb_type) \<Rightarrow> factories \<Rightarrow> bool" where
  "factories_inv settings wanted s \<longleftrightarrow>
     indexed settings s \<and> (\<forall>t. pc_inv (wanted t) (fc_factories s) (fc_lock s = Some t) (fc_pc s t))"

lemma factories_inv_init: "factories_inv settings wanted factories_init"
  by (simp add: factories_inv_def indexed_def pc_inv_def factories_init_def critical_def)

lemma pc_inv_holds: "pc_inv cb fs h p \<Longrightarrow> (h \<Longrightarrow> h') \<Longrightarrow> pc_inv cb fs h' p"
  by (auto simp: pc_inv_def)

text \<open>A step that leaves the dictionary alone.\<close>

lemma factories_inv_goto:
  assumes "factories_inv settings wanted s"
    and "pc_inv (wanted t) (fc_factories s) (l = Some t) p"
    and "\<And>t'. t' \<noteq> t \<Longrightarrow> fc_lock s = Some t' \<Longrightarrow> l = Some t'"
  shows "factories_inv settings wanted (goto t p (s\<lparr>fc_lock := l\<rparr>))"
proof -
  let ?s = "goto t p (s\<lparr>fc_lock := l\<rparr>)"
  have "indexed settings ?s" using assms(1) by (simp add: factories_inv_def indexed_def goto_def)
  moreover have "pc_inv (wanted t') (fc_factories ?s) (fc_lock ?s = Some t') (fc_pc ?s t')" for t'
  proof (cases "t' = t")
    case True
    then show ?thesis using assms(2) by (simp add: goto_def)
  next
    case False
    have "pc_inv (wanted t') (fc_factories s) (fc_lock s = Some t') (fc_pc s t')"
      using assms(1) by (simp add: factories_inv_def)
    then have "pc_inv (wanted t') (fc_factories s) (l = Some t') (fc_pc s t')"
      using assms(3) [OF False] by (rule pc_inv_holds)
    then show ?thesis using False by (simp add: goto_def)
  qed
  ultimately show ?thesis unfolding factories_inv_def by blast
qed

lemma factories_inv_same_lock:
  "factories_inv settings wanted s \<Longrightarrow> pc_inv (wanted t) (fc_factories s) (fc_lock s = Some t) p \<Longrightarrow>
   factories_inv settings wanted (goto t p s)"
  using factories_inv_goto [of settings wanted s t "fc_lock s" p] by simp

lemma pc_inv_create: "dict_get fs cb = None \<Longrightarrow> pc_inv cb' fs h p \<Longrightarrow> p \<noteq> Create \<Longrightarrow> pc_inv cb' (dict_set cb n fs) h p"
  by (auto simp: pc_inv_def)

lemma indexed_create:
  assumes "indexed settings s" "dict_get (fc_factories s) cb = None" "configured settings (cb, f)"
    and "fc_factories s' = dict_set cb (length (fc_created s)) (fc_factories s)" "fc_created s' = fc_created s @ [(cb, f)]"
  shows "indexed settings s'"
proof -
  have "fst (fc_created s ! i) \<noteq> cb" if "i < length (fc_created s)" for i
    using assms(1,2) that unfolding indexed_def by (metis option.distinct(1))
  then show ?thesis using assms by (auto simp: indexed_def nth_append less_Suc_eq)
qed

lemma factories_inv_step:
  assumes "get_factory_step settings wanted s s'" "factories_inv settings wanted s" "\<And>cb. 0 \<le> bs_reset settings cb"
  shows "factories_inv settings wanted s'"
proof -
  have thread: "pc_inv (wanted t) (fc_factories s) (fc_lock s = Some t) (fc_pc s t)" for t
    using assms(2) by (simp add: factories_inv_def)
  show ?thesis
    using assms(1)
  proof cases
    case (check_present t)
    then show ?thesis
      by (auto intro!: factories_inv_same_lock [OF assms(2)] simp: pc_inv_def critical_def dict_has_get)
  next
    case (check_absent t)
    then show ?thesis
      by (auto intro!: factories_inv_same_lock [OF assms(2)] simp: pc_inv_def critical_def dict_has_get)
  next
    case (lock_free t)
    then show ?thesis
      by (auto intro!: factories_inv_goto [OF assms(2)] simp: pc_inv_def critical_def)
  next
    case (recheck_present t)
    then show ?thesis using thread [of t]
      by (auto intro!: factories_inv_same_lock [OF assms(2)] simp: pc_inv_def critical_def dict_has_get)
  next
    case (recheck_absent t)
    then show ?thesis using thread [of t]
      by (auto intro!: factories_inv_same_lock [OF assms(2)] simp: pc_inv_def critical_def dict_has_get)
  next
    case (unlocking t)
    then show ?thesis using thread [of t]
      by (auto intro!: factories_inv_goto [OF assms(2)] simp: pc_inv_def critical_def)
  next
    case (reading t f)
    then show ?thesis
      by (auto intro!: factories_inv_same_lock [OF assms(2)] simp: pc_inv_def critical_def)
  next
    case (creating t u)
    let ?f = "\<lparr>fa_threshold = bs_threshold settings (wanted t), fa_ttl = apply_jitter u (bs_reset settings (wanted t))\<rparr>"
    have s': "fc_factories s' = dict_set (wanted t) (length (fc_created s)) (fc_factories s)"
        "fc_created s' = fc_created s @ [(wanted t, ?f)]" "fc_lock s' = fc_lock s" "fc_pc s' = (fc_pc s)(t := ReleaseLock)"
      using creating(1) by (simp_all add: create_factory_def get_config_def goto_def)
    have here: "fc_lock s = Some t" "dict_get (fc_factories s) (wanted t) = None"
      using thread [of t] creating(2) by (simp_all add: pc_inv_def critical_def)
    have "configured settings (wanted t, ?f)"
      using apply_jitter_bounds [OF creating(3,4) assms(3)] by (simp add: configured_def)
    then have "indexed settings s'"
      using assms(2) here(2) s'(1,2) indexed_create unfolding factories_inv_def by blast
    moreover have "pc_inv (wanted t') (fc_factories s') (fc_lock s' = Some t') (fc_pc s' t')" for t'
    proof (cases "t' = t")
      case True
      then show ?thesis using here by (simp add: pc_inv_def s')
    next
      case False
      then have "fc_pc s t' \<noteq> Create" using thread [of t'] here(1) by (auto simp: pc_inv_def critical_def)
      then show ?thesis using False pc_inv_create [OF here(2) thread] by (simp add: s')
    qed
    ultimately show ?thesis unfolding factories_inv_def by blast
  qed
qed

lemma factories_inv_run:
  assumes "get_factory_run settings wanted s" "\<And>cb. 0 \<le> bs_reset settings cb"
  shows "factories_inv settings wanted s"
  using assms(1)
proof (induction rule: get_factory_run.induct)
  case initial
  show ?case by (rule factories_inv_init)
next
  case (step s s')
  show ?case by (rule factories_inv_step [OF step.hyps(2) step.IH assms(2)])
qed

text \<open>C23. However the threads that ask for factories are interleaved, at most one factory of a kind
  is ever created, all threads get the same one, it has the configured threshold and a reset time
  of at least the configured one and at most a fifth more, and no thread fails to find it.\<close>

theorem one_factory_per_type:
  assumes "get_factory_run settings wanted s" "\<forall>cb. 0 \<le> bs_reset settings cb"
  shows "distinct (map fst (fc_created s)) \<and>
    (\<forall>t f. fc_pc s t = Returned f \<longrightarrow> f < length (fc_created s) \<and> fst (fc_created s ! f) = wanted t \<and>
       fa_threshold (snd (fc_created s ! f)) = bs_threshold settings (wanted t) \<and>
       bs_reset settings (wanted t) \<le> fa_ttl (snd (fc_created s ! f)) \<and>
       fa_ttl (snd (fc_created s ! f)) \<le> bs_reset settings (wanted t) + bs_reset settings (wanted t) div 5) \<and>
    (\<forall>t. fc_pc s t = ReadFactory \<longrightarrow> dict_has (fc_factories s) (wanted t))"
proof -
  have inv: "indexed settings s" "\<And>t. pc_inv (wanted t) (fc_factories s) (fc_lock s = Some t) (fc_pc s t)"
    using factories_inv_run [OF assms(1)] assms(2) by (simp_all add: factories_inv_def)
  then have found: "dict_get (fc_factories s) cb = Some i \<longleftrightarrow> i < length (fc_created s) \<and> fst (fc_created s ! i) = cb" for cb i
    by (simp add: indexed_def)
  have "i = j" if "i < length (fc_created s)" "j < length (fc_created s)" "fst (fc_created s ! i) = fst (fc_created s ! j)" for i j
    using that found [of "fst (fc_created s ! i)" i] found [of "fst (fc_created s ! j)" j] by simp
  then have "distinct (map fst (fc_created s))" by (auto simp: distinct_conv_nth)
  moreover have c: "configured settings (fc_created s ! f)" if "f < length (fc_created s)" for f
    using inv(1) that by (simp add: indexed_def list_all_length)
  moreover have "f < length (fc_created s) \<and> fst (fc_created s ! f) = wanted t \<and>
       fa_threshold (snd (fc_created s ! f)) = bs_threshold settings (wanted t) \<and>
       bs_reset settings (wanted t) \<le> fa_ttl (snd (fc_created s ! f)) \<and>
       fa_ttl (snd (fc_created s ! f)) \<le> bs_reset settings (wanted t) + bs_reset settings (wanted t) div 5"
    if "fc_pc s t = Returned f" for t f
  proof -
    have "f < length (fc_created s)" "fst (fc_created s ! f) = wanted t"
      using inv(2) [of t] that found [of "wanted t" f] by (simp_all add: pc_inv_def)
    then show ?thesis using c [of f] by (simp add: configured_def)
  qed
  moreover have "dict_has (fc_factories s) (wanted t)" if "fc_pc s t = ReadFactory" for t
    using inv(2) [of t] that by (simp add: pc_inv_def dict_has_get)
  ultimately show ?thesis by blast
qed

text \<open>A thread that holds the lock is between taking and releasing it, and every step moves one thread on.\<close>

fun rank :: "pc \<Rightarrow> nat" where
  "rank Check = 0"
| "rank AcquireLock = 1"
| "rank Recheck = 2"
| "rank Create = 3"
| "rank ReleaseLock = 4"
| "rank ReadFactory = 5"
| "rank (Returned f) = 6"

lemma rank_le: "rank p \<le> 6"
  by (cases p) simp_all

lemma lock_critical:
  assumes "get_factory_run settings wanted s"
  shows "fc_lock s = Some t \<Longrightarrow> critical (fc_pc s t)"
  using assms
proof (induction arbitrary: t rule: get_factory_run.induct)
  case initial
  then show ?case by (simp add: factories_init_def)
next
  case (step s s')
  show ?case
    using step.hyps(2) step.IH [of t] step.prems
    by cases (auto simp: goto_def critical_def create_factory_def split: if_splits prod.splits)
qed

lemma step_rank:
  assumes "get_factory_step settings wanted s s'"
  shows "\<exists>t. rank (fc_pc s t) < rank (fc_pc s' t) \<and> (\<forall>t'. t' \<noteq> t \<longrightarrow> fc_pc s' t' = fc_pc s t')"
  using assms
  by cases (auto simp: goto_def create_factory_def split: prod.splits intro!: exI)

lemma step_sum:
  assumes "get_factory_step settings wanted s s'" "\<forall>t \<ge> n. fc_pc s' t = fc_pc s t"
  shows "(\<Sum>t<n. rank (fc_pc s t)) < (\<Sum>t<n. rank (fc_pc s' t))"
proof -
  obtain t where t: "rank (fc_pc s t) < rank (fc_pc s' t)" "\<And>t'. t' \<noteq> t \<Longrightarrow> fc_pc s' t' = fc_pc s t'"
    using step_rank [OF assms(1)] by blast
  then have "t < n" using assms(2) by (metis less_irrefl not_le)
  then show ?thesis
    using t by (intro sum_strict_mono_ex1) (auto, metis order.refl less_imp_le)
qed

lemma sum_rank_le: "(\<Sum>t<n. rank (p t)) \<le> 6 * n"
  using sum_bounded_above [of "{..<n}" "\<lambda>t. rank (p t)" 6] rank_le by simp

lemma enabled:
  assumes "factories_inv settings wanted s" "fc_pc s t = p" "\<forall>f. p \<noteq> Returned f" "p = AcquireLock \<Longrightarrow> fc_lock s = None"
  shows "\<exists>s'. get_factory_step settings wanted s s' \<and> (\<forall>t'. t' \<noteq> t \<longrightarrow> fc_pc s' t' = fc_pc s t')"
proof -
  have inv: "pc_inv (wanted t) (fc_factories s) (fc_lock s = Some t) p" using assms(1,2) by (auto simp: factories_inv_def)
  have go: "fc_pc (goto t q u) t' = fc_pc u t'" if "t' \<noteq> t" for t' q u using that by (simp add: goto_def)
  show ?thesis
  proof (cases p)
    case Check
    then show ?thesis
      using get_factory_step.check_present [of s t wanted settings] get_factory_step.check_absent [of s t wanted settings] assms(2) go by blast
  next
    case AcquireLock
    then have "get_factory_step settings wanted s (goto t Recheck (s\<lparr>fc_lock := Some t\<rparr>))"
      using assms(2,4) by (intro get_factory_step.lock_free) auto
    then show ?thesis by (intro exI conjI) (assumption, simp add: goto_def)
  next
    case Recheck
    then show ?thesis
      using get_factory_step.recheck_present [of s t wanted settings] get_factory_step.recheck_absent [of s t wanted settings] assms(2) go by blast
  next
    case Create
    then have "get_factory_step settings wanted s (goto t ReleaseLock (create_factory settings 0 (wanted t) s))"
      using assms(2) by (intro get_factory_step.creating) (simp_all add: jitter_factor_def)
    then show ?thesis by (intro exI conjI) (assumption, simp add: goto_def create_factory_def split: prod.splits)
  next
    case ReleaseLock
    then have "get_factory_step settings wanted s (goto t ReadFactory (s\<lparr>fc_lock := None\<rparr>))"
      using assms(2) by (intro get_factory_step.unlocking) auto
    then show ?thesis by (intro exI conjI) (assumption, simp add: goto_def)
  next
    case ReadFactory
    then obtain f where "dict_get (fc_factories s) (wanted t) = Some f" using inv by (auto simp: pc_inv_def)
    then have "get_factory_step settings wanted s (goto t (Returned f) s)"
      using ReadFactory assms(2) by (intro get_factory_step.reading) auto
    then show ?thesis using go by blast
  next
    case (Returned f)
    then show ?thesis using assms(3) by blast
  qed
qed

text \<open>C39. The double-checked locking neither blocks nor spins: of \<open>n\<close> threads that ask for factories, one
  that has not returned leaves some thread a step to take, and there is no infinite sequence of their
  steps, each thread taking at most six.\<close>

theorem factories_progress:
  assumes "get_factory_run settings wanted s" "\<forall>cb. 0 \<le> bs_reset settings cb" "\<forall>t \<ge> n. fc_pc s t = Check"
    and "t < n" "\<forall>f. fc_pc s t \<noteq> Returned f"
  shows "(\<exists>s'. get_factory_step settings wanted s s' \<and> (\<forall>t \<ge> n. fc_pc s' t = Check)) \<and>
    wf {(s', s). get_factory_step settings wanted s s' \<and> (\<forall>t \<ge> n. fc_pc s' t = fc_pc s t)}"
proof
  have inv: "factories_inv settings wanted s" using factories_inv_run [OF assms(1)] assms(2) by blast
  obtain u where u: "u < n" "\<forall>f. fc_pc s u \<noteq> Returned f" "fc_pc s u = AcquireLock \<Longrightarrow> fc_lock s = None"
  proof (cases "fc_pc s t = AcquireLock \<and> fc_lock s \<noteq> None")
    case True
    then obtain h where h: "fc_lock s = Some h" by blast
    then have c: "critical (fc_pc s h)" by (rule lock_critical [OF assms(1)])
    then have "h < n" using assms(3) by (metis critical_def not_le pc.distinct(3,5,7))
    then show ?thesis using c that [of h] by (auto simp: critical_def)
  next
    case False
    then have "fc_pc s t = AcquireLock \<Longrightarrow> fc_lock s = None" by blast
    then show ?thesis by (rule that [OF assms(4,5)])
  qed
  obtain s' where "get_factory_step settings wanted s s'" "\<forall>t'. t' \<noteq> u \<longrightarrow> fc_pc s' t' = fc_pc s t'"
    using enabled [OF inv refl u(2,3)] by blast
  then show "\<exists>s'. get_factory_step settings wanted s s' \<and> (\<forall>t \<ge> n. fc_pc s' t = Check)"
    using u(1) assms(3) by (metis not_le)
  show "wf {(s', s). get_factory_step settings wanted s s' \<and> (\<forall>t \<ge> n. fc_pc s' t = fc_pc s t)}"
  proof (rule wf_subset)
    show "wf (measure (\<lambda>s. 6 * n - (\<Sum>t<n. rank (fc_pc s t))))" by (rule wf_measure)
    show "{(s', s). get_factory_step settings wanted s s' \<and> (\<forall>t \<ge> n. fc_pc s' t = fc_pc s t)}
        \<subseteq> measure (\<lambda>s. 6 * n - (\<Sum>t<n. rank (fc_pc s t)))"
    proof (rule subrelI)
      fix s' s
      assume "(s', s) \<in> {(s', s). get_factory_step settings wanted s s' \<and> (\<forall>t \<ge> n. fc_pc s' t = fc_pc s t)}"
      then have "(\<Sum>t<n. rank (fc_pc s t)) < (\<Sum>t<n. rank (fc_pc s' t))" using step_sum by blast
      then show "(s', s) \<in> measure (\<lambda>s. 6 * n - (\<Sum>t<n. rank (fc_pc s t)))"
        using sum_rank_le [of "fc_pc s'" n] by simp
    qed
  qed
qed

theorem factories_progress_witness:
  "\<exists>s'. get_factory_step \<lparr>bs_threshold = (\<lambda>_. 5), bs_reset = (\<lambda>_. 30)\<rparr> (\<lambda>_. REDIS) factories_init s' \<and>
    (\<forall>t \<ge> 3. fc_pc s' t = Check)"
proof -
  have "\<forall>t \<ge> 3. fc_pc factories_init t = Check" "\<forall>f. fc_pc factories_init 0 \<noteq> Returned f"
    by (simp_all add: factories_init_def)
  then show ?thesis
    using factories_progress [OF get_factory_run.initial [of "\<lparr>bs_threshold = (\<lambda>_. 5), bs_reset = (\<lambda>_. 30)\<rparr>" "\<lambda>_. REDIS"],
        of 3 0] by simp
qed

text \<open>A breaker of the library either refuses a call or lets it through.\<close>

definition refuses_or_passes :: "(('s, exn, 'a) act \<Rightarrow> ('s, exn, 'a) act) \<Rightarrow> bool" where
  "refuses_or_passes breaker \<longleftrightarrow> (\<forall>f s. breaker f s = s_raise opened_state s \<or> breaker f s = f s)"

definition never_open :: "string \<Rightarrow> 'm registry_scheme \<Rightarrow> bool" where
  "never_open name r \<longleftrightarrow> state_of r name \<noteq> ''open'' \<and> metric_value r ''circuit_breaker_state'' [name] \<noteq> 2"

lemma never_open_success: "never_open name r \<Longrightarrow> never_open name (log_circuit_success name r)"
  by (simp add: never_open_def log_circuit_success_def record_circuit_breaker_state_def state_of_def Let_def
      record_circuit_breaker_success_def metric_inc_def metric_set_def metric_value_def lower_def lower_char_def
      is_upper_def ordc_def)

lemma never_open_failure: "never_open name r \<Longrightarrow> never_open name (log_circuit_failure name r)"
  by (simp add: never_open_def log_circuit_failure_def record_circuit_breaker_failure_def state_of_def
      metric_inc_def metric_set_def metric_value_def)

text \<open>The registry never learns that a circuit has opened: the refusal of the breaker is raised
  before the \<open>try\<close> block that would log it, so that a call through an observed breaker never moves
  the logged state or the gauge of the circuit to open, whether it is refused, fails or succeeds.\<close>

theorem open_circuit_unobserved:
  fixes func :: "('m registry_scheme, exn, 'a) act"
  assumes "refuses_or_passes breaker" "keeps (never_open name) func"
    and "\<And>s e. snd (func s) = Inl e \<Longrightarrow> \<not> isinst ext (exn_class e) [Lib ''purgatory.domain.model.OpenedState'']"
  shows "keeps (never_open name) (observable_circuit_breaker ext breaker name func)"
  unfolding keeps_def
proof (intro allI impI)
  fix s :: "'m registry_scheme"
  assume s: "never_open name s"
  have kept: "never_open name (fst (func s))" using assms(2) s by (rule keepsD)
  let ?body = "s_catch (s_bind func (\<lambda>r. s_bind (s_modify (log_circuit_success name)) (\<lambda>_. s_ret r)))
       (\<lambda>e. if isinst ext (exn_class e) [Lib ''purgatory.domain.model.OpenedState''] then
              s_bind (s_modify (log_circuit_open name)) (\<lambda>_. s_raise e)
            else if is_exception ext e then
              s_bind (s_modify (log_circuit_failure name)) (\<lambda>_. s_raise e)
            else s_raise e)"
  have "never_open name (fst (?body s))"
    using kept assms(3) [of s] never_open_success [OF kept] never_open_failure [OF kept]
    by (cases "func s") (auto simp: act_simps split: sum.splits)
  moreover have "observable_circuit_breaker ext breaker name func s = s_raise opened_state s \<or>
      observable_circuit_breaker ext breaker name func s = ?body s"
    using assms(1) by (simp add: refuses_or_passes_def observable_circuit_breaker_def)
  ultimately show "never_open name (fst (observable_circuit_breaker ext breaker name func s))"
    using s by (auto simp: s_raise_def)
qed

theorem one_factory_per_type_witness:
  "\<exists>s. get_factory_run \<lparr>bs_threshold = (\<lambda>_. 5), bs_reset = (\<lambda>_. 30)\<rparr> (\<lambda>_. REDIS) s \<and> fc_pc s 1 = Returned 0 \<and>
    fc_pc s 2 = AcquireLock \<and> fa_threshold (snd (fc_created s ! 0)) = 5 \<and> fa_ttl (snd (fc_created s ! 0)) \<le> 36"
proof -
  let ?c = "\<lparr>bs_threshold = (\<lambda>_::cb_type. 5), bs_reset = (\<lambda>_. 30)\<rparr>" and ?w = "\<lambda>_::nat. REDIS"
  let ?s1 = "goto 1 AcquireLock factories_init"
  let ?s2 = "goto 2 AcquireLock ?s1"
  let ?s3 = "goto 1 Recheck (?s2\<lparr>fc_lock := Some 1\<rparr>)"
  let ?s4 = "goto 1 Create ?s3"
  let ?s5 = "goto 1 ReleaseLock (create_factory ?c 0 REDIS ?s4)"
  let ?s6 = "goto 1 ReadFactory (?s5\<lparr>fc_lock := None\<rparr>)"
  let ?s7 = "goto 1 (Returned 0) ?s6"
  note simps = goto_def factories_init_def dict_has_def create_factory_def get_config_def jitter_factor_def
  have "get_factory_run ?c ?w factories_init" by (rule get_factory_run.initial)
  then have "get_factory_run ?c ?w ?s1"
    by (rule get_factory_run.step) (rule get_factory_step.check_absent, simp_all add: simps)
  then have "get_factory_run ?c ?w ?s2"
    by (rule get_factory_run.step) (rule get_factory_step.check_absent, simp_all add: simps)
  then have "get_factory_run ?c ?w ?s3"
    by (rule get_factory_run.step) (rule get_factory_step.lock_free, simp_all add: simps)
  then have "get_factory_run ?c ?w ?s4"
    by (rule get_factory_run.step) (rule get_factory_step.recheck_absent, simp_all add: simps)
  then have "get_factory_run ?c ?w ?s5"
    by (rule get_factory_run.step) (rule get_factory_step.creating, simp_all add: simps)
  then have "get_factory_run ?c ?w ?s6"
    by (rule get_factory_run.step) (rule get_factory_step.unlocking, simp_all add: simps)
  then have run: "get_factory_run ?c ?w ?s7"
    by (rule get_factory_run.step) (rule get_factory_step.reading, simp_all add: simps)
  have pc: "fc_pc ?s7 1 = Returned 0" "fc_pc ?s7 2 = AcquireLock" by (simp_all add: simps)
  have "fa_threshold (snd (fc_created ?s7 ! 0)) = 5 \<and> fa_ttl (snd (fc_created ?s7 ! 0)) \<le> 36"
    using one_factory_per_type [OF run] pc(1) by simp
  then show ?thesis using run pc by blast
qed

theorem open_circuit_unobserved_witness:
  "snd (observable_circuit_breaker (\<lambda>_. []) (\<lambda>f. s_raise opened_state) ''external'' (s_ret ())
      \<lparr>pm_values = [], pm_observed = [], cr_states = []\<rparr>) = Inl opened_state \<and>
   state_of (fst (observable_circuit_breaker (\<lambda>_. []) (\<lambda>f. s_raise opened_state) ''external'' (s_ret ())
      \<lparr>pm_values = [], pm_observed = [], cr_states = []\<rparr>)) ''external'' \<noteq> ''open''"
proof
  show "snd (observable_circuit_breaker (\<lambda>_. []) (\<lambda>f. s_raise opened_state) ''external'' (s_ret ())
      \<lparr>pm_values = [], pm_observed = [], cr_states = []\<rparr>) = Inl opened_state"
    by (simp add: observable_circuit_breaker_def s_raise_def)
  have b: "refuses_or_passes (\<lambda>f. s_raise opened_state)" by (simp add: refuses_or_passes_def)
  have k: "keeps (never_open ''external'') (s_ret ())" by (rule keeps_ret)
  have "never_open ''external'' (\<lparr>pm_values = [], pm_observed = [], cr_states = []\<rparr> :: registry)"
    by (simp add: never_open_def state_of_def metric_value_def)
  then show "state_of (fst (observable_circuit_breaker (\<lambda>_. []) (\<lambda>f. s_raise opened_state) ''external'' (s_ret ())
      \<lparr>pm_values = [], pm_observed = [], cr_states = []\<rparr>)) ''external'' \<noteq> ''open''"
    using keepsD [OF open_circuit_unobserved [OF b k, of "\<lambda>_. []"]] by (auto simp: s_ret_def never_open_def)
qed

end
