(* ===== verification/Settings.thy ===== *)
theory Settings
  imports PyExceptions
begin

section \<open>Settings\<close>

text \<open>
  \<open>core/conf/settings.py\<close>: every group of settings with its defaults, and every validator.  Reading the environment is pydantic's work: a validator that runs before
  it gets the dictionary of what was set, one that runs after it the settings.  The builders of
  URLs and Python's \<open>int\<close> on a value of any type are parameters.
\<close>

datatype app_environment = Local | Dev | Prod

record app_settings =
  ap_name :: string
  ap_version :: string
  ap_environment :: app_environment
  ap_log_level :: string
  ap_logger_name :: string
  ap_json_logs :: bool
  ap_include_trace_context :: bool
  ap_cors_origins :: "string list"
  ap_cors_allow_methods :: "string list"
  ap_cors_allow_headers :: "string list"
  ap_max_concurrent_requests :: int

definition app_defaults :: app_settings where
  "app_defaults =
     \<lparr>ap_name = ''Kinonee API'', ap_version = ''1.0.0'', ap_environment = Local, ap_log_level = ''INFO'',
      ap_logger_name = ''kinonee'', ap_json_logs = False, ap_include_trace_context = False,
      ap_cors_origins = [''http://localhost'', ''http://localhost:3000'', ''http://localhost:5173''],
      ap_cors_allow_methods = [''GET'', ''POST'', ''PUT'', ''PATCH'', ''DELETE'', ''OPTIONS''],
      ap_cors_allow_headers =
        [''Authorization'', ''Content-Type'', ''Accept'', ''Origin'', ''X-Requested-With'', ''X-Request-ID''],
      ap_max_concurrent_requests = 100\<rparr>"

record admin_conf =
  ad_email :: string
  ad_password :: string
  ad_allowed_ips :: "string list"
  ad_session_secret :: string
  ad_session_timeout_minutes :: int
  ad_mfa_enabled :: bool
  ad_mfa_secret :: string
  ad_mfa_issuer_name :: string
  ad_mfa_token_validity_seconds :: int

definition admin_defaults :: "string \<Rightarrow> string \<Rightarrow> admin_conf" where
  \<comment> \<open>\<open>ADMIN_PASSWORD\<close> has no default; \<open>secret\<close> is the generated \<open>SECRET_KEY_64\<close>\<close>
  "admin_defaults password secret =
     \<lparr>ad_email = ''admin@example.com'', ad_password = password,
      ad_allowed_ips = [''127.0.0.1'', ''::1'', ''192.168.65.1'', ''172.17.0.1'', ''10.0.0.1''],
      ad_session_secret = secret, ad_session_timeout_minutes = 30, ad_mfa_enabled = False, ad_mfa_secret = [],
      ad_mfa_issuer_name = ''Kinonee Admin'', ad_mfa_token_validity_seconds = 30\<rparr>"

record rate_limit_conf =
  rl_requests_per_minute :: int
  rl_enabled :: bool
  rl_trusted_proxy_cidrs :: "string list"

definition rate_limit_defaults :: rate_limit_conf where
  "rate_limit_defaults =
     \<lparr>rl_requests_per_minute = 60, rl_enabled = True,
      rl_trusted_proxy_cidrs = [''127.0.0.0/8'', ''::1/128'', ''172.17.0.0/16'', ''172.18.0.0/16'', ''172.19.0.0/16'']\<rparr>"

record profiling_conf =
  pf_enabled :: bool
  pf_sample_rate :: real
  pf_require_header :: bool
  pf_header_token :: string
  pf_endpoints :: "string list"
  pf_retention_days :: int
  pf_interval_ms :: real

definition profiling_defaults :: profiling_conf where
  "profiling_defaults =
     \<lparr>pf_enabled = False, pf_sample_rate = 1 / 1000, pf_require_header = False, pf_header_token = [],
      pf_endpoints = [], pf_retention_days = 7, pf_interval_ms = 1\<rparr>"

record timeout_conf =
  tc_uow_context :: real
  tc_repository :: real
  tc_transaction :: real
  tc_session_close :: real
  tc_shutdown :: real
  tc_asyncpg_cleanup_delay :: real
  tc_request :: real

definition timeout_defaults :: timeout_conf where
  "timeout_defaults =
     \<lparr>tc_uow_context = 7, tc_repository = 8, tc_transaction = 10, tc_session_close = 3, tc_shutdown = 10,
      tc_asyncpg_cleanup_delay = 1 / 2, tc_request = 30\<rparr>"

text \<open>The database and Redis settings extend those of the application.  \<open>SECRET_KEY_32\<close> and
  \<open>SECRET_KEY_64\<close>, which the process generates when it starts, are arguments of the defaults.\<close>

record pg_settings = app_settings +
  pg_engine :: string
  pg_user :: string
  pg_password :: string
  pg_db :: string
  pg_host :: string
  pg_port :: int
  pg_database_url :: string
  pg_pool_size :: int
  pg_max_overflow :: int
  pg_pool_timeout :: int
  pg_pool_recycle :: int
  pg_failure_threshold :: int
  pg_reset_timeout :: int

definition pg_defaults :: pg_settings where
  "pg_defaults = app_settings.extend app_defaults
     (pg_settings.fields ''postgresql+asyncpg'' ''kinonee_user'' ''kinonee_password'' ''kinonee_db'' ''localhost'' 5432 []
        10 20 30 1800 20 10)"

record redis_settings = app_settings +
  rd_host :: string
  rd_port :: int
  rd_user :: string
  rd_password :: string
  rd_db :: int
  rd_url :: string
  rd_failure_threshold :: int
  rd_reset_timeout :: int

definition redis_defaults :: redis_settings where
  "redis_defaults = app_settings.extend app_defaults (redis_settings.fields ''localhost'' 6379 [] [] 0 [] 10 30)"

record api_conf =
  api_v1_prefix :: string
  api_key :: string
  api_secret :: string
  api_internal_call_key :: string

definition api_defaults :: "string \<Rightarrow> api_conf" where
  "api_defaults key32 =
     \<lparr>api_v1_prefix = ''/api/v1'', api_key = key32, api_secret = key32, api_internal_call_key = key32\<rparr>"

record jwt_conf =
  jw_secret :: string
  jw_algorithm :: string
  jw_expire_minutes :: int
  jw_refresh_expire_days :: int
  jw_audience :: string
  jw_issuer :: string
  jw_refresh_rotation :: bool
  jw_refresh_cleanup_days :: int

definition jwt_defaults :: "string \<Rightarrow> jwt_conf" where
  "jwt_defaults key64 =
     \<lparr>jw_secret = key64, jw_algorithm = ''HS256'', jw_expire_minutes = 15, jw_refresh_expire_days = 30,
      jw_audience = ''kinonee-frontend'', jw_issuer = ''kinonee-api'', jw_refresh_rotation = True,
      jw_refresh_cleanup_days = 90\<rparr>"

record google_conf =
  go_client_id :: string
  go_client_secret :: string
  go_redirect_uri :: string

definition google_defaults :: "string \<Rightarrow> google_conf" where
  "google_defaults key32 =
     \<lparr>go_client_id = key32, go_client_secret = key32,
      go_redirect_uri = ''http://localhost:8000/auth/google/callback''\<rparr>"

record cache_conf =
  ca_user_ttl_minutes :: int

definition cache_defaults :: cache_conf where
  "cache_defaults = \<lparr>ca_user_ttl_minutes = 30\<rparr>"

record external_api_conf =
  xa_failure_threshold :: int
  xa_reset_timeout :: int

definition external_api_defaults :: external_api_conf where
  "external_api_defaults = \<lparr>xa_failure_threshold = 5, xa_reset_timeout = 60\<rparr>"

record metrics_conf =
  mc_enabled :: bool
  mc_endpoint :: string
  mc_exclude_paths :: "string list"

definition metrics_defaults :: metrics_conf where
  "metrics_defaults =
     \<lparr>mc_enabled = False, mc_endpoint = ''/metrics'',
      mc_exclude_paths = [''/health'', ''/metrics'', ''/ready'', ''/live'']\<rparr>"

record tracing_conf =
  tr_enabled :: bool
  tr_endpoint :: string
  tr_service_name :: string
  tr_sampler :: string
  tr_sampler_arg :: real
  tr_insecure :: bool

definition tracing_defaults :: tracing_conf where
  "tracing_defaults =
     \<lparr>tr_enabled = False, tr_endpoint = [], tr_service_name = [], tr_sampler = ''parentbased_traceidratio'',
      tr_sampler_arg = 1 / 10, tr_insecure = True\<rparr>"

record settings =
  st_app :: app_settings
  st_database :: pg_settings
  st_api :: api_conf
  st_jwt :: jwt_conf
  st_google :: google_conf
  st_cache :: cache_conf
  st_redis :: redis_settings
  st_rate_limit :: rate_limit_conf
  st_external_api :: external_api_conf
  st_admin :: admin_conf
  st_profiling :: profiling_conf
  st_metrics :: metrics_conf
  st_tracing :: tracing_conf
  st_timeouts :: timeout_conf

text \<open>The file of settings for the stage, and the keys the process generates: \<open>pick i n\<close> is the
  \<open>i\<close>-th random choice among \<open>n\<close>.\<close>

definition env_file_name :: "string option \<Rightarrow> string" where
  "env_file_name env_stage =
     (case env_stage of
        None \<Rightarrow> ''.env.local''
      | Some stage \<Rightarrow> (case map_of [(''local'', ''.env.local''), (''dev'', ''.env.dev''), (''prod'', ''.env.prod'')] stage of
          Some f \<Rightarrow> f | None \<Rightarrow> ''.env.local''))"

definition ascii_alphanumeric :: string where
  "ascii_alphanumeric = ''abcdefghijklmnopqrstuvwxyzABCDEFGHIJKLMNOPQRSTUVWXYZ0123456789''"

definition generate_aes_key :: "(nat \<Rightarrow> nat \<Rightarrow> nat) \<Rightarrow> nat \<Rightarrow> string" where
  "generate_aes_key pick n = map (\<lambda>i. ascii_alphanumeric ! pick i (length ascii_alphanumeric)) [0..<n]"

subsection \<open>Validators that run before\<close>

definition set_json_logs_default :: "string option \<Rightarrow> (string \<times> pyval) list \<Rightarrow> (string \<times> pyval) list" where
  \<comment> \<open>\<open>env\<close> is \<open>os.getenv("ENVIRONMENT")\<close>\<close>
  "set_json_logs_default env data =
     (if dict_has data ''JSON_LOGS'' then data
      else
        let environment =
          (case dict_get data ''ENVIRONMENT'' of
             Some v \<Rightarrow> v
           | None \<Rightarrow> PStr (case env of Some e \<Rightarrow> e | None \<Rightarrow> ''local''))
        in dict_set ''JSON_LOGS'' (PBool (environment = PStr ''prod'')) data)"

definition set_default :: "string \<Rightarrow> pyval \<Rightarrow> (string \<times> pyval) list \<Rightarrow> (string \<times> pyval) list" where
  \<comment> \<open>\<open>data.setdefault(k, v)\<close>\<close>
  "set_default k v data = (if dict_has data k then data else dict_set k v data)"

definition item :: "(string \<times> pyval) list \<Rightarrow> string \<Rightarrow> pyval" where
  "item data k = (case dict_get data k of Some v \<Rightarrow> v | None \<Rightarrow> PNone)"

record dsn =
  dn_scheme :: pyval
  dn_username :: pyval
  dn_password :: pyval
  dn_host :: pyval
  dn_port :: int
  dn_path :: pyval

definition validate_postgres_dsn ::
  "(pyval \<Rightarrow> exn + int) \<Rightarrow> (dsn \<Rightarrow> exn + string) \<Rightarrow> (string \<times> pyval) list \<Rightarrow> exn + (string \<times> pyval) list" where
  "validate_postgres_dsn to_int build data =
     (if truthy (item data ''DATABASE_URL'') then Inr data
      else
        let host = (case dict_get data ''POSTGRES_HOST'' of Some h \<Rightarrow> h | None \<Rightarrow> PStr ''localhost'');
            d1 = set_default ''POSTGRES_ENGINE'' (PStr ''postgresql+asyncpg'') data;
            d2 = set_default ''POSTGRES_USER'' (PStr ''kinonee_user'') d1;
            d3 = set_default ''POSTGRES_PASSWORD'' (PStr ''kinonee_password'') d2;
            d4 = set_default ''POSTGRES_PORT'' (PInt 5432) d3
        in bind_res (to_int (item d4 ''POSTGRES_PORT'')) (\<lambda>port.
           let d5 = set_default ''POSTGRES_DB'' (PStr ''kinonee_db'') d4 in
           bind_res (build \<lparr>dn_scheme = item d5 ''POSTGRES_ENGINE'', dn_username = item d5 ''POSTGRES_USER'',
               dn_password = item d5 ''POSTGRES_PASSWORD'', dn_host = host, dn_port = port,
               dn_path = item d5 ''POSTGRES_DB''\<rparr>) (\<lambda>built_uri.
           Inr (dict_set ''DATABASE_URL'' (PStr built_uri) d5))))"

definition or_none :: "pyval \<Rightarrow> pyval" where
  "or_none v = (if truthy v then v else PNone)"

definition validate_redis_url ::
  "(pyval \<Rightarrow> string) \<Rightarrow> (pyval \<Rightarrow> exn + int) \<Rightarrow> (dsn \<Rightarrow> exn + string) \<Rightarrow> (string \<times> pyval) list \<Rightarrow>
   exn + (string \<times> pyval) list" where
  "validate_redis_url to_str to_int build data =
     (if truthy (item data ''REDIS_URL'') then Inr data
      else
        let d1 = set_default ''ENVIRONMENT'' (PStr ''local'') data;
            scheme = (if item d1 ''ENVIRONMENT'' \<noteq> PStr ''prod'' then ''redis'' else ''rediss'');
            d2 = set_default ''REDIS_HOST'' (PStr ''redis'') d1;
            d3 = set_default ''REDIS_PORT'' (PInt 6379) d2
        in bind_res (to_int (item d3 ''REDIS_PORT'')) (\<lambda>port.
           let d4 = set_default ''REDIS_USER'' (PStr []) d3;
               d5 = set_default ''REDIS_PASSWORD'' (PStr []) d4;
               d6 = set_default ''REDIS_DB'' (PInt 0) d5
           in bind_res (build \<lparr>dn_scheme = PStr scheme, dn_username = or_none (item d6 ''REDIS_USER''),
               dn_password = or_none (item d6 ''REDIS_PASSWORD''), dn_host = item d6 ''REDIS_HOST'', dn_port = port,
               dn_path = PStr (to_str (item d6 ''REDIS_DB''))\<rparr>) (\<lambda>built_uri.
           Inr (dict_set ''REDIS_URL'' (PStr built_uri) d6))))"

subsection \<open>Validators that run after\<close>

definition value_error :: "string \<Rightarrow> exn" where
  "value_error msg = EOther (Builtin ValueErrorC) msg"

definition validate_jwt_secret :: "string option \<Rightarrow> settings \<Rightarrow> exn + settings" where
  \<comment> \<open>\<open>env\<close> is \<open>os.getenv("JWT_SECRET")\<close>\<close>
  "validate_jwt_secret env s =
     (if ap_environment (st_app s) = Prod \<and> \<not> given env
      then Inl (value_error (''JWT_SECRET must be explicitly set in production environment. '' @
        ''Auto-generated secrets invalidate all tokens on restart.''))
      else Inr s)"

definition special_characters :: "string" where
  "special_characters = ''!@#$%^&*(),.?'' @ [CHR 0x22] @ '':{}|<>_-+=[]'' @ [CHR 0x5C] @ ''/;~'' @ [CHR 0x60]"

definition weak_passwords :: "string list" where
  "weak_passwords = [''admin123'', ''password123'', ''Admin123456'', ''Password1234!'']"

definition validate_admin_password :: "settings \<Rightarrow> exn + settings" where
  "validate_admin_password s =
     (if ap_environment (st_app s) \<noteq> Prod then Inr s
      else
        let password = ad_password (st_admin s) in
        if length password < 16
        then Inl (value_error ''Admin password must be at least 16 characters long for production'')
        else if \<not> (list_ex is_upper password \<and> list_ex is_lower password \<and> list_ex is_digit password \<and>
            list_ex (\<lambda>c. c \<in> set special_characters) password)
        then Inl (value_error (''Admin password must contain at least one uppercase letter, '' @
          ''one lowercase letter, one digit, and one special character''))
        else if password \<in> set weak_passwords
        then Inl (value_error ''Admin password is too weak - please use a stronger password'')
        else Inr s)"

definition validate_mfa_settings :: "settings \<Rightarrow> exn + settings" where
  "validate_mfa_settings s =
     (if ap_environment (st_app s) = Prod \<and> \<not> ad_mfa_enabled (st_admin s)
      then Inl (value_error (''MFA must be enabled in production for admin panel. '' @
        ''Set ADMIN_MFA_ENABLED=true and configure ADMIN_MFA_SECRET.''))
      else if ad_mfa_enabled (st_admin s) \<and> ad_mfa_secret (st_admin s) = []
      then Inl (value_error (''ADMIN_MFA_SECRET must be set when MFA is enabled. Generate with: python -c '' @
        quoted ''import pyotp; print(pyotp.random_base32())''))
      else Inr s)"

definition validate_cors_origins :: "settings \<Rightarrow> exn + settings" where
  "validate_cors_origins s =
     (if ap_cors_origins (st_app s) = [] \<and> ap_environment (st_app s) = Prod
      then Inl (value_error ''CORS_ORIGINS not set - using default origins'')
      else Inr s)"

definition dev_only_defaults :: "string list" where
  "dev_only_defaults = [''127.0.0.0/8'', ''::1/128'', ''172.17.0.0/16'', ''172.18.0.0/16'', ''172.19.0.0/16'']"

definition overly_broad_cidrs :: "string list" where
  "overly_broad_cidrs = [''10.0.0.0/8'', ''192.168.0.0/16'', ''172.16.0.0/12'']"

definition validate_trusted_proxy_cidrs :: "(string set \<Rightarrow> string) \<Rightarrow> settings \<Rightarrow> exn + settings" where
  \<comment> \<open>\<open>show\<close> is the text of a set of strings\<close>
  "validate_trusted_proxy_cidrs show s =
     (if ap_environment (st_app s) \<noteq> Prod then Inr s
      else
        let configured_cidrs = set (rl_trusted_proxy_cidrs (st_rate_limit s));
            found_broad = configured_cidrs \<inter> set overly_broad_cidrs in
        if configured_cidrs \<subseteq> set dev_only_defaults
        then Inl (value_error (''TRUSTED_PROXY_CIDRS must be explicitly configured for production. '' @
          ''Default CIDRs only include localhost and Docker networks. '' @
          ''Configure your specific infrastructure CIDRs (AWS ALB, Cloudflare, etc.) '' @
          ''to prevent X-Forwarded-For header spoofing attacks. '' @
          ''Example: TRUSTED_PROXY_CIDRS=['' @ [CHR 0x22] @ ''10.0.0.0/16'' @ [CHR 0x22] @ ''] for AWS VPC.''))
        else if found_broad \<noteq> {}
        then Inl (value_error (''Overly broad CIDRs not allowed in production: '' @ show found_broad @
          ''. These ranges allow any host on the network to spoof X-Forwarded-For headers. '' @
          ''Use specific subnet CIDRs instead (e.g., '' @ quoted ''10.0.1.0/24'' @ '' for ALB subnet, not '' @
          quoted ''10.0.0.0/8'' @ '' for entire private network).''))
        else Inr s)"

definition validate_settings :: "string option \<Rightarrow> (string set \<Rightarrow> string) \<Rightarrow> settings \<Rightarrow> exn + settings" where
  \<comment> \<open>in the order of their declaration\<close>
  "validate_settings jwt_env show s =
     bind_res (validate_jwt_secret jwt_env s) (\<lambda>s.
     bind_res (validate_admin_password s) (\<lambda>s.
     bind_res (validate_mfa_settings s) (\<lambda>s.
     bind_res (validate_cors_origins s) (\<lambda>s. validate_trusted_proxy_cidrs show s))))"

subsection \<open>Lemmas\<close>

definition strong_password :: "string \<Rightarrow> bool" where
  "strong_password p \<longleftrightarrow> 16 \<le> length p \<and> (\<exists>c \<in> set p. is_upper c) \<and> (\<exists>c \<in> set p. is_lower c) \<and>
     (\<exists>c \<in> set p. is_digit c) \<and> (\<exists>c \<in> set p. c \<in> set special_characters)"

lemma weak_passwords_short: "p \<in> set weak_passwords \<Longrightarrow> length p < 16"
  by (auto simp: weak_passwords_def)

lemma admin_password_ok:
  "validate_admin_password s = Inr r \<longleftrightarrow>
    r = s \<and> (ap_environment (st_app s) = Prod \<longrightarrow> strong_password (ad_password (st_admin s)))"
  using weak_passwords_short [of "ad_password (st_admin s)"]
  by (auto simp: validate_admin_password_def strong_password_def Let_def list_ex_iff)

lemma valid_settings_iff:
  "validate_settings jwt_env show s = Inr r \<longleftrightarrow>
    r = s \<and> (ad_mfa_enabled (st_admin s) \<longrightarrow> ad_mfa_secret (st_admin s) \<noteq> []) \<and>
    (ap_environment (st_app s) = Prod \<longrightarrow>
       given jwt_env \<and> strong_password (ad_password (st_admin s)) \<and> ad_mfa_enabled (st_admin s) \<and>
       ap_cors_origins (st_app s) \<noteq> [] \<and>
       \<not> set (rl_trusted_proxy_cidrs (st_rate_limit s)) \<subseteq> set dev_only_defaults \<and>
       set (rl_trusted_proxy_cidrs (st_rate_limit s)) \<inter> set overly_broad_cidrs = {})"
proof -
  have jwt: "validate_jwt_secret jwt_env s = Inr r \<longleftrightarrow> r = s \<and> (ap_environment (st_app s) = Prod \<longrightarrow> given jwt_env)" for r
    by (auto simp: validate_jwt_secret_def)
  have mfa: "validate_mfa_settings s = Inr r \<longleftrightarrow> r = s \<and>
      (ap_environment (st_app s) = Prod \<longrightarrow> ad_mfa_enabled (st_admin s)) \<and>
      (ad_mfa_enabled (st_admin s) \<longrightarrow> ad_mfa_secret (st_admin s) \<noteq> [])" for r
    by (auto simp: validate_mfa_settings_def)
  have cors: "validate_cors_origins s = Inr r \<longleftrightarrow> r = s \<and>
      (ap_environment (st_app s) = Prod \<longrightarrow> ap_cors_origins (st_app s) \<noteq> [])" for r
    by (auto simp: validate_cors_origins_def)
  have proxies: "validate_trusted_proxy_cidrs show s = Inr r \<longleftrightarrow> r = s \<and>
      (ap_environment (st_app s) = Prod \<longrightarrow> \<not> set (rl_trusted_proxy_cidrs (st_rate_limit s)) \<subseteq> set dev_only_defaults \<and>
       set (rl_trusted_proxy_cidrs (st_rate_limit s)) \<inter> set overly_broad_cidrs = {})" for r
    by (auto simp: validate_trusted_proxy_cidrs_def Let_def)
  show ?thesis
    unfolding validate_settings_def bind_res_Inr jwt admin_password_ok by (auto simp: jwt mfa cors proxies)
qed


definition sample_production :: "string list \<Rightarrow> settings" where
  "sample_production cidrs =
     \<lparr>st_app = app_defaults\<lparr>ap_environment := Prod\<rparr>, st_database = pg_defaults, st_api = api_defaults ''key32'',
      st_jwt = jwt_defaults ''key64'', st_google = google_defaults ''key32'', st_cache = cache_defaults,
      st_redis = redis_defaults,
      st_rate_limit = rate_limit_defaults\<lparr>rl_trusted_proxy_cidrs := cidrs\<rparr>,
      st_external_api = external_api_defaults,
      st_admin = (admin_defaults ''Correct-Horse-42'' ''secret'')\<lparr>ad_mfa_enabled := True, ad_mfa_secret := ''JBSWY3DP''\<rparr>,
      st_profiling = profiling_defaults, st_metrics = metrics_defaults,
      st_tracing = tracing_defaults, st_timeouts = timeout_defaults\<rparr>"

lemma sample_password_strong: "strong_password ''Correct-Horse-42''"
  by code_simp

lemma sample_production_fields [simp]:
  "ap_environment (st_app (sample_production cidrs)) = Prod"
  "ap_cors_origins (st_app (sample_production cidrs)) \<noteq> []"
  "rl_trusted_proxy_cidrs (st_rate_limit (sample_production cidrs)) = cidrs"
  "ad_mfa_enabled (st_admin (sample_production cidrs))"
  "ad_mfa_secret (st_admin (sample_production cidrs)) \<noteq> []"
  "strong_password (ad_password (st_admin (sample_production cidrs)))"
  by (simp_all add: sample_production_def app_defaults_def admin_defaults_def sample_password_strong)


end
