(* ===== verification/Dtos.thy ===== *)
theory Dtos
  imports Repository Metrics
begin

section \<open>Request and response objects of the API\<close>

text \<open>
  \<open>core/api/dtos\<close>: the aliases, the envelope of responses, the errors, the pagination objects and
  the constraints of the fields.  That pydantic enforces a constraint is not modelled: a predicate
  says which values satisfy it.
\<close>

subsection \<open>Aliases\<close>

definition upper_char :: "char \<Rightarrow> char" where
  "upper_char c = (if is_lower c then char_of (ordc c - 32) else c)"

fun title :: "bool \<Rightarrow> string \<Rightarrow> string" where
  \<comment> \<open>\<open>str.title\<close> on ASCII text; \<open>after\<close> says whether a letter precedes\<close>
  "title after [] = []"
| "title after (c # cs) =
     (if is_lower c \<or> is_upper c then (if after then lower_char c else upper_char c) # title True cs
      else c # title False cs)"

definition to_camel :: "string \<Rightarrow> string" where
  "to_camel s =
     (let components = split_on CHR ''_'' s in hd components @ concat (map (title False) (tl components)))"

subsection \<open>The envelope\<close>

record 'd response_model =
  rm_success :: bool
  rm_data :: "'d option"
  rm_meta :: "(string \<times> pyval) list option"
  rm_message :: "string option"

definition response_ok :: "'d option \<Rightarrow> (string \<times> pyval) list option \<Rightarrow> string option \<Rightarrow> 'd response_model" where
  "response_ok data meta message = \<lparr>rm_success = True, rm_data = data, rm_meta = meta, rm_message = message\<rparr>"

definition response_error :: "string \<Rightarrow> 'd option \<Rightarrow> (string \<times> pyval) list option \<Rightarrow> 'd response_model" where
  "response_error message data meta = \<lparr>rm_success = False, rm_data = data, rm_meta = meta, rm_message = Some message\<rparr>"

subsection \<open>Errors\<close>

record error_info =
  ei_code :: string
  ei_message :: string
  ei_target :: "string option"
  ei_context :: "(string \<times> pyval) list option"

record field_error =
  fe_field :: string
  fe_message :: string
  fe_code :: string
  fe_value :: pyval

record error_response =
  er_success :: bool
  er_error :: error_info
  er_timestamp :: real
  er_request_id :: "string option"
  er_path :: "string option"

definition error_create ::
  "real \<Rightarrow> string \<Rightarrow> string \<Rightarrow> string option \<Rightarrow> (string \<times> pyval) list option \<Rightarrow> string option \<Rightarrow> string option \<Rightarrow>
   error_response" where
  "error_create now error_code message target context request_id path =
     \<lparr>er_success = False,
      er_error = \<lparr>ei_code = error_code, ei_message = message, ei_target = target, ei_context = context\<rparr>,
      er_timestamp = now, er_request_id = request_id, er_path = path\<rparr>"

definition field_error_dump :: "field_error \<Rightarrow> pyval" where
  "field_error_dump e =
     PDict [(''field'', PStr (fe_field e)), (''message'', PStr (fe_message e)), (''code'', PStr (fe_code e)),
            (''value'', fe_value e)]"

definition error_validation :: "real \<Rightarrow> field_error list \<Rightarrow> string \<Rightarrow> string option \<Rightarrow> string option \<Rightarrow> error_response" where
  "error_validation now errors message request_id path =
     \<lparr>er_success = False,
      er_error = \<lparr>ei_code = ''VALIDATION_ERROR'', ei_message = message, ei_target = None,
        ei_context = Some [(''errors'', PList (map field_error_dump errors))]\<rparr>,
      er_timestamp = now, er_request_id = request_id, er_path = path\<rparr>"

definition error_not_found :: "real \<Rightarrow> string \<Rightarrow> string option \<Rightarrow> string option \<Rightarrow> string option \<Rightarrow> error_response" where
  "error_not_found now resource identifier request_id path =
     error_create now ''NOT_FOUND''
       (if given identifier then resource @ '' with id '' @ quoted (the identifier) @ '' not found''
        else resource @ '' not found'')
       (Some (lower resource)) None request_id path"

definition error_unauthorized :: "real \<Rightarrow> string \<Rightarrow> string option \<Rightarrow> string option \<Rightarrow> error_response" where
  "error_unauthorized now message request_id path = error_create now ''UNAUTHORIZED'' message None None request_id path"

definition error_forbidden :: "real \<Rightarrow> string \<Rightarrow> string option \<Rightarrow> string option \<Rightarrow> error_response" where
  "error_forbidden now message request_id path = error_create now ''FORBIDDEN'' message None None request_id path"

definition error_internal :: "real \<Rightarrow> string \<Rightarrow> string option \<Rightarrow> string option \<Rightarrow> error_response" where
  "error_internal now message request_id path = error_create now ''INTERNAL_ERROR'' message None None request_id path"

subsection \<open>Constraints of fields\<close>

definition pagination_params_valid :: "int \<Rightarrow> int \<Rightarrow> bool" where
  "pagination_params_valid page_number per_page \<longleftrightarrow> 1 \<le> page_number \<and> 1 \<le> per_page \<and> per_page \<le> 100"

definition cursor_limit_valid :: "int \<Rightarrow> bool" where
  "cursor_limit_valid n \<longleftrightarrow> 1 \<le> n \<and> n \<le> 100"

definition sort_order_valid :: "string \<Rightarrow> bool" where
  "sort_order_valid s \<longleftrightarrow> s = ''asc'' \<or> s = ''desc''"

definition id_valid :: "string \<Rightarrow> bool" where
  "id_valid s \<longleftrightarrow> length s = 36 \<and> uuid_at s"

definition bulk_ids_valid :: "string list \<Rightarrow> bool" where
  "bulk_ids_valid ids \<longleftrightarrow> 1 \<le> length ids \<and> length ids \<le> 100"

definition slug_valid :: "string \<Rightarrow> bool" where
  \<comment> \<open>\<open>^[a-z0-9]+(?:-[a-z0-9]+)*$\<close> and at most 200 characters\<close>
  "slug_valid s \<longleftrightarrow> 1 \<le> length s \<and> length s \<le> 200 \<and>
     list_all (\<lambda>p. p \<noteq> [] \<and> list_all (\<lambda>c. is_lower c \<or> is_digit c) p) (split_on CHR ''-'' s)"

subsection \<open>Pagination\<close>

record pagination_meta =
  pm_page :: int
  pm_per_page :: int
  pm_total :: int
  pm_total_pages :: int
  pm_has_next :: bool
  pm_has_prev :: bool

definition pagination_create :: "int \<Rightarrow> int \<Rightarrow> int \<Rightarrow> pagination_meta" where
  "pagination_create page_number per_page total_items =
     (let total_pages = (if per_page > 0 then (total_items + per_page - 1) div per_page else 0) in
      \<lparr>pm_page = page_number, pm_per_page = per_page, pm_total = total_items, pm_total_pages = total_pages,
       pm_has_next = page_number < total_pages, pm_has_prev = page_number > 1\<rparr>)"

subsection \<open>Properties\<close>

text \<open>The pagination objects of the API agree with the pagination of the repository: the same
  number of pages and the same answers to whether there is a next and a previous page, except that
  an empty result has no page for the one and one page for the other.\<close>

theorem pagination_meta_agrees:
  assumes "1 \<le> page_number" "0 < per_page" "0 \<le> total_items"
  shows "\<exists>n. pages_of total_items per_page = Inr n \<and>
    (pm_has_next (pagination_create page_number per_page total_items) \<longleftrightarrow> page_number < n) \<and>
    pm_total_pages (pagination_create page_number per_page total_items) = (if total_items = 0 then 0 else n) \<and>
    total_items \<le> pm_total_pages (pagination_create page_number per_page total_items) * per_page \<and>
    (pm_has_next (pagination_create page_number per_page total_items) \<longleftrightarrow> page_number * per_page < total_items)"
proof -
  obtain n where n: "pages_of total_items per_page = Inr n" "1 \<le> n" "\<forall>k. 1 \<le> k \<longrightarrow> (k < n \<longleftrightarrow> k * per_page < total_items)"
      "total_items \<le> n * per_page"
    using pages_of_positive [OF assms(2,3)] by blast
  show ?thesis
  proof (cases "total_items = 0")
    case True
    then have "(total_items + per_page - 1) div per_page = 0" using assms(2) by simp
    moreover have "n = 1" using n(1) True by (simp add: pages_of_def)
    ultimately show ?thesis using assms True n(1) by (simp add: pagination_create_def mult_less_0_iff not_less)
  next
    case False
    then have "n = (total_items + per_page - 1) div per_page" using n(1) assms by (simp add: pages_of_def)
    then show ?thesis using assms False n by (simp add: pagination_create_def)
  qed
qed

theorem pagination_meta_agrees_witness:
  "(\<exists>n. pages_of 41 20 = Inr n \<and> pm_total_pages (pagination_create 2 20 41) = n) \<and>
   pm_has_next (pagination_create 2 20 41) \<and> pm_total_pages (pagination_create 1 20 0) = 0"
  using pagination_meta_agrees [of 2 20 41] pagination_meta_agrees [of 1 20 0] by auto


text \<open>The names of the fields: a first word of lower-case letters and digits, and further words of
  lower-case letters that may end in digits.\<close>

definition plain_word :: "string \<Rightarrow> bool" where
  "plain_word w \<longleftrightarrow> list_all (\<lambda>c. is_lower c \<or> is_digit c) w"

definition later_word :: "string \<Rightarrow> bool" where
  "later_word w \<longleftrightarrow> takeWhile is_lower w \<noteq> [] \<and> list_all is_digit (dropWhile is_lower w)"

fun snake_of :: "string \<Rightarrow> string" where
  "snake_of [] = []"
| "snake_of (c # cs) = (if is_upper c then CHR ''_'' # lower_char c # snake_of cs else c # snake_of cs)"

lemma classes_disjoint:
  "is_lower c \<Longrightarrow> \<not> is_upper c" "is_digit c \<Longrightarrow> \<not> is_upper c" "is_digit c \<Longrightarrow> \<not> is_lower c"
  "is_lower c \<Longrightarrow> lower_char c = c"
  by (auto simp: is_lower_def is_upper_def is_digit_def lower_char_def)

lemma upper_char_lower:
  assumes "is_lower c"
  shows "is_upper (upper_char c)" "lower_char (upper_char c) = c"
proof -
  have n: "97 \<le> ordc c" "ordc c \<le> 122" using assms by (auto simp: is_lower_def)
  then have u: "ordc (upper_char c) = ordc c - 32" using assms by (simp add: upper_char_def)
  show up: "is_upper (upper_char c)" using n unfolding is_upper_def u by linarith
  then show "lower_char (upper_char c) = c" using n u by (simp add: lower_char_def ordc_def)
qed

lemma title_digits: "list_all is_digit w \<Longrightarrow> title after w = w"
  by (induction w arbitrary: after) (auto simp: classes_disjoint)

lemma title_lower: "list_all is_lower v \<Longrightarrow> list_all is_digit w \<Longrightarrow> title True (v @ w) = v @ w"
  by (induction v) (auto simp: classes_disjoint title_digits)

lemma snake_of_plain: "list_all (\<lambda>c. \<not> is_upper c) w \<Longrightarrow> snake_of (w @ t) = w @ snake_of t"
  by (induction w) auto

lemma snake_of_title:
  assumes "later_word w"
  shows "snake_of (title False w @ t) = CHR ''_'' # w @ snake_of t"
proof -
  obtain c v where v: "takeWhile is_lower w = c # v" using assms by (cases "takeWhile is_lower w") (auto simp: later_word_def)
  let ?d = "dropWhile is_lower w"
  have w: "w = c # v @ ?d" using v takeWhile_dropWhile_id [of is_lower w] by simp
  have "set (c # v) \<subseteq> {x. is_lower x}" unfolding v [symmetric] by (auto dest: set_takeWhileD)
  then have cv: "is_lower c" "list_all is_lower v" by (auto simp: list_all_iff)
  have d: "list_all is_digit ?d" using assms by (simp add: later_word_def)
  have title: "title False w = upper_char c # v @ ?d"
    by (subst w) (use cv d in \<open>simp add: title_lower\<close>)
  have "list_all (\<lambda>c. \<not> is_upper c) (v @ ?d)" using cv d by (auto simp: list_all_iff classes_disjoint)
  then show ?thesis
    unfolding title using upper_char_lower [OF cv(1)] snake_of_plain [of "v @ ?d" t] w by simp
qed

lemma snake_of_titles:
  "list_all later_word ws \<Longrightarrow> snake_of (concat (map (title False) ws)) = concat (map ((#) CHR ''_'') ws)"
  by (induction ws) (auto simp: snake_of_title)

lemma join_underscore: "join ''_'' (w # ws) = w @ concat (map ((#) CHR ''_'') ws)"
  by (induction ws arbitrary: w) auto

lemma word_no_underscore: "plain_word w \<or> later_word w \<Longrightarrow> CHR ''_'' \<notin> set w"
proof
  assume w: "plain_word w \<or> later_word w" and u: "CHR ''_'' \<in> set w"
  have "\<not> is_lower CHR ''_''" "\<not> is_digit CHR ''_''" by code_simp+
  moreover have "is_lower CHR ''_'' \<or> is_digit CHR ''_''"
    using w
  proof
    assume "plain_word w"
    then show ?thesis using u by (auto simp: plain_word_def list_all_iff)
  next
    assume "later_word w"
    moreover have "CHR ''_'' \<in> set (takeWhile is_lower w) \<union> set (dropWhile is_lower w)"
      using u by (metis set_append takeWhile_dropWhile_id)
    ultimately show ?thesis by (auto simp: later_word_def list_all_iff dest: set_takeWhileD)
  qed
  ultimately show False by blast
qed

text \<open>Aliases are unambiguous: for field names whose words are lower-case letters with digits only
  at the end, the camel-case alias determines the name, so that two such fields never share an
  alias.\<close>

theorem camel_round_trip:
  assumes "plain_word w" "list_all later_word ws"
  shows "snake_of (to_camel (join ''_'' (w # ws))) = join ''_'' (w # ws)"
proof -
  have "split_on CHR ''_'' (join ''_'' (w # ws)) = w # ws"
    using assms word_no_underscore by (intro split_on_join) (auto simp: list_all_iff)
  moreover have "list_all (\<lambda>c. \<not> is_upper c) w" using assms(1) by (auto simp: plain_word_def list_all_iff classes_disjoint)
  ultimately show ?thesis
    using assms(2) by (simp add: to_camel_def snake_of_plain snake_of_titles join_underscore del: join.simps)
qed

theorem camel_round_trip_witness:
  "snake_of (to_camel ''total_pages2'') = ''total_pages2'' \<and> to_camel ''total_pages2'' = ''totalPages2'' \<and>
   to_camel ''user__name'' = to_camel ''user_name''"
proof (intro conjI)
  have "plain_word ''total''" "list_all later_word [''pages2'']" by code_simp+
  moreover have "join ''_'' [''total'', ''pages2''] = ''total_pages2''" by simp
  ultimately show "snake_of (to_camel ''total_pages2'') = ''total_pages2''" using camel_round_trip by metis
  show "to_camel ''total_pages2'' = ''totalPages2''" "to_camel ''user__name'' = to_camel ''user_name''" by code_simp+
qed

end
