(* ===== verification/Scans.thy ===== *)
theory Scans
  imports Idempotency
begin

section \<open>The loops over SCAN return\<close>

text \<open>
  Deleting by pattern (\<open>core/infrastructure/cache/service.py\<close>) and the recovery scans of
  \<open>core/infrastructure/idempotency/service.py\<close> loop until the server returns the cursor 0.  Redis
  documents that an iteration ends if the key space does not keep growing: \<open>scan_ends\<close> says that
  the number of steps an iteration has left goes down at each of them, and is not raised by
  deletions.
\<close>

definition scan_ends :: "'w redis_env \<Rightarrow> (nat \<Rightarrow> 'w \<Rightarrow> nat) \<Rightarrow> bool" where
  "scan_ends R left \<longleftrightarrow>
     (\<forall>cursor pattern n now w w1 cursor' ks.
        rd_scan R cursor pattern n now w = (w1, Inr (cursor', ks)) \<longrightarrow> cursor' \<noteq> 0 \<longrightarrow> left cursor' w1 < left cursor w) \<and>
     (\<forall>cursor ks now w. left cursor (fst (rd_delete R ks now w)) \<le> left cursor w)"

lemma scan_endsD:
  "scan_ends R left \<Longrightarrow> rd_scan R cursor pattern n now w = (w1, Inr (cursor', ks)) \<Longrightarrow> cursor' \<noteq> 0 \<Longrightarrow>
   left cursor' w1 < left cursor w"
  "scan_ends R left \<Longrightarrow> left cursor (fst (rd_delete R ks now w)) \<le> left cursor w"
  unfolding scan_ends_def by blast+

lemma scan_delete_returns:
  assumes "scan_ends R left"
  shows "scan_delete R pattern batch now cursor deleted w \<noteq> None"
proof (induction "left cursor w" arbitrary: cursor deleted w rule: less_induct)
  case less
  show ?case
  proof (cases "rd_scan R cursor pattern batch now w")
    case (Pair w1 r)
    show ?thesis
    proof (cases r)
      case (Inl e)
      show ?thesis by (subst scan_delete.simps, simp only: Pair Inl sum.case prod.case) simp
    next
      case (Inr p)
      obtain cursor' ks where p: "p = (cursor', ks)" by (cases p)
      let ?d = "if ks = [] then (w1, Inr 0) else rd_delete R ks now w1"
      have "left cursor' (fst ?d) \<le> left cursor' w1" using scan_endsD(2) [OF assms] by simp
      then have step: "left cursor' (fst ?d) < left cursor w" if "cursor' \<noteq> 0"
        using scan_endsD(1) [OF assms Pair [unfolded Inr p] that] by simp
      have loop: "scan_delete R pattern batch now cursor deleted w =
          (case ?d of (w2, Inl e) \<Rightarrow> Some (w2, Inl e)
           | (w2, Inr n) \<Rightarrow> if cursor' = 0 then Some (w2, Inr (deleted + n))
               else scan_delete R pattern batch now cursor' (deleted + n) w2)"
        by (subst scan_delete.simps, simp only: Pair Inr p sum.case prod.case)
      obtain w2 x where d: "?d = (w2, x)" by (cases ?d)
      have "cursor' = 0 \<or> scan_delete R pattern batch now cursor' n w2 \<noteq> None" for n
        using less.hyps [of cursor' w2 n] step unfolding d by auto
      then show ?thesis unfolding loop d by (cases x) auto
    qed
  qed
qed

lemma scan_count_returns:
  assumes "scan_ends R left"
  shows "scan_count R pattern now cursor n w \<noteq> None"
proof (induction "left cursor w" arbitrary: cursor n w rule: less_induct)
  case less
  show ?case
  proof (cases "rd_scan R cursor pattern 100 now w")
    case (Pair w1 r)
    then show ?thesis
      using scan_endsD(1) [OF assms] less.hyps
      by (subst scan_count.simps) (auto split: sum.splits)
  qed
qed

lemma delete_some_facts:
  assumes "scan_ends R left"
  shows "delete_some R now m ks cleaned w = (w', e, n) \<Longrightarrow> left cursor w' \<le> left cursor w \<and> cleaned \<le> n \<and> n \<le> max cleaned m"
proof (induction ks arbitrary: cleaned w)
  case Nil
  then show ?case by simp
next
  case (Cons k ks)
  show ?case
  proof (cases "m \<le> cleaned")
    case True
    then show ?thesis using Cons.prems by simp
  next
    case False
    obtain w1 r where d: "rd_delete R [k] now w = (w1, r)" by (cases "rd_delete R [k] now w")
    have le: "left cursor w1 \<le> left cursor w" using scan_endsD(2) [OF assms, of cursor "[k]" now w] d by simp
    show ?thesis
    proof (cases r)
      case (Inl e')
      then show ?thesis using Cons.prems False d le by simp
    next
      case (Inr x)
      then have "delete_some R now m ks (cleaned + 1) w1 = (w', e, n)" using Cons.prems False d by simp
      then show ?thesis using Cons.IH le False by fastforce
    qed
  qed
qed

lemma cleanup_loop_returns:
  assumes "scan_ends R left"
  shows "\<exists>w' e n. cleanup_loop R pattern now m cursor cleaned w = Some (w', e, n) \<and> cleaned \<le> n \<and> n \<le> max cleaned m"
proof (induction "left cursor w" arbitrary: cursor cleaned w rule: less_induct)
  case less
  show ?case
  proof (cases "m \<le> cleaned")
    case True
    then show ?thesis by (subst cleanup_loop.simps) simp
  next
    case False
    obtain w1 r where scan: "rd_scan R cursor pattern 100 now w = (w1, r)" by (cases "rd_scan R cursor pattern 100 now w")
    show ?thesis
    proof (cases r)
      case (Inl e)
      then show ?thesis using False scan by (subst cleanup_loop.simps) simp
    next
      case (Inr p)
      obtain cursor' ks where p: "p = (cursor', ks)" by (cases p)
      obtain w2 e n where d: "delete_some R now m ks cleaned w1 = (w2, e, n)" by (cases "delete_some R now m ks cleaned w1")
      note facts = delete_some_facts [OF assms d, of cursor']
      have loop: "cleanup_loop R pattern now m cursor cleaned w =
          (case e of Some e \<Rightarrow> Some (w2, Some e, n)
           | None \<Rightarrow> if cursor' = 0 then Some (w2, None, n) else cleanup_loop R pattern now m cursor' n w2)"
        using False by (subst cleanup_loop.simps) (simp add: scan Inr p d)
      show ?thesis
      proof (cases "e = None \<and> cursor' \<noteq> 0")
        case False
        then show ?thesis using facts unfolding loop by (cases e) auto
      next
        case True
        then have "left cursor' w2 < left cursor w"
          using scan_endsD(1) [OF assms scan [unfolded Inr p]] facts by simp
        then obtain w' e' n' where "cleanup_loop R pattern now m cursor' n w2 = Some (w', e', n')" "n \<le> n'" "n' \<le> max n m"
          using less.hyps by blast
        then show ?thesis using True facts unfolding loop by fastforce
      qed
    qed
  qed
qed


definition scanning_redis :: "(string \<Rightarrow> (string \<times> real option) option) redis_env" where
  \<comment> \<open>four pages with two keys each\<close>
  "scanning_redis = sample_redis\<lparr>rd_scan := (\<lambda>cursor p n t w.
     (w, Inr (if cursor < 3 then cursor + 1 else 0, [''a:in_progress'', ''b:in_progress''])))\<rparr>"


end
