(* ===== verification/DbAdapter.thy ===== *)
theory DbAdapter
  imports UnitOfWork Metrics
begin

section \<open>The database adapter\<close>

text \<open>
  \<open>core/infrastructure/database/connection.py\<close>, \<open>session.py\<close> and \<open>instrument_sqlalchemy_engine\<close> of
  \<open>core/observability/tracing.py\<close>.  The engines are SQLAlchemy's: creating one, disposing of it and
  using it are calls to the environment.  The engines of each kind are numbered in the order of
  their creation, and a session factory is known by the engine it is bound to.
\<close>

record pool_options =
  po_size :: int
  po_overflow :: int
  po_timeout :: real
  po_recycle :: int
  po_lifo :: bool

datatype adapter_call =
    CreateAsyncEngine string bool pool_options
  | MakeSessions nat
  | ScopeSessions nat
  | CreateSyncEngine string bool pool_options
  | MakeSyncSessions nat
  | InstrumentEngine nat
  | ListenQueries nat
  | DisposeAsync nat
  | DisposeSync nat
  | Connect nat
  | SelectOne nat
  | LeaveConnection nat
  | NewSession nat
  | EnterSession nat
  | ExecuteSelect nat
  | ExitSession nat

record adapter = "adapter_call task" +
  da_url :: string
  da_echo :: bool
  da_engine :: "nat option"
  da_sync_engine :: "nat option"
  da_sync_session_factory :: "nat option"
  da_session_factory :: "nat option"
  da_scoped_session :: "nat option"
  da_initialized :: bool
  da_metrics :: prometheus

text \<open>What the adapter reads of the settings and of the libraries.\<close>

record adapter_env =
  ae_ext :: "string \<Rightarrow> pyclass list"
  ae_calls :: "adapter_call environment"
  ae_production :: bool
  ae_tracing :: bool

definition adapter_init :: "string \<Rightarrow> bool \<Rightarrow> adapter" where
  "adapter_init url echo =
     \<lparr>tk_now = 0, tk_deadlines = [], tk_trace = [], da_url = url, da_echo = echo, da_engine = None,
      da_sync_engine = None, da_sync_session_factory = None, da_session_factory = None,
      da_scoped_session = None, da_initialized = False, da_metrics = \<lparr>pm_values = [], pm_observed = []\<rparr>\<rparr>"

subsection \<open>Texts\<close>

definition sql_log_max_length :: nat where
  "sql_log_max_length = 500"

definition sanitize_statement :: "string \<Rightarrow> string" where
  "sanitize_statement statement =
     (if sql_log_max_length < length statement then take sql_log_max_length statement @ ''... [truncated]''
      else statement)"

definition url_scheme :: "string \<Rightarrow> string \<times> string" where
  \<comment> \<open>the scheme of an absolute URL, and what follows its colon\<close>
  "url_scheme url =
     (lower (takeWhile (\<lambda>c. c \<noteq> CHR '':'') url), drop (Suc (length (takeWhile (\<lambda>c. c \<noteq> CHR '':'') url))) url)"

definition driver_map :: "(string \<times> string) list" where
  "driver_map =
     [(''postgresql+asyncpg'', ''postgresql+psycopg2''), (''postgresql+aiopg'', ''postgresql+psycopg2'')]"

definition convert_async_url_to_sync :: "string \<Rightarrow> string" where
  \<comment> \<open>for an absolute URL with no empty query or fragment, which \<open>urlunparse\<close> writes as it was read\<close>
  "convert_async_url_to_sync url =
     (case url_scheme url of (scheme, rest) \<Rightarrow>
        (case dict_get driver_map scheme of Some s \<Rightarrow> s | None \<Rightarrow> scheme) @ CHR '':'' # rest)"

subsection \<open>Connecting\<close>

type_synonym 'a dact = "(adapter, exn, 'a) act"

definition async_pool :: pool_options where
  "async_pool = \<lparr>po_size = 15, po_overflow = 10, po_timeout = 2, po_recycle = 1800, po_lifo = True\<rparr>"

definition sync_pool :: pool_options where
  "sync_pool = \<lparr>po_size = 5, po_overflow = 5, po_timeout = 2, po_recycle = 1800, po_lifo = False\<rparr>"

definition async_engines :: "adapter_call list \<Rightarrow> nat" where
  "async_engines cs = length (filter (\<lambda>c. case c of CreateAsyncEngine _ _ _ \<Rightarrow> True | _ \<Rightarrow> False) cs)"

definition sync_engines :: "adapter_call list \<Rightarrow> nat" where
  "sync_engines cs = length (filter (\<lambda>c. case c of CreateSyncEngine _ _ _ \<Rightarrow> True | _ \<Rightarrow> False) cs)"

definition create_async_engine :: "adapter_env \<Rightarrow> nat dact" where
  "create_async_engine A =
     s_bind (s_get id) (\<lambda>s.
     s_bind (perform_sync (ae_calls A) (CreateAsyncEngine (da_url s) (da_echo s) async_pool)) (\<lambda>_.
     s_get (\<lambda>s. async_engines (tk_trace s))))"

definition create_sync_engine :: "adapter_env \<Rightarrow> nat dact" where
  "create_sync_engine A =
     s_bind (s_get id) (\<lambda>s.
     s_bind (perform_sync (ae_calls A)
       (CreateSyncEngine (convert_async_url_to_sync (da_url s)) (da_echo s) sync_pool)) (\<lambda>_.
     s_get (\<lambda>s. sync_engines (tk_trace s))))"

definition instrument_sqlalchemy_engine :: "adapter_env \<Rightarrow> nat \<Rightarrow> unit dact" where
  \<comment> \<open>\<open>ae_tracing\<close>: tracing is enabled and has an endpoint; no \<open>Exception\<close> leaves the function\<close>
  "instrument_sqlalchemy_engine A h =
     (if \<not> ae_tracing A then s_ret ()
      else s_catch (perform_sync (ae_calls A) (InstrumentEngine h)) (\<lambda>e.
        if is_exception (ae_ext A) e then s_ret () else s_raise e))"

definition setup_event_listeners :: "adapter_env \<Rightarrow> unit dact" where
  "setup_event_listeners A =
     s_bind (s_get da_engine) (\<lambda>x. case x of
       None \<Rightarrow> s_ret ()
     | Some h \<Rightarrow> perform_sync (ae_calls A) (ListenQueries h))"

definition connect_async_part :: "adapter_env \<Rightarrow> nat dact" where
  "connect_async_part A =
     s_bind (create_async_engine A) (\<lambda>h.
     s_bind (s_modify (\<lambda>s. s\<lparr>da_engine := Some h\<rparr>)) (\<lambda>_.
     s_bind (perform_sync (ae_calls A) (MakeSessions h)) (\<lambda>_.
     s_bind (s_modify (\<lambda>s. s\<lparr>da_session_factory := Some h\<rparr>)) (\<lambda>_.
     s_bind (perform_sync (ae_calls A) (ScopeSessions h)) (\<lambda>_.
     s_bind (s_modify (\<lambda>s. s\<lparr>da_scoped_session := Some h\<rparr>)) (\<lambda>_.
     s_ret h))))))"

definition connect_sync_part :: "adapter_env \<Rightarrow> unit dact" where
  "connect_sync_part A =
     s_bind (create_sync_engine A) (\<lambda>g.
     s_bind (s_modify (\<lambda>s. s\<lparr>da_sync_engine := Some g\<rparr>)) (\<lambda>_.
     s_bind (perform_sync (ae_calls A) (MakeSyncSessions g)) (\<lambda>_.
     s_modify (\<lambda>s. s\<lparr>da_sync_session_factory := Some g\<rparr>))))"

definition connect_body :: "adapter_env \<Rightarrow> unit dact" where
  "connect_body A =
     s_bind (connect_async_part A) (\<lambda>h.
     s_bind (connect_sync_part A) (\<lambda>_.
     s_bind (instrument_sqlalchemy_engine A h) (\<lambda>_.
     s_bind (if \<not> ae_production A then setup_event_listeners A else s_ret ()) (\<lambda>_.
     s_modify (\<lambda>s. s\<lparr>da_initialized := True\<rparr>)))))"

definition connect_sync :: "adapter_env \<Rightarrow> unit dact" where
  "connect_sync A = database_error_handler (ae_ext A) (connect_body A)"

definition ensure_initialized :: "adapter_env \<Rightarrow> unit dact" where
  "ensure_initialized A = s_bind (s_get da_initialized) (\<lambda>b. if \<not> b then connect_sync A else s_ret ())"

definition handle_of :: "adapter_env \<Rightarrow> (adapter \<Rightarrow> nat option) \<Rightarrow> string \<Rightarrow> nat dact" where
  \<comment> \<open>what the five properties have in common\<close>
  "handle_of A field msg =
     s_bind (ensure_initialized A) (\<lambda>_. s_bind (s_get field) (\<lambda>x. case x of
       None \<Rightarrow> s_raise (runtime_error msg) | Some h \<Rightarrow> s_ret h))"

definition async_scoped_session :: "adapter_env \<Rightarrow> nat dact" where
  "async_scoped_session A = handle_of A da_scoped_session ''Database connection not initialized''"

definition engine :: "adapter_env \<Rightarrow> nat dact" where
  "engine A = handle_of A da_engine ''Database engine not initialized''"

definition session_factory :: "adapter_env \<Rightarrow> nat dact" where
  "session_factory A = handle_of A da_session_factory ''Database session factory not initialized''"

definition sync_engine :: "adapter_env \<Rightarrow> nat dact" where
  "sync_engine A = handle_of A da_sync_engine ''Sync database engine not initialized''"

definition sync_session_factory :: "adapter_env \<Rightarrow> nat dact" where
  "sync_session_factory A = handle_of A da_sync_session_factory ''Sync database session factory not initialized''"

definition verify_connection :: "adapter_env \<Rightarrow> unit dact" where
  \<comment> \<open>a failed \<open>Connect\<close> leaves nothing to leave\<close>
  "verify_connection A =
     s_bind (s_get da_engine) (\<lambda>x. case x of
       None \<Rightarrow> s_ret ()
     | Some h \<Rightarrow> s_bind (perform (ae_calls A) (Connect h)) (\<lambda>_.
         s_finally (perform (ae_calls A) (SelectOne h)) (perform (ae_calls A) (LeaveConnection h))))"

definition initialize_adapter :: "adapter_env \<Rightarrow> unit dact" where
  "initialize_adapter A =
     s_bind (s_get da_initialized) (\<lambda>b.
       if b then s_ret () else s_bind (connect_sync A) (\<lambda>_. verify_connection A))"

definition dispose_adapter :: "adapter_env \<Rightarrow> unit dact" where
  "dispose_adapter A =
     wrap_async_function (ae_ext A) id 10 (database_error_handler (ae_ext A)
       (s_bind (s_bind (s_get da_engine) (\<lambda>x. case x of None \<Rightarrow> s_ret () | Some h \<Rightarrow> perform (ae_calls A) (DisposeAsync h))) (\<lambda>_.
        s_bind (s_bind (s_get da_sync_engine) (\<lambda>x. case x of None \<Rightarrow> s_ret ()
          | Some g \<Rightarrow> perform_sync (ae_calls A) (DisposeSync g))) (\<lambda>_.
        s_modify (\<lambda>s. s\<lparr>da_initialized := False\<rparr>)))))"

subsection \<open>Sessions and the metrics of the pool\<close>

text \<open>The numbers that the pool of an engine reports.\<close>

record pool_stats =
  ps_size :: int
  ps_checked_in :: int
  ps_checked_out :: int
  ps_overflow :: int

definition record_pool_metrics :: "adapter_env \<Rightarrow> (nat \<Rightarrow> exn + pool_stats) \<Rightarrow> unit dact" where
  "record_pool_metrics A pool s =
     (if \<not> da_initialized s then (s, Inr ())
      else case da_engine s of
        None \<Rightarrow> (s, Inr ())
      | Some h \<Rightarrow>
          (case pool h of
             Inr p \<Rightarrow> (s\<lparr>da_metrics := update_db_pool_metrics (ps_size p + ps_overflow p) (ps_checked_in p)
                          (ps_checked_out p) (da_metrics s)\<rparr>, Inr ())
           | Inl e \<Rightarrow> if is_exception (ae_ext A) e then (s, Inr ()) else (s, Inl e)))"

definition new_session :: "adapter_env \<Rightarrow> nat option \<Rightarrow> nat dact" where
  \<comment> \<open>\<open>SessionFactory.create_session\<close>; a new session is known by the engine it is bound to\<close>
  "new_session A existing =
     database_error_handler (ae_ext A)
       (case existing of
          Some s \<Rightarrow> s_ret s
        | None \<Rightarrow> s_bind (session_factory A) (\<lambda>h. s_bind (perform_sync (ae_calls A) (NewSession h)) (\<lambda>_. s_ret h)))"

subsection \<open>Lemmas\<close>

definition bound :: "adapter \<Rightarrow> bool" where
  \<comment> \<open>the factories are those of the engines in force\<close>
  "bound s \<longleftrightarrow> da_engine s \<noteq> None \<and> da_session_factory s = da_engine s \<and> da_scoped_session s = da_engine s \<and>
     da_sync_engine s \<noteq> None \<and> da_sync_session_factory s = da_sync_engine s"

definition adapter_inv :: "adapter \<Rightarrow> bool" where
  "adapter_inv s \<longleftrightarrow> (da_initialized s \<longrightarrow> bound s)"

text \<open>A call changes nothing of the adapter.\<close>

definition same_adapter :: "adapter \<Rightarrow> adapter \<Rightarrow> bool" where
  "same_adapter s t \<longleftrightarrow> da_initialized t = da_initialized s \<and> da_engine t = da_engine s \<and>
     da_session_factory t = da_session_factory s \<and> da_scoped_session t = da_scoped_session s \<and>
     da_sync_engine t = da_sync_engine s \<and> da_sync_session_factory t = da_sync_session_factory s"

lemma same_adapter_refl [simp]: "same_adapter s s"
  by (simp add: same_adapter_def)

lemma same_adapter_trans: "same_adapter s t \<Longrightarrow> same_adapter t u \<Longrightarrow> same_adapter s u"
  by (simp add: same_adapter_def)

lemma same_adapter_inv: "same_adapter s t \<Longrightarrow> adapter_inv t = adapter_inv s"
  by (simp add: same_adapter_def adapter_inv_def bound_def)

lemma perform_same [simp]:
  "same_adapter s (fst (perform env c s))" "same_adapter s (fst (perform_sync env c s))"
  by (simp_all add: same_adapter_def perform_def perform_sync_def Let_def split: option.splits)

lemma keeps_perform_inv [keeps_intros]:
  "keeps adapter_inv (perform env c)" "keeps adapter_inv (perform_sync env c)"
  by (simp_all add: keeps_def same_adapter_inv [OF perform_same(1)] same_adapter_inv [OF perform_same(2)])

lemma keeps_handler_inv [keeps_intros]:
  "keeps adapter_inv f \<Longrightarrow> keeps adapter_inv (database_error_handler ext f)"
  unfolding database_error_handler_def by (intro keeps_intros)

lemma keeps_wrap_inv [keeps_intros]:
  assumes "keeps adapter_inv f"
  shows "keeps adapter_inv (wrap_async_function ext id t f)"
  unfolding wrap_async_function_def
  by (intro keeps_intros keeps_wait_for_general keeps_s_modify assms) (simp_all add: adapter_inv_def bound_def)

lemma sync_call_cases:
  obtains t where "perform_sync env c s = (t, snd (env (tk_trace s @ [c])))" "same_adapter s t"
  using perform_same(2) [of s env c] by (simp add: perform_sync_def Let_def)

lemma connect_async_part_facts:
  assumes "connect_async_part A s = (t, r)"
  shows "da_initialized t = da_initialized s"
    and "r = Inr h \<Longrightarrow> da_engine t = Some h \<and> da_session_factory t = Some h \<and> da_scoped_session t = Some h"
  using assms
  by (auto simp: connect_async_part_def create_async_engine_def act_simps perform_sync_def Let_def split: sum.splits)

lemma connect_sync_part_facts:
  assumes "connect_sync_part A s = (t, r)"
  shows "da_initialized t = da_initialized s"
    and "da_engine t = da_engine s \<and> da_session_factory t = da_session_factory s \<and> da_scoped_session t = da_scoped_session s"
    and "r = Inr () \<Longrightarrow> da_sync_engine t \<noteq> None \<and> da_sync_session_factory t = da_sync_engine t"
  using assms
  by (auto simp: connect_sync_part_def create_sync_engine_def act_simps perform_sync_def Let_def split: sum.splits)

lemma instrument_same: "same_adapter s (fst (instrument_sqlalchemy_engine A h s))"
  by (auto simp: instrument_sqlalchemy_engine_def act_simps perform_sync_def Let_def same_adapter_def split: sum.splits)

lemma listeners_same: "same_adapter s (fst (setup_event_listeners A s))"
  by (auto simp: setup_event_listeners_def act_simps split: option.splits)

lemma instrument_then_listen_same:
  "same_adapter s (fst (s_bind (instrument_sqlalchemy_engine A h)
     (\<lambda>_. if p then setup_event_listeners A else s_ret ()) s))"
proof (cases "instrument_sqlalchemy_engine A h s")
  case (Pair t r)
  then have "same_adapter s t" using instrument_same [of s A h] by simp
  then show ?thesis
    using Pair listeners_same [of t A] by (cases r) (auto simp: s_bind_def s_ret_def intro: same_adapter_trans)
qed

lemma database_handler_eq:
  "database_error_handler ext f s =
     (fst (f s), case snd (f s) of Inr x \<Rightarrow> Inr x
        | Inl e \<Rightarrow> Inl (if is_exception ext e then db_handle_exception ext e else e))"
  by (cases "f s") (auto simp: database_error_handler_def act_simps split: sum.splits)

text \<open>Connecting either completes, with everything bound, or leaves the adapter not initialized.\<close>

lemma connect_body_facts:
  assumes "\<not> da_initialized s"
    and "connect_body A s = (t, r)"
  shows "(\<exists>e. r = Inl e \<and> \<not> da_initialized t) \<or> (r = Inr () \<and> da_initialized t \<and> bound t)"
proof (cases "connect_async_part A s")
  case (Pair s1 r1)
  note f1 = connect_async_part_facts [OF Pair]
  show ?thesis
  proof (cases r1)
    case (Inl e)
    then show ?thesis using assms Pair f1(1) by (auto simp: connect_body_def s_bind_def)
  next
    case (Inr h)
    obtain s2 r2 where p2: "connect_sync_part A s1 = (s2, r2)" by (cases "connect_sync_part A s1")
    note f2 = connect_sync_part_facts [OF p2]
    show ?thesis
    proof (cases r2)
      case (Inl e)
      then show ?thesis using assms Pair Inr p2 f1(1) f2(1) by (auto simp: connect_body_def s_bind_def)
    next
      case ok: (Inr u)
      let ?m = "s_bind (instrument_sqlalchemy_engine A h) (\<lambda>_. if \<not> ae_production A then setup_event_listeners A else s_ret ())"
      obtain s3 r3 where p3: "?m s2 = (s3, r3)" by (cases "?m s2")
      have same: "same_adapter s2 s3" using instrument_then_listen_same [of s2 A h "\<not> ae_production A"] p3 by simp
      have "s_bind ?m (\<lambda>_. s_modify (\<lambda>s. s\<lparr>da_initialized := True\<rparr>)) s2 = (t, r)"
        using assms(2) Pair Inr p2 ok by (simp add: connect_body_def s_bind_def [of "connect_async_part A"] s_bind_def [of "connect_sync_part A"] s_bind_assoc)
      then have "(t, r) = (case r3 of Inl e \<Rightarrow> (s3, Inl e) | Inr _ \<Rightarrow> (s3\<lparr>da_initialized := True\<rparr>, Inr ()))"
        by (cases r3) (auto simp: s_bind_def [of ?m] p3 s_modify_def)
      then show ?thesis
        using assms(1) f1(1) f1(2) [OF Inr] f2 same ok by (cases r3) (auto simp: same_adapter_def bound_def)
    qed
  qed
qed

lemma connect_sync_facts:
  assumes "\<not> da_initialized s" "connect_sync A s = (t, r)"
  shows "(\<exists>e. r = Inl e \<and> \<not> da_initialized t) \<or> (r = Inr () \<and> da_initialized t \<and> bound t)"
proof -
  obtain t' r' where b: "connect_body A s = (t', r')" by (cases "connect_body A s")
  show ?thesis
    using connect_body_facts [OF assms(1) b] assms(2)
    by (cases r') (auto simp: connect_sync_def database_handler_eq b)
qed

lemma ensure_initialized_facts:
  assumes "adapter_inv s" "ensure_initialized A s = (t, r)"
  shows "adapter_inv t" "r = Inr () \<Longrightarrow> da_initialized t \<and> bound t"
  using assms connect_sync_facts [of s A t r]
  by (auto simp: ensure_initialized_def act_simps adapter_inv_def split: if_splits)

lemma ensure_initialized_keeps [keeps_intros]: "keeps adapter_inv (ensure_initialized A)"
  unfolding keeps_def using ensure_initialized_facts(1) by (metis prod.collapse)

lemma handle_of_keeps [keeps_intros]: "keeps adapter_inv (handle_of A field msg)"
  unfolding handle_of_def
  by (intro keeps_intros) (simp add: keeps_def s_raise_def s_ret_def split: option.splits)

lemma keeps_perform_initialized [keeps_intros]:
  "keeps da_initialized (perform env c :: unit dact)"
  using perform_same(1) by (auto simp: keeps_def same_adapter_def)

lemma verify_keeps: "keeps adapter_inv (verify_connection A)" "keeps da_initialized (verify_connection A)"
  unfolding verify_connection_def
  by (intro keeps_intros, simp split: option.split, intro conjI allI impI keeps_intros)+

lemma initialize_keeps: "keeps adapter_inv (initialize_adapter A)"
  unfolding keeps_def
proof (intro allI impI)
  fix s
  assume inv: "adapter_inv s"
  show "adapter_inv (fst (initialize_adapter A s))"
  proof (cases "da_initialized s")
    case True
    then show ?thesis using inv by (simp add: initialize_adapter_def act_simps)
  next
    case False
    obtain t r where c: "connect_sync A s = (t, r)" by (cases "connect_sync A s")
    have "adapter_inv t" using connect_sync_facts [OF False c] by (auto simp: adapter_inv_def)
    moreover have "initialize_adapter A s = s_bind (connect_sync A) (\<lambda>_. verify_connection A) s"
      using False by (simp add: initialize_adapter_def s_bind_def s_get_def)
    ultimately show ?thesis using keepsD [OF verify_keeps(1), of t] c by (cases r) (simp_all add: s_bind_def)
  qed
qed

lemma dispose_keeps: "keeps adapter_inv (dispose_adapter A)"
  unfolding dispose_adapter_def
  by (intro keeps_intros keeps_s_modify)
    (auto simp: adapter_inv_def split: option.splits intro!: keeps_intros)

lemma record_pool_metrics_keeps: "keeps adapter_inv (record_pool_metrics A pool)"
  by (auto simp: keeps_def record_pool_metrics_def adapter_inv_def bound_def split: option.splits sum.splits)

lemma new_session_keeps: "keeps adapter_inv (new_session A existing)"
  unfolding new_session_def session_factory_def
  by (intro keeps_intros) (auto split: option.splits intro!: keeps_intros)

text \<open>Every use of an adapter.\<close>

inductive adapter_step :: "adapter_env \<Rightarrow> adapter \<Rightarrow> adapter \<Rightarrow> bool" for A where
  use_engine: "adapter_step A s (fst (engine A s))"
| use_sessions: "adapter_step A s (fst (session_factory A s))"
| use_scoped_sessions: "adapter_step A s (fst (async_scoped_session A s))"
| use_sync_engine: "adapter_step A s (fst (sync_engine A s))"
| use_sync_sessions: "adapter_step A s (fst (sync_session_factory A s))"
| start: "adapter_step A s (fst (initialize_adapter A s))"
| stop: "adapter_step A s (fst (dispose_adapter A s))"
| report: "adapter_step A s (fst (record_pool_metrics A pool s))"
| open_session: "adapter_step A s (fst (new_session A existing s))"

lemma adapter_step_inv: "adapter_step A s t \<Longrightarrow> adapter_inv s \<Longrightarrow> adapter_inv t"
  by (induction rule: adapter_step.induct)
    (auto simp: engine_def session_factory_def async_scoped_session_def sync_engine_def sync_session_factory_def
       intro: keepsD [OF handle_of_keeps] keepsD [OF initialize_keeps] keepsD [OF dispose_keeps]
         keepsD [OF record_pool_metrics_keeps] keepsD [OF new_session_keeps])

lemma adapter_reachable_inv: "(adapter_step A)\<^sup>*\<^sup>* (adapter_init url echo) s \<Longrightarrow> adapter_inv s"
proof (induction rule: rtranclp_induct)
  case base
  then show ?case by (simp add: adapter_inv_def adapter_init_def)
next
  case (step s t)
  then show ?case using adapter_step_inv by blast
qed

lemma handle_of_facts:
  assumes "adapter_inv s" "handle_of A field msg s = (t, r)" "\<And>u. bound u \<Longrightarrow> field u \<noteq> None"
  shows "(\<exists>h. r = Inr h \<and> field t = Some h \<and> bound t) \<or> (\<exists>e. r = Inl e \<and> snd (ensure_initialized A s) = Inl e)"
proof -
  obtain t' r' where e: "ensure_initialized A s = (t', r')" by (cases "ensure_initialized A s")
  show ?thesis
    using assms(1,2) assms(3) [of t'] ensure_initialized_facts(2) [OF assms(1) e]
    by (cases r') (auto simp: handle_of_def s_bind_def e s_get_def s_raise_def s_ret_def split: option.splits)
qed

lemma handled_not_runtime:
  "db_handle_exception ext e = EOther (Builtin b) msg \<Longrightarrow> isinst ext (Builtin b) [http_exception_class]"
  by (auto simp: db_handle_exception_def find_Some_iff exception_handlers_def nth_Cons
      split: if_splits option.splits nat.splits)

lemma connect_not_runtime:
  assumes "snd (connect_sync A s) = Inl e"
  shows "e \<noteq> runtime_error msg"
proof
  assume e: "e = runtime_error msg"
  from assms obtain e' where "e = (if is_exception (ae_ext A) e' then db_handle_exception (ae_ext A) e' else e')"
    by (auto simp: connect_sync_def database_handler_eq split: sum.splits)
  moreover have "is_exception (ae_ext A) e"
    unfolding e by (simp add: runtime_error_def is_exception_def isinst_def mro_def)
  ultimately have "db_handle_exception (ae_ext A) e' = EOther (Builtin RuntimeErrorC) msg"
    using e by (auto simp: runtime_error_def split: if_splits)
  from handled_not_runtime [OF this] show False
    by (simp add: isinst_def mro_def http_exception_class_def)
qed

subsection \<open>Properties\<close>

text \<open>C28. After any use of the adapter, failures, disposal and reconnection included: a property gives
  the engine in force, to which the session factory and the scoped sessions are bound, or it raises
  what connecting raised; the \<open>RuntimeError\<close> of a missing engine is never raised.\<close>

theorem adapter_bound:
  assumes "(adapter_step A)\<^sup>*\<^sup>* (adapter_init url echo) s" "engine A s = (t, r)"
  shows "(\<exists>h. r = Inr h \<and> da_engine t = Some h \<and> da_session_factory t = Some h \<and> da_scoped_session t = Some h \<and>
      da_sync_engine t \<noteq> None \<and> da_sync_session_factory t = da_sync_engine t) \<or>
    (\<exists>e. r = Inl e \<and> \<not> da_initialized t \<and> e \<noteq> runtime_error ''Database engine not initialized'')"
proof -
  note inv = adapter_reachable_inv [OF assms(1)]
  have "(\<exists>h. r = Inr h \<and> da_engine t = Some h \<and> bound t) \<or> (\<exists>e. r = Inl e \<and> snd (ensure_initialized A s) = Inl e)"
    by (rule handle_of_facts [OF inv assms(2) [unfolded engine_def]]) (simp add: bound_def)
  then show ?thesis
  proof (elim disjE exE conjE)
    fix e
    assume r: "r = Inl e" "snd (ensure_initialized A s) = Inl e"
    then have no: "\<not> da_initialized s" by (auto simp: ensure_initialized_def act_simps)
    have "fst (ensure_initialized A s) = t"
      using assms(2) r by (cases "ensure_initialized A s") (simp add: engine_def handle_of_def s_bind_def)
    then have c: "connect_sync A s = (t, Inl e)"
      using r no by (auto simp: ensure_initialized_def act_simps prod_eq_iff)
    then have "e \<noteq> runtime_error ''Database engine not initialized''" using connect_not_runtime [of A s e] by simp
    then show ?thesis using connect_sync_facts [OF no c] r by auto
  qed (auto simp: bound_def)
qed

definition sample_adapter_env :: "adapter_call environment \<Rightarrow> adapter_env" where
  "sample_adapter_env env = \<lparr>ae_ext = (\<lambda>_. []), ae_calls = env, ae_production = False, ae_tracing = False\<rparr>"

definition no_psycopg :: "adapter_call environment" where
  \<comment> \<open>the second engine cannot be created\<close>
  "no_psycopg cs =
     (0, case last cs of CreateSyncEngine _ _ _ \<Rightarrow> Inl (EOther (Builtin ImportErrorC) ''psycopg2'') | _ \<Rightarrow> Inr ())"

definition no_server :: "adapter_call environment" where
  \<comment> \<open>nothing answers\<close>
  "no_server cs = (0, case last cs of Connect _ \<Rightarrow> Inl (EOther (Builtin OSErrorC) ''refused'') | _ \<Rightarrow> Inr ())"

lemmas connect_eval = connect_sync_def connect_body_def connect_async_part_def connect_sync_part_def create_async_engine_def
  create_sync_engine_def instrument_sqlalchemy_engine_def setup_event_listeners_def database_handler_eq
  act_simps perform_sync_def Let_def async_engines_def sync_engines_def

theorem adapter_bound_witness:
  "\<exists>e. snd (engine (sample_adapter_env no_psycopg) (adapter_init ''postgresql+asyncpg://h/d'' False)) = Inl e \<and>
     e \<noteq> runtime_error ''Database engine not initialized''"
proof -
  let ?A = "sample_adapter_env no_psycopg"
  let ?s = "adapter_init ''postgresql+asyncpg://h/d'' False"
  have f: "\<not> is_ok (snd (engine ?A ?s))"
    by (simp add: engine_def handle_of_def ensure_initialized_def connect_eval sample_adapter_env_def no_psycopg_def adapter_init_def)
  obtain t r where e: "engine ?A ?s = (t, r)" by (cases "engine ?A ?s")
  from adapter_bound [OF rtranclp.rtrancl_refl e] e f show ?thesis by auto
qed

text \<open>The connection is verified once: when the verification fails the adapter is initialized all the
  same, and calling \<open>initialize\<close> again succeeds without trying the connection.\<close>

theorem initialize_retry_unverified:
  assumes "\<not> da_initialized s" "snd (connect_sync A s) = Inr ()" "initialize_adapter A s = (t, Inl e)"
  shows "initialize_adapter A t = (t, Inr ())"
proof -
  obtain u where c: "connect_sync A s = (u, Inr ())" using assms(2) by (metis prod.collapse)
  have "da_initialized u" using connect_sync_facts [OF assms(1) c] by simp
  moreover have "fst (verify_connection A u) = t"
    using assms(1,3) c by (simp add: initialize_adapter_def s_bind_def [of "s_get da_initialized"] s_bind_def [of "connect_sync A"] s_get_def)
  ultimately have "da_initialized t" using keepsD [OF verify_keeps(2)] by blast
  then show ?thesis by (simp add: initialize_adapter_def act_simps)
qed

theorem initialize_retry_unverified_witness:
  "\<exists>t e. initialize_adapter (sample_adapter_env no_server) (adapter_init ''postgresql+asyncpg://h/d'' False) = (t, Inl e) \<and>
     initialize_adapter (sample_adapter_env no_server) t = (t, Inr ())"
proof -
  let ?A = "sample_adapter_env no_server"
  let ?s = "adapter_init ''postgresql+asyncpg://h/d'' False"
  have no: "\<not> da_initialized ?s" by (simp add: adapter_init_def)
  have c: "snd (connect_sync ?A ?s) = Inr ()"
    by (simp add: connect_eval sample_adapter_env_def no_server_def adapter_init_def)
  have "\<not> is_ok (snd (initialize_adapter ?A ?s))"
    by (simp add: initialize_adapter_def verify_connection_def perform_def connect_eval sample_adapter_env_def no_server_def adapter_init_def)
  then obtain t e where i: "initialize_adapter ?A ?s = (t, Inl e)"
    by (cases "initialize_adapter ?A ?s", cases "snd (initialize_adapter ?A ?s)") auto
  from initialize_retry_unverified [OF no c i] i show ?thesis by blast
qed

end
