(* ===== verification/Health.thy ===== *)
theory Health
  imports DbAdapter CacheLaws Dtos
begin

section \<open>The system feature: health checks\<close>

text \<open>
  \<open>features/system\<close>: the domain objects, the service, the mapper and the endpoints.  The database
  check works on the state of the adapter, the cache check on that of the cache service.
  Rate limiting and dependency injection of the endpoints are left out.
\<close>

subsection \<open>Domain objects\<close>

record health_status =
  hs_healthy :: bool
  hs_message :: string
  hs_latency_ms :: "real option"

record system_health =
  sh_status :: string
  sh_database :: health_status
  sh_cache :: health_status

definition is_healthy :: "system_health \<Rightarrow> bool" where
  "is_healthy h = hs_healthy (sh_database h)"

definition is_ready :: "system_health \<Rightarrow> bool" where
  "is_ready h = hs_healthy (sh_database h)"

definition from_components :: "health_status \<Rightarrow> health_status \<Rightarrow> system_health" where
  "from_components database cache =
     \<lparr>sh_status = (if hs_healthy database \<and> hs_healthy cache then ''healthy''
        else if hs_healthy database then ''degraded'' else ''unhealthy''),
      sh_database = database, sh_cache = cache\<rparr>"

subsection \<open>The service\<close>

definition round2 :: "real \<Rightarrow> real" where
  \<comment> \<open>\<open>round(x, 2)\<close>: a tie goes to the even digit\<close>
  "round2 x =
     (let y = 100 * x; n = \<lfloor>y\<rfloor>; d = y - of_int n in
      of_int (if d < 1/2 \<or> d = 1/2 \<and> even n then n else n + 1) / 100)"

definition latency :: "real \<Rightarrow> real \<Rightarrow> real" where
  "latency start finish = (finish - start) * 1000"

definition database_probe :: "adapter_env \<Rightarrow> (nat \<Rightarrow> exn + pool_stats) \<Rightarrow> real \<Rightarrow> health_status dact" where
  \<comment> \<open>the \<open>try\<close> block of \<open>check_database\<close>\<close>
  "database_probe A pool start =
     s_bind (new_session A None) (\<lambda>h.
     s_bind (perform (ae_calls A) (EnterSession h)) (\<lambda>_.
     s_finally
       (s_bind (perform (ae_calls A) (ExecuteSelect h)) (\<lambda>_.
        s_bind (s_get (\<lambda>s. latency start (tk_now s))) (\<lambda>latency_ms.
        s_bind (record_pool_metrics A pool) (\<lambda>_.
        s_ret \<lparr>hs_healthy = True, hs_message = ''Database connection successful'',
               hs_latency_ms = Some (round2 latency_ms)\<rparr>))))
       (perform (ae_calls A) (ExitSession h))))"

definition check_database :: "adapter_env \<Rightarrow> (nat \<Rightarrow> exn + pool_stats) \<Rightarrow> health_status dact" where
  "check_database A pool =
     s_bind (s_get tk_now) (\<lambda>start.
     s_catch (database_probe A pool start) (\<lambda>e.
       if is_exception (ae_ext A) e
       then s_get (\<lambda>s. \<lparr>hs_healthy = False, hs_message = ''Database connection failed: '' @ class_name (exn_class e),
              hs_latency_ms = Some (round2 (latency start (tk_now s)))\<rparr>)
       else s_raise e))"

definition check_cache :: "'w redis_env \<Rightarrow> clock \<Rightarrow> real \<Rightarrow> real \<Rightarrow> ('w, health_status) cact" where
  \<comment> \<open>the clock reads \<open>start\<close> before and \<open>finish\<close> after the ping\<close>
  "check_cache R c start finish =
     (let latency_ms = Some (round2 (latency start finish)) in
      s_catch
        (s_bind (cache_ping R c) (\<lambda>is_healthy.
           if is_healthy
           then s_ret \<lparr>hs_healthy = True, hs_message = ''Redis connection successful'', hs_latency_ms = latency_ms\<rparr>
           else s_ret \<lparr>hs_healthy = False, hs_message = ''Redis client not available'', hs_latency_ms = latency_ms\<rparr>))
        (\<lambda>e. if is_exception (re_ext R) e
           then s_ret \<lparr>hs_healthy = False, hs_message = ''Redis connection failed: '' @ class_name (exn_class e),
                  hs_latency_ms = latency_ms\<rparr>
           else s_raise e))"

definition gather2 :: "bool \<Rightarrow> exn + 'a \<Rightarrow> exn + 'b \<Rightarrow> exn + 'a \<times> 'b" where
  \<comment> \<open>\<open>asyncio.gather\<close> on two tasks: the exception of the one that raises first\<close>
  "gather2 left_first r1 r2 =
     (case (r1, r2) of
        (Inr x, Inr y) \<Rightarrow> Inr (x, y)
      | (Inl e, Inr _) \<Rightarrow> Inl e
      | (Inr _, Inl e) \<Rightarrow> Inl e
      | (Inl e1, Inl e2) \<Rightarrow> Inl (if left_first then e1 else e2))"

text \<open>What a check of the system uses.\<close>

record 'w health_env =
  he_adapter :: adapter_env
  he_pool :: "nat \<Rightarrow> exn + pool_stats"
  he_redis :: "'w redis_env"
  he_clock :: clock
  he_start :: real
  he_finish :: real
  he_database_first :: bool

type_synonym ('w, 'a) hact = "(adapter \<times> 'w cache_svc, exn, 'a) act"

definition get_system_health :: "'w health_env \<Rightarrow> ('w, system_health) hact" where
  "get_system_health H st =
     (case (check_database (he_adapter H) (he_pool H) (fst st),
            check_cache (he_redis H) (he_clock H) (he_start H) (he_finish H) (snd st)) of
        ((s, r1), (c, r2)) \<Rightarrow>
          ((s, c), map_sum id (\<lambda>(d, k). from_components d k) (gather2 (he_database_first H) r1 r2)))"

subsection \<open>Mapping and endpoints\<close>

record component_health_dto =
  ch_healthy :: bool
  ch_message :: string
  ch_latency_ms :: "real option"

record system_health_dto =
  sd_status :: string
  sd_service :: string
  sd_database :: component_health_dto
  sd_cache :: component_health_dto

record system_status_dto =
  ss_status :: string
  ss_service :: string

definition to_component_dto :: "health_status \<Rightarrow> component_health_dto" where
  "to_component_dto h = \<lparr>ch_healthy = hs_healthy h, ch_message = hs_message h, ch_latency_ms = hs_latency_ms h\<rparr>"

definition to_health_response_dto :: "string \<Rightarrow> system_health \<Rightarrow> system_health_dto" where
  "to_health_response_dto app_name h =
     \<lparr>sd_status = sh_status h, sd_service = app_name,
      sd_database = \<lparr>ch_healthy = hs_healthy (sh_database h), ch_message = hs_message (sh_database h),
        ch_latency_ms = hs_latency_ms (sh_database h)\<rparr>,
      sd_cache = \<lparr>ch_healthy = hs_healthy (sh_cache h), ch_message = hs_message (sh_cache h),
        ch_latency_ms = hs_latency_ms (sh_cache h)\<rparr>\<rparr>"

definition to_status_response_dto :: "string \<Rightarrow> string \<Rightarrow> system_status_dto" where
  "to_status_response_dto app_name status = \<lparr>ss_status = status, ss_service = app_name\<rparr>"

definition health_endpoint :: "string \<Rightarrow> system_status_dto response_model" where
  "health_endpoint app_name = response_ok (Some (to_status_response_dto app_name ''ok'')) None None"

definition ready_endpoint :: "string \<Rightarrow> 'w health_env \<Rightarrow> ('w, int \<times> system_health_dto response_model) hact" where
  \<comment> \<open>with the status code of the response\<close>
  "ready_endpoint app_name H =
     s_bind (get_system_health H) (\<lambda>h.
       let dto = to_health_response_dto app_name h in
       if \<not> is_ready h then s_ret (503, response_error ''Service not ready'' (Some dto) None)
       else s_ret (200, response_ok (Some dto) None None))"

definition status_endpoint :: "string \<Rightarrow> 'w health_env \<Rightarrow> ('w, system_health_dto response_model) hact" where
  "status_endpoint app_name H =
     s_bind (get_system_health H) (\<lambda>h. s_ret (response_ok (Some (to_health_response_dto app_name h)) None None))"

subsection \<open>Lemmas\<close>

lemma check_database_outcome:
  "snd (check_database A pool s) = (case snd (database_probe A pool (tk_now s) s) of
     Inr h \<Rightarrow> Inr h
   | Inl e \<Rightarrow> if is_exception (ae_ext A) e
       then Inr \<lparr>hs_healthy = False, hs_message = ''Database connection failed: '' @ class_name (exn_class e),
              hs_latency_ms = Some (round2 (latency (tk_now s) (tk_now (fst (database_probe A pool (tk_now s) s)))))\<rparr>
       else Inl e)"
  by (auto simp: check_database_def act_simps split: prod.splits sum.splits)

lemma database_probe_healthy: "snd (database_probe A pool start s) = Inr h \<Longrightarrow> hs_healthy h"
  by (auto simp: database_probe_def act_simps split: prod.splits sum.splits)

lemma check_database_healthy:
  "snd (check_database A pool s) = Inr h \<Longrightarrow> hs_healthy h \<longleftrightarrow> is_ok (snd (database_probe A pool (tk_now s) s))"
  using database_probe_healthy [of A pool "tk_now s" s]
  by (auto simp: check_database_outcome split: sum.splits if_splits)

lemma check_database_raises: "snd (check_database A pool s) = Inl e \<Longrightarrow> \<not> is_exception (ae_ext A) e"
  by (auto simp: check_database_outcome split: sum.splits if_splits)

lemma check_cache_raises: "snd (check_cache R c t u st) = Inl e \<Longrightarrow> \<not> is_exception (re_ext R) e"
  by (auto simp: check_cache_def act_simps Let_def split: prod.splits sum.splits if_splits)

lemma get_system_health_outcome:
  "snd (get_system_health H st) =
     map_sum id (\<lambda>(d, k). from_components d k)
       (gather2 (he_database_first H) (snd (check_database (he_adapter H) (he_pool H) (fst st)))
         (snd (check_cache (he_redis H) (he_clock H) (he_start H) (he_finish H) (snd st))))"
  by (simp add: get_system_health_def split: prod.splits)

definition uncaught :: "'w health_env \<Rightarrow> exn \<Rightarrow> bool" where
  \<comment> \<open>what one of the two checks does not catch: a cancellation or another \<open>BaseException\<close>\<close>
  "uncaught H e \<longleftrightarrow> \<not> is_exception (ae_ext (he_adapter H)) e \<or> \<not> is_exception (re_ext (he_redis H)) e"

subsection \<open>Properties\<close>


text \<open>In an environment with the in-memory fallback, the check of the cache reports a successful Redis
  connection after the connection to Redis has failed, without contacting Redis.\<close>

theorem fallback_reported_as_redis:
  assumes "memory_mode st"
  shows "\<exists>h. check_cache R c start finish st = (st, Inr h) \<and> hs_healthy h \<and> hs_message h = ''Redis connection successful''"
  using assms
  by (auto simp: memory_mode_def check_cache_def cache_ping_def ensure_connected_def using_memory_def mem_ping_def
      act_simps Let_def)

theorem fallback_reported_as_redis_witness:
  "\<exists>h. snd (check_cache sample_local real 0 1 sample_fallback) = Inr h \<and> hs_message h = ''Redis connection successful''"
  using fallback_reported_as_redis [OF sample_fallback_memory, of sample_local real 0 1] by auto

end
