(* ===== verification/Generation.thy ===== *)
theory Generation
  imports ErrorHandlers Dtos
begin

section \<open>The AI generation feature\<close>

text \<open>
  \<open>features/ai_generation\<close>: the domain objects, the service, the mapper and the endpoints.
  Authentication and the plans of a user belong to identity-plan-kit: the current user and the
  consumption of a feature are parameters of the endpoint, on a state \<open>'w\<close> of any type.
\<close>

subsection \<open>Domain objects\<close>

datatype feature_code = AI_GENERATION

fun feature_value :: "feature_code \<Rightarrow> string" where
  "feature_value AI_GENERATION = ''ai_generation''"

record token_usage =
  tu_prompt_tokens :: int
  tu_completion_tokens :: int

definition total_tokens :: "token_usage \<Rightarrow> int" where
  "total_tokens u = tu_prompt_tokens u + tu_completion_tokens u"

definition mk_token_usage :: "int \<Rightarrow> int \<Rightarrow> exn + token_usage" where
  "mk_token_usage prompt_tokens completion_tokens =
     (if prompt_tokens < 0 then Inl (EOther (Builtin ValueErrorC) ''prompt_tokens must be non-negative'')
      else if completion_tokens < 0 then Inl (EOther (Builtin ValueErrorC) ''completion_tokens must be non-negative'')
      else Inr \<lparr>tu_prompt_tokens = prompt_tokens, tu_completion_tokens = completion_tokens\<rparr>)"

record text_generation =
  tg_text :: string
  tg_model :: string
  tg_usage :: token_usage
  tg_created_at :: real

definition generation_create :: "real \<Rightarrow> string \<Rightarrow> string \<Rightarrow> int \<Rightarrow> int \<Rightarrow> exn + text_generation" where
  "generation_create now text model prompt_tokens completion_tokens =
     bind_res (mk_token_usage prompt_tokens completion_tokens) (\<lambda>u.
       Inr \<lparr>tg_text = text, tg_model = model, tg_usage = u, tg_created_at = now\<rparr>)"

subsection \<open>The request\<close>

record generate_request =
  gr_prompt :: string
  gr_max_tokens :: int
  gr_temperature :: real

definition generate_request_valid :: "generate_request \<Rightarrow> bool" where
  "generate_request_valid r \<longleftrightarrow>
     1 \<le> length (gr_prompt r) \<and> length (gr_prompt r) \<le> 4000 \<and>
     1 \<le> gr_max_tokens r \<and> gr_max_tokens r \<le> 2048 \<and>
     0 \<le> gr_temperature r \<and> gr_temperature r \<le> 2"

subsection \<open>The service\<close>

definition model_name :: string where
  "model_name = ''demo-model-v1''"

definition validate_prompt :: "string \<Rightarrow> exn + unit" where
  "validate_prompt prompt =
     (if prompt = [] \<or> strip prompt = [] then
        Inl (EDomain (mk_prompt_validation ''Prompt cannot be empty or whitespace only''
          (Some (if prompt \<noteq> [] then int (length prompt) else 0)) None))
      else Inr ())"

definition mock_generate :: "string \<Rightarrow> int \<Rightarrow> string" where
  "mock_generate prompt max_tokens =
     concat
       [''Based on your prompt about '' @ quoted (take 50 prompt @ ''...'') @ '', here is a thoughtful response. '',
        ''This feature demonstrates the identity-plan-kit integration. '',
        ''The AI generation endpoint requires authentication, checks plan features, '',
        ''and tracks usage against quotas. '',
        ''Max tokens: '' @ str_of_int max_tokens @ ''. '',
        ''Replace this mock with actual AI integration for production use.'']"

definition count_tokens :: "string \<Rightarrow> int" where
  "count_tokens text = int (length (split_ws text)) * 2"

definition generate_text ::
  "(string \<Rightarrow> pyclass list) \<Rightarrow> (exn \<Rightarrow> string) \<Rightarrow> (string \<Rightarrow> int \<Rightarrow> exn + string) \<Rightarrow> real \<Rightarrow>
   string \<Rightarrow> int \<Rightarrow> exn + text_generation" where
  \<comment> \<open>\<open>generate\<close> is the method that calls the model and \<open>to_str\<close> is \<open>str\<close> on its exceptions; the
    temperature and the user are logged only\<close>
  "generate_text ext to_str generate now prompt max_tokens =
     bind_res (validate_prompt prompt) (\<lambda>_.
     bind_res
       (case generate prompt max_tokens of
          Inr text \<Rightarrow> Inr text
        | Inl e \<Rightarrow> if is_exception ext e
            then Inl (EDomain (mk_generation_failed ''Text generation failed'' (Some model_name) (Some (to_str e)) None))
            else Inl e)
       (\<lambda>generated_text.
         generation_create now generated_text model_name (count_tokens prompt) (count_tokens generated_text)))"

subsection \<open>Mapping and endpoints\<close>

record generation_usage_dto =
  gu_prompt_tokens :: int
  gu_completion_tokens :: int
  gu_total_tokens :: int

record 'u generate_response =
  gd_text :: string
  gd_model :: string
  gd_usage :: generation_usage_dto
  gd_quota_info :: 'u
  gd_created_at :: real

definition usage_to_dto :: "int \<Rightarrow> int \<Rightarrow> generation_usage_dto" where
  "usage_to_dto prompt_tokens completion_tokens =
     \<lparr>gu_prompt_tokens = prompt_tokens, gu_completion_tokens = completion_tokens,
      gu_total_tokens = prompt_tokens + completion_tokens\<rparr>"

definition to_response_dto :: "text_generation \<Rightarrow> 'u \<Rightarrow> 'u generate_response" where
  "to_response_dto g quota_info =
     \<lparr>gd_text = tg_text g, gd_model = tg_model g,
      gd_usage = \<lparr>gu_prompt_tokens = tu_prompt_tokens (tg_usage g),
        gu_completion_tokens = tu_completion_tokens (tg_usage g), gu_total_tokens = total_tokens (tg_usage g)\<rparr>,
      gd_quota_info = quota_info, gd_created_at = tg_created_at g\<rparr>"

text \<open>The library's part: the user of the request, and the check and consumption of a feature.\<close>

record ('w, 'u) plan_kit =
  pk_ext :: "string \<Rightarrow> pyclass list"
  pk_current_user :: "('w, exn, string) act"
  pk_requires_feature :: "string \<Rightarrow> nat \<Rightarrow> ('w, exn, 'u) act"

type_synonym ('w, 'a) gact = "('w \<times> prometheus, exn, 'a) act"

definition on_kit :: "('w, exn, 'a) act \<Rightarrow> ('w, 'a) gact" where
  "on_kit f st = (case f (fst st) of (w, r) \<Rightarrow> ((w, snd st), r))"

definition on_metrics :: "(prometheus \<Rightarrow> prometheus) \<Rightarrow> ('w, unit) gact" where
  "on_metrics f = s_modify (\<lambda>(w, m). (w, f m))"

definition generate_endpoint ::
  "('w, 'u) plan_kit \<Rightarrow> (exn \<Rightarrow> string) \<Rightarrow> (string \<Rightarrow> int \<Rightarrow> exn + string) \<Rightarrow> real \<Rightarrow> generate_request \<Rightarrow>
   ('w, 'u generate_response response_model) gact" where
  \<comment> \<open>the dependencies of the endpoint, then its body, for a request that is valid\<close>
  "generate_endpoint K to_str generate now body =
     s_bind (on_kit (pk_current_user K)) (\<lambda>user.
     s_bind (on_kit (pk_requires_feature K (feature_value AI_GENERATION) 1)) (\<lambda>usage.
     s_bind (s_lift (generate_text (pk_ext K) to_str generate now (gr_prompt body) (gr_max_tokens body))) (\<lambda>result.
     s_bind (on_metrics (record_api_usage ''ai_generation'' ''create'')) (\<lambda>_.
     s_ret (response_ok (Some (to_response_dto result usage)) None None)))))"

definition usage_endpoint :: "('w, 'u) plan_kit \<Rightarrow> ('w, (string \<times> string) list response_model) gact" where
  "usage_endpoint K =
     s_bind (on_kit (pk_current_user K)) (\<lambda>user.
     s_bind (on_metrics (record_api_usage ''ai_generation'' ''read'')) (\<lambda>_.
     s_ret (response_ok (Some [(''user_id'', user), (''feature'', feature_value AI_GENERATION),
       (''message'', ''Use /api/v1/ai/generate to track actual usage'')]) None None)))"

subsection \<open>Lemmas\<close>

lemma strip_empty_iff: "strip s = [] \<longleftrightarrow> dropWhile is_space s = []"
proof -
  have "dropWhile is_space (rev t) = [] \<longleftrightarrow> t = []" if "t = dropWhile is_space s" for t
  proof (cases t)
    case (Cons c u)
    then have "\<not> is_space c" using that by (metis dropWhile_eq_Cons_conv)
    then show ?thesis using Cons by (auto simp: dropWhile_eq_Nil_conv)
  qed simp
  then show ?thesis unfolding strip_def by (simp add: dropWhile_eq_Nil_conv)
qed

lemma split_ws_empty_iff: "split_ws s = [] \<longleftrightarrow> strip s = []"
  by (subst split_ws.simps) (simp add: Let_def strip_empty_iff)

lemma count_tokens_pos: "strip s \<noteq> [] \<Longrightarrow> 0 < count_tokens s"
  by (simp add: count_tokens_def split_ws_empty_iff)

lemma count_tokens_nonneg [simp]: "0 \<le> count_tokens s"
  by (simp add: count_tokens_def)

text \<open>The service on each branch.\<close>

lemma generate_text_blank:
  "strip prompt = [] \<Longrightarrow> generate_text ext to_str generate now prompt n =
     Inl (EDomain (mk_prompt_validation ''Prompt cannot be empty or whitespace only'' (Some (int (length prompt))) None))"
  by (auto simp: generate_text_def validate_prompt_def)

lemma generate_text_ok:
  assumes "strip prompt \<noteq> []" "generate prompt n = Inr text"
  shows "generate_text ext to_str generate now prompt n =
    Inr \<lparr>tg_text = text, tg_model = model_name,
         tg_usage = \<lparr>tu_prompt_tokens = count_tokens prompt, tu_completion_tokens = count_tokens text\<rparr>,
         tg_created_at = now\<rparr>"
proof -
  have "prompt \<noteq> []" using assms(1) by (auto simp: strip_def)
  then show ?thesis
    using assms by (simp add: generate_text_def validate_prompt_def generation_create_def mk_token_usage_def not_less)
qed

lemma generate_text_failed:
  assumes "strip prompt \<noteq> []" "generate prompt n = Inl e" "is_exception ext e"
  shows "generate_text ext to_str generate now prompt n =
    Inl (EDomain (mk_generation_failed ''Text generation failed'' (Some model_name) (Some (to_str e)) None))"
proof -
  have "prompt \<noteq> []" using assms(1) by (auto simp: strip_def)
  then show ?thesis using assms by (simp add: generate_text_def validate_prompt_def)
qed

subsection \<open>Properties\<close>

text \<open>A generation is charged and counted once: the response carries the text of the model, a
  positive number of prompt tokens, their sum with the completion tokens as total, and the usage that
  the plan reported; the request is counted once and nothing else changes.\<close>

theorem generation_accounted:
  assumes "pk_current_user K w = (w1, Inr user)"
    and "pk_requires_feature K ''ai_generation'' 1 w1 = (w2, Inr usage)"
    and "strip (gr_prompt body) \<noteq> []" "generate (gr_prompt body) (gr_max_tokens body) = Inr text"
  shows "\<exists>dto. generate_endpoint K to_str generate now body (w, m) =
      ((w2, record_api_usage ''ai_generation'' ''create'' m), Inr (response_ok (Some dto) None None)) \<and>
    gd_text dto = text \<and> gd_quota_info dto = usage \<and>
    gu_prompt_tokens (gd_usage dto) = 2 * int (length (split_ws (gr_prompt body))) \<and>
    0 < gu_prompt_tokens (gd_usage dto) \<and> 0 \<le> gu_completion_tokens (gd_usage dto) \<and>
    gu_total_tokens (gd_usage dto) = gu_prompt_tokens (gd_usage dto) + gu_completion_tokens (gd_usage dto)"
  using assms(1,2) count_tokens_pos [OF assms(3)]
  by (simp add: generate_endpoint_def on_kit_def on_metrics_def act_simps generate_text_ok [of "gr_prompt body" generate, OF assms(3,4)]
      to_response_dto_def total_tokens_def)
    (auto simp: count_tokens_def response_ok_def)

definition sample_kit :: "(nat, nat) plan_kit" where
  \<comment> \<open>the state is the quota left\<close>
  "sample_kit = \<lparr>pk_ext = (\<lambda>_. []), pk_current_user = s_ret ''u1'',
     pk_requires_feature = (\<lambda>feature n q. if n \<le> q then (q - n, Inr (q - n)) else (q, Inl (EOther (Builtin RuntimeErrorC) ''quota'')))\<rparr>"

definition sample_prompt :: "string \<Rightarrow> generate_request" where
  "sample_prompt text = \<lparr>gr_prompt = text, gr_max_tokens = 256, gr_temperature = 1\<rparr>"

lemma sample_kit_runs:
  "pk_current_user sample_kit 3 = (3, Inr ''u1'')" "pk_requires_feature sample_kit ''ai_generation'' 1 3 = (2, Inr 2)"
  by (simp_all add: sample_kit_def s_ret_def)

theorem generation_accounted_witness:
  "fst (generate_endpoint sample_kit (\<lambda>_. []) (\<lambda>p n. Inr ''fine'') 0 (sample_prompt ''hello'') (3, \<lparr>pm_values = [], pm_observed = []\<rparr>)) =
     (2, record_api_usage ''ai_generation'' ''create'' \<lparr>pm_values = [], pm_observed = []\<rparr>)"
proof -
  have "strip (gr_prompt (sample_prompt ''hello'')) \<noteq> []"
    by (simp add: sample_prompt_def strip_no_space is_space_def ordc_def)
  from generation_accounted [OF sample_kit_runs this, of "\<lambda>p n. Inr ''fine''" "''fine''" "\<lambda>_. []" 0 "\<lparr>pm_values = [], pm_observed = []\<rparr>"]
  show ?thesis by auto
qed

text \<open>A prompt of white space is valid for the endpoint, which consumes the user's quota before the
  service refuses it: the answer is an error, and the consumption stands.\<close>

theorem blank_prompt_charged:
  assumes "generate_request_valid body" "strip (gr_prompt body) = []"
    and "pk_current_user K w = (w1, Inr user)"
    and "pk_requires_feature K ''ai_generation'' 1 w1 = (w2, Inr usage)"
  shows "\<exists>e. generate_endpoint K to_str generate now body (w, m) = ((w2, m), Inl (EDomain e)) \<and>
    r_status (domain_exception_handler request e) = 400 \<and>
    dict_get (de_context e) ''prompt_length'' = Some (PInt (int (length (gr_prompt body))))"
  using assms(3,4)
  by (simp add: generate_endpoint_def on_kit_def act_simps generate_text_blank [OF assms(2)] domain_exception_handler_def
      mk_prompt_validation_def mk_domain_validation_def mk_domain_def put_some_def put_given_def build_error_response_def
      json_response_def domain_status_def)

theorem blank_prompt_charged_witness:
  "\<exists>e. generate_endpoint sample_kit (\<lambda>_. []) (\<lambda>p n. Inr ''fine'') 0 (sample_prompt '' '') (3, \<lparr>pm_values = [], pm_observed = []\<rparr>) =
     ((2, \<lparr>pm_values = [], pm_observed = []\<rparr>), Inl (EDomain e))"
proof -
  have "generate_request_valid (sample_prompt '' '')" "strip (gr_prompt (sample_prompt '' '')) = []"
    by (simp_all add: generate_request_valid_def sample_prompt_def strip_def is_space_def ordc_def)
  from blank_prompt_charged [OF this sample_kit_runs] show ?thesis by blast
qed

end
