(* ===== verification/Lifecycle.thy ===== *)
theory Lifecycle
  imports Asyncio DbErrors ErrorHandlers "HOL-Library.Multiset"
begin

section \<open>Startup, shutdown and the assembly of the application\<close>

text \<open>
  \<open>features/main.py\<close> (the initialization of the database, the lifespan, the exception handlers and the
  addresses of the documentation) and \<open>shutdown_infrastructure\<close> of
  \<open>core/infrastructure/container.py\<close>.  The retry decorator of tenacity is the parameter \<open>retrying\<close>,
  identity-plan-kit and the resources are calls to the environment.
\<close>

datatype lifecycle_call =
    GetEngine | Begin | SetLockTimeout | SetStatementTimeout | EndTransaction
  | ConnectCache | KitStartup | Serve | KitShutdown | CloseInfrastructure

type_synonym 'a lact = "(lifecycle_call task, exn, 'a) act"

subsection \<open>The database\<close>

definition should_retry_db_error :: "(string \<Rightarrow> pyclass list) \<Rightarrow> (exn \<Rightarrow> int) \<Rightarrow> exn option \<Rightarrow> bool" where
  \<comment> \<open>for the exception of the attempt, \<open>errno\<close> being the first argument of a \<open>gaierror\<close>\<close>
  "should_retry_db_error ext errno exception =
     (case exception of
        None \<Rightarrow> False
      | Some e \<Rightarrow> if is_dns_resolution_error ext (exn_class e) (errno e) then False
                  else \<not> is_auth_error ext (exn_class e))"

definition database_attempt :: "lifecycle_call environment \<Rightarrow> unit lact" where
  \<comment> \<open>the body of \<open>_initialize_database\<close>; its \<open>except\<close> clause logs and raises again\<close>
  "database_attempt env =
     s_bind (perform_sync env GetEngine) (\<lambda>_.
     s_bind (perform env Begin) (\<lambda>_.
     s_finally
       (s_bind (perform env SetLockTimeout) (\<lambda>_. perform env SetStatementTimeout))
       (perform env EndTransaction)))"

definition max_attempts :: nat where
  "max_attempts = 3"

type_synonym retry_decorator = "nat \<Rightarrow> (exn option \<Rightarrow> bool) \<Rightarrow> unit lact \<Rightarrow> unit lact"

definition initialize_database ::
  "retry_decorator \<Rightarrow> (string \<Rightarrow> pyclass list) \<Rightarrow> (exn \<Rightarrow> int) \<Rightarrow> lifecycle_call environment \<Rightarrow> unit lact" where
  "initialize_database retrying ext errno env =
     retrying max_attempts (should_retry_db_error ext errno) (database_attempt env)"

text \<open>What tenacity documents for \<open>stop_after_attempt\<close>, \<open>retry\<close> and \<open>reraise\<close>: \<open>pause\<close> is the sleep
  between two attempts, in which nothing is called.\<close>

definition retries :: "retry_decorator \<Rightarrow> (lifecycle_call task \<Rightarrow> lifecycle_call task) \<Rightarrow> bool" where
  "retries retrying pause \<longleftrightarrow>
     (\<forall>s. tk_trace (pause s) = tk_trace s) \<and>
     (\<forall>n again f s.
        retrying (Suc n) again f s =
          (case f s of
             (t, Inr x) \<Rightarrow> (t, Inr x)
           | (t, Inl e) \<Rightarrow> if n = 0 \<or> \<not> again (Some e) then (t, Inl e) else retrying n again f (pause t)))"

subsection \<open>Shutting down the infrastructure\<close>

text \<open>Closing a resource: how long it takes, and how it ends.\<close>

type_synonym closing = "real \<times> (exn + unit)"

definition shielded_wait :: "real \<Rightarrow> closing \<Rightarrow> closing" where
  \<comment> \<open>\<open>wait_for(shield(c), seconds)\<close>: a late closing goes on by itself\<close>
  "shielded_wait seconds c = (if fst c \<le> seconds then (max 0 (fst c), snd c) else (max 0 seconds, Inl timeout_error))"

definition quietly :: "(string \<Rightarrow> pyclass list) \<Rightarrow> pyclass list \<Rightarrow> closing \<Rightarrow> closing" where
  "quietly ext classes c =
     (fst c, case snd c of Inr u \<Rightarrow> Inr u | Inl e \<Rightarrow> if isinst ext (exn_class e) classes then Inr () else Inl e)"

definition close_redis :: "(string \<Rightarrow> pyclass list) \<Rightarrow> closing \<Rightarrow> closing" where
  "close_redis ext c =
     quietly ext [Builtin TimeoutErrorC, Builtin ConnectionErrorC, Builtin RuntimeErrorC, Builtin AttributeErrorC]
       (shielded_wait 5 c)"

definition dispose_postgres :: "(string \<Rightarrow> pyclass list) \<Rightarrow> closing \<Rightarrow> closing" where
  "dispose_postgres ext c =
     quietly ext [Builtin TimeoutErrorC, Builtin ConnectionErrorC, Builtin RuntimeErrorC] (shielded_wait 5 c)"

definition gather_closings :: "closing list \<Rightarrow> closing" where
  \<comment> \<open>\<open>gather(..., return_exceptions=True)\<close>: the exceptions are results\<close>
  "gather_closings cs = (foldr (\<lambda>c t. max (fst c) t) cs 0, Inr ())"

definition shutdown_infrastructure :: "(string \<Rightarrow> pyclass list) \<Rightarrow> real \<Rightarrow> closing \<Rightarrow> closing \<Rightarrow> closing" where
  "shutdown_infrastructure ext shutdown_timeout redis postgres =
     (let g = gather_closings [close_redis ext redis, dispose_postgres ext postgres] in
      quietly ext [Builtin TimeoutErrorC, Builtin RuntimeErrorC, Builtin ConnectionErrorC]
        (if fst g \<le> shutdown_timeout then g else (max 0 shutdown_timeout, Inl timeout_error)))"

subsection \<open>The lifespan\<close>

record lifespan_env =
  le_ext :: "string \<Rightarrow> pyclass list"
  le_errno :: "exn \<Rightarrow> int"
  le_retrying :: retry_decorator
  le_calls :: "lifecycle_call environment"
  le_shutdown_timeout :: real
  le_redis :: closing
  le_postgres :: closing

definition lifespan_body :: "lifespan_env \<Rightarrow> unit lact" where
  \<comment> \<open>the \<open>try\<close> block; \<open>Serve\<close> is the \<open>yield\<close>\<close>
  "lifespan_body L =
     s_bind (initialize_database (le_retrying L) (le_ext L) (le_errno L) (le_calls L)) (\<lambda>_.
     s_bind (perform (le_calls L) ConnectCache) (\<lambda>_.
     s_bind (perform (le_calls L) KitStartup) (\<lambda>_.
     perform (le_calls L) Serve)))"

definition close_infrastructure :: "lifespan_env \<Rightarrow> unit lact" where
  "close_infrastructure L s =
     (case shutdown_infrastructure (le_ext L) (le_shutdown_timeout L) (le_redis L) (le_postgres L) of
        (t, r) \<Rightarrow> (s\<lparr>tk_trace := tk_trace s @ [CloseInfrastructure], tk_now := tk_now s + t\<rparr>, r))"

definition lifespan_shutdown :: "lifespan_env \<Rightarrow> unit lact" where
  "lifespan_shutdown L =
     s_bind (s_catch (perform (le_calls L) KitShutdown) (\<lambda>e.
       if is_exception (le_ext L) e then s_ret () else s_raise e)) (\<lambda>_.
     s_catch (close_infrastructure L) (\<lambda>e.
       if isinst (le_ext L) (exn_class e) [Builtin CancelledErrorC] then s_ret ()
       else if is_exception (le_ext L) e then s_ret ()
       else s_raise e))"

definition lifespan :: "lifespan_env \<Rightarrow> unit lact" where
  "lifespan L = s_finally (lifespan_body L) (lifespan_shutdown L)"

subsection \<open>The application\<close>

datatype exception_handler =
    ValidationHandler | RateLimitHandler | ServiceHandler | HttpHandler | DomainHandler | UnhandledHandler

definition starlette_http_exception :: pyclass where
  "starlette_http_exception = Lib ''starlette.exceptions.HTTPException''"

definition configured_exception_handlers :: "(pyclass \<times> exception_handler) list" where
  \<comment> \<open>the calls of \<open>_configure_exception_handlers\<close>, in order\<close>
  "configured_exception_handlers =
     [(Lib ''fastapi.exceptions.RequestValidationError'', ValidationHandler),
      (Lib ''pydantic_core.ValidationError'', ValidationHandler),
      (Lib ''slowapi.errors.RateLimitExceeded'', RateLimitHandler),
      (App ServiceException, ServiceHandler),
      (starlette_http_exception, HttpHandler),
      (App DomainError, DomainHandler),
      (Builtin ExceptionC, UnhandledHandler)]"

definition documentation_urls :: "bool \<Rightarrow> string \<Rightarrow> string option \<times> string option \<times> string option" where
  \<comment> \<open>\<open>docs_url\<close>, \<open>redoc_url\<close> and \<open>openapi_url\<close> in \<open>create_app\<close>\<close>
  "documentation_urls is_production api_prefix =
     (if is_production then None else Some (api_prefix @ ''/docs''),
      if is_production then None else Some (api_prefix @ ''/redoc''),
      if is_production then None else Some (api_prefix @ ''/openapi.json''))"

text \<open>Starlette looks an exception up by the classes it derives from, the most specific first.\<close>

definition looks_up_by_class :: "((pyclass \<times> 'h) list \<Rightarrow> pyclass list \<Rightarrow> 'h option) \<Rightarrow> bool" where
  "looks_up_by_class lookup \<longleftrightarrow>
     (\<forall>hs c cs. distinct (map fst hs) \<longrightarrow>
        lookup hs (c # cs) = (case map_of hs c of Some h \<Rightarrow> Some h | None \<Rightarrow> lookup hs cs)) \<and>
     (\<forall>hs. lookup hs [] = None)"

subsection \<open>Lemmas\<close>

lemma attempt_calls: "calls_only (UNIV - {ConnectCache, KitStartup, Serve, KitShutdown, CloseInfrastructure}) (database_attempt env)"
  unfolding database_attempt_def by (intro calls_intros) auto

definition attempts :: "lifecycle_call list \<Rightarrow> nat" where
  "attempts cs = length (filter (\<lambda>c. c = GetEngine) cs)"

lemma attempts_append [simp]: "attempts (xs @ ys) = attempts xs + attempts ys"
  by (simp add: attempts_def)

lemma other_calls_no_attempt: "calls_only {Begin, SetLockTimeout, SetStatementTimeout, EndTransaction} (f :: unit lact) \<Longrightarrow>
   attempts (tk_trace (fst (f s))) = attempts (tk_trace s)"
  by (drule calls_onlyD [of _ _ s]) (auto simp: attempts_def filter_empty_conv)

lemma attempt_counts: "attempts (tk_trace (fst (database_attempt env s))) = attempts (tk_trace s) + 1"
proof -
  let ?rest = "s_bind (perform env Begin) (\<lambda>_.
     s_finally
       (s_bind (perform env SetLockTimeout) (\<lambda>_. perform env SetStatementTimeout))
       (perform env EndTransaction)) :: unit lact"
  have rest: "calls_only {Begin, SetLockTimeout, SetStatementTimeout, EndTransaction} ?rest"
    by (intro calls_intros) auto
  have get: "attempts (tk_trace (fst (perform_sync env GetEngine s))) = attempts (tk_trace s) + 1"
    by (simp add: perform_sync_trace attempts_def)
  show ?thesis
  proof (cases "snd (perform_sync env GetEngine s)")
    case (Inl e)
    then show ?thesis using get by (simp add: database_attempt_def s_bind_raises)
  next
    case (Inr x)
    have "database_attempt env s = ?rest (fst (perform_sync env GetEngine s))"
      unfolding database_attempt_def using Inr by (rule s_bind_returns)
    then show ?thesis using get other_calls_no_attempt [OF rest] by simp
  qed
qed

lemma retries_step:
  assumes "retries T pause" "f s = (t, Inl e)" "again (Some e)" "n \<noteq> 0"
  shows "T (Suc n) again f s = T n again f (pause t)"
  using assms by (simp add: retries_def)

lemma retries_stop:
  assumes "retries T pause" "f s = (t, r)" "r = Inl e \<Longrightarrow> n = 0 \<or> \<not> again (Some e)"
  shows "is_ok r \<or> n = 0 \<or> (\<exists>e. r = Inl e \<and> \<not> again (Some e)) \<Longrightarrow> T (Suc n) again f s = (t, r)"
  using assms by (cases r) (auto simp: retries_def)

lemma retried_attempts:
  assumes "retries T pause"
  shows "attempts (tk_trace s) + 1 \<le> attempts (tk_trace (fst (T (Suc n) again (database_attempt env) s))) \<and>
    attempts (tk_trace (fst (T (Suc n) again (database_attempt env) s))) \<le> attempts (tk_trace s) + Suc n"
proof (induction n arbitrary: s)
  case 0
  then show ?case
    using assms attempt_counts [of env s] by (cases "database_attempt env s") (auto simp: retries_def split: sum.splits)
next
  case (Suc n)
  obtain t r where f: "database_attempt env s = (t, r)" by (cases "database_attempt env s")
  have t: "attempts (tk_trace t) = attempts (tk_trace s) + 1" using attempt_counts [of env s] f by simp
  show ?case
  proof (cases "\<exists>e. r = Inl e \<and> again (Some e)")
    case True
    then have "T (Suc (Suc n)) again (database_attempt env) s = T (Suc n) again (database_attempt env) (pause t)"
      using retries_step [OF assms] f by blast
    moreover have "tk_trace (pause t) = tk_trace t" using assms by (simp add: retries_def)
    ultimately show ?thesis using Suc.IH [of "pause t"] t by simp
  next
    case False
    have "T (Suc (Suc n)) again (database_attempt env) s =
        (case database_attempt env s of (t, Inr x) \<Rightarrow> (t, Inr x)
         | (t, Inl e) \<Rightarrow> if Suc n = 0 \<or> \<not> again (Some e) then (t, Inl e) else T (Suc n) again (database_attempt env) (pause t))"
      using assms unfolding retries_def by blast
    then have "T (Suc (Suc n)) again (database_attempt env) s = (t, r)"
      using False by (cases r) (simp_all add: f)
    then show ?thesis using t by simp
  qed
qed

lemma shutdown_infrastructure_returns:
  "\<exists>t. shutdown_infrastructure ext shutdown_timeout redis postgres = (t, Inr ()) \<and> 0 \<le> t \<and> t \<le> 5 \<and> t \<le> max 0 shutdown_timeout"
proof -
  have w: "0 \<le> fst (close_redis ext c) \<and> fst (close_redis ext c) \<le> 5"
    "0 \<le> fst (dispose_postgres ext c) \<and> fst (dispose_postgres ext c) \<le> 5" for c
    by (auto simp: close_redis_def dispose_postgres_def quietly_def shielded_wait_def)
  have "isinst ext (exn_class timeout_error) [Builtin TimeoutErrorC, Builtin RuntimeErrorC, Builtin ConnectionErrorC]"
    by (simp add: timeout_error_def)
  then show ?thesis
    using w(1) [of redis] w(2) [of postgres]
    by (auto simp: shutdown_infrastructure_def quietly_def gather_closings_def Let_def)
qed

subsection \<open>Properties\<close>

text \<open>C30. The database is tried at least once and at most three times at startup, and only once when the
  error is a wrong password or the name error number 8.\<close>

theorem startup_attempts:
  assumes "retries retrying pause"
  shows "attempts (tk_trace s) + 1 \<le> attempts (tk_trace (fst (initialize_database retrying ext errno env s))) \<and>
    attempts (tk_trace (fst (initialize_database retrying ext errno env s))) \<le> attempts (tk_trace s) + 3 \<and>
    (\<forall>e. snd (database_attempt env s) = Inl e \<and>
         (is_auth_error ext (exn_class e) \<or> isinst ext (exn_class e) [Builtin GaiErrorC] \<and> errno e = 8) \<longrightarrow>
       initialize_database retrying ext errno env s = (fst (database_attempt env s), Inl e))"
proof -
  have three: "max_attempts = Suc 2" by (simp add: max_attempts_def)
  have step: "retrying (Suc 2) again f s =
      (case f s of (t, Inr x) \<Rightarrow> (t, Inr x)
       | (t, Inl e) \<Rightarrow> if (2::nat) = 0 \<or> \<not> again (Some e) then (t, Inl e) else retrying 2 again f (pause t))" for again f
    using assms unfolding retries_def by blast
  have once: "initialize_database retrying ext errno env s = (fst (database_attempt env s), Inl e)"
    if "snd (database_attempt env s) = Inl e" "\<not> should_retry_db_error ext errno (Some e)" for e
    using that unfolding initialize_database_def three step by (cases "database_attempt env s") simp
  show ?thesis
    using retried_attempts [OF assms, of s 2 "should_retry_db_error ext errno" env] once
    by (auto simp: initialize_database_def three should_retry_db_error_def is_dns_resolution_error_def)
qed

primrec retry_at_once :: retry_decorator where
  "retry_at_once 0 again f s = f s"
| "retry_at_once (Suc n) again f s =
     (case f s of
        (t, Inr x) \<Rightarrow> (t, Inr x)
      | (t, Inl e) \<Rightarrow> if n = 0 \<or> \<not> again (Some e) then (t, Inl e) else retry_at_once n again f t)"

lemma retry_at_once_retries: "retries retry_at_once (\<lambda>s. s)"
  by (simp add: retries_def)

definition wrong_password :: "lifecycle_call environment" where
  "wrong_password cs =
     (1, if last cs = Begin then Inl (EOther (Lib ''asyncpg.exceptions.InvalidPasswordError'') ''no'') else Inr ())"

definition new_task :: "lifecycle_call task" where
  "new_task = \<lparr>tk_now = 0, tk_deadlines = [], tk_trace = []\<rparr>"

theorem startup_attempts_witness:
  "initialize_database retry_at_once (\<lambda>_. []) (\<lambda>_. 0) wrong_password new_task =
     (\<lparr>tk_now = 2, tk_deadlines = [], tk_trace = [GetEngine, Begin]\<rparr>,
      Inl (EOther (Lib ''asyncpg.exceptions.InvalidPasswordError'') ''no''))"
proof -
  have "database_attempt wrong_password new_task =
     (\<lparr>tk_now = 2, tk_deadlines = [], tk_trace = [GetEngine, Begin]\<rparr>,
      Inl (EOther (Lib ''asyncpg.exceptions.InvalidPasswordError'') ''no''))"
    by (simp add: database_attempt_def act_simps perform_def perform_sync_def Let_def wrong_password_def new_task_def)
  then show ?thesis
    using startup_attempts [OF retry_at_once_retries, of new_task "\<lambda>_. []" "\<lambda>_. 0" wrong_password]
    by (simp add: is_auth_error_def)
qed


text \<open>Which handler answers an exception of the program does not depend on the order in which the
  handlers are registered: the service exceptions, although they are HTTP exceptions, reach their
  own handler, the domain errors theirs, and the rest the handler of unexpected errors.\<close>

theorem handler_of_class:
  assumes "looks_up_by_class lookup" "mset hs = mset configured_exception_handlers"
  shows "lookup hs (mro ext (App c)) =
    Some (if is_service_class c then ServiceHandler else if is_domain_class c then DomainHandler else UnhandledHandler)"
proof -
  have keys: "distinct (map fst configured_exception_handlers)"
    by (simp add: configured_exception_handlers_def starlette_http_exception_def)
  have "mset (map fst hs) = mset (map fst configured_exception_handlers)" using assms(2) by simp
  then have dist: "distinct (map fst hs)" using keys by (metis mset_eq_imp_distinct_iff)
  have "set hs = set configured_exception_handlers" using assms(2) by (rule mset_eq_setD)
  then have same: "map_of hs = map_of configured_exception_handlers" by (simp add: map_of_inject_set [OF dist keys])
  have first: "lookup hs (d # ds) = (case map_of configured_exception_handlers d of Some h \<Rightarrow> Some h | None \<Rightarrow> lookup hs ds)" for d ds
    using assms(1) dist unfolding looks_up_by_class_def same [symmetric] by blast
  show ?thesis
    by (cases c) (simp_all add: mro_def first configured_exception_handlers_def starlette_http_exception_def is_service_class_def is_domain_class_def)
qed

primrec lookup_first :: "(pyclass \<times> 'h) list \<Rightarrow> pyclass list \<Rightarrow> 'h option" where
  "lookup_first hs [] = None"
| "lookup_first hs (c # cs) = (case map_of hs c of Some h \<Rightarrow> Some h | None \<Rightarrow> lookup_first hs cs)"

theorem handler_of_class_witness:
  "lookup_first (rev configured_exception_handlers) (mro (\<lambda>_. []) (App JWTInvalidTokenError)) = Some ServiceHandler"
proof -
  have "looks_up_by_class (lookup_first :: (pyclass \<times> exception_handler) list \<Rightarrow> _)" by (simp add: looks_up_by_class_def)
  from handler_of_class [OF this, of "rev configured_exception_handlers" "\<lambda>_. []" JWTInvalidTokenError]
  show ?thesis by (simp add: is_service_class_def)
qed

end
