(* ===== verification/LogConfig.thy ===== *)
theory LogConfig
  imports PyStrings
begin

section \<open>The configuration of logging\<close>

text \<open>
  \<open>core/observability/logging.py\<close>: the choice of handlers for the log format, the log paths and the
  processors that add the identifiers of a request.  A configuration is what \<open>logging_config.yaml\<close>
  holds, reduced to the handlers with their files and to the loggers with the names of their
  handlers; \<open>shipped_config\<close> is the one of the repository.
\<close>

record log_config =
  lc_handlers :: "(string \<times> string option) list"
  lc_root :: "string list option"
  lc_loggers :: "(string \<times> string list option) list"

subsection \<open>Formats\<close>

definition structlog_loggers :: "string list" where
  "structlog_loggers = [''app'', ''backend.core.infrastructure.dbos_config'']"

definition standard_loggers :: "string list" where
  "standard_loggers =
     [''uvicorn'', ''uvicorn.error'', ''uvicorn.access'', ''sqlalchemy'', ''sqlalchemy.engine'', ''dbos'',
      ''httpx'', ''openai'', ''slowapi'', ''watchfiles'']"

definition handler_mapping :: "(string \<times> string) list" where
  "handler_mapping =
     [(''console'', ''console_json''), (''file'', ''file_json''), (''error_file'', ''error_file_json'')]"

definition structured_handler_mapping :: "(string \<times> string) list" where
  "structured_handler_mapping =
     [(''console'', ''console_json_structured''), (''file'', ''file_json_structured''),
      (''error_file'', ''error_file_json_structured'')]"

definition reverse_mapping :: "(string \<times> string) list" where
  "reverse_mapping = map (\<lambda>(k, v). (v, k)) handler_mapping"

definition get_default :: "(string \<times> string) list \<Rightarrow> string \<Rightarrow> string" where
  \<comment> \<open>\<open>d.get(k, k)\<close>\<close>
  "get_default d k = (case dict_get d k of Some v \<Rightarrow> v | None \<Rightarrow> k)"

definition update_handler :: "log_config \<Rightarrow> bool \<Rightarrow> bool \<Rightarrow> string \<Rightarrow> string" where
  "update_handler config use_json is_structlog handler =
     (if use_json then
        if is_structlog then get_default handler_mapping handler
        else (case dict_get structured_handler_mapping handler of
                Some structured \<Rightarrow>
                  if structured \<noteq> [] \<and> dict_has (lc_handlers config) structured then structured
                  else get_default handler_mapping handler
              | None \<Rightarrow> get_default handler_mapping handler)
      else get_default reverse_mapping handler)"

definition is_structlog_logger :: "string \<Rightarrow> bool" where
  "is_structlog_logger name \<longleftrightarrow> name \<in> set structlog_loggers \<or> name \<notin> set standard_loggers"

definition apply_logging_format :: "bool \<Rightarrow> log_config \<Rightarrow> log_config" where
  "apply_logging_format use_json config =
     config\<lparr>lc_root := map_option (map (update_handler config use_json True)) (lc_root config),
            lc_loggers := map (\<lambda>(name, handlers).
              (name, map_option (map (update_handler config use_json (is_structlog_logger name))) handlers))
              (lc_loggers config)\<rparr>"

subsection \<open>Paths\<close>

definition get_log_directory :: "bool \<Rightarrow> bool \<Rightarrow> string \<Rightarrow> string" where
  \<comment> \<open>\<open>docker\<close>: \<open>/app/logs\<close> exists; \<open>backend_dir\<close> is the directory of the program\<close>
  "get_log_directory docker is_production backend_dir =
     (if docker \<or> is_production then ''/app/logs'' else backend_dir @ ''/logs'')"

definition path_name :: "string \<Rightarrow> string" where
  \<comment> \<open>\<open>Path(p).name\<close>, for a path with no trailing separator\<close>
  "path_name p = last (split_on CHR ''/'' p)"

definition adjust_path :: "string \<Rightarrow> string \<Rightarrow> string" where
  "adjust_path log_dir filename =
     (if startswith filename ''/app/logs/'' then log_dir @ CHR ''/'' # path_name filename else filename)"

definition adjust_log_paths :: "string \<Rightarrow> log_config \<Rightarrow> log_config" where
  "adjust_log_paths log_dir config =
     config\<lparr>lc_handlers := map (\<lambda>(name, file). (name, map_option (adjust_path log_dir) file)) (lc_handlers config)\<rparr>"

subsection \<open>Processors\<close>

definition add_request_id_processor :: "string option \<Rightarrow> (string \<times> pyval) list \<Rightarrow> (string \<times> pyval) list" where
  \<comment> \<open>the first argument is the value of the context variable\<close>
  "add_request_id_processor request_id event =
     (if given request_id then dict_set ''request_id'' (PStr (the request_id)) event else event)"

definition add_user_id_processor :: "string option \<Rightarrow> (string \<times> pyval) list \<Rightarrow> (string \<times> pyval) list" where
  "add_user_id_processor user_id event =
     (if given user_id then dict_set ''user_id'' (PStr (the user_id)) event else event)"

subsection \<open>The configuration of the repository\<close>

definition shipped_config :: log_config where
  "shipped_config =
     \<lparr>lc_handlers =
        [(''console'', None), (''console_structlog'', None), (''console_passthrough'', None), (''console_json'', None),
         (''console_json_structured'', None), (''file'', Some ''/app/logs/app.log''),
         (''file_json'', Some ''/app/logs/app.log''), (''file_json_structured'', Some ''/app/logs/app.log''),
         (''error_file'', Some ''/app/logs/error.log''), (''error_file_json'', Some ''/app/logs/error.log''),
         (''error_file_json_structured'', Some ''/app/logs/error.log'')],
      lc_root = Some [''console_structlog'', ''file'', ''error_file''],
      lc_loggers =
        [(''uvicorn'', Some [''console_structlog'', ''file'']), (''uvicorn.error'', Some [''console_structlog'', ''error_file'']),
         (''uvicorn.access'', Some [''console_structlog'', ''file'']),
         (''_granian'', Some [''console_structlog'', ''file'', ''error_file'']),
         (''granian.access'', Some [''console_structlog'', ''file'']),
         (''app'', Some [''console_structlog'', ''file'', ''error_file'']),
         (''sqlalchemy'', Some [''console_structlog'', ''file'']), (''sqlalchemy.engine'', Some [''file'']),
         (''httpx'', Some [''console_structlog'', ''file'']), (''openai'', Some [''console_structlog'', ''file'']),
         (''dbos'', Some [''console_structlog'', ''file'']), (''slowapi'', Some [''console_structlog'', ''file'']),
         (''watchfiles'', Some [''console_structlog''])]\<rparr>"

definition text_handler :: "string \<Rightarrow> bool" where
  \<comment> \<open>a handler that writes lines for people\<close>
  "text_handler h \<longleftrightarrow> h \<in> set [''console'', ''console_structlog'', ''file'', ''error_file'']"

subsection \<open>Lemmas\<close>

lemma update_handler_text: "text_handler h \<Longrightarrow> update_handler config False b h = h"
  by (auto simp: text_handler_def update_handler_def get_default_def reverse_mapping_def handler_mapping_def)

text \<open>Going back to text undoes the JSON mode on the loggers of structlog.\<close>

lemma update_handler_back:
  assumes "text_handler h"
  shows "update_handler c1 False b (update_handler c2 True True h) = h"
  using assms by (auto simp: text_handler_def update_handler_def get_default_def reverse_mapping_def handler_mapping_def)

lemma console_structlog_kept: "update_handler config use_json b ''console_structlog'' = ''console_structlog''"
  by (simp add: update_handler_def get_default_def reverse_mapping_def handler_mapping_def structured_handler_mapping_def)

lemma update_handler_json:
  "text_handler h \<Longrightarrow> h \<noteq> ''console_structlog'' \<Longrightarrow> \<not> text_handler (update_handler config True b h)"
  by (auto simp: text_handler_def update_handler_def get_default_def handler_mapping_def structured_handler_mapping_def)

lemma loggers_of_format:
  "(name, Some hs) \<in> set (lc_loggers (apply_logging_format use_json config)) \<longleftrightarrow>
   (\<exists>hs0. (name, Some hs0) \<in> set (lc_loggers config) \<and>
      hs = map (update_handler config use_json (is_structlog_logger name)) hs0)"
proof
  assume "(name, Some hs) \<in> set (lc_loggers (apply_logging_format use_json config))"
  then show "\<exists>hs0. (name, Some hs0) \<in> set (lc_loggers config) \<and>
      hs = map (update_handler config use_json (is_structlog_logger name)) hs0"
    by (auto simp: apply_logging_format_def eq_commute [of "Some hs"])
next
  assume "\<exists>hs0. (name, Some hs0) \<in> set (lc_loggers config) \<and>
      hs = map (update_handler config use_json (is_structlog_logger name)) hs0"
  then obtain hs0 where "(name, Some hs0) \<in> set (lc_loggers config)"
    "hs = map (update_handler config use_json (is_structlog_logger name)) hs0" by blast
  then show "(name, Some hs) \<in> set (lc_loggers (apply_logging_format use_json config))"
    by (auto simp: apply_logging_format_def intro!: image_eqI [where x = "(name, Some hs0)"])
qed

lemma image_fixed: "f x = x \<Longrightarrow> x \<in> set xs \<Longrightarrow> x \<in> set (map f xs)"
  by force

subsection \<open>Property\<close>

text \<open>With JSON logs every text handler of a file is replaced, and the console is not: a logger
  with the handler \<open>console_structlog\<close>, which is every logger of the repository's configuration that writes to the
  console, goes on writing text there.\<close>

theorem json_console_stays_text:
  "(\<forall>name hs h. (name, Some hs) \<in> set (lc_loggers (apply_logging_format True shipped_config)) \<longrightarrow> h \<in> set hs \<longrightarrow>
      text_handler h \<longrightarrow> h = ''console_structlog'') \<and>
   (\<forall>name hs. (name, Some hs) \<in> set (lc_loggers shipped_config) \<longrightarrow> name \<noteq> ''sqlalchemy.engine'' \<longrightarrow>
      (\<exists>hs'. (name, Some hs') \<in> set (lc_loggers (apply_logging_format True shipped_config)) \<and> ''console_structlog'' \<in> set hs')) \<and>
   (\<exists>hs. lc_root (apply_logging_format True shipped_config) = Some hs \<and> ''console_structlog'' \<in> set hs)"
proof (intro conjI allI impI)
  fix name hs h
  assume *: "(name, Some hs) \<in> set (lc_loggers (apply_logging_format True shipped_config))" "h \<in> set hs" "text_handler h"
  then obtain hs0 h0 where h0: "(name, Some hs0) \<in> set (lc_loggers shipped_config)" "h0 \<in> set hs0"
    "h = update_handler shipped_config True (is_structlog_logger name) h0"
    unfolding loggers_of_format by auto
  then have "text_handler h0" by (auto simp: shipped_config_def text_handler_def)
  then show "h = ''console_structlog''"
    using update_handler_json *(3) h0(3) console_structlog_kept by metis
next
  fix name hs
  assume *: "(name, Some hs) \<in> set (lc_loggers shipped_config)" "name \<noteq> ''sqlalchemy.engine''"
  then have "''console_structlog'' \<in> set hs" by (auto simp: shipped_config_def)
  then have "''console_structlog'' \<in> set (map (update_handler shipped_config True (is_structlog_logger name)) hs)"
    by (rule image_fixed [of "update_handler shipped_config True (is_structlog_logger name)" "''console_structlog''",
          OF console_structlog_kept])
  then show "\<exists>hs'. (name, Some hs') \<in> set (lc_loggers (apply_logging_format True shipped_config)) \<and> ''console_structlog'' \<in> set hs'"
    using *(1) unfolding loggers_of_format by blast
next
  show "\<exists>hs. lc_root (apply_logging_format True shipped_config) = Some hs \<and> ''console_structlog'' \<in> set hs"
    by (simp add: apply_logging_format_def console_structlog_kept [of shipped_config True True, simplified shipped_config_def]
        shipped_config_def)
qed

theorem json_console_stays_text_witness:
  "(''app'', Some [''console_structlog'', ''file'', ''error_file'']) \<in> set (lc_loggers shipped_config) \<and>
   (\<exists>hs'. (''app'', Some hs') \<in> set (lc_loggers (apply_logging_format True shipped_config)) \<and> ''console_structlog'' \<in> set hs')"
proof -
  have "(''app'', Some [''console_structlog'', ''file'', ''error_file'']) \<in> set (lc_loggers shipped_config)"
    by (simp add: shipped_config_def)
  moreover have "''app'' \<noteq> ''sqlalchemy.engine''" by simp
  ultimately show ?thesis
    using conjunct1 [OF conjunct2 [OF json_console_stays_text]] by blast
qed

end
