(* ===== verification/Profiling.thy ===== *)
theory Profiling
  imports Middleware Settings "HOL-Library.List_Lexorder" "HOL-Library.Char_ord"
begin

section \<open>The profiling middleware\<close>

text \<open>
  \<open>core/api/middleware/profiling.py\<close>: which requests are profiled, where a profile is stored, and the
  removal of old profiles.  The profiler is pyinstrument and, with the file system, a parameter
  on a world \<open>'w\<close> of any type.  A path below the profile directory is the list of its components.
\<close>

subsection \<open>Which requests are profiled\<close>

definition compare_digest :: "string \<Rightarrow> string \<Rightarrow> exn + bool" where
  \<comment> \<open>\<open>hmac.compare_digest\<close> takes ASCII text only\<close>
  "compare_digest a b =
     (if list_all (\<lambda>c. ordc c < 128) a \<and> list_all (\<lambda>c. ordc c < 128) b then Inr (a = b)
      else Inl (EOther (Builtin TypeErrorC) ''comparing strings with non-ASCII characters is not supported''))"

definition should_profile_request :: "profiling_conf \<Rightarrow> real \<Rightarrow> web_request \<Rightarrow> string option \<Rightarrow> exn + bool" where
  \<comment> \<open>\<open>draw\<close> is the value of \<open>random.random()\<close>, \<open>profile_param\<close> the query parameter \<open>profile\<close>\<close>
  "should_profile_request conf draw request profile_param =
     (if \<not> pf_enabled conf then Inr False
      else bind_res
        (if pf_require_header conf
         then compare_digest (or_else (header_get (wr_http request) ''X-Profile-Token'') []) (pf_header_token conf)
         else Inr True)
        (\<lambda>authorized. Inr
          (if \<not> authorized then False
           else if profile_param = Some ''true'' then True
           else if pf_endpoints conf \<noteq> [] \<and> wr_path request \<notin> set (pf_endpoints conf) then False
           else draw < pf_sample_rate conf)))"

subsection \<open>Where a profile is stored\<close>

definition endpoint_safe :: "string \<Rightarrow> string" where
  "endpoint_safe endpoint = or_else (Some (strip_char (CHR ''_'') (replace_char (CHR ''/'') ''_'' endpoint))) ''root''"

definition profile_directory :: "string \<Rightarrow> string \<Rightarrow> string list" where
  \<comment> \<open>\<open>PROFILE_DIR / "pyinstrument" / date / endpoint\<close>; a component \<open>.\<close> is dropped by \<open>pathlib\<close>\<close>
  "profile_directory date endpoint =
     filter (\<lambda>p. p \<noteq> ''.'') (''pyinstrument'' # split_on CHR ''/'' date @ [endpoint_safe endpoint])"

record 'w profiler_env =
  pe_ext :: "string \<Rightarrow> pyclass list"
  pe_mkdir :: "string list \<Rightarrow> ('w, exn, unit) act"
  pe_write :: "string list \<Rightarrow> string \<Rightarrow> ('w, exn, unit) act"
  pe_start :: "real \<Rightarrow> ('w, exn, unit) act"
  pe_stop :: "('w, exn, unit) act"
  pe_speedscope :: "('w, exn, string) act"
  pe_html :: "('w, exn, string) act"

definition get_profile_path :: "'w profiler_env \<Rightarrow> string \<Rightarrow> string \<Rightarrow> ('w, exn, string list option) act" where
  "get_profile_path E date endpoint =
     s_catch (s_bind (pe_mkdir E (profile_directory date endpoint)) (\<lambda>_. s_ret (Some (profile_directory date endpoint))))
       (\<lambda>e. if isinst (pe_ext E) (exn_class e) [Builtin OSErrorC] then s_ret None else s_raise e)"

definition profile_basename :: "string option \<Rightarrow> nat \<Rightarrow> string" where
  "profile_basename request_id timestamp =
     (let t = str_of_int (int timestamp);
          r = (case request_id of Some r \<Rightarrow> r | None \<Rightarrow> t)
      in ''profile_'' @ take 8 r @ ''_'' @ t)"

definition save_profile_locally ::
  "'w profiler_env \<Rightarrow> string \<Rightarrow> nat \<Rightarrow> web_request \<Rightarrow> ('w, exn, (string list \<times> string list) option) act" where
  \<comment> \<open>the paths of the two files, or \<open>None\<close> for \<open>(None, None)\<close>; one time in a hundred the removal of
    old profiles is started in the background\<close>
  "save_profile_locally E date timestamp request =
     s_catch
       (s_bind (get_profile_path E date (wr_path request)) (\<lambda>p. case p of
          None \<Rightarrow> s_ret None
        | Some dir \<Rightarrow>
            let base = profile_basename (header_get (wr_http request) ''X-Request-ID'') timestamp;
                json = dir @ split_on CHR ''/'' (base @ ''.json'');
                html = dir @ split_on CHR ''/'' (base @ ''.html'')
            in s_bind (pe_speedscope E) (\<lambda>data.
               s_bind (pe_html E) (\<lambda>page.
               s_bind (pe_write E json data) (\<lambda>_.
               s_bind (pe_write E html page) (\<lambda>_.
               s_ret (Some (json, html))))))))
       (\<lambda>e. if isinst (pe_ext E) (exn_class e) [Builtin OSErrorC] then s_ret None else s_raise e)"

subsection \<open>The middleware\<close>

definition profile_headers :: "bool \<Rightarrow> string \<Rightarrow> string list \<Rightarrow> response \<Rightarrow> response" where
  \<comment> \<open>\<open>duration\<close> is the formatted number of milliseconds\<close>
  "profile_headers is_production duration html response =
     (let r = set_header ''X-Profile-Duration-Ms'' duration (set_header ''X-Profiled'' ''true'' response)
      in if \<not> is_production then set_header ''X-Profile-Path'' (join ''/'' (''profiles'' # html)) r else r)"

definition profiling_middleware ::
  "'w profiler_env \<Rightarrow> profiling_conf \<Rightarrow> bool \<Rightarrow> real \<Rightarrow> string \<Rightarrow> nat \<Rightarrow> string \<Rightarrow> string option \<Rightarrow>
   (web_request \<Rightarrow> ('w, exn, response) act) \<Rightarrow> web_request \<Rightarrow> ('w, exn, response) act" where
  "profiling_middleware E conf is_production draw date timestamp duration profile_param call_next request =
     s_bind (s_lift (should_profile_request conf draw request profile_param)) (\<lambda>profiled.
       if \<not> profiled then call_next request
       else
         s_bind (pe_start E (pf_interval_ms conf / 1000)) (\<lambda>_.
         s_bind
           (s_catch (call_next request) (\<lambda>e.
              if is_exception (pe_ext E) e
              then s_bind (pe_stop E) (\<lambda>_. s_bind (save_profile_locally E date timestamp request) (\<lambda>_. s_raise e))
              else s_raise e)) (\<lambda>response.
         s_bind (pe_stop E) (\<lambda>_.
         s_bind (save_profile_locally E date timestamp request) (\<lambda>saved.
         s_ret (case saved of Some (json, html) \<Rightarrow> profile_headers is_production duration html response
                | None \<Rightarrow> response))))))"

subsection \<open>The removal of old profiles\<close>

datatype entry = File real | Dir

type_synonym tree = "(string list \<times> entry) list"

definition old_file :: "string \<Rightarrow> real \<Rightarrow> string list \<times> entry \<Rightarrow> bool" where
  "old_file suffix cutoff f =
     (case f of (p, File mtime) \<Rightarrow> p \<noteq> [] \<and> endswith (last p) suffix \<and> mtime < cutoff | (p, Dir) \<Rightarrow> False)"

definition remove_old :: "string \<Rightarrow> real \<Rightarrow> tree \<Rightarrow> tree" where
  "remove_old suffix cutoff fs = filter (\<lambda>f. \<not> old_file suffix cutoff f) fs"

definition has_entry :: "string list \<Rightarrow> tree \<Rightarrow> bool" where
  \<comment> \<open>\<open>any(d.iterdir())\<close>\<close>
  "has_entry d fs \<longleftrightarrow> list_ex (\<lambda>(p, _). p \<noteq> [] \<and> butlast p = d) fs"

fun remove_empty :: "string list list \<Rightarrow> tree \<Rightarrow> tree" where
  "remove_empty [] fs = fs"
| "remove_empty (d # ds) fs =
     remove_empty ds (if (d, Dir) \<in> set fs \<and> \<not> has_entry d fs then filter (\<lambda>f. f \<noteq> (d, Dir)) fs else fs)"

definition cleanup_old_profiles :: "int \<Rightarrow> real \<Rightarrow> tree \<Rightarrow> tree" where
  \<comment> \<open>for a directory that exists, when no operation fails\<close>
  "cleanup_old_profiles retention_days now fs =
     (let cutoff = now - of_int (retention_days * 86400);
          fs1 = remove_old ''.html'' cutoff (remove_old ''.json'' cutoff fs)
      in remove_empty (rev (sort (map fst fs1))) fs1)"

subsection \<open>Lemmas\<close>

lemma remove_empty_files: "(p, File t) \<in> set (remove_empty ds fs) \<longleftrightarrow> (p, File t) \<in> set fs"
  by (induction ds fs rule: remove_empty.induct) auto

lemma remove_empty_subset: "set (remove_empty ds fs) \<subseteq> set fs"
  by (induction ds fs rule: remove_empty.induct) (auto split: if_splits)

lemma remove_empty_keeps: "x \<in> set fs \<Longrightarrow> fst x \<notin> set ds \<Longrightarrow> x \<in> set (remove_empty ds fs)"
proof (induction ds fs rule: remove_empty.induct)
  case (2 d ds fs)
  moreover have "x \<noteq> (d, Dir)" using 2(3) by auto
  ultimately show ?case by simp
qed simp

lemma less_child: "d < d @ [x]" for d :: "string list"
  by (simp add: list_less_def lexord_append_rightI)

text \<open>A directory is looked at after everything in it, so that it remains only with an entry that
  remains.\<close>

lemma remove_empty_complete:
  assumes "sorted_wrt (\<lambda>a b. b \<le> a) ds" "distinct ds" "d \<in> set ds" "(d, Dir) \<in> set (remove_empty ds fs)"
  shows "has_entry d (remove_empty ds fs)"
  using assms
proof (induction ds fs rule: remove_empty.induct)
  case (1 fs)
  then show ?case by simp
next
  case (2 a ds fs)
  let ?fs = "if (a, Dir) \<in> set fs \<and> \<not> has_entry a fs then filter (\<lambda>f. f \<noteq> (a, Dir)) fs else fs"
  show ?case
  proof (cases "d = a")
    case False
    then show ?thesis using 2 by simp
  next
    case True
    have in_fs: "(a, Dir) \<in> set ?fs"
      using 2(5) remove_empty_subset [of ds ?fs] unfolding True remove_empty.simps by blast
    then have "has_entry a fs" and same: "?fs = fs" by (simp_all split: if_splits)
    then obtain p e where p: "(p, e) \<in> set fs" "p \<noteq> []" "butlast p = a" by (auto simp: has_entry_def list_ex_iff)
    then have "a < p" using less_child [of a "last p"] by (metis append_butlast_last_id)
    then have "p \<notin> set ds" using 2(2) by fastforce
    then have "(p, e) \<in> set (remove_empty ds fs)" using remove_empty_keeps p(1) by simp
    then have "has_entry a (remove_empty ds fs)" using p(2,3) by (auto simp: has_entry_def list_ex_iff)
    then show ?thesis using True same by simp
  qed
qed

lemma remove_old_set: "x \<in> set (remove_old suffix cutoff fs) \<longleftrightarrow> x \<in> set fs \<and> \<not> old_file suffix cutoff x"
  by (auto simp: remove_old_def)

lemma distinct_remove_old: "distinct (map fst fs) \<Longrightarrow> distinct (map fst (remove_old suffix cutoff fs))"
  by (simp add: remove_old_def distinct_map_filter)

lemma replace_char_free: "c \<notin> set r \<Longrightarrow> c \<notin> set (replace_char c r s)"
  by (induction s) auto

lemma strip_char_subset: "set (strip_char c s) \<subseteq> set s"
  unfolding strip_char_def rstrip_char_def by (auto dest!: set_dropWhileD)

lemma endpoint_safe_facts: "endpoint_safe endpoint \<noteq> []" "CHR ''/'' \<notin> set (endpoint_safe endpoint)"
  using replace_char_free [of "CHR ''/''" "''_''" endpoint] strip_char_subset [of "CHR ''_''" "replace_char (CHR ''/'') ''_'' endpoint"]
  by (auto simp: endpoint_safe_def)

subsection \<open>Properties\<close>

text \<open>Requiring a token without configuring one protects nothing: with the default, empty token a
  request without the header is profiled whenever it asks for it; with a token, a request is
  profiled only if it carries that token, and a header outside ASCII raises \<open>TypeError\<close>.\<close>

theorem profiling_token:
  assumes "pf_enabled conf" "pf_require_header conf"
  shows "(pf_header_token conf = [] \<and> header_get (wr_http request) ''X-Profile-Token'' = None \<longrightarrow>
      should_profile_request conf draw request (Some ''true'') = Inr True) \<and>
    (pf_header_token conf \<noteq> [] \<and> should_profile_request conf draw request param = Inr True \<longrightarrow>
      header_get (wr_http request) ''X-Profile-Token'' = Some (pf_header_token conf)) \<and>
    (\<forall>v c. header_get (wr_http request) ''X-Profile-Token'' = Some v \<and> c \<in> set v \<and> 128 \<le> ordc c \<longrightarrow>
      \<not> is_ok (should_profile_request conf draw request param))"
proof (intro conjI allI impI)
  show "should_profile_request conf draw request (Some ''true'') = Inr True"
    if "pf_header_token conf = [] \<and> header_get (wr_http request) ''X-Profile-Token'' = None"
    using assms that by (simp add: should_profile_request_def compare_digest_def)
  show "header_get (wr_http request) ''X-Profile-Token'' = Some (pf_header_token conf)"
    if "pf_header_token conf \<noteq> [] \<and> should_profile_request conf draw request param = Inr True"
    using assms that
    by (cases "header_get (wr_http request) ''X-Profile-Token''")
      (auto simp: should_profile_request_def compare_digest_def split: if_splits)
  show "\<not> is_ok (should_profile_request conf draw request param)"
    if "header_get (wr_http request) ''X-Profile-Token'' = Some v \<and> c \<in> set v \<and> 128 \<le> ordc c" for v c
  proof -
    have "\<not> list_all (\<lambda>c. ordc c < 128) v" using that by (auto simp: list_all_iff not_less)
    moreover have "v \<noteq> []" using that by auto
    ultimately show ?thesis using assms that by (simp add: should_profile_request_def compare_digest_def)
  qed
qed

definition asking_request :: web_request where
  "asking_request = \<lparr>wr_http = \<lparr>hr_headers = [], hr_client = None\<rparr>, wr_path = ''/x'', wr_method = ''GET'', wr_request_id = None\<rparr>"

theorem profiling_token_witness:
  "should_profile_request (profiling_defaults\<lparr>pf_enabled := True, pf_require_header := True\<rparr>) 1 asking_request (Some ''true'') = Inr True"
  using profiling_token [of "profiling_defaults\<lparr>pf_enabled := True, pf_require_header := True\<rparr>" asking_request 1 None]
  by (simp add: profiling_defaults_def asking_request_def header_get_def)

text \<open>The removal of old profiles deletes exactly the profiles older than the retention time, and
  leaves no directory empty, however deeply the emptied directories are nested.\<close>

theorem cleanup_exact:
  assumes "distinct (map fst fs)" "cutoff = now - of_int (retention_days * 86400)"
  shows "(\<forall>p t. (p, File t) \<in> set (cleanup_old_profiles retention_days now fs) \<longleftrightarrow>
      (p, File t) \<in> set fs \<and> \<not> old_file ''.json'' cutoff (p, File t) \<and> \<not> old_file ''.html'' cutoff (p, File t)) \<and>
    (\<forall>d. (d, Dir) \<in> set (cleanup_old_profiles retention_days now fs) \<longrightarrow>
      (d, Dir) \<in> set fs \<and> has_entry d (cleanup_old_profiles retention_days now fs))"
proof -
  let ?fs = "remove_old ''.html'' cutoff (remove_old ''.json'' cutoff fs)"
  let ?ds = "rev (sort (map fst ?fs))"
  have c: "cleanup_old_profiles retention_days now fs = remove_empty ?ds ?fs"
    by (simp add: cleanup_old_profiles_def assms(2) Let_def)
  have sorted: "sorted_wrt (\<lambda>a b. b \<le> a) ?ds" by (simp add: sorted_wrt_rev)
  have dist: "distinct ?ds" using assms(1) by (simp add: distinct_remove_old)
  have dir: "(d, Dir) \<in> set fs \<and> has_entry d (remove_empty ?ds ?fs)" if "(d, Dir) \<in> set (remove_empty ?ds ?fs)" for d
  proof -
    have "(d, Dir) \<in> set ?fs" using that remove_empty_subset by blast
    then have "d \<in> set ?ds" "(d, Dir) \<in> set fs" by (force simp: remove_old_set)+
    then show ?thesis using remove_empty_complete [OF sorted dist _ that] by simp
  qed
  show ?thesis unfolding c remove_empty_files using dir by (auto simp: remove_old_set)
qed

definition sample_tree :: tree where
  "sample_tree = [([''a''], Dir), ([''a'', ''b''], Dir), ([''a'', ''b'', ''p.json''], File 0), ([''k''], File 0)]"

theorem cleanup_exact_witness:
  "([''a'', ''b'', ''p.json''], File 0) \<notin> set (cleanup_old_profiles 7 1000000 sample_tree) \<and>
   ([''k''], File 0) \<in> set (cleanup_old_profiles 7 1000000 sample_tree)"
proof -
  have "distinct (map fst sample_tree)" by (simp add: sample_tree_def)
  moreover have "(395200::real) = 1000000 - of_int (7 * 86400)" by simp
  ultimately show ?thesis
    using cleanup_exact [of sample_tree 395200 1000000 7]
    by (simp add: sample_tree_def old_file_def endswith_def)
qed

end
