(* ===== verification/Identity.thy ===== *)
theory Identity
  imports Settings
begin

section \<open>The identity kit and its administrators\<close>

text \<open>
  The configuration of identity-plan-kit (\<open>core/infrastructure/identity_kit.py\<close>) and the script that
  creates administrators (\<open>scripts/create_admin.py\<close>).  The database of the script is its two tables;
  password hashing, the new identifiers and whether the database accepts a commit are parameters.
\<close>

subsection \<open>The configuration of the kit\<close>

datatype kit_environment = Development | Production

definition get_environment :: "app_environment \<Rightarrow> kit_environment" where
  "get_environment e = (case e of Local \<Rightarrow> Development | Dev \<Rightarrow> Development | Prod \<Rightarrow> Production)"

definition is_production :: "settings \<Rightarrow> bool" where
  "is_production s \<longleftrightarrow> ap_environment (st_app s) = Prod"

record kit_config =
  kc_environment :: kit_environment
  kc_database_url :: string
  kc_database_echo :: bool
  kc_database_pool_size :: int
  kc_secret_key :: string
  kc_algorithm :: string
  kc_access_token_expire_minutes :: int
  kc_refresh_token_expire_days :: int
  kc_google_client_id :: string
  kc_google_client_secret :: string
  kc_google_redirect_uri :: string
  kc_redis_url :: string
  kc_require_redis :: bool
  kc_cookie_secure :: bool
  kc_cookie_samesite :: string
  kc_api_prefix :: string
  kc_auth_prefix :: string
  kc_default_role_code :: string
  kc_default_plan_code :: string
  kc_shutdown_grace_period_seconds :: real
  kc_rate_limit_login :: string
  kc_rate_limit_callback :: string
  kc_rate_limit_refresh :: string
  kc_rate_limit_logout :: string
  kc_trust_proxy_headers :: bool
  kc_enable_metrics :: bool
  kc_enable_usage_tracking :: bool
  kc_log_level :: string

definition per_minute :: "int \<Rightarrow> string" where
  "per_minute n = str_of_int n @ ''/minute''"

definition create_identity_kit_config :: "settings \<Rightarrow> kit_config" where
  "create_identity_kit_config s =
     (let n = rl_requests_per_minute (st_rate_limit s) in
      \<lparr>kc_environment = get_environment (ap_environment (st_app s)),
       kc_database_url = pg_database_url (st_database s), kc_database_echo = (ap_log_level (st_app s) = ''DEBUG''),
       kc_database_pool_size = pg_pool_size (st_database s),
       kc_secret_key = jw_secret (st_jwt s), kc_algorithm = jw_algorithm (st_jwt s),
       kc_access_token_expire_minutes = jw_expire_minutes (st_jwt s), kc_refresh_token_expire_days = jw_refresh_expire_days (st_jwt s),
       kc_google_client_id = go_client_id (st_google s), kc_google_client_secret = go_client_secret (st_google s),
       kc_google_redirect_uri = go_redirect_uri (st_google s),
       kc_redis_url = rd_url (st_redis s), kc_require_redis = is_production s,
       kc_cookie_secure = is_production s, kc_cookie_samesite = ''lax'',
       kc_api_prefix = api_v1_prefix (st_api s), kc_auth_prefix = ''/auth'',
       kc_default_role_code = ''user'', kc_default_plan_code = ''free'',
       kc_shutdown_grace_period_seconds = tc_shutdown (st_timeouts s),
       kc_rate_limit_login = per_minute n, kc_rate_limit_callback = per_minute (n div 6),
       kc_rate_limit_refresh = per_minute (n div 2), kc_rate_limit_logout = per_minute (n div 6),
       kc_trust_proxy_headers = True, kc_enable_metrics = False, kc_enable_usage_tracking = True,
       kc_log_level = ap_log_level (st_app s)\<rparr>)"

record identity_kit =
  kt_config :: kit_config
  kt_session_factory :: nat
  kt_startup_timeout :: real
  kt_shutdown_drain_timeout :: real

definition create_identity_kit :: "settings \<Rightarrow> nat \<Rightarrow> identity_kit" where
  \<comment> \<open>a session factory is known by the engine it is bound to\<close>
  "create_identity_kit s session_factory =
     \<lparr>kt_config = create_identity_kit_config s, kt_session_factory = session_factory, kt_startup_timeout = 30,
      kt_shutdown_drain_timeout = tc_shutdown (st_timeouts s)\<rparr>"

subsection \<open>Creating an administrator\<close>

record role =
  ro_id :: nat
  ro_code :: string
  ro_name :: string

record user =
  us_id :: nat
  us_email :: string
  us_role_id :: nat
  us_password_hash :: string
  us_is_active :: bool
  us_is_verified :: bool

record identity_db =
  db_roles :: "role list"
  db_users :: "user list"

definition multiple_rows :: exn where
  "multiple_rows = EOther (Lib ''sqlalchemy.exc.MultipleResultsFound'') []"

fun one_or_none :: "'a list \<Rightarrow> exn + 'a option" where
  \<comment> \<open>\<open>scalar_one_or_none\<close>\<close>
  "one_or_none [] = Inr None"
| "one_or_none [x] = Inr (Some x)"
| "one_or_none (x # y # xs) = Inl multiple_rows"

definition find_or_create_role :: "nat \<Rightarrow> identity_db \<Rightarrow> exn + identity_db \<times> role" where
  "find_or_create_role new_role db =
     bind_res (one_or_none (filter (\<lambda>r. ro_code r = ''admin'') (db_roles db))) (\<lambda>x. Inr (case x of
       Some r \<Rightarrow> (db, r)
     | None \<Rightarrow> let r = \<lparr>ro_id = new_role, ro_code = ''admin'', ro_name = ''Admin''\<rparr>
               in (db\<lparr>db_roles := db_roles db @ [r]\<rparr>, r)))"

definition create_admin ::
  "(string \<Rightarrow> exn + string) \<Rightarrow> (identity_db \<Rightarrow> exn + unit) \<Rightarrow> nat \<Rightarrow> nat \<Rightarrow> string \<Rightarrow> string \<Rightarrow> identity_db \<Rightarrow> exn + identity_db" where
  \<comment> \<open>the database after the commit; after an exception nothing is committed\<close>
  "create_admin hashpw commit new_role new_user email password db =
     bind_res (find_or_create_role new_role db) (\<lambda>(db1, admin_role).
     bind_res (hashpw password) (\<lambda>password_hash.
     bind_res (one_or_none (filter (\<lambda>u. us_email u = lower email) (db_users db1))) (\<lambda>x.
       let db2 = (case x of
             Some user \<Rightarrow> db1\<lparr>db_users := map (\<lambda>u. if us_id u = us_id user
               then u\<lparr>us_role_id := ro_id admin_role, us_password_hash := password_hash, us_is_active := True\<rparr>
               else u) (db_users db1)\<rparr>
           | None \<Rightarrow> db1\<lparr>db_users := db_users db1 @
               [\<lparr>us_id = new_user, us_email = lower email, us_role_id = ro_id admin_role, us_password_hash = password_hash,
                 us_is_active = True, us_is_verified = True\<rparr>]\<rparr>)
       in bind_res (commit db2) (\<lambda>_. Inr db2))))"

definition check_arguments :: "string option \<Rightarrow> string option \<Rightarrow> string option \<Rightarrow> string + string \<times> string" where
  \<comment> \<open>\<open>main\<close> up to the call: the message it exits with, or the two arguments; \<open>admin_email\<close> is the
    environment variable\<close>
  "check_arguments email password admin_email =
     (if \<not> given email then Inl ''Error: --email is required''
      else if \<not> given password then Inl ''Error: --password is required''
      else if length (the password) < 8 then Inl ''Error: Password must be at least 8 characters''
      else if lower (the email) = lower (case admin_email of Some e \<Rightarrow> e | None \<Rightarrow> [])
        then Inl (''Error: Cannot create DB admin with superadmin email '' @ quoted (the email))
      else Inr (the email, the password))"

subsection \<open>Lemmas\<close>

lemma one_or_none_filter:
  "one_or_none (filter P xs) = (case filter P xs of [] \<Rightarrow> Inr None | [x] \<Rightarrow> Inr (Some x) | _ \<Rightarrow> Inl multiple_rows)"
  by (cases "filter P xs" rule: one_or_none.cases) auto

text \<open>A database with one administrator role at most, and whose users differ in identifier and email.\<close>

definition db_wf :: "identity_db \<Rightarrow> bool" where
  "db_wf db \<longleftrightarrow> length (filter (\<lambda>r. ro_code r = ''admin'') (db_roles db)) \<le> 1 \<and>
     distinct (map us_id (db_users db)) \<and> distinct (map us_email (db_users db))"

definition is_admin :: "identity_db \<Rightarrow> user \<Rightarrow> bool" where
  "is_admin db u \<longleftrightarrow> (\<exists>r \<in> set (db_roles db). ro_code r = ''admin'' \<and> ro_id r = us_role_id u)"

lemma one_or_none_unique:
  "length (filter P xs) \<le> 1 \<Longrightarrow> \<exists>x. one_or_none (filter P xs) = Inr x \<and> (case x of None \<Rightarrow> filter P xs = [] | Some y \<Rightarrow> filter P xs = [y])"
  by (cases "filter P xs" rule: one_or_none.cases) auto

lemma find_or_create_role_facts:
  assumes "length (filter (\<lambda>r. ro_code r = ''admin'') (db_roles db)) \<le> 1"
  shows "\<exists>db1 r. find_or_create_role new_role db = Inr (db1, r) \<and> ro_code r = ''admin'' \<and> r \<in> set (db_roles db1) \<and>
    db_users db1 = db_users db \<and> length (filter (\<lambda>r. ro_code r = ''admin'') (db_roles db1)) = 1"
proof -
  obtain x where x: "one_or_none (filter (\<lambda>r. ro_code r = ''admin'') (db_roles db)) = Inr x"
    "case x of None \<Rightarrow> filter (\<lambda>r. ro_code r = ''admin'') (db_roles db) = []
       | Some y \<Rightarrow> filter (\<lambda>r. ro_code r = ''admin'') (db_roles db) = [y]"
    using one_or_none_unique [OF assms] by blast
  show ?thesis
  proof (cases x)
    case None
    then show ?thesis using x by (simp add: find_or_create_role_def Let_def)
  next
    case (Some y)
    then have "y \<in> set (filter (\<lambda>r. ro_code r = ''admin'') (db_roles db))" using x(2) by simp
    then show ?thesis using x Some by (simp add: find_or_create_role_def)
  qed
qed

lemma filter_distinct_le1: "distinct (map f xs) \<Longrightarrow> length (filter (\<lambda>x. f x = y) xs) \<le> 1"
proof (induction xs)
  case (Cons a xs)
  have "filter (\<lambda>x. f x = y) xs = []" if "f a = y"
    unfolding filter_empty_conv using Cons.prems that by (metis distinct.simps(2) image_eqI list.simps(9) set_map)
  then show ?case using Cons by auto
qed simp

lemma filter_unique:
  assumes "distinct (map f xs)" "u \<in> set xs"
  shows "filter (\<lambda>x. f x = f u) xs = [u]"
proof -
  have "u \<in> set (filter (\<lambda>x. f x = f u) xs)" using assms(2) by simp
  moreover have "length (filter (\<lambda>x. f x = f u) xs) \<le> 1" by (rule filter_distinct_le1 [OF assms(1)])
  ultimately show ?thesis by (cases "filter (\<lambda>x. f x = f u) xs") auto
qed

lemma map_upd_unique_filter:
  assumes "distinct (map us_id xs)" "u \<in> set xs" "us_email u = e" "\<And>w. us_email (f w) = us_email w"
  shows "filter (\<lambda>w. us_email w \<noteq> e) (map (\<lambda>w. if us_id w = us_id u then f w else w) xs) =
    filter (\<lambda>w. us_email w \<noteq> e) xs"
proof -
  have "w = u" if "w \<in> set xs" "us_id w = us_id u" for w
    using that assms(1,2) by (auto simp: distinct_map inj_on_def)
  then show ?thesis using assms(3,4) by (induction xs) auto
qed

lemma map_upd_found:
  assumes "\<And>w. us_email (f w) = us_email w"
  shows "filter (\<lambda>w. us_email w = e) (map (\<lambda>w. if us_id w = us_id u then f w else w) xs) =
    map (\<lambda>w. if us_id w = us_id u then f w else w) (filter (\<lambda>w. us_email w = e) xs)"
  using assms by (induction xs) auto

section \<open>Properties\<close>

text \<open>C32. Given a database with at most one administrator role and users that differ in identifier and
  email, an accepted run of the script leaves exactly one user with the email in lower case: an active
  administrator with the new password hash.  No other user is touched, and the database stays well formed.\<close>

theorem create_admin_exact:
  assumes "db_wf db" "new_user \<notin> us_id ` set (db_users db)" "hashpw password = Inr h" "commit = (\<lambda>_. Inr ())"
  shows "\<exists>db2 u. create_admin hashpw commit new_role new_user email password db = Inr db2 \<and> db_wf db2 \<and>
    filter (\<lambda>w. us_email w = lower email) (db_users db2) = [u] \<and> is_admin db2 u \<and> us_password_hash u = h \<and>
    us_is_active u \<and>
    filter (\<lambda>w. us_email w \<noteq> lower email) (db_users db2) = filter (\<lambda>w. us_email w \<noteq> lower email) (db_users db)"
proof -
  have ids: "distinct (map us_id (db_users db))" and emails: "distinct (map us_email (db_users db))"
    using assms(1) by (simp_all add: db_wf_def)
  obtain db1 r where r: "find_or_create_role new_role db = Inr (db1, r)" "ro_code r = ''admin''" "r \<in> set (db_roles db1)"
    "db_users db1 = db_users db" "length (filter (\<lambda>r. ro_code r = ''admin'') (db_roles db1)) = 1"
    using find_or_create_role_facts assms(1) unfolding db_wf_def by metis
  obtain x where x: "one_or_none (filter (\<lambda>u. us_email u = lower email) (db_users db)) = Inr x"
    "case x of None \<Rightarrow> filter (\<lambda>u. us_email u = lower email) (db_users db) = []
       | Some y \<Rightarrow> filter (\<lambda>u. us_email u = lower email) (db_users db) = [y]"
    using one_or_none_unique [OF filter_distinct_le1 [OF emails]] by blast
  show ?thesis
  proof (cases x)
    case None
    then have none: "filter (\<lambda>u. us_email u = lower email) (db_users db) = []" using x(2) by simp
    then have "lower email \<notin> us_email ` set (db_users db)" by (auto simp: filter_empty_conv)
    then show ?thesis
      using assms(2-4) ids emails x(1) None r none
      by (simp add: create_admin_def db_wf_def is_admin_def) blast
  next
    case (Some y)
    define f where "f = (\<lambda>u :: user. u\<lparr>us_role_id := ro_id r, us_password_hash := h, us_is_active := True\<rparr>)"
    have f: "us_email (f w) = us_email w" "us_id (f w) = us_id w" for w by (simp_all add: f_def)
    let ?g = "\<lambda>w. if us_id w = us_id y then f w else w"
    have one: "filter (\<lambda>u. us_email u = lower email) (db_users db) = [y]" using x(2) Some by simp
    have "y \<in> set (filter (\<lambda>u. us_email u = lower email) (db_users db))" by (simp add: one del: set_filter)
    then have y: "y \<in> set (db_users db)" "us_email y = lower email" by simp_all
    have same: "map us_id (map ?g xs) = map us_id xs" "map us_email (map ?g xs) = map us_email xs" for xs
      by (simp_all add: f)
    have "create_admin hashpw commit new_role new_user email password db = Inr (db1\<lparr>db_users := map ?g (db_users db)\<rparr>)"
      using assms(3,4) x(1) Some r(1,4) by (simp add: create_admin_def f_def cong: if_cong)
    moreover have "filter (\<lambda>w. us_email w = lower email) (map ?g (db_users db)) = [f y]"
      using map_upd_found [of f "lower email" y "db_users db"] one by (simp add: f)
    moreover have "filter (\<lambda>w. us_email w \<noteq> lower email) (map ?g (db_users db)) = filter (\<lambda>w. us_email w \<noteq> lower email) (db_users db)"
      by (rule map_upd_unique_filter [OF ids y f(1)])
    moreover have "db_wf (db1\<lparr>db_users := map ?g (db_users db)\<rparr>)"
      using r(5) ids emails by (simp add: db_wf_def same del: map_map)
    ultimately show ?thesis using r(2,3)
      by (intro exI [of _ "db1\<lparr>db_users := map ?g (db_users db)\<rparr>"] exI [of _ "f y"]) (auto simp: is_admin_def f_def)
  qed
qed

text \<open>A database with the administrator role and one ordinary user, whom the script promotes.\<close>

definition sample_db :: identity_db where
  "sample_db = \<lparr>db_roles = [\<lparr>ro_id = 1, ro_code = ''user'', ro_name = ''User''\<rparr>, \<lparr>ro_id = 2, ro_code = ''admin'', ro_name = ''Admin''\<rparr>],
     db_users = [\<lparr>us_id = 7, us_email = ''a'', us_role_id = 1, us_password_hash = ''old'', us_is_active = False,
       us_is_verified = False\<rparr>]\<rparr>"

theorem create_admin_exact_witness:
  "\<exists>db2 u. create_admin Inr (\<lambda>_. Inr ()) 9 9 ''A'' ''password'' sample_db = Inr db2 \<and> db_wf db2 \<and>
    filter (\<lambda>w. us_email w = lower ''A'') (db_users db2) = [u] \<and> is_admin db2 u \<and> us_password_hash u = ''password'' \<and>
    us_is_active u \<and>
    filter (\<lambda>w. us_email w \<noteq> lower ''A'') (db_users db2) = filter (\<lambda>w. us_email w \<noteq> lower ''A'') (db_users sample_db)"
  by (rule create_admin_exact) (simp_all add: sample_db_def db_wf_def)

text \<open>The script runs for no password of fewer than eight characters, and never with the address of
  \<open>ADMIN_EMAIL\<close> in any case; the address it then looks for is the one in lower case, so the administrator
  of the environment, whom the panel checks first, never is a row of the database.\<close>

theorem create_admin_arguments:
  assumes "check_arguments email password admin_email = Inr (e, p)"
  shows "email = Some e \<and> password = Some p \<and> e \<noteq> [] \<and> 8 \<le> length p \<and> (\<forall>a. admin_email = Some a \<longrightarrow> lower e \<noteq> lower a)"
  using assms by (cases email; cases password; cases admin_email) (auto simp: check_arguments_def split: if_splits)

theorem create_admin_arguments_witness:
  "8 \<le> length ''password'' \<and> lower ''b'' \<noteq> lower ''a''"
proof -
  have "check_arguments (Some ''b'') (Some ''password'') (Some ''a'') = Inr (''b'', ''password'')"
    by (simp add: check_arguments_def lower_def lower_char_def is_upper_def ordc_def)
  from create_admin_arguments [OF this] show ?thesis by simp
qed

text \<open>A limit below six requests per minute leaves the kit's callback and logout with none.\<close>

lemma small_rate_limit:
  assumes "0 < rl_requests_per_minute (st_rate_limit s)" "rl_requests_per_minute (st_rate_limit s) < 6"
  shows "kc_rate_limit_callback (create_identity_kit_config s) = ''0/minute''"
    and "kc_rate_limit_logout (create_identity_kit_config s) = ''0/minute''"
proof -
  have "rl_requests_per_minute (st_rate_limit s) div 6 = 0" using assms by (simp add: div_pos_pos_trivial)
  then show "kc_rate_limit_callback (create_identity_kit_config s) = ''0/minute''"
    and "kc_rate_limit_logout (create_identity_kit_config s) = ''0/minute''"
    by (simp_all add: create_identity_kit_config_def Let_def per_minute_def str_of_int_def nat_digits.simps [of 0] char_of_def bit_iff_odd)
qed

end
