(* ===== verification/Tracing.thy ===== *)
theory Tracing
  imports Asyncio Settings IpAddress
begin

section \<open>Tracing\<close>

text \<open>
  \<open>core/observability/tracing.py\<close> (its \<open>instrument_sqlalchemy_engine\<close> is in \<open>DbAdapter\<close>).  The
  OpenTelemetry packages are the outside: an import or a call of theirs is recorded in the trace of the
  task and may raise.  A span is known by its identifiers, which OpenTelemetry defines as words of
  128 and 64 bits.
\<close>

record span_context =
  sc_valid :: bool
  sc_trace_id :: "128 word"
  sc_span_id :: "64 word"

datatype sampler = AlwaysOn | AlwaysOff | ParentBasedTraceIdRatio real

datatype otel_call =
    ImportTrace
  | ImportTracingPackages
  | ImportRedisInstrumentor
  | CreateResource "(string \<times> string) list"
  | CreateSampler sampler
  | CreateTracerProvider sampler
  | CreateSpanExporter string bool
  | AddSpanProcessor int int int
  | SetTracerProvider
  | InstrumentApp string
  | InstrumentRedis
  | GetCurrentSpan
  | GetSpanContext
  | RecordException exn
  | SetStatusError string
  | StartSpan string "(string \<times> pyval) list option"

text \<open>\<open>_OtelState\<close>: whether the packages were found, once that is known, and whether the module is loaded.\<close>

record tracing = "otel_call task" +
  os_available :: "bool option"
  os_module :: bool

type_synonym 'a tract = "(tracing, exn, 'a) act"

text \<open>What the functions read of the settings and of the packages: \<open>te_context\<close> is the context of the
  current span, and \<open>te_text\<close> the text of an exception.\<close>

record tracing_env =
  te_ext :: "string \<Rightarrow> pyclass list"
  te_calls :: "otel_call environment"
  te_context :: "otel_call list \<Rightarrow> span_context"
  te_text :: "exn \<Rightarrow> string"
  te_settings :: settings

definition otel_init :: tracing where
  "otel_init = \<lparr>tk_now = 0, tk_deadlines = [], tk_trace = [], os_available = None, os_module = False\<rparr>"

definition otel :: "tracing_env \<Rightarrow> otel_call \<Rightarrow> unit tract" where
  "otel E c = perform_sync (te_calls E) c"

definition environment_name :: "app_environment \<Rightarrow> string" where
  "environment_name e = (case e of Local \<Rightarrow> ''local'' | Dev \<Rightarrow> ''dev'' | Prod \<Rightarrow> ''prod'')"

subsection \<open>Identifiers as text\<close>

definition hex_char :: "nat \<Rightarrow> char" where
  "hex_char d = char_of (if d < 10 then 48 + d else 87 + d)"

function hex_of :: "nat \<Rightarrow> string" where
  "hex_of n = (if n < 16 then [hex_char n] else hex_of (n div 16) @ [hex_char (n mod 16)])"
  by pat_completeness auto
termination by (relation "measure id") auto

declare hex_of.simps [simp del]

definition format_hex :: "nat \<Rightarrow> nat \<Rightarrow> string" where
  \<comment> \<open>\<open>format(n, "032x")\<close> for the width 32\<close>
  "format_hex width n = replicate (width - length (hex_of n)) CHR ''0'' @ hex_of n"

subsection \<open>Availability and trace context\<close>

definition ensure_otel_available :: "tracing_env \<Rightarrow> bool tract" where
  "ensure_otel_available E =
     s_bind (s_get os_available) (\<lambda>x. case x of
       Some available \<Rightarrow> s_ret available
     | None \<Rightarrow>
         s_bind (s_catch
           (s_bind (otel E ImportTrace) (\<lambda>_. s_modify (\<lambda>s. s\<lparr>os_module := True, os_available := Some True\<rparr>)))
           (\<lambda>e. if isinst (te_ext E) (exn_class e) [Builtin ImportErrorC]
                then s_modify (\<lambda>s. s\<lparr>os_available := Some False\<rparr>) else s_raise e)) (\<lambda>_.
         s_get (\<lambda>s. os_available s = Some True)))"

definition otel_usable :: "tracing_env \<Rightarrow> bool tract" where
  \<comment> \<open>\<open>not (not _ensure_otel_available() or _OtelState.trace_module is None)\<close>\<close>
  "otel_usable E =
     s_bind (ensure_otel_available E) (\<lambda>available. if \<not> available then s_ret False else s_get os_module)"

definition context_ids :: "span_context \<Rightarrow> (string \<times> pyval) list" where
  "context_ids c =
     [(''trace_id'', PStr (format_hex 32 (unat (sc_trace_id c)))),
      (''span_id'', PStr (format_hex 16 (unat (sc_span_id c))))]"

definition extract_trace_context :: "tracing_env \<Rightarrow> (string \<times> pyval) list tract" where
  "extract_trace_context E =
     s_bind (otel_usable E) (\<lambda>usable.
       if \<not> usable then s_ret []
       else s_catch
         (s_bind (otel E GetCurrentSpan) (\<lambda>_. s_bind (otel E GetSpanContext) (\<lambda>_.
          s_bind (s_get (\<lambda>s. te_context E (tk_trace s))) (\<lambda>span_context.
          s_ret (if sc_valid span_context then context_ids span_context else [])))))
         (\<lambda>e. if is_exception (te_ext E) e then s_ret [] else s_raise e))"

definition get_current_trace_context :: "tracing_env \<Rightarrow> (string \<times> pyval) list tract" where
  "get_current_trace_context E = extract_trace_context E"

definition add_trace_context :: "tracing_env \<Rightarrow> (string \<times> pyval) list \<Rightarrow> (string \<times> pyval) list tract" where
  "add_trace_context E event =
     s_bind (extract_trace_context E) (\<lambda>context.
     s_ret (if context \<noteq> [] then dict_merge event context else event))"

definition create_trace_context_processor ::
  "tracing_env \<Rightarrow> ((string \<times> pyval) list \<Rightarrow> (string \<times> pyval) list tract) option tract" where
  "create_trace_context_processor E =
     s_bind (ensure_otel_available E) (\<lambda>available. s_ret (if available then Some (add_trace_context E) else None))"

subsection \<open>Setting up\<close>

definition build_sampler :: "tracing_env \<Rightarrow> string \<Rightarrow> real \<Rightarrow> sampler tract" where
  \<comment> \<open>the ratio may be refused when the sampler is built\<close>
  "build_sampler E sampler_name sampler_arg =
     (if sampler_name = ''always_on'' then s_ret AlwaysOn
      else if sampler_name = ''always_off'' then s_ret AlwaysOff
      else s_bind (otel E (CreateSampler (ParentBasedTraceIdRatio sampler_arg))) (\<lambda>_.
           s_ret (ParentBasedTraceIdRatio sampler_arg)))"

definition tracing_configured :: "settings \<Rightarrow> bool" where
  "tracing_configured s \<longleftrightarrow> tr_enabled (st_tracing s) \<and> tr_endpoint (st_tracing s) \<noteq> []"

definition configure_tracing :: "tracing_env \<Rightarrow> unit tract" where
  "configure_tracing E =
     (let conf = st_tracing (te_settings E);
          app = st_app (te_settings E);
          service_name = (if tr_service_name conf \<noteq> [] then tr_service_name conf else ap_name app)
      in s_bind (s_modify (\<lambda>s. s\<lparr>os_module := True, os_available := Some True\<rparr>)) (\<lambda>_.
         s_bind (otel E (CreateResource [(''service.name'', service_name), (''service.version'', ''1.0.0''),
           (''deployment.environment'', environment_name (ap_environment app))])) (\<lambda>_.
         s_bind (build_sampler E (tr_sampler conf) (tr_sampler_arg conf)) (\<lambda>sampler.
         s_bind (otel E (CreateTracerProvider sampler)) (\<lambda>_.
         s_bind (otel E (CreateSpanExporter (tr_endpoint conf) (tr_insecure conf))) (\<lambda>_.
         s_bind (otel E (AddSpanProcessor 2048 512 5000)) (\<lambda>_.
         s_bind (otel E SetTracerProvider) (\<lambda>_.
         otel E (InstrumentApp ''health,metrics,ready,live'')))))))))"

definition setup_tracing :: "tracing_env \<Rightarrow> unit tract" where
  "setup_tracing E =
     (if \<not> tracing_configured (te_settings E) then s_ret ()
      else
        s_bind (s_catch (s_bind (otel E ImportTracingPackages) (\<lambda>_. s_ret True))
          (\<lambda>e. if isinst (te_ext E) (exn_class e) [Builtin ImportErrorC] then s_ret False else s_raise e)) (\<lambda>installed.
        if \<not> installed then s_ret () else configure_tracing E))"

definition instrument_redis_client :: "tracing_env \<Rightarrow> unit tract" where
  "instrument_redis_client E =
     (if \<not> tracing_configured (te_settings E) then s_ret ()
      else s_catch (s_bind (otel E ImportRedisInstrumentor) (\<lambda>_. otel E InstrumentRedis))
        (\<lambda>e. if is_exception (te_ext E) e then s_ret () else s_raise e))"

subsection \<open>Spans\<close>

datatype span = NullContext | Span string "(string \<times> pyval) list option"

definition create_span :: "tracing_env \<Rightarrow> string \<Rightarrow> (string \<times> pyval) list option \<Rightarrow> span tract" where
  "create_span E name attributes =
     s_bind (otel_usable E) (\<lambda>usable.
       if \<not> usable then s_ret NullContext
       else s_bind (otel E (StartSpan name attributes)) (\<lambda>_. s_ret (Span name attributes)))"

definition record_exception :: "tracing_env \<Rightarrow> exn \<Rightarrow> unit tract" where
  "record_exception E exc =
     s_bind (otel_usable E) (\<lambda>usable.
       if \<not> usable then s_ret ()
       else s_catch
         (s_bind (otel E GetCurrentSpan) (\<lambda>_. s_bind (otel E (RecordException exc)) (\<lambda>_.
          otel E (SetStatusError (te_text E exc)))))
         (\<lambda>e. if is_exception (te_ext E) e then s_ret () else s_raise e))"

subsection \<open>Lemmas\<close>

lemma hex_char_value: "d < 16 \<Longrightarrow> hex_value (hex_char d) = Some d"
  by (cases "d < 10") (auto simp: hex_char_def hex_value_def is_digit_def)

lemma hex_digits_append: "hex_digits acc (xs @ ys) = (case hex_digits acc xs of None \<Rightarrow> None | Some n \<Rightarrow> hex_digits n ys)"
  by (induction xs arbitrary: acc) (auto split: option.splits)

lemma hex_digits_zeros: "hex_digits 0 (replicate k CHR ''0'') = Some 0"
  by (induction k) (auto simp: hex_value_def is_digit_def ordc_def)

lemma hex_of_value: "hex_digits 0 (hex_of n) = Some n"
proof (induction n rule: hex_of.induct)
  case (1 n)
  show ?case
  proof (cases "n < 16")
    case True
    then show ?thesis by (subst hex_of.simps) (simp add: hex_char_value)
  next
    case False
    then have "hex_digits 0 (hex_of (n div 16)) = Some (n div 16)" using 1 by simp
    moreover have "hex_of n = hex_of (n div 16) @ [hex_char (n mod 16)]" using False by (subst hex_of.simps) simp
    ultimately show ?thesis by (simp add: hex_digits_append hex_char_value)
  qed
qed

lemma length_hex_of: "n < 16 ^ Suc w \<Longrightarrow> length (hex_of n) \<le> Suc w"
proof (induction w arbitrary: n)
  case 0
  then show ?case by (subst hex_of.simps) simp
next
  case (Suc w)
  show ?case
  proof (cases "n < 16")
    case True
    then show ?thesis by (subst hex_of.simps) simp
  next
    case False
    have "n div 16 < 16 ^ Suc w" using Suc.prems by (simp add: less_mult_imp_div_less)
    then have "length (hex_of (n div 16)) \<le> Suc w" by (rule Suc.IH)
    then show ?thesis using False by (subst hex_of.simps) simp
  qed
qed

lemma format_hex_value: "hex_digits 0 (format_hex w n) = Some n"
  by (simp add: format_hex_def hex_digits_append hex_digits_zeros hex_of_value)

lemma length_format_hex: "n < 16 ^ Suc w \<Longrightarrow> length (format_hex (Suc w) n) = Suc w"
  using length_hex_of [of n w] by (simp add: format_hex_def)

lemma trace_id_text: "length (format_hex 32 (unat (w :: 128 word))) = 32"
  using length_format_hex [of "unat w" 31] unsigned_less [of w] by simp

lemma span_id_text: "length (format_hex 16 (unat (w :: 64 word))) = 16"
  using length_format_hex [of "unat w" 15] unsigned_less [of w] by simp

text \<open>Importing the packages fails with \<open>ImportError\<close> only, and computations that no \<open>Exception\<close> leaves.\<close>

definition import_contract :: "tracing_env \<Rightarrow> bool" where
  "import_contract E \<longleftrightarrow> (\<forall>trace e. snd (te_calls E (trace @ [ImportTrace])) = Inl e \<longrightarrow>
     isinst (te_ext E) (exn_class e) [Builtin ImportErrorC])"

definition silent :: "tracing_env \<Rightarrow> 'a tract \<Rightarrow> bool" where
  "silent E m \<longleftrightarrow> (\<forall>s e. snd (m s) = Inl e \<longrightarrow> \<not> is_exception (te_ext E) e)"

named_theorems silent_intros \<open>computations that no Exception leaves\<close>

lemma silent_ret [silent_intros]: "silent E (s_ret x)"
  by (simp add: silent_def s_ret_def)

lemma silent_get [silent_intros]: "silent E (s_get f)"
  by (simp add: silent_def s_get_def)

lemma silent_bind [silent_intros]: "silent E m \<Longrightarrow> (\<And>x. silent E (f x)) \<Longrightarrow> silent E (s_bind m f)"
  by (auto simp: silent_def s_bind_def split: prod.splits sum.splits) (metis snd_conv)+

lemma silent_caught [silent_intros]:
  "silent E (s_catch m (\<lambda>e. if is_exception (te_ext E) e then s_ret x else s_raise e))"
  by (auto simp: silent_def s_catch_def s_ret_def s_raise_def split: prod.splits sum.splits)

lemma silent_available [silent_intros]:
  assumes "import_contract E"
  shows "silent E (ensure_otel_available E)"
  using assms
  by (auto simp: silent_def ensure_otel_available_def otel_def perform_sync_def act_simps import_contract_def Let_def
      split: option.splits sum.splits if_splits)

lemma silent_usable [silent_intros]: "import_contract E \<Longrightarrow> silent E (otel_usable E)"
  unfolding otel_usable_def by (auto intro!: silent_intros)

lemma silent_extract: "import_contract E \<Longrightarrow> silent E (extract_trace_context E)"
  unfolding extract_trace_context_def by (auto intro!: silent_intros)

lemma silent_add_trace_context: "import_contract E \<Longrightarrow> silent E (add_trace_context E event)"
  unfolding add_trace_context_def by (auto intro!: silent_intros silent_extract)

lemma silent_record_exception: "import_contract E \<Longrightarrow> silent E (record_exception E exc)"
  unfolding record_exception_def by (auto intro!: silent_intros)

lemma silent_instrument_redis: "silent E (instrument_redis_client E)"
  unfolding instrument_redis_client_def by (auto intro!: silent_intros)

text \<open>The module is loaded once it is known to be there, so that testing for the module is redundant.\<close>

definition otel_inv :: "tracing \<Rightarrow> bool" where
  "otel_inv s \<longleftrightarrow> os_module s = (os_available s = Some True)"

lemma keeps_otel [keeps_intros]: "keeps otel_inv (otel E c)"
  by (simp add: keeps_def otel_inv_def otel_def perform_sync_def Let_def)

lemma keeps_available [keeps_intros]: "keeps otel_inv (ensure_otel_available E)"
  by (auto simp: keeps_def otel_inv_def ensure_otel_available_def otel_def perform_sync_def act_simps Let_def
      split: option.splits sum.splits)

lemma keeps_usable [keeps_intros]: "keeps otel_inv (otel_usable E)"
  unfolding otel_usable_def by (auto intro!: keeps_intros)

lemma keeps_setup: "keeps otel_inv (setup_tracing E)"
  unfolding setup_tracing_def configure_tracing_def build_sampler_def Let_def
  by (auto simp: otel_inv_def intro!: keeps_intros keeps_s_modify)

lemma usable_iff_available:
  assumes "otel_inv s" "snd (ensure_otel_available E s) = Inr available"
  shows "snd (otel_usable E s) = Inr available"
  using assms
  by (auto simp: otel_usable_def ensure_otel_available_def otel_inv_def otel_def perform_sync_def act_simps Let_def
      split: option.splits sum.splits if_splits)

section \<open>Property\<close>


definition sample_tracing :: tracing_env where
  "sample_tracing =
     \<lparr>te_ext = (\<lambda>_. []), te_calls = (\<lambda>_. (0, Inr ())),
      te_context = (\<lambda>_. \<lparr>sc_valid = True, sc_trace_id = 255, sc_span_id = 16\<rparr>), te_text = (\<lambda>_. []),
      te_settings = sample_production []\<rparr>"


end
