(* ===== verification/AppFactory.thy ===== *)
theory AppFactory
  imports Lifecycle DbAdapter Identity Tracing Metrics
begin

section \<open>Building the application\<close>

text \<open>
  \<open>create_app\<close> of \<open>features/main.py\<close>, with \<open>core/infrastructure/container.py\<close>,
  \<open>core/infrastructure/admin/setup.py\<close> and \<open>setup_metrics\<close>: what the application consists of when it is
  built.  The containers hold one adapter of the database.  What the identity kit adds to an
  application (\<open>IdentityPlanKit.setup\<close>, \<open>setup_admin\<close>) is a parameter.
\<close>

text \<open>The middlewares, by the arguments of \<open>add_middleware\<close>, and what a router is known by.\<close>

datatype middleware_entry =
    Cors "string list" bool "string list" "string list"
  | RequestId
  | RequestTimeout
  | AdmissionControl
  | AdminSession string string int string bool
  | MetricsCollector
  | KitMiddleware string

record admin_panel =
  ap_engine :: nat
  ap_sessions :: "nat option"
  ap_base_url :: string
  ap_title :: string
  ap_secret_key :: string
  ap_admin_email :: string
  ap_admin_password :: string

record web_app =
  wa_title :: string
  wa_version :: string
  wa_docs :: "string option \<times> string option \<times> string option"
  wa_adapter :: adapter
  wa_tracing :: tracing
  wa_kit :: "identity_kit option"
  wa_middleware :: "middleware_entry list"
  wa_handlers :: "(pyclass \<times> exception_handler) list"
  wa_routers :: "(string \<times> string) list"
  wa_limiter :: bool
  wa_admin :: "admin_panel option"
  wa_metrics_endpoint :: "string option"
  wa_app_info :: "(string \<times> string) list"

type_synonym 'a appact = "(web_app, exn, 'a) act"

text \<open>The settings, the outside of the adapter and of the tracing, and the identity kit.\<close>

record app_env =
  fe_ext :: "string \<Rightarrow> pyclass list"
  fe_settings :: settings
  fe_adapter_calls :: "adapter_call environment"
  fe_tracing :: tracing_env
  fe_kit_setup :: "identity_kit \<Rightarrow> unit appact"
  fe_setup_admin :: "admin_panel \<Rightarrow> unit appact"

definition on_adapter :: "'a dact \<Rightarrow> 'a appact" where
  "on_adapter m s = (case m (wa_adapter s) of (a, r) \<Rightarrow> (s\<lparr>wa_adapter := a\<rparr>, r))"

definition on_tracing :: "'a tract \<Rightarrow> 'a appact" where
  "on_tracing m s = (case m (wa_tracing s) of (t, r) \<Rightarrow> (s\<lparr>wa_tracing := t\<rparr>, r))"

definition adapter_env_of :: "app_env \<Rightarrow> adapter_env" where
  "adapter_env_of F =
     \<lparr>ae_ext = fe_ext F, ae_calls = fe_adapter_calls F, ae_production = is_production (fe_settings F),
      ae_tracing = tracing_configured (fe_settings F)\<rparr>"

definition pg_db :: "settings \<Rightarrow> adapter" where
  \<comment> \<open>the singleton of the container\<close>
  "pg_db s = adapter_init (pg_database_url (st_database s)) (ap_log_level (st_app s) = ''DEBUG'')"

subsection \<open>The steps\<close>

definition new_application :: "settings \<Rightarrow> web_app" where
  \<comment> \<open>\<open>Application(...)\<close> and the containers\<close>
  "new_application s =
     \<lparr>wa_title = ap_name (st_app s), wa_version = ap_version (st_app s),
      wa_docs = documentation_urls (is_production s) (api_v1_prefix (st_api s)),
      wa_adapter = pg_db s, wa_tracing = otel_init, wa_kit = None, wa_middleware = [], wa_handlers = [],
      wa_routers = [], wa_limiter = False, wa_admin = None, wa_metrics_endpoint = None, wa_app_info = []\<rparr>"

definition add_middleware :: "middleware_entry \<Rightarrow> unit appact" where
  "add_middleware m = s_modify (\<lambda>s. s\<lparr>wa_middleware := wa_middleware s @ [m]\<rparr>)"

definition init_identity_kit :: "app_env \<Rightarrow> unit appact" where
  "init_identity_kit F =
     s_bind (on_adapter (session_factory (adapter_env_of F))) (\<lambda>h.
     s_modify (\<lambda>s. s\<lparr>wa_kit := Some (create_identity_kit (fe_settings F) h)\<rparr>))"

definition configure_middleware :: "app_env \<Rightarrow> unit appact" where
  "configure_middleware F =
     (let app = st_app (fe_settings F) in
      s_bind (add_middleware (Cors (ap_cors_origins app) True (ap_cors_allow_methods app) (ap_cors_allow_headers app))) (\<lambda>_.
      s_bind (add_middleware RequestId) (\<lambda>_.
      s_bind (add_middleware RequestTimeout) (\<lambda>_.
      s_bind (add_middleware AdmissionControl) (\<lambda>_.
      s_modify (\<lambda>s. s\<lparr>wa_limiter := True\<rparr>))))))"

definition configure_exception_handlers :: "unit appact" where
  "configure_exception_handlers = s_modify (\<lambda>s. s\<lparr>wa_handlers := wa_handlers s @ configured_exception_handlers\<rparr>)"

definition register_routers :: "app_env \<Rightarrow> unit appact" where
  "register_routers F =
     (let prefix = api_v1_prefix (st_api (fe_settings F)) in
      s_modify (\<lambda>s. s\<lparr>wa_routers := wa_routers s @ [(prefix, ''System''), (prefix, ''AI Generation'')]\<rparr>))"

definition setup_identity_kit :: "app_env \<Rightarrow> unit appact" where
  "setup_identity_kit F =
     s_bind (s_get wa_kit) (\<lambda>x. case x of
       None \<Rightarrow> s_raise (EOther (Builtin AttributeErrorC) ''identity_kit'')
     | Some kit \<Rightarrow> fe_kit_setup F kit)"

definition setup_admin_panel :: "app_env \<Rightarrow> nat \<Rightarrow> nat option \<Rightarrow> string \<Rightarrow> string option \<Rightarrow> unit appact" where
  "setup_admin_panel F db_engine sessions base_url title =
     (let s = fe_settings F;
          session_secret = ad_session_secret (st_admin s)
      in s_bind (add_middleware (AdminSession session_secret ''admin_session''
           (ad_session_timeout_minutes (st_admin s) * 60) ''lax'' (is_production s))) (\<lambda>_.
         let admin = \<lparr>ap_engine = db_engine, ap_sessions = sessions, ap_base_url = base_url,
               ap_title = or_else title (ap_name (st_app s) @ '' Admin''), ap_secret_key = session_secret,
               ap_admin_email = ad_email (st_admin s), ap_admin_password = ad_password (st_admin s)\<rparr>
         in s_bind (fe_setup_admin F admin) (\<lambda>_. s_modify (\<lambda>a. a\<lparr>wa_admin := Some admin\<rparr>))))"

definition setup_admin :: "app_env \<Rightarrow> unit appact" where
  \<comment> \<open>\<open>_setup_admin_panel\<close>\<close>
  "setup_admin F =
     s_bind (on_adapter (engine (adapter_env_of F))) (\<lambda>e.
     s_bind (on_adapter (session_factory (adapter_env_of F))) (\<lambda>h.
     setup_admin_panel F e (Some h) ''/admin'' (Some ''Admin Panel'')))"

definition setup_metrics :: "app_env \<Rightarrow> string option \<Rightarrow> unit appact" where
  "setup_metrics F endpoint =
     (let conf = st_metrics (fe_settings F) in
      if \<not> mc_enabled conf then s_ret ()
      else
        s_bind (s_modify (\<lambda>s. s\<lparr>wa_app_info := wa_app_info s @
          [(''1.0.0'', environment_name (ap_environment (st_app (fe_settings F))))]\<rparr>)) (\<lambda>_.
        s_bind (add_middleware MetricsCollector) (\<lambda>_.
        s_modify (\<lambda>s. s\<lparr>wa_metrics_endpoint := Some (or_else endpoint (mc_endpoint conf))\<rparr>))))"

definition configure_observability :: "app_env \<Rightarrow> unit appact" where
  "configure_observability F =
     s_bind (setup_metrics F None) (\<lambda>_. on_tracing (setup_tracing ((fe_tracing F)\<lparr>te_settings := fe_settings F\<rparr>)))"

definition build_app :: "app_env \<Rightarrow> unit appact" where
  "build_app F =
     s_bind (init_identity_kit F) (\<lambda>_.
     s_bind (configure_middleware F) (\<lambda>_.
     s_bind configure_exception_handlers (\<lambda>_.
     s_bind (register_routers F) (\<lambda>_.
     s_bind (setup_identity_kit F) (\<lambda>_.
     s_bind (setup_admin F) (\<lambda>_.
     configure_observability F))))))"

definition create_app :: "app_env \<Rightarrow> exn + web_app" where
  "create_app F = (case build_app F (new_application (fe_settings F)) of
     (s, Inl e) \<Rightarrow> Inl e | (s, Inr _) \<Rightarrow> Inr s)"

subsection \<open>Lemmas\<close>

text \<open>The first use of the adapter creates its engines, the later ones find them.\<close>

lemma first_async_part:
  assumes "connect_async_part A s = (t, Inr h)"
  shows "h = async_engines (tk_trace s) + 1 \<and> async_engines (tk_trace t) = async_engines (tk_trace s) + 1 \<and>
    sync_engines (tk_trace t) = sync_engines (tk_trace s)"
  using assms
  by (auto simp: connect_async_part_def create_async_engine_def act_simps perform_sync_def Let_def
      async_engines_def sync_engines_def split: sum.splits)

lemma first_sync_part:
  assumes "connect_sync_part A s = (t, Inr u)"
  shows "async_engines (tk_trace t) = async_engines (tk_trace s) \<and> sync_engines (tk_trace t) = sync_engines (tk_trace s) + 1"
  using assms
  by (auto simp: connect_sync_part_def create_sync_engine_def act_simps perform_sync_def Let_def
      async_engines_def sync_engines_def split: sum.splits)

lemma later_part:
  "async_engines (tk_trace (fst (instrument_sqlalchemy_engine A h s))) = async_engines (tk_trace s)"
  "sync_engines (tk_trace (fst (instrument_sqlalchemy_engine A h s))) = sync_engines (tk_trace s)"
  "async_engines (tk_trace (fst (setup_event_listeners A s))) = async_engines (tk_trace s)"
  "sync_engines (tk_trace (fst (setup_event_listeners A s))) = sync_engines (tk_trace s)"
  by (auto simp: instrument_sqlalchemy_engine_def setup_event_listeners_def act_simps perform_sync_def Let_def
      async_engines_def sync_engines_def split: sum.splits option.splits)

lemma first_connection:
  assumes "connect_body A (adapter_init url echo) = (t, Inr ())"
  shows "da_engine t = Some 1 \<and> async_engines (tk_trace t) = 1 \<and> sync_engines (tk_trace t) = 1"
proof -
  obtain s1 h where 1: "connect_async_part A (adapter_init url echo) = (s1, Inr h)"
    using assms by (auto simp: connect_body_def s_bind_def split: prod.splits sum.splits)
  obtain s2 u where 2: "connect_sync_part A s1 = (s2, Inr u)"
    using assms 1 by (auto simp: connect_body_def s_bind_def split: prod.splits sum.splits)
  obtain s3 v where 3: "instrument_sqlalchemy_engine A h s2 = (s3, Inr v)"
    using assms 1 2 by (auto simp: connect_body_def s_bind_def split: prod.splits sum.splits)
  obtain s4 w where 4: "(if \<not> ae_production A then setup_event_listeners A else s_ret ()) s3 = (s4, Inr w)"
      "t = s4\<lparr>da_initialized := True\<rparr>"
    using assms 1 2 3 by (auto simp: connect_body_def s_bind_def s_modify_def split: prod.splits sum.splits)
  have base: "async_engines (tk_trace (adapter_init url echo)) = 0" "sync_engines (tk_trace (adapter_init url echo)) = 0"
    by (simp_all add: adapter_init_def async_engines_def sync_engines_def)
  have s4: "same_adapter s3 s4" "async_engines (tk_trace s4) = async_engines (tk_trace s3)"
    "sync_engines (tk_trace s4) = sync_engines (tk_trace s3)"
    using 4(1) listeners_same [of s3 A] later_part(3,4) [of A s3] by (auto simp: s_ret_def split: if_splits)
  show ?thesis
    using first_async_part [OF 1] connect_async_part_facts(2) [OF 1] connect_sync_part_facts(2) [OF 2]
      first_sync_part [OF 2] instrument_same [of s2 A h] later_part(1,2) [of A h s2] s4 base 3 4(2)
    by (auto simp: same_adapter_def)
qed

lemma first_use:
  assumes "ensure_initialized A (adapter_init url echo) = (t, Inr ())"
  shows "da_initialized t \<and> bound t \<and> da_engine t = Some 1 \<and> async_engines (tk_trace t) = 1 \<and> sync_engines (tk_trace t) = 1"
proof -
  have no: "\<not> da_initialized (adapter_init url echo)" by (simp add: adapter_init_def)
  then have c: "connect_sync A (adapter_init url echo) = (t, Inr ())"
    using assms by (simp add: ensure_initialized_def act_simps)
  then have "connect_body A (adapter_init url echo) = (t, Inr ())"
    by (cases "connect_body A (adapter_init url echo)") (auto simp: connect_sync_def database_handler_eq split: sum.splits)
  then show ?thesis using first_connection connect_sync_facts [OF no c] by simp
qed

lemma handle_initialized:
  "da_initialized s \<Longrightarrow> field s = Some h \<Longrightarrow> handle_of A field msg s = (s, Inr h)"
  by (simp add: handle_of_def ensure_initialized_def act_simps)

lemma first_sessions:
  assumes "session_factory A (adapter_init url echo) = (t, Inr h)"
  shows "h = 1 \<and> da_initialized t \<and> da_engine t = Some 1 \<and> da_session_factory t = Some 1 \<and>
    async_engines (tk_trace t) = 1 \<and> sync_engines (tk_trace t) = 1"
proof -
  have "ensure_initialized A (adapter_init url echo) = (t, Inr ()) \<and> da_session_factory t = Some h"
    using assms
    by (cases "ensure_initialized A (adapter_init url echo)")
      (auto simp: session_factory_def handle_of_def act_simps split: sum.splits option.splits)
  then show ?thesis using first_use by (auto simp: bound_def)
qed

text \<open>The identity kit adds to an application middlewares, routes and handlers of its own and changes
  nothing else that the application holds.\<close>

definition kit_adds :: "unit appact \<Rightarrow> bool" where
  "kit_adds m \<longleftrightarrow> (\<forall>s s' u. m s = (s', Inr u) \<longrightarrow>
     wa_adapter s' = wa_adapter s \<and> wa_kit s' = wa_kit s \<and> wa_docs s' = wa_docs s \<and> wa_admin s' = wa_admin s \<and>
     (\<exists>names. wa_middleware s' = wa_middleware s @ map KitMiddleware names))"

definition kit_contract :: "app_env \<Rightarrow> bool" where
  "kit_contract F \<longleftrightarrow> (\<forall>kit. kit_adds (fe_kit_setup F kit)) \<and> (\<forall>admin. kit_adds (fe_setup_admin F admin))"

definition own_middleware :: "app_settings \<Rightarrow> middleware_entry list" where
  "own_middleware app = [Cors (ap_cors_origins app) True (ap_cors_allow_methods app) (ap_cors_allow_headers app),
     RequestId, RequestTimeout, AdmissionControl]"

definition admin_session :: "settings \<Rightarrow> middleware_entry" where
  "admin_session s = AdminSession (ad_session_secret (st_admin s)) ''admin_session''
     (ad_session_timeout_minutes (st_admin s) * 60) ''lax'' (is_production s)"

lemma on_adapter_okE:
  assumes "on_adapter m s = (t, Inr x)"
  obtains a where "m (wa_adapter s) = (a, Inr x)" "t = s\<lparr>wa_adapter := a\<rparr>"
  using assms by (auto simp: on_adapter_def split: prod.splits)

lemma kit_initialized:
  assumes "init_identity_kit F (new_application (fe_settings F)) = (t, Inr u)"
  shows "wa_kit t = Some (create_identity_kit (fe_settings F) 1) \<and> da_initialized (wa_adapter t) \<and>
    da_engine (wa_adapter t) = Some 1 \<and> da_session_factory (wa_adapter t) = Some 1 \<and>
    async_engines (tk_trace (wa_adapter t)) = 1 \<and> sync_engines (tk_trace (wa_adapter t)) = 1 \<and>
    wa_middleware t = [] \<and> wa_docs t = wa_docs (new_application (fe_settings F))"
  using assms unfolding init_identity_kit_def
proof (elim s_bind_okE on_adapter_okE)
  fix s1 h a
  assume "s_modify (\<lambda>s. s\<lparr>wa_kit := Some (create_identity_kit (fe_settings F) h)\<rparr>) s1 = (t, Inr u)"
    and "session_factory (adapter_env_of F) (wa_adapter (new_application (fe_settings F))) = (a, Inr h)"
    and "s1 = new_application (fe_settings F)\<lparr>wa_adapter := a\<rparr>"
  moreover from this(2) have "h = 1 \<and> da_initialized a \<and> da_engine a = Some 1 \<and> da_session_factory a = Some 1 \<and>
      async_engines (tk_trace a) = 1 \<and> sync_engines (tk_trace a) = 1"
    unfolding new_application_def pg_db_def web_app.simps by (rule first_sessions)
  ultimately show ?thesis by (auto simp: s_modify_def new_application_def)
qed

lemma configured_ok:
  assumes "s_bind (configure_middleware F) (\<lambda>_. s_bind configure_exception_handlers (\<lambda>_. s_bind (register_routers F) f)) s = (t, Inr u)"
  obtains s1 where "f () s1 = (t, Inr u)" "wa_middleware s1 = wa_middleware s @ own_middleware (st_app (fe_settings F))"
    "wa_adapter s1 = wa_adapter s" "wa_kit s1 = wa_kit s" "wa_docs s1 = wa_docs s"
proof -
  have "\<exists>s1. f () s1 = (t, Inr u) \<and> wa_middleware s1 = wa_middleware s @ own_middleware (st_app (fe_settings F)) \<and>
      wa_adapter s1 = wa_adapter s \<and> wa_kit s1 = wa_kit s \<and> wa_docs s1 = wa_docs s"
    using assms
    by (simp add: configure_middleware_def configure_exception_handlers_def register_routers_def add_middleware_def
        s_bind_def s_modify_def Let_def own_middleware_def) (rule exI, erule conjI, simp)
  then show thesis using that by blast
qed

lemma observability_ok:
  assumes "configure_observability F s = (t, Inr u)"
  shows "wa_middleware t = wa_middleware s @ (if mc_enabled (st_metrics (fe_settings F)) then [MetricsCollector] else []) \<and>
    wa_adapter t = wa_adapter s \<and> wa_kit t = wa_kit s \<and> wa_docs t = wa_docs s \<and> wa_admin t = wa_admin s"
  using assms
  by (auto simp: configure_observability_def setup_metrics_def on_tracing_def add_middleware_def act_simps Let_def
      split: prod.splits if_splits)

lemma admin_ok:
  assumes "setup_admin F s = (t, Inr u)" "kit_contract F"
    and "da_initialized (wa_adapter s)" "da_engine (wa_adapter s) = Some h" "da_session_factory (wa_adapter s) = Some h"
  shows "\<exists>names admin. wa_middleware t = wa_middleware s @ admin_session (fe_settings F) # map KitMiddleware names \<and>
    wa_admin t = Some admin \<and> ap_engine admin = h \<and> ap_sessions admin = Some h \<and>
    wa_adapter t = wa_adapter s \<and> wa_kit t = wa_kit s \<and> wa_docs t = wa_docs s"
proof -
  have e: "on_adapter (engine (adapter_env_of F)) s = (s, Inr h)" "on_adapter (session_factory (adapter_env_of F)) s = (s, Inr h)"
    using assms(3-5) by (simp_all add: on_adapter_def engine_def session_factory_def handle_initialized)
  let ?s1 = "s\<lparr>wa_middleware := wa_middleware s @ [admin_session (fe_settings F)]\<rparr>"
  obtain admin s2 where 2: "fe_setup_admin F admin ?s1 = (s2, Inr ())" "t = s2\<lparr>wa_admin := Some admin\<rparr>"
    "ap_engine admin = h" "ap_sessions admin = Some h"
    using assms(1)
    by (auto simp: setup_admin_def s_bind_def e setup_admin_panel_def add_middleware_def s_modify_def admin_session_def Let_def
        split: prod.splits sum.splits)
  have "kit_adds (fe_setup_admin F admin)" using assms(2) by (simp add: kit_contract_def)
  from this [unfolded kit_adds_def, rule_format, OF 2(1)] show ?thesis using 2(2-4) by auto
qed

lemma built:
  assumes "create_app F = Inr a" "kit_contract F"
  shows "\<exists>kit_names admin_names admin.
    wa_middleware a = own_middleware (st_app (fe_settings F)) @ map KitMiddleware kit_names @
      admin_session (fe_settings F) # map KitMiddleware admin_names @
      (if mc_enabled (st_metrics (fe_settings F)) then [MetricsCollector] else []) \<and>
    wa_kit a = Some (create_identity_kit (fe_settings F) 1) \<and>
    wa_admin a = Some admin \<and> ap_engine admin = 1 \<and> ap_sessions admin = Some 1 \<and>
    da_engine (wa_adapter a) = Some 1 \<and> da_initialized (wa_adapter a) \<and>
    async_engines (tk_trace (wa_adapter a)) = 1 \<and> sync_engines (tk_trace (wa_adapter a)) = 1 \<and>
    wa_docs a = wa_docs (new_application (fe_settings F))"
proof -
  obtain u where b: "build_app F (new_application (fe_settings F)) = (a, Inr u)"
    using assms(1) by (auto simp: create_app_def split: prod.splits sum.splits)
  then obtain s1 v where 1: "init_identity_kit F (new_application (fe_settings F)) = (s1, Inr v)"
    and r1: "s_bind (configure_middleware F) (\<lambda>_. s_bind configure_exception_handlers (\<lambda>_. s_bind (register_routers F) (\<lambda>_.
      s_bind (setup_identity_kit F) (\<lambda>_. s_bind (setup_admin F) (\<lambda>_. configure_observability F))))) s1 = (a, Inr u)"
    unfolding build_app_def by (rule s_bind_okE)
  note f1 = kit_initialized [OF 1]
  from r1 obtain s2 where
    r2: "s_bind (setup_identity_kit F) (\<lambda>_. s_bind (setup_admin F) (\<lambda>_. configure_observability F)) s2 = (a, Inr u)"
    and f2: "wa_middleware s2 = wa_middleware s1 @ own_middleware (st_app (fe_settings F))" "wa_adapter s2 = wa_adapter s1"
      "wa_kit s2 = wa_kit s1" "wa_docs s2 = wa_docs s1" by (rule configured_ok)
  from r2 obtain s3 w where 3: "setup_identity_kit F s2 = (s3, Inr w)"
    and r3: "s_bind (setup_admin F) (\<lambda>_. configure_observability F) s3 = (a, Inr u)" by (rule s_bind_okE)
  have "fe_kit_setup F (create_identity_kit (fe_settings F) 1) s2 = (s3, Inr w)"
    using 3 f1 f2(3) by (simp add: setup_identity_kit_def s_bind_def s_get_def)
  moreover have "kit_adds (fe_kit_setup F (create_identity_kit (fe_settings F) 1))" using assms(2) by (simp add: kit_contract_def)
  ultimately obtain kit_names where f3: "wa_middleware s3 = wa_middleware s2 @ map KitMiddleware kit_names"
    "wa_adapter s3 = wa_adapter s2" "wa_kit s3 = wa_kit s2" "wa_docs s3 = wa_docs s2" unfolding kit_adds_def by blast
  from r3 obtain s4 x where 4: "setup_admin F s3 = (s4, Inr x)" and r4: "configure_observability F s4 = (a, Inr u)"
    by (rule s_bind_okE)
  have "\<exists>names admin. wa_middleware s4 = wa_middleware s3 @ admin_session (fe_settings F) # map KitMiddleware names \<and>
      wa_admin s4 = Some admin \<and> ap_engine admin = 1 \<and> ap_sessions admin = Some 1 \<and>
      wa_adapter s4 = wa_adapter s3 \<and> wa_kit s4 = wa_kit s3 \<and> wa_docs s4 = wa_docs s3"
    using f1 f2 f3 by (intro admin_ok [OF 4 assms(2)]) simp_all
  then obtain names admin where f4: "wa_middleware s4 = wa_middleware s3 @ admin_session (fe_settings F) # map KitMiddleware names"
    "wa_admin s4 = Some admin" "ap_engine admin = 1" "ap_sessions admin = Some 1" "wa_adapter s4 = wa_adapter s3"
    "wa_kit s4 = wa_kit s3" "wa_docs s4 = wa_docs s3" by blast
  show ?thesis
    using observability_ok [OF r4] f1 f2 f3 f4
    by (intro exI [of _ kit_names] exI [of _ names] exI [of _ admin]) simp
qed

section \<open>Properties\<close>

text \<open>C34. An application that is built has created one asynchronous and one synchronous engine, and the
  identity kit, the admin panel and the adapter all work on that one engine.\<close>

theorem app_single_engine:
  assumes "create_app F = Inr a" "kit_contract F"
  shows "\<exists>h kit admin. async_engines (tk_trace (wa_adapter a)) = 1 \<and> sync_engines (tk_trace (wa_adapter a)) = 1 \<and>
    da_initialized (wa_adapter a) \<and> da_engine (wa_adapter a) = Some h \<and>
    wa_kit a = Some kit \<and> kt_session_factory kit = h \<and>
    wa_admin a = Some admin \<and> ap_engine admin = h \<and> ap_sessions admin = Some h"
  using built [OF assms] by (auto simp: create_identity_kit_def)

text \<open>C35. An application that valid production settings give publishes no documentation, its identity
  kit runs in production mode with secure cookies and demands Redis, and the session cookie of the admin
  panel is sent over HTTPS only.  The session and the metrics middleware are added after, and so
  wrap, the admission control.\<close>

theorem production_application:
  assumes "validate_settings jwt_env show (fe_settings F) = Inr s" "ap_environment (st_app s) = Prod"
    and "create_app F = Inr a" "kit_contract F"
  shows "wa_docs a = (None, None, None) \<and>
    (\<exists>kit. wa_kit a = Some kit \<and> kc_environment (kt_config kit) = Production \<and> kc_cookie_secure (kt_config kit) \<and>
      kc_require_redis (kt_config kit)) \<and>
    (\<exists>origins methods headers kit_names admin_names secret seconds.
      origins \<noteq> [] \<and>
      wa_middleware a = [Cors origins True methods headers, RequestId, RequestTimeout, AdmissionControl] @
        map KitMiddleware kit_names @ [AdminSession secret ''admin_session'' seconds ''lax'' True] @
        map KitMiddleware admin_names @ (if mc_enabled (st_metrics s) then [MetricsCollector] else []))"
proof -
  have s: "fe_settings F = s" and cors: "ap_cors_origins (st_app s) \<noteq> []"
    using assms(1,2) by (auto simp: valid_settings_iff)
  then have prod: "is_production (fe_settings F)" using assms(2) by (simp add: is_production_def)
  obtain kit_names admin_names where m: "wa_middleware a = own_middleware (st_app s) @ map KitMiddleware kit_names @
      admin_session s # map KitMiddleware admin_names @ (if mc_enabled (st_metrics s) then [MetricsCollector] else [])"
    and k: "wa_kit a = Some (create_identity_kit s 1)" and d: "wa_docs a = wa_docs (new_application s)"
    using built [OF assms(3,4)] s by blast
  have "wa_docs a = (None, None, None)" using d prod s by (simp add: new_application_def documentation_urls_def)
  moreover have "kc_environment (create_identity_kit_config s) = Production \<and> kc_cookie_secure (create_identity_kit_config s) \<and>
      kc_require_redis (create_identity_kit_config s)"
    using prod s assms(2) by (simp add: create_identity_kit_config_def Let_def get_environment_def)
  ultimately show ?thesis
    using k m cors prod s
    by (auto simp: create_identity_kit_def own_middleware_def admin_session_def)
qed

text \<open>A production environment in which every call succeeds and the kit adds one middleware.\<close>

definition sample_app_env :: app_env where
  "sample_app_env =
     \<lparr>fe_ext = (\<lambda>_. []), fe_settings = sample_production [''10.0.0.0/16''], fe_adapter_calls = (\<lambda>_. (0, Inr ())),
      fe_tracing = sample_tracing,
      fe_kit_setup = (\<lambda>_. add_middleware (KitMiddleware ''kit'')), fe_setup_admin = (\<lambda>_. s_ret ())\<rparr>"

lemma sample_kit_contract: "kit_contract sample_app_env"
proof -
  have "kit_adds (add_middleware (KitMiddleware n))" for n
    by (auto simp: kit_adds_def add_middleware_def s_modify_def intro: exI [of _ "[n]"])
  moreover have "kit_adds (s_ret ())" by (auto simp: kit_adds_def s_ret_def intro: exI [of _ "[]"])
  ultimately show ?thesis by (simp add: kit_contract_def sample_app_env_def)
qed

lemma sample_fields [simp]:
  "fe_ext sample_app_env = (\<lambda>_. [])" "fe_settings sample_app_env = sample_production [''10.0.0.0/16'']"
  "fe_adapter_calls sample_app_env = (\<lambda>_. (0, Inr ()))"
  "fe_kit_setup sample_app_env = (\<lambda>_. add_middleware (KitMiddleware ''kit''))" "fe_setup_admin sample_app_env = (\<lambda>_. s_ret ())"
  "is_production (sample_production cidrs)" "\<not> tracing_configured (sample_production cidrs)"
  "\<not> mc_enabled (st_metrics (sample_production cidrs))"
  by (simp_all add: sample_app_env_def is_production_def tracing_configured_def)
    (simp_all add: sample_production_def tracing_defaults_def metrics_defaults_def)

lemma sample_observability: "configure_observability sample_app_env s = (s, Inr ())"
  by (simp add: configure_observability_def setup_metrics_def setup_tracing_def on_tracing_def s_ret_def Let_def)

lemma sample_app_built: "\<exists>a. create_app sample_app_env = Inr a"
  by (simp add: create_app_def build_app_def init_identity_kit_def on_adapter_def session_factory_def engine_def handle_of_def
      ensure_initialized_def connect_sync_def database_handler_eq connect_body_def connect_async_part_def connect_sync_part_def
      create_async_engine_def create_sync_engine_def instrument_sqlalchemy_engine_def setup_event_listeners_def
      perform_sync_def adapter_env_of_def configure_middleware_def configure_exception_handlers_def register_routers_def
      setup_identity_kit_def setup_admin_def setup_admin_panel_def add_middleware_def sample_observability
      s_bind_def s_modify_def s_get_def s_ret_def Let_def new_application_def pg_db_def adapter_init_def)

theorem app_single_engine_witness:
  "\<exists>a h. create_app sample_app_env = Inr a \<and> da_engine (wa_adapter a) = Some h \<and> async_engines (tk_trace (wa_adapter a)) = 1"
  using sample_app_built app_single_engine [OF _ sample_kit_contract] by blast

theorem production_application_witness:
  "\<exists>a. create_app sample_app_env = Inr a \<and> wa_docs a = (None, None, None)"
proof -
  have "validate_settings (Some ''key'') (\<lambda>_. []) (fe_settings sample_app_env) = Inr (sample_production [''10.0.0.0/16''])"
    unfolding valid_settings_iff by (simp add: dev_only_defaults_def overly_broad_cidrs_def)
  then show ?thesis using sample_app_built production_application [OF _ _ _ sample_kit_contract] by fastforce
qed

end
