(* ===== verification/MetricsRegistry.thy ===== *)
theory MetricsRegistry
  imports Metrics
begin

section \<open>The declared metrics\<close>

text \<open>
  The declarations of \<open>core/observability/metrics.py\<close>: every metric with its kind and the names of its
  labels.  The client library refuses a sample of an undeclared metric or with another number of
  labels; here every recording operation is shown never to give it one.
\<close>

datatype metric_kind = Counter | Gauge | Histogram "real list"

definition declared_metrics :: "(string \<times> metric_kind \<times> string list) list" where
  "declared_metrics =
     [(''http_requests_total'', Counter, [''method'', ''path'', ''status_code'']),
      (''http_request_duration_seconds'',
        Histogram [5/1000, 1/100, 25/1000, 5/100, 75/1000, 1/10, 25/100, 5/10, 75/100, 1, 25/10, 5, 75/10, 10],
        [''method'', ''path'']),
      (''http_requests_in_progress'', Gauge, [''method'', ''path'']),
      (''circuit_breaker_state'', Gauge, [''name'']),
      (''circuit_breaker_failures_total'', Counter, [''name'']),
      (''circuit_breaker_successes_total'', Counter, [''name'']),
      (''db_connections_total'', Gauge, []),
      (''db_connections_available'', Gauge, []),
      (''db_connections_in_use'', Gauge, []),
      (''app_info'', Gauge, [''version'', ''environment'']),
      (''user_registrations_total'', Counter, [''method'']),
      (''auth_attempts_total'', Counter, [''method'', ''result'']),
      (''active_sessions_total'', Gauge, []),
      (''api_usage_total'', Counter, [''feature'', ''operation'']),
      (''cache_hits_total'', Counter, [''cache_type'']),
      (''cache_misses_total'', Counter, [''cache_type'']),
      (''cache_operation_failures_total'', Counter, [''operation'']),
      (''external_api_calls_total'', Counter, [''service'', ''result'']),
      (''external_api_latency_seconds'', Histogram [1/10, 25/100, 5/10, 1, 25/10, 5, 10, 30], [''service''])]"

definition value_metric :: "string \<Rightarrow> nat \<Rightarrow> bool" where
  "value_metric name n \<longleftrightarrow>
     (case map_of declared_metrics name of Some (kind, ls) \<Rightarrow> (kind = Counter \<or> kind = Gauge) \<and> length ls = n | None \<Rightarrow> False)"

definition histogram_metric :: "string \<Rightarrow> nat \<Rightarrow> bool" where
  "histogram_metric name n \<longleftrightarrow>
     (case map_of declared_metrics name of Some (Histogram bs, ls) \<Rightarrow> length ls = n | _ \<Rightarrow> False)"

definition is_counter :: "string \<Rightarrow> bool" where
  "is_counter name \<longleftrightarrow> (case map_of declared_metrics name of Some (Counter, _) \<Rightarrow> True | _ \<Rightarrow> False)"

definition well_declared :: "prometheus \<Rightarrow> bool" where
  "well_declared p \<longleftrightarrow>
     (\<forall>(name, labels) \<in> set (map fst (pm_values p)). value_metric name (length labels)) \<and>
     (\<forall>(name, labels) \<in> set (map fst (pm_observed p)). histogram_metric name (length labels))"

definition set_app_info :: "string \<Rightarrow> prometheus \<Rightarrow> prometheus" where
  "set_app_info environment = metric_set ''app_info'' [''1.0.0'', environment] 1"

text \<open>What a process records: the operations one after another, and requests, while which the rest of
  the application records.\<close>

inductive records :: "prometheus \<Rightarrow> prometheus \<Rightarrow> bool" where
  nothing: "records s s"
| both: "records s t \<Longrightarrow> records t u \<Longrightarrow> records s u"
| app_info: "records s (set_app_info environment s)"
| breaker_state: "records s (record_circuit_breaker_state name state s)"
| breaker_failure: "records s (record_circuit_breaker_failure name s)"
| breaker_success: "records s (record_circuit_breaker_success name s)"
| pool: "records s (update_db_pool_metrics total_connections available in_use s)"
| registration: "records s (record_user_registration registration_method s)"
| authentication: "records s (record_auth_attempt auth_method success s)"
| sessions: "records s (update_active_sessions n s)"
| api: "records s (record_api_usage feature operation s)"
| cache: "records s (record_cache_access cache_type hit s)"
| cache_failure: "records s (record_cache_operation_failure operation s)"
| external: "records s (record_external_api_call service success latency s)"
| request: "call_next (metric_inc ''http_requests_in_progress'' [http_method, normalize_path path] s) = (t, r) \<Longrightarrow>
    records (metric_inc ''http_requests_in_progress'' [http_method, normalize_path path] s) t \<Longrightarrow>
    normalize_path path \<notin> {''/metrics'', ''/api/v1/system/metrics''} \<Longrightarrow>
    records s (fst (metrics_middleware duration http_method path call_next s))"
| metrics_request: "call_next s = (t, r) \<Longrightarrow> records s t \<Longrightarrow>
    normalize_path path \<in> {''/metrics'', ''/api/v1/system/metrics''} \<Longrightarrow>
    records s (fst (metrics_middleware duration http_method path call_next s))"

subsection \<open>Lemmas\<close>

lemma keys_metric_set [simp]:
  "set (map fst (pm_values (metric_set name labels v p))) = insert (name, labels) (set (map fst (pm_values p)))"
  "pm_observed (metric_set name labels v p) = pm_observed p"
  by (simp_all add: metric_set_def dom_update)

lemma keys_observe [simp]:
  "pm_values (observe name labels x p) = pm_values p"
  "set (map fst (pm_observed (observe name labels x p))) = insert (name, labels) (set (map fst (pm_observed p)))"
  by (simp_all add: observe_def dom_update)

lemma well_declared_set: "value_metric name (length labels) \<Longrightarrow> well_declared p \<Longrightarrow> well_declared (metric_set name labels v p)"
  unfolding well_declared_def keys_metric_set by simp

lemma well_declared_inc: "value_metric name (length labels) \<Longrightarrow> well_declared p \<Longrightarrow> well_declared (metric_inc name labels p)"
  unfolding metric_inc_def by (rule well_declared_set)

lemma well_declared_observe: "histogram_metric name (length labels) \<Longrightarrow> well_declared p \<Longrightarrow> well_declared (observe name labels x p)"
  unfolding well_declared_def keys_observe by simp

lemma declared_values [simp]:
  "value_metric ''http_requests_total'' (Suc (Suc (Suc 0)))" "value_metric ''http_requests_in_progress'' (Suc (Suc 0))"
  "value_metric ''circuit_breaker_state'' (Suc 0)" "value_metric ''circuit_breaker_failures_total'' (Suc 0)"
  "value_metric ''circuit_breaker_successes_total'' (Suc 0)" "value_metric ''db_connections_total'' 0"
  "value_metric ''db_connections_available'' 0" "value_metric ''db_connections_in_use'' 0"
  "value_metric ''app_info'' (Suc (Suc 0))" "value_metric ''user_registrations_total'' (Suc 0)"
  "value_metric ''auth_attempts_total'' (Suc (Suc 0))" "value_metric ''active_sessions_total'' 0"
  "value_metric ''api_usage_total'' (Suc (Suc 0))" "value_metric ''cache_hits_total'' (Suc 0)"
  "value_metric ''cache_misses_total'' (Suc 0)" "value_metric ''cache_operation_failures_total'' (Suc 0)"
  "value_metric ''external_api_calls_total'' (Suc (Suc 0))"
  by (simp_all add: value_metric_def declared_metrics_def)

lemma declared_histograms [simp]:
  "histogram_metric ''http_request_duration_seconds'' (Suc (Suc 0))"
  "histogram_metric ''external_api_latency_seconds'' (Suc 0)"
  by (simp_all add: histogram_metric_def declared_metrics_def)

lemma gauges [simp]:
  "\<not> is_counter ''http_requests_in_progress''" "\<not> is_counter ''circuit_breaker_state''" "\<not> is_counter ''db_connections_total''"
  "\<not> is_counter ''db_connections_available''" "\<not> is_counter ''db_connections_in_use''" "\<not> is_counter ''app_info''"
  "\<not> is_counter ''active_sessions_total''"
  by (simp_all add: is_counter_def declared_metrics_def)

lemmas recording_defs = set_app_info_def record_circuit_breaker_state_def record_circuit_breaker_failure_def
  record_circuit_breaker_success_def update_db_pool_metrics_def record_user_registration_def record_auth_attempt_def
  update_active_sessions_def record_api_usage_def record_cache_access_def record_cache_operation_failure_def
  record_external_api_call_def

lemma middleware_state:
  "call_next (metric_inc ''http_requests_in_progress'' [m, normalize_path p] s) = (t, r) \<Longrightarrow>
   normalize_path p \<notin> {''/metrics'', ''/api/v1/system/metrics''} \<Longrightarrow>
   \<exists>status. fst (metrics_middleware duration m p call_next s) =
     metric_dec ''http_requests_in_progress'' [m, normalize_path p]
       (metric_inc ''http_requests_total'' [m, normalize_path p, status]
         (observe ''http_request_duration_seconds'' [m, normalize_path p] duration t))"
  by (auto simp: metrics_middleware_def Let_def)

lemma middleware_excluded:
  "call_next s = (t, r) \<Longrightarrow> normalize_path p \<in> {''/metrics'', ''/api/v1/system/metrics''} \<Longrightarrow>
   fst (metrics_middleware duration m p call_next s) = t"
  by (auto simp: metrics_middleware_def Let_def)

lemma records_well_declared: "records s t \<Longrightarrow> well_declared s \<Longrightarrow> well_declared t"
proof (induction rule: records.induct)
  case (request call_next m p s t r d)
  then have "well_declared t" by (simp add: well_declared_inc)
  then show ?case
    using middleware_state [of call_next m p s t r d] request(1,3) by (auto simp: well_declared_inc well_declared_observe metric_dec_def intro!: well_declared_set)
next
  case (metrics_request call_next s t r p d m)
  then show ?case by (simp only: middleware_excluded)
qed (auto simp: recording_defs Let_def intro!: well_declared_set well_declared_inc well_declared_observe split: option.splits)

lemma metric_value_inc [simp]:
  "metric_value (metric_inc name labels p) name' labels' = metric_value p name' labels' + (if name' = name \<and> labels' = labels then 1 else 0)"
  by (simp add: metric_inc_def)

lemma metric_value_dec [simp]:
  "metric_value (metric_dec name labels p) name' labels' = metric_value p name' labels' - (if name' = name \<and> labels' = labels then 1 else 0)"
  by (simp add: metric_dec_def)

lemma records_counters: "records s t \<Longrightarrow> is_counter name \<Longrightarrow> metric_value s name labels \<le> metric_value t name labels"
proof (induction rule: records.induct)
  case (request call_next m p s t r d)
  then have "metric_value s name labels \<le> metric_value t name labels" by (auto split: if_splits)
  then show ?case using middleware_state [of call_next m p s t r d] request(1,3) request.prems by (auto split: if_splits)
next
  case (metrics_request call_next s t r p d m)
  then show ?case by (simp only: middleware_excluded)
qed (auto simp: recording_defs Let_def split: option.splits)

lemma records_in_progress:
  "records s t \<Longrightarrow> metric_value t ''http_requests_in_progress'' labels = metric_value s ''http_requests_in_progress'' labels"
proof (induction rule: records.induct)
  case (request call_next m p s t r d)
  then show ?case using middleware_state [of call_next m p s t r d] by force
next
  case (metrics_request call_next s t r p d m)
  then show ?case by (simp only: middleware_excluded)
qed (auto simp: recording_defs Let_def split: option.splits)

section \<open>Property\<close>

text \<open>C36. Whatever is recorded, every sample is one of a declared metric with as many labels as it
  declares, counters never go down, and when the requests are over the gauge of the requests in
  progress stands where it stood.\<close>

theorem registry_sound:
  assumes "records s t" "well_declared s"
  shows "well_declared t \<and> (\<forall>name labels. is_counter name \<longrightarrow> metric_value s name labels \<le> metric_value t name labels) \<and>
    (\<forall>labels. metric_value t ''http_requests_in_progress'' labels = metric_value s ''http_requests_in_progress'' labels)"
  using records_well_declared [OF assms] records_counters [OF assms(1)] records_in_progress [OF assms(1)] by blast

theorem registry_sound_witness:
  "well_declared (record_cache_access ''user'' True (set_app_info ''prod'' \<lparr>pm_values = [], pm_observed = []\<rparr>))"
proof -
  have "well_declared \<lparr>pm_values = [], pm_observed = []\<rparr>" by (simp add: well_declared_def)
  moreover have "records \<lparr>pm_values = [], pm_observed = []\<rparr>
      (record_cache_access ''user'' True (set_app_info ''prod'' \<lparr>pm_values = [], pm_observed = []\<rparr>))"
    by (rule records.both [OF records.app_info records.cache])
  ultimately show ?thesis using registry_sound by blast
qed

end
