(* ===== verification/DomainModel.thy ===== *)
theory DomainModel
  imports PyStrings PyExceptions
begin

section \<open>Domain objects and utilities\<close>

text \<open>
  \<open>core/domain/base_domain.py\<close>, \<open>core/utils\<close>, \<open>core/observability/context.py\<close> and \<open>timing.py\<close>.  A moment is
  its number of seconds since the epoch in UTC, a date its proleptic Gregorian ordinal; the
  calendar and the parsing of ISO texts are Python's and are parameters.
\<close>

subsection \<open>Domain objects\<close>

text \<open>The values of fields: \<open>VDomain\<close> is an instance of \<open>BaseDomain\<close>, \<open>VData\<close> one of another dataclass.\<close>

datatype field_value =
    VNone
  | VBool bool
  | VInt int
  | VFloat real
  | VStr string
  | VUuid string
  | VTime real
  | VEnum field_value
  | VList "field_value list"
  | VDict "(string \<times> field_value) list"
  | VDomain "(string \<times> field_value) list"
  | VData "(string \<times> field_value) list"

fun asdict :: "field_value \<Rightarrow> field_value" where
  \<comment> \<open>what \<open>dataclasses.asdict\<close> does to a value\<close>
  "asdict (VList vs) = VList (map asdict vs)"
| "asdict (VDict fs) = VDict (map (\<lambda>(k, v). (k, asdict v)) fs)"
| "asdict (VDomain fs) = VDict (map (\<lambda>(k, v). (k, asdict v)) fs)"
| "asdict (VData fs) = VDict (map (\<lambda>(k, v). (k, asdict v)) fs)"
| "asdict v = v"

definition asdict_fields :: "(string \<times> field_value) list \<Rightarrow> (string \<times> field_value) list" where
  "asdict_fields fs = map (\<lambda>(k, v). (k, asdict v)) fs"

definition public :: "string \<Rightarrow> bool" where
  "public k \<longleftrightarrow> \<not> startswith ''_'' k"

text \<open>The weight of a value bounds the recursion of the conversion.\<close>

fun weight :: "field_value \<Rightarrow> nat" where
  "weight (VList vs) = Suc (sum_list (map weight vs))"
| "weight (VDict fs) = Suc (sum_list (map (\<lambda>(k, v). weight v) fs))"
| "weight (VDomain fs) = Suc (sum_list (map (\<lambda>(k, v). weight v) fs))"
| "weight (VData fs) = Suc (sum_list (map (\<lambda>(k, v). weight v) fs))"
| "weight v = 1"

lemma weight_fields: "(\<And>k v. (k, v) \<in> set fs \<Longrightarrow> weight (g v) = weight v) \<Longrightarrow>
    sum_list (map (\<lambda>(k, v). weight v) (map (\<lambda>(k, v). (k, g v)) fs)) = sum_list (map (\<lambda>(k, v). weight v) fs)"
  by (auto simp: case_prod_unfold o_def intro!: arg_cong [where f = sum_list] map_cong)

lemma weight_asdict: "weight (asdict v) = weight v"
proof (induction v rule: asdict.induct)
  case (1 vs)
  then show ?case by (induction vs) auto
qed (simp_all add: weight_fields del: map_map)

lemma weight_element: "v \<in> set vs \<Longrightarrow> weight v \<le> sum_list (map weight vs)"
  by (simp add: member_le_sum_list)

lemma weight_field: "(k, v) \<in> set fs \<Longrightarrow> weight v \<le> sum_list (map (\<lambda>(k, v). weight v) fs)"
  by (induction fs) auto

lemma weight_asdict_field: "(k, v) \<in> set (asdict_fields fs) \<Longrightarrow> weight v \<le> sum_list (map (\<lambda>(k, v). weight v) fs)"
  by (auto simp: asdict_fields_def weight_asdict intro: weight_field)

definition public_fields :: "(string \<times> field_value) list \<Rightarrow> (string \<times> field_value) list" where
  "public_fields fs = filter (\<lambda>(k, v). public k) (asdict_fields fs)"

lemma weight_public_field: "(k, v) \<in> set (public_fields fs) \<Longrightarrow> weight v \<le> sum_list (map (\<lambda>(k, v). weight v) fs)"
  by (auto simp: public_fields_def intro: weight_asdict_field)

function convert_value :: "field_value \<Rightarrow> field_value" where
  \<comment> \<open>the second case is \<open>value.to_dict()\<close>\<close>
  "convert_value v =
     (case v of
        VEnum x \<Rightarrow> x
      | VDomain fs \<Rightarrow> VDict (map (\<lambda>(k, w). (k, convert_value w)) (public_fields fs))
      | VList vs \<Rightarrow> VList (map convert_value vs)
      | _ \<Rightarrow> v)"
  by pat_completeness auto
termination
  by (relation "measure weight") (auto dest: weight_element weight_public_field simp: less_Suc_eq_le)

declare convert_value.simps [simp del]

definition domain_to_dict :: "(string \<times> field_value) list \<Rightarrow> (string \<times> field_value) list" where
  "domain_to_dict fs = map (\<lambda>(k, v). (k, convert_value v)) (public_fields fs)"

definition domain_eq :: "field_value \<Rightarrow> field_value \<Rightarrow> bool option" where
  \<comment> \<open>\<open>BaseDomain.__eq__\<close>, \<open>None\<close> for \<open>NotImplemented\<close>\<close>
  "domain_eq x y =
     (case (x, y) of
        (VDomain fs, VDomain gs) \<Rightarrow> Some (map_of fs ''id'' = map_of gs ''id'')
      | _ \<Rightarrow> None)"

text \<open>The list of validation errors of an object.\<close>

definition add_validation_error :: "string \<Rightarrow> string list \<Rightarrow> string list" where
  "add_validation_error error errors = errors @ [error]"

definition get_validation_errors :: "string list \<Rightarrow> string list" where
  "get_validation_errors errors = errors"

definition raise_if_invalid :: "string list \<Rightarrow> exn + unit" where
  "raise_if_invalid errors =
     (if errors \<noteq> []
      then Inl (EDomain (mk_domain_validation DomainValidationError (join ''; '' errors) None PNone None))
      else Inr ())"

subsection \<open>Identifiers and collections\<close>

text \<open>What the helpers are given: nothing, a text or UUID by its text, a dictionary or another object with
  its attributes.\<close>

datatype 'v py_object = ONone | OText string | OUuid string | ODict "(string \<times> 'v) list" | OObject "(string \<times> 'v) list"

definition to_str_id :: "string option \<Rightarrow> string" where
  \<comment> \<open>the text of the identifier\<close>
  "to_str_id id_value = (case id_value of None \<Rightarrow> [] | Some s \<Rightarrow> s)"

definition safe_get_id_str :: "('v \<Rightarrow> string) \<Rightarrow> 'v option py_object \<Rightarrow> string \<Rightarrow> string" where
  \<comment> \<open>an attribute that is \<open>None\<close> is \<open>None\<close>; a dictionary has no attribute of that name\<close>
  "safe_get_id_str to_str obj id_attr =
     (case obj of
        ONone \<Rightarrow> []
      | OText s \<Rightarrow> to_str_id (Some s)
      | OUuid s \<Rightarrow> to_str_id (Some s)
      | ODict d \<Rightarrow> to_str_id None
      | OObject attrs \<Rightarrow> to_str_id (case map_of attrs id_attr of Some (Some v) \<Rightarrow> Some (to_str v) | _ \<Rightarrow> None))"

definition ensure_list :: "'a list option \<Rightarrow> 'a list" where
  "ensure_list value = or_else value []"

definition ensure_set :: "'a set option \<Rightarrow> 'a set" where
  "ensure_set value = (case value of None \<Rightarrow> {} | Some s \<Rightarrow> s)"

definition safe_get_list :: "'a list option py_object \<Rightarrow> string \<Rightarrow> 'a list" where
  \<comment> \<open>the other objects have no such attribute\<close>
  "safe_get_list obj attr_name =
     (case obj of
        ODict d \<Rightarrow> ensure_list (case map_of d attr_name of Some v \<Rightarrow> v | None \<Rightarrow> None)
      | OObject attrs \<Rightarrow> ensure_list (case map_of attrs attr_name of Some v \<Rightarrow> v | None \<Rightarrow> None)
      | _ \<Rightarrow> ensure_list None)"

definition create_log_context ::
  "('v \<Rightarrow> string) \<Rightarrow> 'v option py_object \<Rightarrow> (string \<times> pyval) list \<Rightarrow> (string \<times> pyval) list" where
  "create_log_context to_str user additional_fields =
     dict_merge [(''user_id'', PStr (safe_get_id_str to_str user ''id''))] additional_fields"

subsection \<open>Dates\<close>

text \<open>Dates run from 0001-01-01 to 9999-12-31, whose last second is \<open>max_moment\<close>.\<close>

definition max_ordinal :: int where
  "max_ordinal = 3652059"

definition epoch_ordinal :: int where
  \<comment> \<open>1970-01-01\<close>
  "epoch_ordinal = 719163"

definition overflow_error :: exn where
  "overflow_error = EOther (Lib ''OverflowError'') ''date value out of range''"

definition date_plus_days :: "int \<Rightarrow> int \<Rightarrow> exn + int" where
  "date_plus_days dt days =
     (if 1 \<le> dt + days \<and> dt + days \<le> max_ordinal then Inr (dt + days) else Inl overflow_error)"

definition in_range :: "real \<Rightarrow> bool" where
  "in_range t \<longleftrightarrow> of_int (1 - epoch_ordinal) * 86400 \<le> t \<and> t < of_int (max_ordinal + 1 - epoch_ordinal) * 86400"

definition time_plus :: "real \<Rightarrow> real \<Rightarrow> exn + real" where
  "time_plus now delta = (if in_range (now + delta) then Inr (now + delta) else Inl overflow_error)"

definition get_current_utc_time_plus_minutes :: "real \<Rightarrow> int \<Rightarrow> exn + real" where
  "get_current_utc_time_plus_minutes now minutes = time_plus now (of_int minutes * 60)"

definition get_current_utc_time_plus_days :: "real \<Rightarrow> int \<Rightarrow> exn + real" where
  "get_current_utc_time_plus_days now days = time_plus now (of_int days * 86400)"

definition timestamp_to_utc_datetime :: "real \<Rightarrow> exn + real" where
  "timestamp_to_utc_datetime timestamp =
     (if in_range timestamp then Inr timestamp
      else Inl (EOther (Builtin ValueErrorC) ''year is out of range''))"

definition get_current_utc_date :: "real \<Rightarrow> int" where
  "get_current_utc_date now = epoch_ordinal + \<lfloor>now / 86400\<rfloor>"

definition get_current_utc_date_plus_days :: "real \<Rightarrow> int \<Rightarrow> exn + int" where
  "get_current_utc_date_plus_days now days = date_plus_days (get_current_utc_date now) days"

definition get_current_utc_date_and_month :: "(int \<Rightarrow> string) \<Rightarrow> real \<Rightarrow> int \<times> string" where
  \<comment> \<open>the calendar gives the month of a date as \<open>YYYY-MM\<close>\<close>
  "get_current_utc_date_and_month month_of now = (get_current_utc_date now, month_of (get_current_utc_date now))"

datatype cached_time = NoTime | ATime real | TimeText string | OtherType string

definition parse_datetime_from_cache :: "(string \<Rightarrow> exn + real) \<Rightarrow> cached_time \<Rightarrow> exn + real option" where
  "parse_datetime_from_cache fromisoformat value =
     (case value of
        NoTime \<Rightarrow> Inr None
      | ATime t \<Rightarrow> Inr (Some t)
      | TimeText s \<Rightarrow> map_sum id Some (fromisoformat s)
      | OtherType n \<Rightarrow> Inl (EOther (Builtin TypeErrorC) (''Expected str, datetime, or None, got '' @ n)))"

subsection \<open>Timing\<close>

text \<open>The state has a clock, whose readings are given, and the durations that were logged.\<close>

record timing =
  ti_now :: real
  ti_logged :: "(string \<times> real) list"

definition timed_call :: "string \<Rightarrow> (timing, exn, 'a) act \<Rightarrow> (timing, exn, real \<times> 'a) act" where
  \<comment> \<open>what both wrappers of \<open>timing_decorator\<close> do before the header: an exception is not logged\<close>
  "timed_call label func s =
     (case func s of
        (t, Inl e) \<Rightarrow> (t, Inl e)
      | (t, Inr x) \<Rightarrow> (t\<lparr>ti_logged := ti_logged t @ [(label, ti_now t - ti_now s)]\<rparr>, Inr (ti_now t - ti_now s, x)))"

datatype 'a route_result = Response "(string \<times> string) list" | Value 'a

definition timing_decorator ::
  "(real \<Rightarrow> string) \<Rightarrow> bool \<Rightarrow> bool \<Rightarrow> string \<Rightarrow> (timing, exn, 'a route_result) act \<Rightarrow> (timing, exn, 'a route_result) act" where
  \<comment> \<open>\<open>fmt\<close> writes six decimals; only the wrapper of a coroutine function sets the header\<close>
  "timing_decorator fmt include_header is_coroutine label func =
     s_bind (timed_call label func) (\<lambda>(duration, x).
       s_ret (case x of
         Response headers \<Rightarrow> if include_header \<and> is_coroutine
           then Response (dict_set ''x-process-time'' (fmt duration) headers) else x
       | Value v \<Rightarrow> x))"

definition timed_block :: "string \<Rightarrow> (timing, exn, 'a) act \<Rightarrow> (timing, exn, 'a) act" where
  "timed_block label body s =
     (case body s of (t, r) \<Rightarrow> (t\<lparr>ti_logged := ti_logged t @ [(label, ti_now t - ti_now s)]\<rparr>, r))"

subsection \<open>Lemmas\<close>

fun no_objects :: "field_value \<Rightarrow> bool" where
  "no_objects (VDomain fs) = False"
| "no_objects (VData fs) = False"
| "no_objects (VList vs) = list_all no_objects vs"
| "no_objects (VDict fs) = list_all (\<lambda>(k, v). no_objects v) fs"
| "no_objects v = True"

lemma asdict_no_objects: "no_objects (asdict v)"
  by (induction v rule: asdict.induct) (auto simp: list_all_iff)

lemma domain_to_dict_get:
  assumes "map_of fs k = Some v" "public k"
  shows "map_of (domain_to_dict fs) k = Some (convert_value (asdict v))"
  using assms by (induction fs) (auto simp: domain_to_dict_def public_fields_def asdict_fields_def split: if_splits)

text \<open>Comparison by identifier is an equivalence on domain objects.\<close>

lemma domain_eq_equivalence:
  "domain_eq (VDomain a) (VDomain a) = Some True"
  "domain_eq (VDomain a) (VDomain b) = domain_eq (VDomain b) (VDomain a)"
  "domain_eq (VDomain a) (VDomain b) = Some True \<Longrightarrow> domain_eq (VDomain b) (VDomain c) = Some True \<Longrightarrow>
    domain_eq (VDomain a) (VDomain c) = Some True"
  by (auto simp: domain_eq_def)

text \<open>The dictionary of an object has its public fields only, but an object in one of them is written out
  with its private ones: \<open>asdict\<close> has made it a dictionary before its fields are looked at.\<close>

theorem domain_to_dict_keys:
  assumes "map_of fs k = Some (VDomain inner)" "public k"
  shows "(\<forall>k' \<in> set (map fst (domain_to_dict fs)). public k') \<and>
    map_of (domain_to_dict fs) k = Some (VDict (map (\<lambda>(k, v). (k, asdict v)) inner))"
proof
  show "\<forall>k' \<in> set (map fst (domain_to_dict fs)). public k'" by (auto simp: domain_to_dict_def public_fields_def)
  show "map_of (domain_to_dict fs) k = Some (VDict (map (\<lambda>(k, v). (k, asdict v)) inner))"
    using domain_to_dict_get [OF assms] by (simp add: convert_value.simps [of "VDict _"])
qed

theorem domain_to_dict_keys_witness:
  "map_of (domain_to_dict [(''owner'', VDomain [(''_validation_errors'', VList [])])]) ''owner'' =
    Some (VDict [(''_validation_errors'', VList [])])"
  using domain_to_dict_keys [of "[(''owner'', VDomain [(''_validation_errors'', VList [])])]" "''owner''" "[(''_validation_errors'', VList [])]"]
  by (simp add: public_def startswith_iff)

lemma get_current_utc_date_range:
  assumes "in_range now"
  shows "1 \<le> get_current_utc_date now \<and> get_current_utc_date now \<le> max_ordinal"
proof -
  have "of_int (1 - epoch_ordinal) \<le> now / 86400" "now / 86400 < of_int (max_ordinal + 1 - epoch_ordinal)"
    using assms by (simp_all add: in_range_def field_simps)
  then have "1 - epoch_ordinal \<le> \<lfloor>now / 86400\<rfloor>" "\<lfloor>now / 86400\<rfloor> < max_ordinal + 1 - epoch_ordinal"
    by (simp_all add: le_floor_iff floor_less_iff)
  then show ?thesis by (simp add: get_current_utc_date_def)
qed

lemma timed_block_logs: "ti_logged (fst (timed_block label body s)) = ti_logged (fst (body s)) @ [(label, ti_now (fst (body s)) - ti_now s)]"
  by (simp add: timed_block_def split: prod.splits)

end
