(* ===== verification/Migrations.thy ===== *)
theory Migrations
  imports Identity IpAddress
begin

section \<open>Migrations of the database\<close>

text \<open>
  \<open>migrations/versions/001_init.py\<close> as the list of statements it issues, in order, and the functions of
  \<open>migrations/env.py\<close>.  The database that executes a statement is a parameter \<open>exec\<close>; what is relied on is
  what PostgreSQL documents of statements whose tables, columns and names are in order
  (\<open>admissible\<close>): they take effect.
\<close>

datatype column_type = Varchar nat | TextType | UuidType | BigInt | BoolType | Timestamptz | DateType | Jsonb

datatype on_delete = NoAction | Cascade | Restrict

record foreign_key =
  fk_column :: string
  fk_table :: string
  fk_target :: string
  fk_name :: string
  fk_on_delete :: on_delete

record table_def =
  td_columns :: "(string \<times> column_type \<times> bool) list"
  td_primary_key :: string
  td_pk_name :: string
  td_foreign_keys :: "foreign_key list"
  td_uniques :: "(string \<times> string list) list"

datatype condition = IsNull string | IsFalse string

record index_def =
  ix_name :: string
  ix_table :: string
  ix_columns :: "string list"
  ix_unique :: bool
  ix_where :: "condition option"

datatype sql_value = RandomUuid | Literal string

datatype ddl =
    CreateTable string table_def
  | CreateIndex index_def
  | DropIndex string string
  | DropTable string
  | Insert string "(string \<times> sql_value) list"

text \<open>A column is its name, its type and whether it may be null.\<close>

definition upgrade :: "ddl list" where
  "upgrade =
     [CreateTable ''features''
        \<lparr>td_columns = [(''code'', Varchar 255, False), (''name'', Varchar 255, False), (''id'', UuidType, False)],
         td_primary_key = ''id'', td_pk_name = ''pk_features'',
         td_foreign_keys = [],
         td_uniques = []\<rparr>,
      CreateIndex \<lparr>ix_name = ''ix_features_code'', ix_table = ''features'',
         ix_columns = [''code''], ix_unique = True, ix_where = None\<rparr>,
      CreateTable ''permissions''
        \<lparr>td_columns = [(''code'', Varchar 255, False), (''type'', Varchar 255, False), (''id'', UuidType, False)],
         td_primary_key = ''id'', td_pk_name = ''pk_permissions'',
         td_foreign_keys = [],
         td_uniques = []\<rparr>,
      CreateIndex \<lparr>ix_name = ''ix_permissions_code'', ix_table = ''permissions'',
         ix_columns = [''code''], ix_unique = True, ix_where = None\<rparr>,
      CreateTable ''plans''
        \<lparr>td_columns = [(''code'', Varchar 255, False), (''name'', Varchar 255, False), (''id'', UuidType, False)],
         td_primary_key = ''id'', td_pk_name = ''pk_plans'',
         td_foreign_keys = [],
         td_uniques = []\<rparr>,
      CreateIndex \<lparr>ix_name = ''ix_plans_code'', ix_table = ''plans'',
         ix_columns = [''code''], ix_unique = True, ix_where = None\<rparr>,
      CreateTable ''roles''
        \<lparr>td_columns = [(''code'', Varchar 255, False), (''name'', Varchar 255, False), (''id'', UuidType, False)],
         td_primary_key = ''id'', td_pk_name = ''pk_roles'',
         td_foreign_keys = [],
         td_uniques = []\<rparr>,
      CreateIndex \<lparr>ix_name = ''ix_roles_code'', ix_table = ''roles'',
         ix_columns = [''code''], ix_unique = True, ix_where = None\<rparr>,
      CreateTable ''plan_limits''
        \<lparr>td_columns = [(''plan_id'', UuidType, False), (''feature_id'', UuidType, False),
          (''feature_limit'', BigInt, False), (''period'', Varchar 255, True), (''id'', UuidType, False)],
         td_primary_key = ''id'', td_pk_name = ''pk_plan_limits'',
         td_foreign_keys = [\<lparr>fk_column = ''feature_id'', fk_table = ''features'', fk_target = ''id'', fk_name = ''fk_plan_limits_feature_id_features'',
           fk_on_delete = Cascade\<rparr>,
          \<lparr>fk_column = ''plan_id'', fk_table = ''plans'', fk_target = ''id'', fk_name = ''fk_plan_limits_plan_id_plans'',
           fk_on_delete = Cascade\<rparr>],
         td_uniques = [(''uq_plan_feature_limit'', [''plan_id'', ''feature_id''])]\<rparr>,
      CreateIndex \<lparr>ix_name = ''ix_plan_limits_feature_id'', ix_table = ''plan_limits'',
         ix_columns = [''feature_id''], ix_unique = False, ix_where = None\<rparr>,
      CreateIndex \<lparr>ix_name = ''ix_plan_limits_plan_id'', ix_table = ''plan_limits'',
         ix_columns = [''plan_id''], ix_unique = False, ix_where = None\<rparr>,
      CreateTable ''plan_permissions''
        \<lparr>td_columns = [(''plan_id'', UuidType, False), (''permission_id'', UuidType, False), (''id'', UuidType, False)],
         td_primary_key = ''id'', td_pk_name = ''pk_plan_permissions'',
         td_foreign_keys = [\<lparr>fk_column = ''permission_id'', fk_table = ''permissions'', fk_target = ''id'', fk_name = ''fk_plan_permissions_permission_id_permissions'',
           fk_on_delete = Cascade\<rparr>,
          \<lparr>fk_column = ''plan_id'', fk_table = ''plans'', fk_target = ''id'', fk_name = ''fk_plan_permissions_plan_id_plans'',
           fk_on_delete = Cascade\<rparr>],
         td_uniques = [(''uq_plan_permission'', [''plan_id'', ''permission_id''])]\<rparr>,
      CreateIndex \<lparr>ix_name = ''ix_plan_permissions_permission_id'', ix_table = ''plan_permissions'',
         ix_columns = [''permission_id''], ix_unique = False, ix_where = None\<rparr>,
      CreateIndex \<lparr>ix_name = ''ix_plan_permissions_plan_id'', ix_table = ''plan_permissions'',
         ix_columns = [''plan_id''], ix_unique = False, ix_where = None\<rparr>,
      CreateTable ''role_permissions''
        \<lparr>td_columns = [(''role_id'', UuidType, False), (''permission_id'', UuidType, False), (''id'', UuidType, False)],
         td_primary_key = ''id'', td_pk_name = ''pk_role_permissions'',
         td_foreign_keys = [\<lparr>fk_column = ''permission_id'', fk_table = ''permissions'', fk_target = ''id'', fk_name = ''fk_role_permissions_permission_id_permissions'',
           fk_on_delete = Cascade\<rparr>,
          \<lparr>fk_column = ''role_id'', fk_table = ''roles'', fk_target = ''id'', fk_name = ''fk_role_permissions_role_id_roles'',
           fk_on_delete = Cascade\<rparr>],
         td_uniques = [(''uq_role_permission'', [''role_id'', ''permission_id''])]\<rparr>,
      CreateIndex \<lparr>ix_name = ''ix_role_permissions_permission_id'', ix_table = ''role_permissions'',
         ix_columns = [''permission_id''], ix_unique = False, ix_where = None\<rparr>,
      CreateIndex \<lparr>ix_name = ''ix_role_permissions_role_id'', ix_table = ''role_permissions'',
         ix_columns = [''role_id''], ix_unique = False, ix_where = None\<rparr>,
      CreateTable ''users''
        \<lparr>td_columns = [(''email'', Varchar 255, False), (''password_hash'', Varchar 255, True),
          (''role_id'', UuidType, False), (''is_active'', BoolType, False),
          (''is_verified'', BoolType, False), (''id'', UuidType, False),
          (''created_at'', Timestamptz, False), (''updated_at'', Timestamptz, False)],
         td_primary_key = ''id'', td_pk_name = ''pk_users'',
         td_foreign_keys = [\<lparr>fk_column = ''role_id'', fk_table = ''roles'', fk_target = ''id'', fk_name = ''fk_users_role_id_roles'',
           fk_on_delete = NoAction\<rparr>],
         td_uniques = []\<rparr>,
      CreateIndex \<lparr>ix_name = ''ix_users_email'', ix_table = ''users'',
         ix_columns = [''email''], ix_unique = True, ix_where = None\<rparr>,
      CreateTable ''refresh_tokens''
        \<lparr>td_columns = [(''user_id'', UuidType, False), (''token_hash'', Varchar 255, False),
          (''expires_at'', Timestamptz, False), (''created_at'', Timestamptz, False),
          (''revoked_at'', Timestamptz, True), (''user_agent'', TextType, True),
          (''ip_address'', Varchar 45, True), (''id'', UuidType, False)],
         td_primary_key = ''id'', td_pk_name = ''pk_refresh_tokens'',
         td_foreign_keys = [\<lparr>fk_column = ''user_id'', fk_table = ''users'', fk_target = ''id'', fk_name = ''fk_refresh_tokens_user_id_users'',
           fk_on_delete = Cascade\<rparr>],
         td_uniques = []\<rparr>,
      CreateIndex \<lparr>ix_name = ''ix_refresh_tokens_cleanup'', ix_table = ''refresh_tokens'',
         ix_columns = [''expires_at'', ''revoked_at''], ix_unique = False, ix_where = None\<rparr>,
      CreateIndex \<lparr>ix_name = ''ix_refresh_tokens_expires_at'', ix_table = ''refresh_tokens'',
         ix_columns = [''expires_at''], ix_unique = False, ix_where = None\<rparr>,
      CreateIndex \<lparr>ix_name = ''ix_refresh_tokens_hash_active'', ix_table = ''refresh_tokens'',
         ix_columns = [''token_hash''], ix_unique = False, ix_where = Some (IsNull ''revoked_at'')\<rparr>,
      CreateIndex \<lparr>ix_name = ''ix_refresh_tokens_token_hash'', ix_table = ''refresh_tokens'',
         ix_columns = [''token_hash''], ix_unique = False, ix_where = None\<rparr>,
      CreateIndex \<lparr>ix_name = ''ix_refresh_tokens_user_id'', ix_table = ''refresh_tokens'',
         ix_columns = [''user_id''], ix_unique = False, ix_where = None\<rparr>,
      CreateTable ''user_plans''
        \<lparr>td_columns = [(''user_id'', UuidType, False), (''plan_id'', UuidType, False), (''started_at'', DateType, False),
          (''ends_at'', DateType, False), (''custom_limits'', Jsonb, False),
          (''is_cancelled'', BoolType, False), (''cancelled_at'', Timestamptz, True),
          (''id'', UuidType, False)],
         td_primary_key = ''id'', td_pk_name = ''pk_user_plans'',
         td_foreign_keys = [\<lparr>fk_column = ''plan_id'', fk_table = ''plans'', fk_target = ''id'', fk_name = ''fk_user_plans_plan_id_plans'',
           fk_on_delete = Restrict\<rparr>,
          \<lparr>fk_column = ''user_id'', fk_table = ''users'', fk_target = ''id'', fk_name = ''fk_user_plans_user_id_users'',
           fk_on_delete = Cascade\<rparr>],
         td_uniques = []\<rparr>,
      CreateIndex \<lparr>ix_name = ''ix_user_plans_active_lookup'', ix_table = ''user_plans'',
         ix_columns = [''user_id'', ''started_at'', ''ends_at''], ix_unique = False, ix_where = None\<rparr>,
      CreateIndex \<lparr>ix_name = ''ix_user_plans_active_not_cancelled'', ix_table = ''user_plans'',
         ix_columns = [''user_id'', ''started_at'', ''ends_at''], ix_unique = False, ix_where = Some (IsFalse ''is_cancelled'')\<rparr>,
      CreateIndex \<lparr>ix_name = ''ix_user_plans_plan_id'', ix_table = ''user_plans'',
         ix_columns = [''plan_id''], ix_unique = False, ix_where = None\<rparr>,
      CreateIndex \<lparr>ix_name = ''ix_user_plans_user_id'', ix_table = ''user_plans'',
         ix_columns = [''user_id''], ix_unique = False, ix_where = None\<rparr>,
      CreateTable ''user_providers''
        \<lparr>td_columns = [(''user_id'', UuidType, False), (''code'', Varchar 255, False),
          (''external_user_id'', TextType, False), (''id'', UuidType, False)],
         td_primary_key = ''id'', td_pk_name = ''pk_user_providers'',
         td_foreign_keys = [\<lparr>fk_column = ''user_id'', fk_table = ''users'', fk_target = ''id'', fk_name = ''fk_user_providers_user_id_users'',
           fk_on_delete = Cascade\<rparr>],
         td_uniques = []\<rparr>,
      CreateIndex \<lparr>ix_name = ''ix_user_providers_external_user_id'', ix_table = ''user_providers'',
         ix_columns = [''external_user_id''], ix_unique = False, ix_where = None\<rparr>,
      CreateIndex \<lparr>ix_name = ''ix_user_providers_unique'', ix_table = ''user_providers'',
         ix_columns = [''code'', ''external_user_id''], ix_unique = True, ix_where = None\<rparr>,
      CreateIndex \<lparr>ix_name = ''ix_user_providers_user_id'', ix_table = ''user_providers'',
         ix_columns = [''user_id''], ix_unique = False, ix_where = None\<rparr>,
      CreateTable ''feature_usage''
        \<lparr>td_columns = [(''user_plan_id'', UuidType, False), (''feature_id'', UuidType, False),
          (''feature_usage'', BigInt, False), (''start_period'', DateType, False),
          (''end_period'', DateType, False), (''id'', UuidType, False)],
         td_primary_key = ''id'', td_pk_name = ''pk_feature_usage'',
         td_foreign_keys = [\<lparr>fk_column = ''feature_id'', fk_table = ''features'', fk_target = ''id'', fk_name = ''fk_feature_usage_feature_id_features'',
           fk_on_delete = Cascade\<rparr>,
          \<lparr>fk_column = ''user_plan_id'', fk_table = ''user_plans'', fk_target = ''id'', fk_name = ''fk_feature_usage_user_plan_id_user_plans'',
           fk_on_delete = Cascade\<rparr>],
         td_uniques = [(''uq_usage_plan_feature_period'', [''user_plan_id'', ''feature_id'', ''start_period''])]\<rparr>,
      CreateIndex \<lparr>ix_name = ''ix_feature_usage_feature_id'', ix_table = ''feature_usage'',
         ix_columns = [''feature_id''], ix_unique = False, ix_where = None\<rparr>,
      CreateIndex \<lparr>ix_name = ''ix_feature_usage_period_lookup'', ix_table = ''feature_usage'',
         ix_columns = [''user_plan_id'', ''feature_id'', ''start_period'', ''end_period''], ix_unique = False, ix_where = None\<rparr>,
      CreateIndex \<lparr>ix_name = ''ix_feature_usage_user_plan_id'', ix_table = ''feature_usage'',
         ix_columns = [''user_plan_id''], ix_unique = False, ix_where = None\<rparr>,
      Insert ''roles'' [(''id'', RandomUuid), (''code'', Literal ''user''), (''name'', Literal ''User'')],
      Insert ''plans'' [(''id'', RandomUuid), (''code'', Literal ''free''), (''name'', Literal ''Free'')]]"

definition downgrade :: "ddl list" where
  "downgrade =
     [DropIndex ''ix_feature_usage_user_plan_id'' ''feature_usage'',
      DropIndex ''ix_feature_usage_period_lookup'' ''feature_usage'',
      DropIndex ''ix_feature_usage_feature_id'' ''feature_usage'',
      DropTable ''feature_usage'',
      DropIndex ''ix_user_providers_user_id'' ''user_providers'',
      DropIndex ''ix_user_providers_unique'' ''user_providers'',
      DropIndex ''ix_user_providers_external_user_id'' ''user_providers'',
      DropTable ''user_providers'',
      DropIndex ''ix_user_plans_user_id'' ''user_plans'',
      DropIndex ''ix_user_plans_plan_id'' ''user_plans'',
      DropIndex ''ix_user_plans_active_not_cancelled'' ''user_plans'',
      DropIndex ''ix_user_plans_active_lookup'' ''user_plans'',
      DropTable ''user_plans'',
      DropIndex ''ix_refresh_tokens_user_id'' ''refresh_tokens'',
      DropIndex ''ix_refresh_tokens_token_hash'' ''refresh_tokens'',
      DropIndex ''ix_refresh_tokens_hash_active'' ''refresh_tokens'',
      DropIndex ''ix_refresh_tokens_expires_at'' ''refresh_tokens'',
      DropIndex ''ix_refresh_tokens_cleanup'' ''refresh_tokens'',
      DropTable ''refresh_tokens'',
      DropIndex ''ix_users_email'' ''users'',
      DropTable ''users'',
      DropIndex ''ix_role_permissions_role_id'' ''role_permissions'',
      DropIndex ''ix_role_permissions_permission_id'' ''role_permissions'',
      DropTable ''role_permissions'',
      DropIndex ''ix_plan_permissions_plan_id'' ''plan_permissions'',
      DropIndex ''ix_plan_permissions_permission_id'' ''plan_permissions'',
      DropTable ''plan_permissions'',
      DropIndex ''ix_plan_limits_plan_id'' ''plan_limits'',
      DropIndex ''ix_plan_limits_feature_id'' ''plan_limits'',
      DropTable ''plan_limits'',
      DropIndex ''ix_roles_code'' ''roles'',
      DropTable ''roles'',
      DropIndex ''ix_plans_code'' ''plans'',
      DropTable ''plans'',
      DropIndex ''ix_permissions_code'' ''permissions'',
      DropTable ''permissions'',
      DropIndex ''ix_features_code'' ''features'',
      DropTable ''features'']"

subsection \<open>The schema\<close>

record schema =
  sc_tables :: "(string \<times> table_def) list"
  sc_indexes :: "index_def list"
  sc_rows :: "(string \<times> (string \<times> sql_value) list) list"

definition empty_schema :: schema where
  "empty_schema = \<lparr>sc_tables = [], sc_indexes = [], sc_rows = []\<rparr>"

definition column_names :: "table_def \<Rightarrow> string list" where
  "column_names t = map fst (td_columns t)"

definition own_names :: "string \<Rightarrow> table_def \<Rightarrow> string list" where
  \<comment> \<open>a table and the indexes of its constraints are relations of the same name space\<close>
  "own_names n t = n # td_pk_name t # map fst (td_uniques t)"

definition relation_names :: "schema \<Rightarrow> string list" where
  "relation_names s = concat (map (\<lambda>(n, t). own_names n t) (sc_tables s)) @ map ix_name (sc_indexes s)"

fun condition_column :: "condition \<Rightarrow> string" where
  "condition_column (IsNull c) = c"
| "condition_column (IsFalse c) = c"

definition has_columns :: "schema \<Rightarrow> string \<Rightarrow> string list \<Rightarrow> bool" where
  "has_columns s n cs \<longleftrightarrow> (case map_of (sc_tables s) n of None \<Rightarrow> False | Some t \<Rightarrow> list_all (\<lambda>c. c \<in> set (column_names t)) cs)"

definition valid_foreign_key :: "schema \<Rightarrow> table_def \<Rightarrow> foreign_key \<Rightarrow> bool" where
  \<comment> \<open>it refers to the primary key of a table, from a column of the same type\<close>
  "valid_foreign_key s t f \<longleftrightarrow>
     (case map_of (sc_tables s) (fk_table f) of
        None \<Rightarrow> False
      | Some u \<Rightarrow> td_primary_key u = fk_target f \<and>
          map_option fst (map_of (td_columns t) (fk_column f)) = map_option fst (map_of (td_columns u) (fk_target f)) \<and>
          map_of (td_columns t) (fk_column f) \<noteq> None)"

definition refers_to :: "string \<Rightarrow> string \<times> table_def \<Rightarrow> bool" where
  "refers_to n p \<longleftrightarrow> fst p \<noteq> n \<and> list_ex (\<lambda>f. fk_table f = n) (td_foreign_keys (snd p))"

definition unique_columns :: "schema \<Rightarrow> string \<Rightarrow> string list list" where
  "unique_columns s n = map ix_columns (filter (\<lambda>i. ix_table i = n \<and> ix_unique i \<and> ix_where i = None) (sc_indexes s))"

definition conflicts :: "(string \<times> sql_value) list \<Rightarrow> (string \<times> sql_value) list \<Rightarrow> string list \<Rightarrow> bool" where
  "conflicts r1 r2 cs \<longleftrightarrow> list_all (\<lambda>c. case (map_of r1 c, map_of r2 c) of
       (Some (Literal x), Some (Literal y)) \<Rightarrow> x = y | _ \<Rightarrow> False) cs"

fun admissible :: "ddl \<Rightarrow> schema \<Rightarrow> bool" where
  "admissible (CreateTable n t) s \<longleftrightarrow>
     distinct (column_names t) \<and> td_primary_key t \<in> set (column_names t) \<and>
     distinct (own_names n t) \<and> list_all (\<lambda>x. x \<notin> set (relation_names s)) (own_names n t) \<and>
     list_all (valid_foreign_key s t) (td_foreign_keys t) \<and>
     list_all (\<lambda>(_, cs). list_all (\<lambda>c. c \<in> set (column_names t)) cs) (td_uniques t)"
| "admissible (CreateIndex i) s \<longleftrightarrow>
     ix_name i \<notin> set (relation_names s) \<and> has_columns s (ix_table i) (ix_columns i) \<and>
     (case ix_where i of None \<Rightarrow> True | Some c \<Rightarrow> has_columns s (ix_table i) [condition_column c])"
| "admissible (DropIndex x n) s \<longleftrightarrow> list_ex (\<lambda>i. ix_name i = x \<and> ix_table i = n) (sc_indexes s)"
| "admissible (DropTable n) s \<longleftrightarrow> map_of (sc_tables s) n \<noteq> None \<and> \<not> list_ex (refers_to n) (sc_tables s)"
| "admissible (Insert n r) s \<longleftrightarrow>
     has_columns s n (map fst r) \<and>
     (case map_of (sc_tables s) n of None \<Rightarrow> False
      | Some t \<Rightarrow> list_all (\<lambda>(c, _, nullable). nullable \<or> c \<in> set (map fst r)) (td_columns t)) \<and>
     list_all (\<lambda>(m, q). m = n \<longrightarrow> list_all (\<lambda>cs. \<not> conflicts r q cs) (unique_columns s n)) (sc_rows s)"

fun effect :: "ddl \<Rightarrow> schema \<Rightarrow> schema" where
  "effect (CreateTable n t) s = s\<lparr>sc_tables := sc_tables s @ [(n, t)]\<rparr>"
| "effect (CreateIndex i) s = s\<lparr>sc_indexes := sc_indexes s @ [i]\<rparr>"
| "effect (DropIndex x n) s = s\<lparr>sc_indexes := filter (\<lambda>i. ix_name i \<noteq> x) (sc_indexes s)\<rparr>"
| "effect (DropTable n) s =
     s\<lparr>sc_tables := filter (\<lambda>p. fst p \<noteq> n) (sc_tables s), sc_indexes := filter (\<lambda>i. ix_table i \<noteq> n) (sc_indexes s),
       sc_rows := filter (\<lambda>p. fst p \<noteq> n) (sc_rows s)\<rparr>"
| "effect (Insert n r) s = s\<lparr>sc_rows := sc_rows s @ [(n, r)]\<rparr>"

definition ddl_contract :: "(ddl \<Rightarrow> schema \<Rightarrow> exn + schema) \<Rightarrow> bool" where
  "ddl_contract exec \<longleftrightarrow> (\<forall>op s. admissible op s \<longrightarrow> exec op s = Inr (effect op s))"

fun run_migration :: "(ddl \<Rightarrow> schema \<Rightarrow> exn + schema) \<Rightarrow> ddl list \<Rightarrow> schema \<Rightarrow> exn + schema" where
  "run_migration exec [] s = Inr s"
| "run_migration exec (op # ops) s = bind_res (exec op s) (run_migration exec ops)"

subsection \<open>The environment of the migrations\<close>

definition migration_url :: "string option \<Rightarrow> settings \<Rightarrow> string" where
  \<comment> \<open>the option \<open>sqlalchemy.url\<close>; the first argument is the environment variable \<open>POSTGRES_HOST\<close>\<close>
  "migration_url host s =
     (let db = st_database s;
          postgres_host = (case host of Some h \<Rightarrow> h | None \<Rightarrow> pg_host db);
          database_url =
            (if postgres_host = ''localhost''
             then ''postgresql+asyncpg://'' @ pg_user db @ '':'' @ pg_password db @ ''@localhost:'' @
               str_of_int (pg_port db) @ ''/'' @ pg_db db
             else pg_database_url db)
      in replace_char CHR ''%'' ''%%'' database_url)"

definition exclude_tables :: "string option option \<Rightarrow> string list" where
  \<comment> \<open>the section \<open>alembic:exclude\<close>, if there is one, and its \<open>tables\<close>\<close>
  "exclude_tables exclude_section = split_on CHR '','' (case exclude_section of Some (Some tables) \<Rightarrow> tables | _ \<Rightarrow> [])"

definition include_object :: "string list \<Rightarrow> string option \<Rightarrow> string \<Rightarrow> bool" where
  "include_object exclude name type = (\<not> (type = ''table'' \<and> (\<exists>n \<in> set exclude. name = Some n)))"

definition pad3 :: "int \<Rightarrow> string" where
  \<comment> \<open>the format \<open>03d\<close>\<close>
  "pad3 n =
     (if n < 0 then CHR ''-'' # replicate (2 - length (str_of_int (- n))) CHR ''0'' @ str_of_int (- n)
      else replicate (3 - length (str_of_int n)) CHR ''0'' @ str_of_int n)"

definition next_revision :: "(string \<Rightarrow> int option) \<Rightarrow> string option \<Rightarrow> string" where
  \<comment> \<open>\<open>process_revision_directives\<close>; \<open>to_int\<close> is Python's \<open>int\<close> on a text\<close>
  "next_revision to_int head_revision =
     pad3 (case head_revision of
       None \<Rightarrow> 1
     | Some h \<Rightarrow> (case to_int (dropWhile (\<lambda>c. c = CHR ''0'') h) of Some n \<Rightarrow> n + 1 | None \<Rightarrow> 1))"

subsection \<open>Lemmas\<close>

fun ready :: "ddl list \<Rightarrow> schema \<Rightarrow> bool" where
  "ready [] s = True"
| "ready (op # ops) s \<longleftrightarrow> admissible op s \<and> ready ops (effect op s)"

fun effects :: "ddl list \<Rightarrow> schema \<Rightarrow> schema" where
  "effects [] s = s"
| "effects (op # ops) s = effects ops (effect op s)"

lemma run_ready: "ddl_contract exec \<Longrightarrow> ready ops s \<Longrightarrow> run_migration exec ops s = Inr (effects ops s)"
  by (induction ops arbitrary: s) (auto simp: ddl_contract_def)

lemma upgrade_ready: "ready upgrade empty_schema"
  by code_simp

definition initial_schema :: schema where
  "initial_schema = effects upgrade empty_schema"

lemma downgrade_ready: "ready downgrade initial_schema"
  by code_simp

lemma downgrade_empties: "effects downgrade initial_schema = empty_schema"
  by code_simp

lemma initial_tables: "map fst (sc_tables initial_schema) =
    [''features'', ''permissions'', ''plans'', ''roles'', ''plan_limits'', ''plan_permissions'', ''role_permissions'', ''users'',
     ''refresh_tokens'', ''user_plans'', ''user_providers'', ''feature_usage'']"
  by code_simp

lemma initial_rows: "sc_rows initial_schema =
    [(''roles'', [(''id'', RandomUuid), (''code'', Literal ''user''), (''name'', Literal ''User'')]),
     (''plans'', [(''id'', RandomUuid), (''code'', Literal ''free''), (''name'', Literal ''Free'')])]"
  by code_simp

lemma initial_unique:
  "unique_columns initial_schema ''roles'' = [[''code'']]" "unique_columns initial_schema ''users'' = [[''email'']]"
  "map_option td_primary_key (map_of (sc_tables initial_schema) ''users'') = Some ''id''"
  by code_simp+

text \<open>The rows of a database keep the uniqueness its schema demands.\<close>

definition meets :: "schema \<Rightarrow> identity_db \<Rightarrow> bool" where
  "meets s db \<longleftrightarrow>
     ([''code''] \<in> set (unique_columns s ''roles'') \<longrightarrow> distinct (map ro_code (db_roles db))) \<and>
     ([''email''] \<in> set (unique_columns s ''users'') \<longrightarrow> distinct (map us_email (db_users db))) \<and>
     (map_option td_primary_key (map_of (sc_tables s) ''users'') = Some ''id'' \<longrightarrow> distinct (map us_id (db_users db)))"

lemma initial_meets: "meets initial_schema db \<Longrightarrow> db_wf db"
  unfolding meets_def db_wf_def initial_unique using filter_distinct_le1 by fastforce

lemma pad3_nat: "pad3 (int n) = replicate (3 - length (nat_digits n)) CHR ''0'' @ nat_digits n"
  by (simp add: pad3_def str_of_int_def)

lemma digits_value_zeros: "digits_value 0 (replicate k CHR ''0'') = 0"
  by (induction k) (simp_all add: ordc_def)

lemma pad3_value: "digits_value 0 (pad3 (int n)) = n"
  by (simp add: pad3_nat digits_value_append digits_value_zeros nat_digits_value)

lemma strip_pad3:
  assumes "0 < n"
  shows "dropWhile (\<lambda>c. c = CHR ''0'') (pad3 (int n)) = nat_digits n"
proof -
  have "dropWhile (\<lambda>c. c = CHR ''0'') (nat_digits n) = nat_digits n"
    using nat_digits_hd [OF assms] by (cases "nat_digits n") auto
  moreover have "dropWhile (\<lambda>c. c = CHR ''0'') (replicate k CHR ''0'' @ xs) = dropWhile (\<lambda>c. c = CHR ''0'') xs" for k xs
    by (induction k) simp_all
  ultimately show ?thesis by (simp add: pad3_nat)
qed

section \<open>Properties\<close>

text \<open>C37. On an empty database every statement of the upgrade is in order and takes effect, and the
  downgrade that follows drops everything in an order that the foreign keys allow: the database is empty
  again.\<close>

theorem migration_round_trip:
  assumes "ddl_contract exec"
  shows "\<exists>s. run_migration exec upgrade empty_schema = Inr s \<and> length (sc_tables s) = 12 \<and>
    run_migration exec downgrade s = Inr empty_schema"
proof -
  have "run_migration exec upgrade empty_schema = Inr initial_schema"
    using run_ready [OF assms upgrade_ready] by (simp add: initial_schema_def)
  moreover have "run_migration exec downgrade initial_schema = Inr empty_schema"
    using run_ready [OF assms downgrade_ready] by (simp add: downgrade_empties)
  moreover have "length (sc_tables initial_schema) = 12" using arg_cong [OF initial_tables, of length] by simp
  ultimately show ?thesis by blast
qed

text \<open>C38. The upgraded database is what the rest of the program takes for granted: the role and the plan
  that the configuration of the identity kit names as defaults are there, and a database that keeps its
  unique columns has one administrator role at most and users who differ in identifier and email, as
  the script for administrators needs.\<close>

theorem migrated_database_serves:
  assumes "ddl_contract exec"
  shows "\<exists>s. run_migration exec upgrade empty_schema = Inr s \<and>
    (\<exists>r. (''roles'', r) \<in> set (sc_rows s) \<and>
       map_of r ''code'' = Some (Literal (kc_default_role_code (create_identity_kit_config settings)))) \<and>
    (\<exists>r. (''plans'', r) \<in> set (sc_rows s) \<and>
       map_of r ''code'' = Some (Literal (kc_default_plan_code (create_identity_kit_config settings)))) \<and>
    (\<forall>db. meets s db \<longrightarrow> db_wf db)"
proof -
  have "run_migration exec upgrade empty_schema = Inr initial_schema"
    using run_ready [OF assms upgrade_ready] by (simp add: initial_schema_def)
  moreover have "map_of [(''id'', RandomUuid), (''code'', Literal c), (''name'', n)] ''code'' = Some (Literal c)" for c n
    by simp
  ultimately show ?thesis
    using initial_meets
    by (intro exI [of _ initial_schema] conjI) (auto simp: initial_rows create_identity_kit_config_def Let_def)
qed

definition sample_exec :: "ddl \<Rightarrow> schema \<Rightarrow> exn + schema" where
  "sample_exec op s = (if admissible op s then Inr (effect op s) else Inl (EOther (Builtin RuntimeErrorC) ''refused''))"

lemma sample_exec_contract: "ddl_contract sample_exec"
  by (simp add: ddl_contract_def sample_exec_def)

theorem migration_round_trip_witness:
  "\<exists>s. run_migration sample_exec upgrade empty_schema = Inr s \<and> length (sc_tables s) = 12 \<and>
    run_migration sample_exec downgrade s = Inr empty_schema"
  by (rule migration_round_trip [OF sample_exec_contract])

theorem migrated_database_serves_witness:
  "\<exists>s. run_migration sample_exec upgrade empty_schema = Inr s \<and> (\<forall>db. meets s db \<longrightarrow> db_wf db)"
  using migrated_database_serves [OF sample_exec_contract] by blast

text \<open>Revisions are numbered one after the other, starting with \<open>001\<close> and past \<open>999\<close>, and no two
  numbers are written alike; after a revision whose name is no number the count starts again at \<open>001\<close>.\<close>

theorem revision_sequence:
  assumes "\<And>n. to_int (nat_digits n) = Some (int n)"
  shows "next_revision to_int None = pad3 1 \<and>
    (0 < n \<longrightarrow> next_revision to_int (Some (pad3 (int n))) = pad3 (int n + 1)) \<and>
    (pad3 (int n) = pad3 (int m) \<longrightarrow> n = m) \<and>
    (to_int (dropWhile (\<lambda>c. c = CHR ''0'') h) = None \<longrightarrow> next_revision to_int (Some h) = pad3 1)"
proof (intro conjI impI)
  show "next_revision to_int None = pad3 1" by (simp add: next_revision_def)
  show "next_revision to_int (Some (pad3 (int n))) = pad3 (int n + 1)" if "0 < n"
    using assms [of n] by (simp add: next_revision_def strip_pad3 [OF that])
  show "n = m" if "pad3 (int n) = pad3 (int m)" using that by (metis pad3_value)
  show "next_revision to_int (Some h) = pad3 1" if "to_int (dropWhile (\<lambda>c. c = CHR ''0'') h) = None"
    using that by (simp add: next_revision_def)
qed

definition read_digits :: "string \<Rightarrow> int option" where
  "read_digits s = (if s \<noteq> [] \<and> list_all is_digit s then Some (int (nat_of_string s)) else None)"

theorem revision_sequence_witness:
  "next_revision read_digits (Some (pad3 (int 9))) = pad3 (int 9 + 1) \<and> next_revision read_digits (Some ''a1b2'') = pad3 1"
proof -
  have "read_digits (nat_digits n) = Some (int n)" for n
    by (simp add: read_digits_def nat_digits_is_digit nat_of_string_def nat_digits_value)
  note * = revision_sequence [of read_digits, OF this]
  have "(0::nat) < 9" by simp
  then have "next_revision read_digits (Some (pad3 (int 9))) = pad3 (int 9 + 1)" using * [of 9 0 "''a''"] by blast
  moreover have "read_digits (dropWhile (\<lambda>c. c = CHR ''0'') ''a1b2'') = None"
    by (simp add: read_digits_def is_digit_def ordc_def)
  then have "next_revision read_digits (Some ''a1b2'') = pad3 1" using * [of 0 0 "''a1b2''"] by blast
  ultimately show ?thesis ..
qed

end
