(* ===== verification/LogSetup.thy ===== *)
theory LogSetup
  imports LogConfig PyExceptions Dtos
begin

section \<open>Setting up logging\<close>

text \<open>
  \<open>configure_logging\<close> of \<open>core/observability/logging.py\<close> and what it calls: the state of structlog and of the
  root logger after each step.  Reading the YAML file, the settings and \<open>logging.config.dictConfig\<close> are
  parameters; \<open>logging.basicConfig\<close> is the standard library's, which does nothing when the root logger
  has a handler.
\<close>

datatype processor =
    MergeContextvars | AddLogLevel | AddLoggerName | PositionalArguments | TimeStamper string | StackInfoRenderer
  | FormatExcInfo | UnicodeDecoder | AddRequestId | AddUserId | WrapForFormatter | RemoveProcessorsMeta
  | JsonRenderer | ConsoleRenderer

record log_formatter =
  lf_foreign_pre_chain :: "processor list"
  lf_processors :: "processor list"

definition get_structlog_formatter :: "bool \<Rightarrow> log_formatter" where
  "get_structlog_formatter use_json =
     \<lparr>lf_foreign_pre_chain =
        [MergeContextvars, AddLogLevel, AddLoggerName, PositionalArguments, TimeStamper ''iso'', StackInfoRenderer,
         UnicodeDecoder],
      lf_processors = [RemoveProcessorsMeta, if use_json then JsonRenderer else ConsoleRenderer]\<rparr>"

definition structlog_style_formatter :: log_formatter where
  \<comment> \<open>\<open>StructlogStyleFormatter\<close> formats with this\<close>
  "structlog_style_formatter = get_structlog_formatter False"

definition shared_processors :: "processor list" where
  "shared_processors =
     [MergeContextvars, AddLogLevel, AddLoggerName, PositionalArguments, TimeStamper ''iso'', StackInfoRenderer,
      FormatExcInfo, UnicodeDecoder, AddRequestId, AddUserId]"

text \<open>A handler of the root logger: one on the standard output with a formatter, one with a format
  string, or one that \<open>dictConfig\<close> has put there.\<close>

datatype root_handler = StdoutHandler log_formatter | BasicHandler string | ConfiguredHandler string

record logging_state =
  ls_processors :: "processor list"
  ls_cache_loggers :: bool
  ls_root_handlers :: "root_handler list"
  ls_root_level :: string
  ls_config :: "log_config option"
  ls_warned :: bool

type_synonym 'a logact = "(logging_state, exn, 'a) act"

record log_env =
  le_ext :: "string \<Rightarrow> pyclass list"
  le_settings :: "exn + bool \<times> string"
  le_exists :: bool
  le_parse :: "exn + log_config"
  le_log_dir :: "exn + string"
  le_dict_config :: "log_config \<Rightarrow> unit logact"

text \<open>\<open>le_settings\<close> are \<open>JSON_LOGS\<close> and \<open>LOG_LEVEL\<close>, \<open>le_log_dir\<close> is the outcome of \<open>_get_log_directory\<close>.\<close>

definition file_not_found :: "string \<Rightarrow> exn" where
  "file_not_found msg = EOther (Lib ''builtins.FileNotFoundError'') msg"

definition load_logging_config :: "log_env \<Rightarrow> string \<Rightarrow> exn + log_config" where
  "load_logging_config L config_path =
     (if \<not> le_exists L then Inl (file_not_found (''Logging config file not found: '' @ config_path)) else le_parse L)"

definition structlog_configure :: "bool \<Rightarrow> unit logact" where
  "structlog_configure cache =
     s_modify (\<lambda>s. s\<lparr>ls_processors := shared_processors @ [WrapForFormatter], ls_cache_loggers := cache\<rparr>)"

definition basic_config :: "string \<Rightarrow> string \<Rightarrow> unit logact" where
  "basic_config fmt level =
     s_modify (\<lambda>s. if ls_root_handlers s = [] then s\<lparr>ls_root_handlers := [BasicHandler fmt], ls_root_level := level\<rparr> else s)"

definition level_of :: "string \<Rightarrow> string" where
  \<comment> \<open>\<open>getattr(logging, level.upper(), logging.INFO)\<close> for the names of levels\<close>
  "level_of level =
     (if map upper_char level \<in> set [''DEBUG'', ''INFO'', ''WARNING'', ''WARN'', ''ERROR'', ''CRITICAL'', ''FATAL'', ''NOTSET''] then map upper_char level else ''INFO'')"

definition bad_config :: "log_env \<Rightarrow> exn \<Rightarrow> bool" where
  "bad_config L e \<longleftrightarrow> isinst (le_ext L) (exn_class e)
     [Lib ''builtins.FileNotFoundError'', Lib ''yaml.YAMLError'', Builtin KeyErrorC, Builtin ValueErrorC]"

definition load_and_configure :: "log_env \<Rightarrow> string \<Rightarrow> bool \<Rightarrow> unit logact" where
  "load_and_configure L config_path use_json =
     s_bind (s_lift (load_logging_config L config_path)) (\<lambda>config.
     s_bind (s_lift (le_log_dir L)) (\<lambda>log_dir.
     le_dict_config L (apply_logging_format use_json (adjust_log_paths log_dir config))))"

definition configure_logging :: "log_env \<Rightarrow> string \<Rightarrow> unit logact" where
  "configure_logging L config_path =
     s_bind (structlog_configure False) (\<lambda>_.
     s_bind (s_modify (\<lambda>s. s\<lparr>ls_root_handlers := [StdoutHandler (get_structlog_formatter False)], ls_root_level := ''DEBUG''\<rparr>)) (\<lambda>_.
     s_bind (s_lift (le_settings L)) (\<lambda>(use_json, log_level).
     s_bind (structlog_configure True) (\<lambda>_.
     s_catch (load_and_configure L config_path use_json)
       (\<lambda>e. if bad_config L e
            then s_bind (basic_config ''%(asctime)s - %(name)s - %(levelname)s - %(message)s'' (level_of log_level)) (\<lambda>_.
                 s_modify (\<lambda>s. s\<lparr>ls_warned := True\<rparr>))
            else s_raise e)))))"

subsection \<open>Property\<close>

text \<open>Without its YAML file the program logs on, and warns, but not at the level of the settings: the root
  logger has had a handler since the second step, so that \<open>basicConfig\<close> does nothing and the level stays
  at \<open>DEBUG\<close>.  Every log entry then passes the processors for the identifiers, as it does when the file is
  there.\<close>

theorem logging_fallback:
  assumes "\<not> le_exists L" "le_settings L = Inr (use_json, log_level)"
  shows "\<exists>t. configure_logging L config_path s = (t, Inr ()) \<and> ls_warned t \<and> ls_root_level t = ''DEBUG'' \<and>
    ls_root_handlers t = [StdoutHandler (get_structlog_formatter False)] \<and>
    AddRequestId \<in> set (ls_processors t) \<and> AddUserId \<in> set (ls_processors t)"
  using assms
  by (simp add: configure_logging_def structlog_configure_def load_and_configure_def load_logging_config_def basic_config_def
      bad_config_def file_not_found_def shared_processors_def isinst_def mro_def act_simps)

definition sample_log_env :: log_env where
  "sample_log_env =
     \<lparr>le_ext = (\<lambda>_. []), le_settings = Inr (True, ''ERROR''), le_exists = False, le_parse = Inr shipped_config,
      le_log_dir = Inr ''/app/logs'', le_dict_config = (\<lambda>c. s_modify (\<lambda>s. s\<lparr>ls_config := Some c\<rparr>))\<rparr>"

theorem logging_fallback_witness:
  "\<exists>t. configure_logging sample_log_env ''logging_config.yaml''
      \<lparr>ls_processors = [], ls_cache_loggers = False, ls_root_handlers = [], ls_root_level = ''WARNING'', ls_config = None,
       ls_warned = False\<rparr> = (t, Inr ()) \<and> ls_root_level t = ''DEBUG''"
  using logging_fallback [of sample_log_env True "''ERROR''"] by (auto simp: sample_log_env_def)

end
