(* ===== verification/BreakerRegistry.thy ===== *)
theory BreakerRegistry
  imports CircuitBreaker
begin

section \<open>The instances of the circuit-breaker registry\<close>

text \<open>
  The class side of \<open>CircuitBreakerRegistry\<close> in \<open>core/security/circuit_breaker.py\<close>: the singleton,
  \<open>reset\<close> and the functions of the module that hand out factories.  A call is one step here; that
  the double-checked locking of \<open>CircuitBreaker\<close> carries out such a step is shown at the end.
  Registry objects have addresses, because \<open>reset\<close> clears the old object and then forgets it.
\<close>

record registry_object =
  ro_factories :: "(cb_type \<times> nat) list"
  ro_states :: "(string \<times> string) list"

record breakers =
  br_objects :: "registry_object list"
  br_instance :: "nat option"
  br_created :: "(cb_type \<times> factory) list"

definition new_registry :: registry_object where
  "new_registry = \<lparr>ro_factories = [], ro_states = []\<rparr>"

definition breakers_init :: breakers where
  "breakers_init = \<lparr>br_objects = [], br_instance = None, br_created = []\<rparr>"

definition get_instance :: "breakers \<Rightarrow> breakers \<times> nat" where
  "get_instance b =
     (case br_instance b of
        None \<Rightarrow> (b\<lparr>br_objects := br_objects b @ [new_registry], br_instance := Some (length (br_objects b))\<rparr>,
                 length (br_objects b))
      | Some i \<Rightarrow> (b, i))"

definition reset :: "breakers \<Rightarrow> breakers" where
  "reset b =
     (case br_instance b of
        None \<Rightarrow> b
      | Some i \<Rightarrow> b\<lparr>br_objects := (br_objects b)[i := (br_objects b ! i)\<lparr>ro_factories := [], ro_states := []\<rparr>],
                     br_instance := None\<rparr>)"

definition get_factory :: "breaker_settings \<Rightarrow> real \<Rightarrow> cb_type \<Rightarrow> nat \<Rightarrow> breakers \<Rightarrow> breakers \<times> nat" where
  "get_factory settings u cb i b =
     (let r = br_objects b ! i in
      case dict_get (ro_factories r) cb of
        Some f \<Rightarrow> (b, f)
      | None \<Rightarrow>
          (case get_config settings u cb of
             (failure_threshold, reset_timeout, _) \<Rightarrow>
               (b\<lparr>br_objects := (br_objects b)[i := r\<lparr>ro_factories := dict_set cb (length (br_created b)) (ro_factories r)\<rparr>],
                  br_created := br_created b @ [(cb, \<lparr>fa_threshold = failure_threshold, fa_ttl = reset_timeout\<rparr>)]\<rparr>,
                length (br_created b))))"

definition registry_factory :: "breaker_settings \<Rightarrow> real \<Rightarrow> cb_type \<Rightarrow> breakers \<Rightarrow> breakers \<times> nat" where
  "registry_factory settings u cb b = (case get_instance b of (b1, i) \<Rightarrow> get_factory settings u cb i b1)"

definition get_db_circuit_breaker_factory :: "breaker_settings \<Rightarrow> real \<Rightarrow> breakers \<Rightarrow> breakers \<times> nat" where
  "get_db_circuit_breaker_factory settings u = registry_factory settings u DATABASE"

definition get_redis_circuit_breaker_factory :: "breaker_settings \<Rightarrow> real \<Rightarrow> breakers \<Rightarrow> breakers \<times> nat" where
  "get_redis_circuit_breaker_factory settings u = registry_factory settings u REDIS"

definition get_external_api_circuit_breaker_factory :: "breaker_settings \<Rightarrow> real \<Rightarrow> breakers \<Rightarrow> breakers \<times> nat" where
  "get_external_api_circuit_breaker_factory settings u = registry_factory settings u EXTERNAL_API"

definition get_telegram_circuit_breaker_factory :: "breaker_settings \<Rightarrow> real \<Rightarrow> breakers \<Rightarrow> breakers \<times> nat" where
  "get_telegram_circuit_breaker_factory settings u = get_external_api_circuit_breaker_factory settings u"

subsection \<open>The invariant\<close>

text \<open>What an object has stored are factories that exist and are of the right type, and no factory
  belongs to two objects.\<close>

definition holds :: "breakers \<Rightarrow> nat \<Rightarrow> cb_type \<Rightarrow> nat \<Rightarrow> bool" where
  "holds b i cb f \<longleftrightarrow> i < length (br_objects b) \<and> dict_get (ro_factories (br_objects b ! i)) cb = Some f"

definition breakers_wf :: "breakers \<Rightarrow> bool" where
  "breakers_wf b \<longleftrightarrow>
     (\<forall>i. br_instance b = Some i \<longrightarrow> i < length (br_objects b)) \<and>
     (\<forall>i cb f. holds b i cb f \<longrightarrow> f < length (br_created b) \<and> fst (br_created b ! f) = cb) \<and>
     (\<forall>i j cb f. holds b i cb f \<longrightarrow> holds b j cb f \<longrightarrow> i = j)"

lemma breakers_wf_init: "breakers_wf breakers_init"
  by (simp add: breakers_wf_def breakers_init_def holds_def)

lemma holds_get_instance: "holds (fst (get_instance b)) = holds b"
  by (auto simp: fun_eq_iff holds_def get_instance_def new_registry_def nth_append less_Suc_eq split: option.split)

lemma get_instance_wf:
  assumes "breakers_wf b" "get_instance b = (b', i)"
  shows "breakers_wf b'" "br_instance b' = Some i" "i < length (br_objects b')" "br_created b' = br_created b"
    "holds b' = holds b"
proof -
  show h: "holds b' = holds b" using holds_get_instance [of b] assms(2) by simp
  show b': "br_instance b' = Some i" "br_created b' = br_created b"
    using assms(2) by (auto simp: get_instance_def split: option.splits)
  show i: "i < length (br_objects b')"
    using assms by (auto simp: get_instance_def breakers_wf_def split: option.splits)
  show "breakers_wf b'" using assms(1) i unfolding breakers_wf_def h b' by simp
qed

lemma holds_reset: "holds (reset b) i cb f \<longleftrightarrow> holds b i cb f \<and> br_instance b \<noteq> Some i"
  by (cases "br_instance b = Some i") (auto simp: holds_def reset_def split: option.split)

lemma reset_wf: "breakers_wf b \<Longrightarrow> breakers_wf (reset b) \<and> br_instance (reset b) = None \<and> br_created (reset b) = br_created b"
  unfolding breakers_wf_def holds_reset by (auto simp: reset_def split: option.split)

lemma get_factory_found: "holds b i cb f \<Longrightarrow> get_factory settings u cb i b = (b, f)"
  by (simp add: get_factory_def holds_def)

lemma get_factory_made:
  assumes "i < length (br_objects b)" "\<nexists>g. holds b i cb g" "get_factory settings u cb i b = (b', f)"
  shows "f = length (br_created b)" "br_instance b' = br_instance b" "length (br_objects b') = length (br_objects b)"
    "br_created b' = br_created b @ [(cb, \<lparr>fa_threshold = bs_threshold settings cb, fa_ttl = apply_jitter u (bs_reset settings cb)\<rparr>)]"
    "holds b' j c g \<longleftrightarrow> (if j = i \<and> c = cb then g = f else holds b j c g)"
proof -
  have none: "dict_get (ro_factories (br_objects b ! i)) cb = None" using assms(1,2) by (simp add: holds_def)
  then have b': "b' = b\<lparr>br_objects := (br_objects b)[i := (br_objects b ! i)
         \<lparr>ro_factories := dict_set cb (length (br_created b)) (ro_factories (br_objects b ! i))\<rparr>],
       br_created := br_created b @ [(cb, \<lparr>fa_threshold = bs_threshold settings cb, fa_ttl = apply_jitter u (bs_reset settings cb)\<rparr>)]\<rparr>"
    and f: "f = length (br_created b)"
    using assms(3) by (auto simp: get_factory_def get_config_def Let_def)
  show "f = length (br_created b)" by (rule f)
  show "br_instance b' = br_instance b" "length (br_objects b') = length (br_objects b)"
    "br_created b' = br_created b @ [(cb, \<lparr>fa_threshold = bs_threshold settings cb, fa_ttl = apply_jitter u (bs_reset settings cb)\<rparr>)]"
    by (simp_all add: b')
  show "holds b' j c g \<longleftrightarrow> (if j = i \<and> c = cb then g = f else holds b j c g)"
    using assms(1) f by (auto simp: holds_def b' nth_list_update)
qed

lemma get_factory_wf:
  assumes "breakers_wf b" "i < length (br_objects b)" "get_factory settings u cb i b = (b', f)"
  shows "breakers_wf b' \<and> br_instance b' = br_instance b \<and> length (br_objects b') = length (br_objects b) \<and>
    holds b' i cb f \<and> (\<forall>j c g. holds b j c g \<longrightarrow> holds b' j c g)"
proof (cases "\<exists>g. holds b i cb g")
  case True
  then obtain g where "holds b i cb g" by blast
  then show ?thesis using get_factory_found [of b i cb g settings u] assms(1,3) by simp
next
  case False
  note made = get_factory_made [OF assms(2) False assms(3)]
  have stored: "g < length (br_created b)" "fst (br_created b ! g) = c" if "holds b j c g" for j c g
    using assms(1) that by (auto simp: breakers_wf_def)
  have "g < length (br_created b') \<and> fst (br_created b' ! g) = c" if "holds b' j c g" for j c g
    using that stored [of j c g] made(1,4) unfolding made(5) by (auto simp: nth_append split: if_splits)
  moreover have "j = k" if "holds b' j c g" "holds b' k c g" for j k c g
    using that stored(1) [of j c g] stored(1) [of k c g] assms(1) made(1)
    unfolding made(5) breakers_wf_def by (metis less_irrefl)
  ultimately have "breakers_wf b'" using assms(1) made(2,3) unfolding breakers_wf_def by simp
  then show ?thesis using made False by auto
qed

subsection \<open>What callers get\<close>

lemma registry_factory_wf:
  assumes "breakers_wf b" "registry_factory settings u cb b = (b', f)"
  shows "breakers_wf b' \<and> (\<exists>i. br_instance b' = Some i \<and> holds b' i cb f) \<and> (\<forall>j c g. holds b j c g \<longrightarrow> holds b' j c g) \<and>
    (\<forall>i. br_instance b = Some i \<longrightarrow> br_instance b' = Some i)"
proof -
  obtain b1 i where g: "get_instance b = (b1, i)" by fastforce
  note inst = get_instance_wf [OF assms(1) g]
  have f: "get_factory settings u cb i b1 = (b', f)" using assms(2) g by (simp add: registry_factory_def)
  show ?thesis
    using get_factory_wf [OF inst(1,3) f] inst(2,5) g by (auto simp: get_instance_def split: option.splits)
qed

text \<open>A factory, once handed out, is handed out again to everyone who asks for its type, whatever
  other types are asked for in between.\<close>

fun ask_all :: "breaker_settings \<Rightarrow> (real \<times> cb_type) list \<Rightarrow> breakers \<Rightarrow> breakers" where
  "ask_all settings [] b = b"
| "ask_all settings ((u, cb) # qs) b = ask_all settings qs (fst (registry_factory settings u cb b))"

lemma ask_all_keeps:
  assumes "breakers_wf b" "br_instance b = Some i" "holds b i cb f"
  shows "breakers_wf (ask_all settings qs b) \<and> br_instance (ask_all settings qs b) = Some i \<and>
    holds (ask_all settings qs b) i cb f"
  using assms
proof (induction settings qs b rule: ask_all.induct)
  case (2 settings u c qs b)
  obtain b' g where b': "registry_factory settings u c b = (b', g)" by fastforce
  show ?case
    using registry_factory_wf [OF "2.prems"(1) b'] "2.prems"(2,3) "2.IH" b' by simp
qed simp

lemma same_factory_again:
  assumes "breakers_wf b" "registry_factory settings u cb b = (b', f)"
  shows "snd (registry_factory settings u' cb (ask_all settings qs b')) = f"
proof -
  obtain i where i: "breakers_wf b'" "br_instance b' = Some i" "holds b' i cb f"
    using registry_factory_wf [OF assms] by blast
  note kept = ask_all_keeps [OF i, of settings qs]
  then have "get_instance (ask_all settings qs b') = (ask_all settings qs b', i)" by (simp add: get_instance_def)
  then show ?thesis
    using kept by (simp add: registry_factory_def get_factory_found [of "ask_all settings qs b'" i cb f])
qed

text \<open>\<open>reset\<close> does not reach the breakers that exist: the next factory of every type is a new one, so
  that a breaker made before, like the one the cache module makes when it is imported, belongs to a
  factory that the registry never hands out again.\<close>

lemma reset_forgets:
  assumes "breakers_wf b" "registry_factory settings u cb (reset b) = (b', f)"
  shows "f = length (br_created b) \<and> (\<forall>j c. \<not> holds b j c f) \<and>
    (\<forall>i c g. br_instance b = Some i \<longrightarrow> holds b i c g \<longrightarrow> (\<forall>j. \<not> holds b' j c g))"
proof -
  note r = reset_wf [OF assms(1), THEN conjunct1] reset_wf [OF assms(1), THEN conjunct2]
  obtain b1 k where g: "get_instance (reset b) = (b1, k)" by fastforce
  note inst = get_instance_wf [OF r(1) g]
  have k: "k = length (br_objects (reset b))" using g r(2) by (simp add: get_instance_def)
  then have none: "\<nexists>g. holds b1 k cb g" unfolding inst(5) by (simp add: holds_def)
  have f: "get_factory settings u cb k b1 = (b', f)" using assms(2) g by (simp add: registry_factory_def)
  note made = get_factory_made [OF inst(3) none f]
  have old: "g < length (br_created b)" if "holds b j c g" for j c g
    using assms(1) that by (auto simp: breakers_wf_def)
  have fresh: "f = length (br_created b)" using made(1) inst(4) r(2) by simp
  have "\<not> holds b' j c g" if "br_instance b = Some i" "holds b i c g" for i c g j
    using that old [OF that(2)] fresh assms(1) unfolding made(5) inst(5) holds_reset breakers_wf_def
    by (metis less_irrefl)
  then show ?thesis using fresh old by blast
qed

subsection \<open>The locking carries out the call\<close>

definition as_breakers :: "factories \<Rightarrow> breakers" where
  "as_breakers s = \<lparr>br_objects = [\<lparr>ro_factories = fc_factories s, ro_states = []\<rparr>], br_instance = Some 0, br_created = fc_created s\<rparr>"

lemma six_steps:
  assumes "r s0 s1" "r s1 s2" "r s2 s3" "r s3 s4" "r s4 s5" "r s5 s6"
  shows "r\<^sup>*\<^sup>* s0 s6"
  using assms by (meson converse_rtranclp_into_rtranclp rtranclp.rtrancl_refl)

text \<open>A thread that runs alone does with its steps what \<open>get_factory\<close> does in one.\<close>

lemma get_factory_atomic:
  assumes "fc_lock s = None" "fc_pc s t = Check" "0 \<le> u" "u \<le> jitter_factor"
    and "get_factory settings u (wanted t) 0 (as_breakers s) = (b', f)"
  shows "(get_factory_step settings wanted)\<^sup>*\<^sup>* s
    (s\<lparr>fc_factories := ro_factories (br_objects b' ! 0), fc_created := br_created b', fc_pc := (fc_pc s)(t := Returned f)\<rparr>)"
proof (cases "dict_get (fc_factories s) (wanted t)")
  case (Some g)
  then have b': "b' = as_breakers s" "f = g" using assms(5) by (auto simp: get_factory_def as_breakers_def)
  have "get_factory_step settings wanted s (goto t ReadFactory s)"
    using assms(2) Some by (intro get_factory_step.check_present) (simp_all add: dict_has_get)
  moreover have "get_factory_step settings wanted (goto t ReadFactory s) (goto t (Returned f) (goto t ReadFactory s))"
    using Some b'(2) by (intro get_factory_step.reading) (simp_all add: goto_def)
  moreover have "goto t (Returned f) (goto t ReadFactory s) =
      s\<lparr>fc_factories := ro_factories (br_objects b' ! 0), fc_created := br_created b', fc_pc := (fc_pc s)(t := Returned f)\<rparr>"
    by (simp add: goto_def b'(1) as_breakers_def)
  ultimately show ?thesis by (metis converse_rtranclp_into_rtranclp rtranclp.rtrancl_refl)
next
  case None
  let ?s1 = "goto t AcquireLock s"
  let ?s2 = "goto t Recheck (?s1\<lparr>fc_lock := Some t\<rparr>)"
  let ?s3 = "goto t Create ?s2"
  let ?s4 = "goto t ReleaseLock (create_factory settings u (wanted t) ?s3)"
  let ?s5 = "goto t ReadFactory (?s4\<lparr>fc_lock := None\<rparr>)"
  have f: "f = length (fc_created s)"
    and b': "ro_factories (br_objects b' ! 0) = fc_factories ?s4" "br_created b' = fc_created ?s4"
    using assms(5) None
    by (auto simp: get_factory_def as_breakers_def get_config_def Let_def create_factory_def goto_def)
  let ?step = "get_factory_step settings wanted"
  have s1: "get_factory_step settings wanted s ?s1"
    using assms(2) None by (intro get_factory_step.check_absent) (simp_all add: dict_has_get)
  have s2: "get_factory_step settings wanted ?s1 ?s2"
    using assms(1) by (intro get_factory_step.lock_free) (simp_all add: goto_def)
  have s3: "get_factory_step settings wanted ?s2 ?s3"
    using None by (intro get_factory_step.recheck_absent) (simp_all add: goto_def dict_has_get)
  have s4: "get_factory_step settings wanted ?s3 ?s4"
    using assms(3,4) by (intro get_factory_step.creating) (simp_all add: goto_def)
  have s5: "get_factory_step settings wanted ?s4 ?s5"
    by (intro get_factory_step.unlocking) (simp add: goto_def)
  have s6: "get_factory_step settings wanted ?s5 (goto t (Returned f) ?s5)"
    using f by (intro get_factory_step.reading) (simp_all add: goto_def create_factory_def get_config_def)
  have "goto t (Returned f) ?s5 =
      s\<lparr>fc_factories := ro_factories (br_objects b' ! 0), fc_created := br_created b', fc_pc := (fc_pc s)(t := Returned f)\<rparr>"
    using assms(1) by (simp add: b' goto_def create_factory_def get_config_def)
  moreover have "?step\<^sup>*\<^sup>* s (goto t (Returned f) ?s5)"
    using s1 s2 s3 s4 s5 s6 by (rule six_steps)
  ultimately show ?thesis by simp
qed

text \<open>The other direction.  The abstract system has one kind of step: a thread that has no answer yet
  calls \<open>get_factory\<close> and has it.\<close>

inductive get_factory_calls ::
  "breaker_settings \<Rightarrow> (nat \<Rightarrow> cb_type) \<Rightarrow> breakers \<Rightarrow> (nat \<Rightarrow> nat option) \<Rightarrow> bool" for settings wanted where
  none: "get_factory_calls settings wanted (as_breakers factories_init) (\<lambda>_. None)"
| call: "get_factory_calls settings wanted b answers \<Longrightarrow> answers t = None \<Longrightarrow> 0 \<le> u \<Longrightarrow> u \<le> jitter_factor \<Longrightarrow>
    get_factory settings u (wanted t) 0 b = (b', f) \<Longrightarrow>
    get_factory_calls settings wanted b' (answers(t := Some f))"

text \<open>A thread has its answer from the moment it knows that its factory is in the dictionary.\<close>

definition waiting :: "pc \<Rightarrow> bool" where
  "waiting p \<longleftrightarrow> p \<in> {Check, AcquireLock, Recheck, Create}"

definition answers_of :: "(nat \<Rightarrow> cb_type) \<Rightarrow> factories \<Rightarrow> nat \<Rightarrow> nat option" where
  "answers_of wanted s t = (if waiting (fc_pc s t) then None else dict_get (fc_factories s) (wanted t))"

lemma waiting_simps [simp]:
  "waiting Check" "waiting AcquireLock" "waiting Recheck" "waiting Create"
  "\<not> waiting ReleaseLock" "\<not> waiting ReadFactory" "\<not> waiting (Returned f)"
  by (simp_all add: waiting_def)

lemma answers_move:
  assumes "waiting p \<longleftrightarrow> waiting (fc_pc s t)"
  shows "answers_of wanted (goto t p s) = answers_of wanted s"
  using assms by (auto simp: answers_of_def goto_def)

lemma answers_found:
  assumes "\<not> waiting p"
  shows "answers_of wanted (goto t p s) = (answers_of wanted s)(t := dict_get (fc_factories s) (wanted t))"
  using assms by (auto simp: answers_of_def goto_def)

lemma as_breakers_simps [simp]:
  "as_breakers (goto t p s) = as_breakers s" "as_breakers (s\<lparr>fc_lock := l\<rparr>) = as_breakers s"
  "answers_of wanted (s\<lparr>fc_lock := l\<rparr>) = answers_of wanted s"
  by (simp_all add: as_breakers_def goto_def answers_of_def fun_eq_iff)

lemma call_found:
  assumes "get_factory_calls settings wanted (as_breakers s) (answers_of wanted s)"
    and "waiting (fc_pc s t)" "dict_get (fc_factories s) (wanted t) = Some f" "\<not> waiting p"
  shows "get_factory_calls settings wanted (as_breakers s) (answers_of wanted (goto t p s))"
proof -
  have "get_factory settings 0 (wanted t) 0 (as_breakers s) = (as_breakers s, f)"
    using assms(3) by (simp add: get_factory_def as_breakers_def)
  then show ?thesis
    using get_factory_calls.call [OF assms(1), of t 0] assms(2-4) answers_found [OF assms(4), of wanted t s]
    by (simp add: answers_of_def jitter_factor_def)
qed

lemma call_made:
  assumes "get_factory_calls settings wanted (as_breakers s) (answers_of wanted s)" "factories_inv settings wanted s"
    and "fc_pc s t = Create" "0 \<le> u" "u \<le> jitter_factor"
  shows "get_factory_calls settings wanted (as_breakers (create_factory settings u (wanted t) s))
    (answers_of wanted (goto t ReleaseLock (create_factory settings u (wanted t) s)))"
proof -
  let ?s = "create_factory settings u (wanted t) s"
  have inv: "pc_inv (wanted t') (fc_factories s) (fc_lock s = Some t') (fc_pc s t')" for t'
    using assms(2) by (simp add: factories_inv_def)
  have none: "dict_get (fc_factories s) (wanted t) = None" using inv [of t] assms(3) by (simp add: pc_inv_def)
  have "get_factory settings u (wanted t) 0 (as_breakers s) = (as_breakers ?s, length (fc_created s))"
    using none by (simp add: get_factory_def as_breakers_def create_factory_def get_config_def Let_def)
  moreover have "answers_of wanted s t = None" using assms(3) by (simp add: answers_of_def)
  ultimately have "get_factory_calls settings wanted (as_breakers ?s) ((answers_of wanted s)(t := Some (length (fc_created s))))"
    using get_factory_calls.call [OF assms(1) _ assms(4,5)] by blast
  moreover have "answers_of wanted (goto t ReleaseLock ?s) = (answers_of wanted s)(t := Some (length (fc_created s)))"
  proof
    fix t'
    have "wanted t' \<noteq> wanted t" if "\<not> waiting (fc_pc s t')"
      using inv [of t'] none that by (cases "fc_pc s t'") (auto simp: pc_inv_def)
    then show "answers_of wanted (goto t ReleaseLock ?s) t' = ((answers_of wanted s)(t := Some (length (fc_created s)))) t'"
      by (auto simp: answers_of_def goto_def create_factory_def get_config_def)
  qed
  ultimately show ?thesis by simp
qed

lemma calls_step:
  assumes "get_factory_calls settings wanted (as_breakers s) (answers_of wanted s)" "factories_inv settings wanted s"
    and "get_factory_step settings wanted s s'"
  shows "get_factory_calls settings wanted (as_breakers s') (answers_of wanted s')"
  using assms(3)
proof cases
  case (check_present t)
  then show ?thesis using call_found [OF assms(1), of t _ ReadFactory] by (auto simp: dict_has_get)
next
  case (recheck_present t)
  then show ?thesis using call_found [OF assms(1), of t _ ReleaseLock] by (auto simp: dict_has_get)
next
  case (creating t u)
  then show ?thesis using call_made [OF assms(1,2) creating(2-4)] by simp
qed (use assms(1) in \<open>simp_all add: answers_move\<close>)

text \<open>C40. The double-checked locking is linearizable: however the threads are interleaved, there is an
  order of atomic calls of \<open>get_factory\<close>, one for each thread that has got past its last look at the
  dictionary and none for the others, that leads to the same dictionary and the same factories, and
  a thread that has returned has the answer of its call.\<close>

theorem factories_linearizable:
  assumes "get_factory_run settings wanted s" "\<forall>cb. 0 \<le> bs_reset settings cb"
  shows "\<exists>answers. get_factory_calls settings wanted (as_breakers s) answers \<and>
    (\<forall>t f. fc_pc s t = Returned f \<longrightarrow> answers t = Some f) \<and>
    (\<forall>t. answers t = None \<longleftrightarrow> fc_pc s t \<in> {Check, AcquireLock, Recheck, Create})"
proof -
  have "get_factory_calls settings wanted (as_breakers s) (answers_of wanted s)"
    using assms(1)
  proof (induction rule: get_factory_run.induct)
    case initial
    have "answers_of wanted factories_init = (\<lambda>_. None)" by (simp add: fun_eq_iff answers_of_def factories_init_def)
    then show ?case using get_factory_calls.none by simp
  next
    case (step s s')
    then show ?case using calls_step factories_inv_run [OF step.hyps(1)] assms(2) by blast
  qed
  moreover have inv: "pc_inv (wanted t) (fc_factories s) (fc_lock s = Some t) (fc_pc s t)" for t
    using factories_inv_run [OF assms(1)] assms(2) by (simp add: factories_inv_def)
  moreover have "answers_of wanted s t = None \<longleftrightarrow> fc_pc s t \<in> {Check, AcquireLock, Recheck, Create}" for t
    using inv [of t] by (cases "fc_pc s t") (auto simp: answers_of_def pc_inv_def)
  moreover have "answers_of wanted s t = Some f" if "fc_pc s t = Returned f" for t f
    using inv [of t] that by (simp add: answers_of_def pc_inv_def)
  ultimately show ?thesis by blast
qed

lemma get_factory_run_steps:
  "(get_factory_step settings wanted)\<^sup>*\<^sup>* s s' \<Longrightarrow> get_factory_run settings wanted s \<Longrightarrow> get_factory_run settings wanted s'"
  by (induction rule: rtranclp_induct) (auto intro: get_factory_run.step)

theorem factories_linearizable_witness:
  "\<exists>s answers. fc_pc s 1 = Returned 0 \<and> answers 1 = Some 0 \<and> answers 0 = None \<and>
    get_factory_calls \<lparr>bs_threshold = (\<lambda>_. 5), bs_reset = (\<lambda>_. 30)\<rparr> (\<lambda>_. REDIS) (as_breakers s) answers"
proof -
  let ?c = "\<lparr>bs_threshold = (\<lambda>_::cb_type. 5), bs_reset = (\<lambda>_. 30)\<rparr>" and ?w = "\<lambda>_::nat. REDIS"
  obtain b' where call: "get_factory ?c 0 (?w 1) 0 (as_breakers factories_init) = (b', 0)"
    by (simp add: get_factory_def as_breakers_def factories_init_def get_config_def Let_def)
  let ?s = "factories_init\<lparr>fc_factories := ro_factories (br_objects b' ! 0),
      fc_created := br_created b', fc_pc := (fc_pc factories_init)(1 := Returned 0)\<rparr>"
  have "fc_lock factories_init = None" "fc_pc factories_init 1 = Check" "(0::real) \<le> jitter_factor"
    by (simp_all add: factories_init_def jitter_factor_def)
  then have steps: "(get_factory_step ?c ?w)\<^sup>*\<^sup>* factories_init ?s"
    using call get_factory_atomic [of factories_init 1 0 ?c ?w b' 0] by simp
  have "fc_pc ?s 1 = Returned 0" "fc_pc ?s 0 = Check" by (simp_all add: factories_init_def)
  then show ?thesis
    using factories_linearizable [OF get_factory_run_steps [OF steps get_factory_run.initial]] by fastforce
qed

end
