(* ===== verification/MigrationEnv.thy ===== *)
theory MigrationEnv
  imports Migrations Asyncio
begin

section \<open>Running migrations\<close>

text \<open>
  The rest of \<open>migrations/env.py\<close>: the tables alembic compares with, and a run offline or over a
  connection.  The calls of alembic and SQLAlchemy are calls to the environment; leaving a
  \<open>with\<close> block tells the context manager whether an exception is on its way, and the managers used
  here do not suppress it.
\<close>

subsection \<open>Metadata\<close>

definition to_metadata :: "string \<times> 't \<Rightarrow> (string \<times> 't) list \<Rightarrow> (string \<times> 't) list" where
  \<comment> \<open>a table whose key is there already is left as it is\<close>
  "to_metadata p metadata = (if dict_has metadata (fst p) then metadata else metadata @ [p])"

definition combined_metadata :: "(string \<times> 't) list \<Rightarrow> (string \<times> 't) list \<Rightarrow> (string \<times> 't) list" where
  "combined_metadata own kit = fold to_metadata kit (fold to_metadata own [])"

definition exclude_tables_from_config :: "(string \<times> string) list \<Rightarrow> string list option" where
  "exclude_tables_from_config config =
     (case dict_get config ''tables'' of None \<Rightarrow> None | Some tables \<Rightarrow> Some (split_on CHR '','' tables))"

subsection \<open>The run\<close>

datatype migration_call =
    ConfigureOffline | ConfigureOnline | BeginTransaction | RunMigrations | EndTransaction bool
  | CreateEngine | OpenConnection | CloseConnection bool | DisposeEngine

type_synonym 'a mact = "(migration_call task, exn, 'a) act"

definition with_block :: "(bool \<Rightarrow> unit mact) \<Rightarrow> unit mact \<Rightarrow> unit mact" where
  \<comment> \<open>the block of a \<open>with\<close> statement and what leaves it\<close>
  "with_block leave block s =
     (case block s of
        (t, Inr _) \<Rightarrow> leave False t
      | (t, Inl e) \<Rightarrow> s_bind (leave True) (\<lambda>_. s_raise e) t)"

definition in_transaction :: "migration_call environment \<Rightarrow> unit mact" where
  "in_transaction env =
     s_bind (perform_sync env BeginTransaction) (\<lambda>_.
     with_block (\<lambda>failed. perform_sync env (EndTransaction failed)) (perform_sync env RunMigrations))"

definition run_migrations_offline :: "migration_call environment \<Rightarrow> unit mact" where
  "run_migrations_offline env = s_bind (perform_sync env ConfigureOffline) (\<lambda>_. in_transaction env)"

definition do_run_migrations :: "migration_call environment \<Rightarrow> unit mact" where
  "do_run_migrations env = s_bind (perform_sync env ConfigureOnline) (\<lambda>_. in_transaction env)"

definition run_async_migrations :: "migration_call environment \<Rightarrow> unit mact" where
  "run_async_migrations env =
     s_bind (perform_sync env CreateEngine) (\<lambda>_.
     s_bind (perform env OpenConnection) (\<lambda>_.
     s_bind (with_block (\<lambda>failed. perform env (CloseConnection failed)) (do_run_migrations env)) (\<lambda>_.
     perform env DisposeEngine)))"

definition run_environment :: "bool \<Rightarrow> migration_call environment \<Rightarrow> unit mact" where
  \<comment> \<open>the last statement of the module\<close>
  "run_environment offline env = (if offline then run_migrations_offline env else run_async_migrations env)"

subsection \<open>Lemmas\<close>

lemma keys_to_metadata: "set (dict_keys (to_metadata p m)) = insert (fst p) (set (dict_keys m))"
  by (auto simp: to_metadata_def dict_has_def)

lemma get_to_metadata: "dict_get (to_metadata p m) k = (case dict_get m k of
    Some t \<Rightarrow> Some t | None \<Rightarrow> if k = fst p then Some (snd p) else None)"
  by (cases p) (auto simp: to_metadata_def dict_has_get map_of_append map_add_def split: option.split)

lemma get_fold_metadata:
  "dict_get (fold to_metadata ps m) k = (case dict_get m k of Some t \<Rightarrow> Some t | None \<Rightarrow> dict_get ps k)"
  by (induction ps arbitrary: m) (auto simp: get_to_metadata split: option.split)

text \<open>Every table of the application and of the kit is compared, and under one name it is the
  table of the application.\<close>

lemma combined_tables:
  "dict_get (combined_metadata own kit) k = (case dict_get own k of Some t \<Rightarrow> Some t | None \<Rightarrow> dict_get kit k)"
  by (simp add: combined_metadata_def get_fold_metadata)

text \<open>An excluded name is compared as it is written: with a blank after the comma it excludes nothing.\<close>

lemma excluded_names:
  "include_object (exclude_tables (Some (dict_get config ''tables''))) (Some n) ''table'' \<longleftrightarrow>
    (case exclude_tables_from_config config of None \<Rightarrow> n \<noteq> [] | Some names \<Rightarrow> n \<notin> set names)"
  "\<not> include_object (exclude_tables (Some (Some ''roles,plans''))) (Some ''plans'') ''table''"
  "include_object (exclude_tables (Some (Some ''roles, plans''))) (Some ''plans'') ''table''"
  by (auto simp: include_object_def exclude_tables_def exclude_tables_from_config_def split: option.split)

lemma perform_sync_outcome:
  "perform_sync env c s = (s\<lparr>tk_trace := tk_trace s @ [c], tk_now := tk_now s + max 0 (fst (env (tk_trace s @ [c])))\<rparr>,
     snd (env (tk_trace s @ [c])))"
  by (simp add: perform_sync_def Let_def)

lemma with_block_trace:
  assumes "\<And>b s. tk_trace (fst (leave b s)) = tk_trace s @ [c b]"
  shows "tk_trace (fst (with_block leave block s)) = tk_trace (fst (block s)) @ [c (\<not> is_ok (snd (block s)))]"
proof (cases "block s")
  case (Pair t r)
  then show ?thesis
    using assms by (cases r) (auto simp: with_block_def s_bind_def s_raise_def split: prod.split sum.split,
      metis fst_conv, metis fst_conv)
qed

lemma with_block_fails: "snd (block s) = Inl e \<Longrightarrow> \<exists>e'. snd (with_block leave block s) = Inl e'"
  by (cases "block s") (auto simp: with_block_def s_bind_def s_raise_def split: prod.split sum.split)

lemma with_block_outcome:
  "snd (leave (\<not> is_ok (snd (block s))) (fst (block s))) = Inr () \<Longrightarrow> snd (with_block leave block s) = snd (block s)"
  by (cases "block s"; cases "snd (block s)")
    (auto simp: with_block_def s_bind_def s_raise_def split: prod.splits sum.splits)

text \<open>A transaction that is begun is ended once, after the migrations, and learns whether they
  failed.\<close>

lemma transaction_ended:
  "tk_trace (fst (in_transaction env s)) =
    (if is_ok (snd (perform_sync env BeginTransaction s)) then tk_trace s @ [BeginTransaction, RunMigrations,
       EndTransaction (\<not> is_ok (snd (env (tk_trace s @ [BeginTransaction, RunMigrations]))))]
     else tk_trace s @ [BeginTransaction])"
proof (cases "snd (perform_sync env BeginTransaction s)")
  case (Inl e)
  then show ?thesis by (simp add: in_transaction_def s_bind_raises perform_sync_outcome)
next
  case (Inr u)
  then show ?thesis
    by (simp add: in_transaction_def s_bind_returns [of "perform_sync env BeginTransaction" s u]
      with_block_trace [where c = EndTransaction] perform_sync_outcome)
qed

text \<open>With no timeout in force and nothing failing but the migrations themselves, the connection is closed
  either way, but the engine is disposed of only when the migrations succeed.\<close>

lemma online_run:
  assumes "tk_deadlines s = []" "\<forall>cs. last cs \<noteq> RunMigrations \<longrightarrow> snd (env cs) = Inr ()"
    and "snd (env (tk_trace s @ [CreateEngine, OpenConnection, ConfigureOnline, BeginTransaction, RunMigrations])) = r"
  shows "snd (run_async_migrations env s) = r \<and>
    tk_trace (fst (run_async_migrations env s)) = tk_trace s @
      [CreateEngine, OpenConnection, ConfigureOnline, BeginTransaction, RunMigrations,
       EndTransaction (\<not> is_ok r), CloseConnection (\<not> is_ok r)] @ (if is_ok r then [DisposeEngine] else [])"
  using assms
  by (cases r) (simp_all add: run_async_migrations_def do_run_migrations_def in_transaction_def with_block_def
      perform_sync_def perform_def s_bind_def s_raise_def Let_def)

end
