(* ===== verification/CacheMetrics.thy ===== *)
theory CacheMetrics
  imports CacheService Metrics
begin

section \<open>The metrics of the cache\<close>

text \<open>
  The calls of \<open>CacheService\<close> together with the metrics they record, which \<open>CacheService\<close> leaves
  out: \<open>_record_cache_access\<close> and \<open>_record_cache_failure\<close> of
  \<open>core/infrastructure/cache/service.py\<close>, with the flag of the module that keeps a missing metrics
  module from being logged again and again.  Shown: recording changes no result of the cache, and
  what a lookup counts.
\<close>

record cache_metrics = prometheus +
  cm_unavailable_logged :: bool

definition recorded :: "bool \<Rightarrow> (cache_metrics \<Rightarrow> cache_metrics) \<Rightarrow> cache_metrics \<Rightarrow> cache_metrics" where
  \<comment> \<open>the import of the metrics module, which succeeds or not, and the call\<close>
  "recorded available call p =
     (if available then call p else if \<not> cm_unavailable_logged p then p\<lparr>cm_unavailable_logged := True\<rparr> else p)"

definition record_failure :: "bool \<Rightarrow> string \<Rightarrow> cache_metrics \<Rightarrow> cache_metrics" where
  \<comment> \<open>\<open>_record_cache_failure\<close>\<close>
  "record_failure available operation = recorded available (record_cache_operation_failure operation)"

definition record_access :: "bool \<Rightarrow> string \<Rightarrow> bool \<Rightarrow> cache_metrics \<Rightarrow> cache_metrics" where
  \<comment> \<open>\<open>_record_cache_access\<close>\<close>
  "record_access available cache_type hit = recorded available (record_cache_access cache_type hit)"

definition build_log_context :: "string \<Rightarrow> string option \<Rightarrow> string option \<Rightarrow> (string \<times> string) list" where
  "build_log_context error key pattern =
     [(''error'', error)] @ (if given key then [(''key'', the key)] else []) @
     (if given pattern then [(''pattern'', the pattern)] else [])"

text \<open>Without a metrics module nothing is counted, and the first call alone logs it.\<close>

lemma recorded_unavailable:
  "recorded False f p = p\<lparr>cm_unavailable_logged := True\<rparr>" "recorded False g (recorded False f p) = recorded False f p"
  by (simp_all add: recorded_def)

subsection \<open>Operations that record\<close>

text \<open>A state beside the metrics.\<close>

type_synonym ('s, 'a) mact = "('s \<times> cache_metrics, exn, 'a) act"

definition beside :: "('s, exn, 'a) act \<Rightarrow> ('s, 'a) mact" where
  "beside m s = (case m (fst s) of (t, r) \<Rightarrow> ((t, snd s), r))"

definition recording :: "(cache_metrics \<Rightarrow> cache_metrics) \<Rightarrow> ('s, unit) mact" where
  "recording f s = ((fst s, f (snd s)), Inr ())"

definition on_server :: "('w, 'a) mact \<Rightarrow> ('w cache_svc, 'a) mact" where
  "on_server m s =
     (case m (cs_world (fst s), snd s) of (t, r) \<Rightarrow> (((fst s)\<lparr>cs_world := fst t\<rparr>, snd t), r))"

definition measured_protected :: "'w redis_env \<Rightarrow> ('w, 'a) mact \<Rightarrow> ('w, 'a) mact" where
  "measured_protected R op =
     s_bind (beside (cb_enter R)) (\<lambda>_ s.
       case op s of
         (t, Inl e) \<Rightarrow> ((cb_exit R (Some e) (fst t), snd t), Inl e)
       | (t, Inr x) \<Rightarrow> ((cb_exit R None (fst t), snd t), Inr x))"

definition measured_execute ::
  "'w redis_env \<Rightarrow> bool \<Rightarrow> real \<Rightarrow> real \<Rightarrow> ('w, 'a) mact \<Rightarrow> string \<Rightarrow> 'a \<Rightarrow> ('w cache_svc, 'a) mact" where
  "measured_execute R available t_check t_record op operation_name dflt =
     s_bind (beside (ensure_connected R t_check t_record)) (\<lambda>_ s.
       if \<not> is_redis_available (fst s) then (s, Inr dflt)
       else s_catch (on_server (measured_protected R op))
              (\<lambda>e. if swallowed R e then s_bind (recording (record_failure available operation_name)) (\<lambda>_. s_ret dflt)
                   else s_raise e) s)"

definition measured_op ::
  "'w redis_env \<Rightarrow> bool \<Rightarrow> clock \<Rightarrow> ('w cache_svc, 'a) mact \<Rightarrow> ('w, 'a) mact \<Rightarrow> string \<Rightarrow> 'a \<Rightarrow>
   ('w cache_svc, 'a) mact" where
  "measured_op R available c mem_op redis_op operation_name dflt =
     s_bind (beside (ensure_connected R (c 0) (c 1))) (\<lambda>_ s.
       case using_memory (fst s) of
         Some m \<Rightarrow> mem_op s
       | None \<Rightarrow> measured_execute R available (c 4) (c 5) redis_op operation_name dflt s)"

definition in_memory :: "(mem_cache \<Rightarrow> mem_cache \<times> 'a) \<Rightarrow> ('w cache_svc, 'a) mact" where
  "in_memory f s =
     (case cs_mem (fst s) of
        Some m \<Rightarrow> beside (on_memory f m) s
      | None \<Rightarrow> s_raise (EOther (Builtin AttributeErrorC) ''no in-memory cache'') s)"

definition counted :: "bool \<Rightarrow> string \<Rightarrow> ('s, string option) mact \<Rightarrow> ('s, string option) mact" where
  "counted available cache_type m =
     s_bind m (\<lambda>r. s_bind (recording (record_access available cache_type (r \<noteq> None))) (\<lambda>_. s_ret r))"

definition measured_get :: "'w redis_env \<Rightarrow> bool \<Rightarrow> string \<Rightarrow> string \<Rightarrow> clock \<Rightarrow> ('w cache_svc, string option) mact" where
  "measured_get R available cache_type key c =
     measured_op R available c (counted available cache_type (in_memory (mem_get key (c 2))))
       (counted available cache_type (beside (rd_get R key (c 2)))) ''get cache value'' None"

definition measured_get_json ::
  "'w redis_env \<Rightarrow> bool \<Rightarrow> codec \<Rightarrow> string \<Rightarrow> string \<Rightarrow> clock \<Rightarrow> ('w cache_svc, pyval option) mact" where
  "measured_get_json R available J cache_type key c =
     measured_op R available c
       (s_bind (counted available cache_type (in_memory (mem_get key (c 2)))) (decode_opt J))
       (s_bind (counted available cache_type (beside (rd_get R key (c 2)))) (decode_opt J))
       ''get JSON cache value'' None"

definition measured_set ::
  "'w redis_env \<Rightarrow> bool \<Rightarrow> string \<Rightarrow> string \<Rightarrow> int option \<Rightarrow> clock \<Rightarrow> ('w cache_svc, bool) mact" where
  "measured_set R available key value ttl c =
     measured_op R available c (in_memory (mem_set key value ttl (c 2) (c 3)))
       (beside (redis_store R key value ttl (c 3))) ''set cache value'' False"

definition measured_setnx ::
  "'w redis_env \<Rightarrow> bool \<Rightarrow> string \<Rightarrow> string \<Rightarrow> int option \<Rightarrow> clock \<Rightarrow> ('w cache_svc, bool) mact" where
  "measured_setnx R available key value ttl c =
     measured_op R available c (in_memory (mem_setnx key value ttl (c 2) (c 3)))
       (beside (s_bind (rd_set_nx R key value ttl (c 2)) (\<lambda>r. s_ret (r \<noteq> None)))) ''setnx cache value'' False"

definition measured_delete :: "'w redis_env \<Rightarrow> bool \<Rightarrow> string \<Rightarrow> clock \<Rightarrow> ('w cache_svc, bool) mact" where
  "measured_delete R available key c =
     measured_op R available c (in_memory (mem_delete key))
       (beside (s_bind (rd_delete R [key] (c 2)) (\<lambda>n. s_ret (n \<noteq> 0)))) ''delete cache value'' False"

subsection \<open>Recording changes no result\<close>

definition implements :: "('s, 'a) mact \<Rightarrow> ('s, exn, 'a) act \<Rightarrow> bool" where
  \<comment> \<open>with the metrics left out, the one is the other\<close>
  "implements m n \<longleftrightarrow> (\<forall>s. n (fst s) = (fst (fst (m s)), snd (m s)))"

lemma implementsD: "implements m n \<Longrightarrow> m (a, p) = ((b, q), r) \<Longrightarrow> n a = (b, r)"
  unfolding implements_def by (metis fst_conv snd_conv)

lemma implementsI: "(\<And>a p b q r. m (a, p) = ((b, q), r) \<Longrightarrow> n a = (b, r)) \<Longrightarrow> implements m n"
  unfolding implements_def by (metis prod.collapse)

named_theorems implements_intros \<open>operations that record and those that do not\<close>

lemma implements_beside [implements_intros]: "implements (beside m) m"
  by (auto simp: implements_def beside_def split: prod.split)

lemma implements_ret [implements_intros]: "implements (s_ret x) (s_ret x)"
  by (simp add: implements_def s_ret_def)

lemma implements_raise [implements_intros]: "implements (s_raise e) (s_raise e)"
  by (simp add: implements_def s_raise_def)

lemma implements_bind [implements_intros]:
  assumes "implements m n" "\<And>x. implements (f x) (g x)"
  shows "implements (s_bind m f) (s_bind n g)"
  unfolding implements_def
proof
  fix s
  show "s_bind n g (fst s) = (fst (fst (s_bind m f s)), snd (s_bind m f s))"
    using assms(1)[unfolded implements_def, rule_format, of s]
      assms(2)[unfolded implements_def, rule_format, of _ "fst (m s)"]
    by (cases "m s"; cases "snd (m s)") (auto simp: s_bind_def)
qed

lemma implements_catch [implements_intros]:
  assumes "implements m n" "\<And>e. implements (h e) (k e)"
  shows "implements (s_catch m h) (s_catch n k)"
  unfolding implements_def
proof
  fix s
  show "s_catch n k (fst s) = (fst (fst (s_catch m h s)), snd (s_catch m h s))"
    using assms(1)[unfolded implements_def, rule_format, of s]
      assms(2)[unfolded implements_def, rule_format, of _ "fst (m s)"]
    by (cases "m s"; cases "snd (m s)") (auto simp: s_catch_def)
qed

lemma implements_after_recording [implements_intros]:
  "implements m n \<Longrightarrow> implements (s_bind (recording f) (\<lambda>_. m)) n"
  by (auto simp: implements_def s_bind_def recording_def)

lemma implements_counted: "implements m n \<Longrightarrow> implements (counted available cache_type m) n"
proof -
  assume "implements m n"
  then have "implements (counted available cache_type m) (s_bind n s_ret)"
    unfolding counted_def by (intro implements_intros)
  moreover have "s_bind n s_ret = n" by (auto simp: fun_eq_iff s_bind_def s_ret_def split: prod.split sum.split)
  ultimately show ?thesis by simp
qed

lemma implements_on_server:
  assumes "implements m n"
  shows "implements (on_server m) (on_world n)"
proof (rule implementsI)
  fix a p b q r
  assume "on_server m (a, p) = ((b, q), r)"
  then obtain w where "m (cs_world a, p) = ((w, q), r)" "b = a\<lparr>cs_world := w\<rparr>"
    by (auto simp: on_server_def split: prod.splits)
  then show "on_world n a = (b, r)" using implementsD [OF assms] by (simp add: on_world_def)
qed

lemma implements_protected:
  assumes "implements m n"
  shows "implements (measured_protected R m) (protected R n)"
proof -
  have "implements (\<lambda>s. case m s of
         (t, Inl e) \<Rightarrow> ((cb_exit R (Some e) (fst t), snd t), Inl e)
       | (t, Inr x) \<Rightarrow> ((cb_exit R None (fst t), snd t), Inr x))
    (\<lambda>w. case n w of (w', Inl e) \<Rightarrow> (cb_exit R (Some e) w', Inl e) | (w', Inr x) \<Rightarrow> (cb_exit R None w', Inr x))"
  proof (rule implementsI)
    fix a p b q r
    obtain b' q' r' where m: "m (a, p) = ((b', q'), r')" by (metis prod.collapse)
    assume "(case m (a, p) of
         (t, Inl e) \<Rightarrow> ((cb_exit R (Some e) (fst t), snd t), Inl e)
       | (t, Inr x) \<Rightarrow> ((cb_exit R None (fst t), snd t), Inr x)) = ((b, q), r)"
    then show "(case n a of (w', Inl e) \<Rightarrow> (cb_exit R (Some e) w', Inl e) | (w', Inr x) \<Rightarrow> (cb_exit R None w', Inr x)) = (b, r)"
      using m implementsD [OF assms m] by (auto split: sum.splits)
  qed
  then show ?thesis
    unfolding measured_protected_def protected_def by (intro implements_intros)
qed

lemma implements_execute:
  assumes "implements m n"
  shows "implements (measured_execute R available t1 t2 m name dflt) (execute_redis_operation R t1 t2 n dflt)"
proof -
  have "implements (s_catch (on_server (measured_protected R m))
      (\<lambda>e. if swallowed R e then s_bind (recording (record_failure available name)) (\<lambda>_. s_ret dflt) else s_raise e))
    (s_catch (on_world (protected R n)) (\<lambda>e. if swallowed R e then s_ret dflt else s_raise e))"
    by (intro implements_catch implements_on_server implements_protected assms)
      (simp add: implements_after_recording implements_ret implements_raise)
  then show ?thesis
    unfolding measured_execute_def execute_redis_operation_def
    by (intro implements_intros) (auto simp: implements_def)
qed

lemma implements_op:
  assumes "implements m n" "\<And>s mem. using_memory (fst s) = Some mem \<Longrightarrow> mem_op (fst s) mem = (fst (fst (f s)), snd (f s))"
  shows "implements (measured_op R available c f m name dflt)
    (s_bind (ensure_connected R (c 0) (c 1)) (\<lambda>_ st.
       case using_memory st of Some mem \<Rightarrow> mem_op st mem
       | None \<Rightarrow> execute_redis_operation R (c 4) (c 5) n dflt st))"
  unfolding measured_op_def
  using implements_execute [OF assms(1), of R available "c 4" "c 5" name dflt] assms(2)
  by (intro implements_intros) (auto simp: implements_def split: option.split)

lemma in_memory_active:
  "using_memory (fst s) = Some mem \<Longrightarrow>
    on_memory f mem (fst s) = (fst (fst (in_memory f s)), snd (in_memory f s))"
  by (auto simp: in_memory_def using_memory_def beside_def split: if_splits prod.split)

lemma counted_active:
  "on_memory f mem (fst s) = (fst (fst (m s)), snd (m s)) \<Longrightarrow>
    on_memory f mem (fst s) = (fst (fst (counted available cache_type m s)), snd (counted available cache_type m s))"
  by (auto simp: counted_def s_bind_def s_ret_def recording_def split: prod.split sum.split)

text \<open>The calls that record are the calls of \<open>CacheService\<close>: the same state and the same result or
  exception, whether or not there is a metrics module.\<close>

lemma measured_implements:
  "implements (measured_get R available cache_type key c) (cache_get R key c)"
  "implements (measured_set R available key value ttl c) (cache_set R key value ttl c)"
  "implements (measured_setnx R available key value ttl c) (cache_setnx R key value ttl c)"
  "implements (measured_delete R available key c) (cache_delete R key c)"
  unfolding measured_get_def measured_set_def measured_setnx_def measured_delete_def
    cache_get_def cache_set_def cache_setnx_def cache_delete_def cache_op_def
  by (intro implements_op implements_counted implements_beside counted_active in_memory_active; assumption?)+

lemma json_active:
  assumes "using_memory (fst s) = Some mem"
  shows "s_bind (on_memory f mem) (decode_opt J) (fst s) =
    (fst (fst (s_bind (counted available cache_type (in_memory f)) (decode_opt J) s)),
     snd (s_bind (counted available cache_type (in_memory f)) (decode_opt J) s))"
proof -
  obtain st x where m: "on_memory f mem (fst s) = (st, Inr x)" by (cases "f mem") (simp add: on_memory_def)
  then have "counted available cache_type (in_memory f) s = ((st, record_access available cache_type (x \<noteq> None) (snd s)), Inr x)"
    using assms by (auto simp: counted_def s_bind_def s_ret_def recording_def in_memory_def using_memory_def beside_def
        split: if_splits)
  then show ?thesis using m by (auto simp: s_bind_def decode_opt_def s_ret_def lift_res_def split: option.split)
qed

lemma measured_get_json_implements:
  "implements (measured_get_json R available J cache_type key c) (cache_get_json R J key c)"
  unfolding measured_get_json_def cache_get_json_def
proof (rule implements_op)
  have "implements (decode_opt J v) (decode_opt J v)" for v
    by (simp add: implements_def decode_opt_def s_ret_def lift_res_def split: option.split)
  then show "implements (s_bind (counted available cache_type (beside (rd_get R key (c 2)))) (decode_opt J))
     (s_bind (rd_get R key (c 2)) (decode_opt J))"
    by (intro implements_intros implements_counted)
qed (rule json_active)

subsection \<open>What a lookup counts\<close>

text \<open>The states a lookup that counts can end in, with its metrics.\<close>

definition lookup_outcome :: "string \<Rightarrow> cache_metrics \<Rightarrow> cache_metrics \<Rightarrow> exn + string option \<Rightarrow> bool" where
  "lookup_outcome cache_type p p' r \<longleftrightarrow>
     (case r of Inl e \<Rightarrow> p' = p | Inr x \<Rightarrow> p' = record_cache_access cache_type (x \<noteq> None) p)"

lemma counted_outcome:
  "(\<And>t r. m (a, p) = (t, r) \<Longrightarrow> snd t = p) \<Longrightarrow> counted True cache_type m (a, p) = ((b, q), r) \<Longrightarrow>
    lookup_outcome cache_type p q r"
  by (cases "m (a, p)"; cases "snd (m (a, p))")
    (auto simp: lookup_outcome_def counted_def s_bind_def s_ret_def recording_def record_access_def recorded_def)

lemma counted_beside: "counted True cache_type (beside n) (a, p) = ((b, q), r) \<Longrightarrow> lookup_outcome cache_type p q r"
  by (rule counted_outcome) (auto simp: beside_def split: prod.splits)

lemma counted_memory: "counted True cache_type (in_memory f) (a, p) = ((b, q), r) \<Longrightarrow> lookup_outcome cache_type p q r"
  by (rule counted_outcome) (auto simp: in_memory_def beside_def s_raise_def split: prod.splits option.splits)

lemma protected_outcome:
  assumes "\<And>w t r. op (w, p) = (t, r) \<Longrightarrow> lookup_outcome cache_type p (snd t) r"
    and "on_server (measured_protected R op) (st, p) = ((st', p'), r)"
  shows "lookup_outcome cache_type p p' r \<and> cs_client st' = cs_client st"
proof -
  have raised: "lookup_outcome cache_type p p (Inl e)" for e by (simp add: lookup_outcome_def)
  show ?thesis
    using assms(2)
    by (auto dest!: assms(1) simp: raised on_server_def measured_protected_def beside_def s_bind_def
        split: prod.splits sum.splits)
qed

definition lookup_counted :: "string \<Rightarrow> 'w cache_svc \<Rightarrow> cache_metrics \<Rightarrow> cache_metrics \<Rightarrow> exn + string option \<Rightarrow> bool" where
  "lookup_counted cache_type st' p p' r \<longleftrightarrow>
     (\<forall>v. r = Inr (Some v) \<longrightarrow> p' = record_cache_access cache_type True p) \<and>
     (r = Inr None \<longrightarrow> p' = record_cache_access cache_type False p \<or>
        p' = record_cache_operation_failure ''get cache value'' p \<or> p' = p \<and> \<not> cs_client st') \<and>
     (\<forall>e. r = Inl e \<longrightarrow> p' = p)"

lemma lookup_outcome_counted: "lookup_outcome cache_type p p' r \<Longrightarrow> lookup_counted cache_type st' p p' r"
  by (auto simp: lookup_outcome_def lookup_counted_def split: sum.splits)

lemma execute_counted:
  assumes "\<And>w t r. op (w, p) = (t, r) \<Longrightarrow> lookup_outcome cache_type p (snd t) r"
    and "measured_execute R True t1 t2 op ''get cache value'' None (st, p) = ((st', p'), r)"
  shows "lookup_counted cache_type st' p p' r"
proof (cases "ensure_connected R t1 t2 st")
  case (Pair st1 r1)
  show ?thesis
  proof (cases r1)
    case (Inl e)
    then show ?thesis
      using assms(2) Pair by (auto simp: measured_execute_def s_bind_def beside_def lookup_counted_def)
  next
    case (Inr u)
    obtain st2 p2 r2 where server: "on_server (measured_protected R op) (st1, p) = ((st2, p2), r2)" by (metis prod.collapse)
    have o: "lookup_outcome cache_type p p2 r2" using protected_outcome [OF _ server] assms(1) by blast
    show ?thesis
    proof (cases r2)
      case (Inl e)
      then have "p2 = p" using o by (simp add: lookup_outcome_def)
      then show ?thesis
        using assms(2) Pair Inr server Inl
        by (auto simp: measured_execute_def s_bind_def s_catch_def s_raise_def s_ret_def beside_def recording_def
            record_failure_def recorded_def lookup_counted_def is_redis_available_def split: if_splits)
    next
      case (Inr x)
      then show ?thesis
        using assms(2) Pair \<open>r1 = Inr u\<close> server lookup_outcome_counted [OF o]
        by (auto simp: measured_execute_def s_bind_def s_catch_def beside_def lookup_counted_def is_redis_available_def
            split: if_splits)
    qed
  qed
qed

text \<open>A value is returned exactly with a hit.  Without one, a miss is counted when the cache answered, a
  failure when Redis failed, and nothing when there was no cache to ask; an exception that escapes
  is not counted.\<close>

lemma lookup_counts:
  assumes "measured_get R True cache_type key c (st, p) = ((st', p'), r)"
  shows "(\<forall>v. r = Inr (Some v) \<longrightarrow> p' = record_cache_access cache_type True p) \<and>
    (r = Inr None \<longrightarrow> p' = record_cache_access cache_type False p \<or>
       p' = record_cache_operation_failure ''get cache value'' p \<or> p' = p \<and> \<not> cs_client st') \<and>
    (\<forall>e. r = Inl e \<longrightarrow> p' = p)"
proof -
  let ?redis = "counted True cache_type (beside (rd_get R key (c 2)))"
  have redis: "lookup_outcome cache_type p (snd t) x" if "?redis (w, p) = (t, x)" for w t x
    using counted_beside [of cache_type "rd_get R key (c 2)" w p "fst t" "snd t" x] that by simp
  obtain st1 r1 where first: "ensure_connected R (c 0) (c 1) st = (st1, r1)" by fastforce
  have "lookup_counted cache_type st' p p' r"
  proof (cases r1)
    case (Inl e)
    then show ?thesis
      using assms first by (auto simp: measured_get_def measured_op_def s_bind_def beside_def lookup_counted_def)
  next
    case (Inr u)
    then have rest: "(case using_memory st1 of
        Some m \<Rightarrow> counted True cache_type (in_memory (mem_get key (c 2))) (st1, p)
      | None \<Rightarrow> measured_execute R True (c 4) (c 5) ?redis ''get cache value'' None (st1, p)) = ((st', p'), r)"
      using assms first by (simp add: measured_get_def measured_op_def s_bind_def beside_def)
    show ?thesis
    proof (cases "using_memory st1")
      case None
      then show ?thesis using rest execute_counted [OF redis] by simp
    next
      case (Some m)
      then have "counted True cache_type (in_memory (mem_get key (c 2))) (st1, p) = ((st', p'), r)" using rest by simp
      then show ?thesis by (intro lookup_outcome_counted counted_memory)
    qed
  qed
  then show ?thesis by (simp add: lookup_counted_def)
qed

end
