(* ===== verification/Spec2Isabelle.thy ===== *)
theory Spec2Isabelle
  imports FeatureFlags Idempotency ErrorHandlers AdminAuth UnitOfWork Repository Middleware CircuitBreaker Settings
    Dtos Scans DbAdapter Health Generation Lifecycle LogConfig
    Profiling Identity Tracing AppFactory MetricsRegistry DomainModel Migrations LogSetup BreakerRegistry
    MigrationEnv CacheMetrics
begin

text \<open>
  A model of the backend under \<open>src/backend\<close> and the theorems about it.  Paths below are relative to
  that directory.

  \<^bold>\<open>The program.\<close>  A FastAPI application.  A request passes a stack of middleware (CORS, request identifier,
  timeout, admission control, metrics), reaches an endpoint of a feature (system health, AI
  generation) or the admin panel, and is served by a service over a unit of work, repositories and the
  database adapter, with a cache (Redis, or a dictionary of the process when Redis is away) that
  feature flags and idempotency keys live in.  Circuit breakers guard the outside, exceptions become
  responses by one set of handlers, and settings decide how everything is put together at startup.

  \<^bold>\<open>Foundations.\<close>
  \<^item> \<open>PyPrelude\<close>: dictionaries in insertion order, dynamically typed values, results, and computations with
    a state that may raise (\<open>act\<close>, \<open>s_bind\<close>, \<open>s_catch\<close>, \<open>s_finally\<close>), with the rules for their outcomes and
    for what they keep (\<open>keeps\<close>).
  \<^item> \<open>PyStrings\<close>, \<open>IpAddress\<close>: the methods of \<open>str\<close> and \<open>ipaddress\<close> that the program uses; addresses are words of
    32 and 128 bits.
  \<^item> \<open>PyExceptions\<close>: \<open>core/exceptions\<close> and \<open>core/domain/exceptions.py\<close>: classes with their bases, attributes
    and constructors; classes of libraries are named and their bases are a parameter \<open>ext\<close>.
  \<^item> \<open>Asyncio\<close>: one task with a clock, the timeouts in force and the trace of its calls to the outside;
    \<open>core/security/timeout.py\<close>.

  \<^bold>\<open>Cache and what rests on it.\<close>
  \<^item> \<open>KvStore\<close>: the contract of a cache with expiry as a locale; \<open>MemCache\<close>: \<open>InMemoryCache\<close> of
    \<open>core/infrastructure/cache/service.py\<close>; \<open>CacheService\<close>, \<open>CacheLaws\<close>: \<open>CacheService\<close> with its connection,
    fallback and circuit breaker, and the interpretations of the contract on both; \<open>CacheMetrics\<close>: the same
    calls with the metrics they record.  Shown: capacity, exclusion of locks, refinement of a map with expiry, which states are reachable, that written values
    are read back, what becomes of errors, and what a lookup counts.
  \<^item> \<open>FeatureFlags\<close>: \<open>feature_flags.py\<close>; \<open>Idempotency\<close>: \<open>idempotency/service.py\<close>, with the Lua script as one step of the
    server; \<open>Scans\<close>: the loops over \<open>SCAN\<close>.  Shown: at most one caller of a key is told to process, in any
    interleaving of atomic checks and of checks by \<open>setnx\<close>; the life of a key; the race between fallback
    stores; that the recovery loops return.

  \<^bold>\<open>Database.\<close>
  \<^item> \<open>DbErrors\<close>: \<open>database/error_handler.py\<close> and \<open>exceptions/error_handler.py\<close>; \<open>UnitOfWork\<close>: \<open>uow.py\<close>, \<open>session.py\<close>; \<open>Repository\<close>:
    \<open>repositories/base.py\<close>, \<open>utils.py\<close>, \<open>models/base.py\<close>; \<open>DbAdapter\<close>: \<open>connection.py\<close>; \<open>Migrations\<close>,
    \<open>MigrationEnv\<close>: \<open>migrations\<close>.  Shown: how errors are translated and secrets kept out of logs; commit, rollback
    and closing of a session on every path of errors and timeouts; that the two paginated selects agree and
    the pages are a partition; that the handles of the adapter belong to the engine in force; that the
    migration runs forward and back, and that the migrated database is what the other parts take for granted;
    that a transaction of migrations is ended once.

  \<^bold>\<open>Requests and security.\<close>
  \<^item> \<open>ErrorHandlers\<close>, \<open>Dtos\<close>: handlers, responses and request objects; \<open>Middleware\<close>, \<open>Profiling\<close>: \<open>core/api/middleware\<close>;
    \<open>ProxyValidation\<close>: trusted proxies and the key of rate limits; \<open>AdminAuth\<close>: \<open>admin/auth_backend.py\<close>;
    \<open>CircuitBreaker\<close>, \<open>BreakerRegistry\<close>: \<open>circuit_breaker.py\<close>.  Shown: a client cannot forge its address past trusted
    proxies; only allowed addresses use the panel; admission stays within its bound in every
    interleaving; one factory per type of breaker, and that the locking that ensures it is linearizable and
    neither blocks nor spins; what a reset of the registry leaves behind.

  \<^bold>\<open>Assembly and observability.\<close>
  \<^item> \<open>Settings\<close>: \<open>core/conf/settings.py\<close>; \<open>Identity\<close>: \<open>identity_kit.py\<close> and \<open>scripts/create_admin.py\<close>; \<open>Lifecycle\<close>,
    \<open>AppFactory\<close>: \<open>features/main.py\<close>, \<open>container.py\<close>, \<open>admin/setup.py\<close>; \<open>Health\<close>, \<open>Generation\<close>: the features;
    \<open>Metrics\<close>, \<open>MetricsRegistry\<close>, \<open>Tracing\<close>, \<open>LogConfig\<close>, \<open>LogSetup\<close>: \<open>core/observability\<close>; \<open>DomainModel\<close>: domain objects and
    \<open>core/utils\<close>.  Shown: what valid settings are and what they give a production application; that the
    parts share one engine; the attempts at startup; that shutdown happens; readiness; that samples fit
    the declared metrics; identifiers of traces in logs.

  \<^bold>\<open>How code is modelled.\<close>  A class with state is a record, a method a definition that returns the new state and a
  result; an exception is the left of a sum.  Calls to the outside (Redis, SQLAlchemy, OpenTelemetry, the
  identity kit, clocks, random choices) are arguments; what is relied on is a named definition such as
  \<open>redis_contract\<close>, \<open>ipk_contract\<close>, \<open>kit_contract\<close>, \<open>ddl_contract\<close> or \<open>import_contract\<close>, and every property under one has
  a witness with concrete functions for them.  Interleavings are step relations or sequences of atomic steps
  in any order, between two awaits.  Log calls have no effect unless a property is about them.

  \<^bold>\<open>Loops and bounds.\<close>  The loops over \<open>SCAN\<close> are \<open>partial_function (option)\<close>: \<open>scan_ends\<close>, a measure that each
  iteration of the server lowers, is what makes them return, and it is shown that they then do.  Startup
  retries are a recursion over the attempts left, of which there are three.  All other loops are
  structural recursion or have a measure.  No fuel is used.  Python's integers are unbounded integers and its
  floats are real numbers, whose rounding is not modelled; strings have code points below 256.

  \<^bold>\<open>Not modelled.\<close>  The rendering of log entries, of OpenAPI and of JSON text; injection into endpoints; the SQL
  text of queries (a query is what it selects) and what flush and refresh do beyond the modelled
  attributes; \<open>repositories/protocol.py\<close> (typing only), \<open>dbos_config.py\<close> (one call of a library that nothing
  makes), package exports, what alembic does in a run, tests and deployment files.
\<close>

section \<open>Properties that span components\<close>

subsection \<open>Valid production settings and the admin panel\<close>

text \<open>C25. No administrator can use the admin panel of a production system: valid settings enable MFA,
  nothing ever marks a session as verified, and so no request of any session is accepted.\<close>

theorem production_admin_locked_out:
  assumes "validate_settings jwt_env show s = Inr s" "ap_environment (st_app s) = Prod"
    and "as_mfa_enabled st = ad_mfa_enabled (st_admin s)"
    and "ipk_contract ipk" "(admin_step ipk st err_text cidrs)\<^sup>*\<^sup>* [] session"
  shows "snd (admin_authenticate ipk st err_text cidrs request session) \<noteq> Inr (Allowed True)"
proof -
  have "as_mfa_enabled st" using assms(1-3) by (simp add: valid_settings_iff)
  then show ?thesis using admin_mfa_locks_out assms(4,5) by blast
qed

theorem production_admin_locked_out_witness:
  "snd (admin_authenticate sample_ipk \<lparr>as_allowed_ips = [], as_mfa_enabled = True\<rparr> (\<lambda>_. []) sample_cidrs
     (AdminAuth.sample_request ''10.0.0.9'')
     (fst (admin_login sample_ipk \<lparr>as_allowed_ips = [], as_mfa_enabled = True\<rparr> (\<lambda>_. []) sample_cidrs
       (AdminAuth.sample_request ''10.0.0.9'') []))) \<noteq> Inr (Allowed True)"
proof -
  have "validate_settings (Some ''key'') (\<lambda>_. []) (sample_production [''10.0.0.0/16'']) = Inr (sample_production [''10.0.0.0/16''])"
    unfolding valid_settings_iff by (simp add: dev_only_defaults_def overly_broad_cidrs_def)
  moreover have "(admin_step sample_ipk \<lparr>as_allowed_ips = [], as_mfa_enabled = True\<rparr> (\<lambda>_. []) sample_cidrs)\<^sup>*\<^sup>* []
     (fst (admin_login sample_ipk \<lparr>as_allowed_ips = [], as_mfa_enabled = True\<rparr> (\<lambda>_. []) sample_cidrs
       (AdminAuth.sample_request ''10.0.0.9'') []))"
    by (intro r_into_rtranclp admin_step.intros)
  ultimately show ?thesis
    using production_admin_locked_out [OF _ _ _ sample_ipk_contract] by fastforce
qed

subsection \<open>Valid production settings and the client address\<close>

text \<open>C26. The validator of the trusted proxies does not prevent forged client addresses: it compares
  the text of each network with three texts, so that valid production settings may trust every
  IPv4 address, and then any client is taken to have whatever address it writes into the header.\<close>

theorem forged_client_in_production:
  "\<exists>s. ap_environment (st_app s) = Prod \<and> validate_settings (Some ''key'') show s = Inr s \<and>
    (\<forall>forged client. extract_client_ip_secure err_text (rl_trusted_proxy_cidrs (st_rate_limit s))
       (Some (show_v4 forged)) (Some (show_v4 client)) = Inr (show_v4 forged))"
proof (intro exI conjI allI)
  let ?s = "sample_production [''0.0.0.0/0'']"
  show "ap_environment (st_app ?s) = Prod" by simp
  show "validate_settings (Some ''key'') show ?s = Inr ?s"
    unfolding valid_settings_iff by (simp add: dev_only_defaults_def overly_broad_cidrs_def)
  fix forged client
  have "\<not> untrusted [''0.0.0.0/0''] (show_v4 forged)" using all_trusted(2) by (simp add: untrusted_def)
  then show "extract_client_ip_secure err_text (rl_trusted_proxy_cidrs (st_rate_limit ?s))
       (Some (show_v4 forged)) (Some (show_v4 client)) = Inr (show_v4 forged)"
    using extract_trusted_direct [OF all_trusted(1) all_trusted(2) show_v4_plain(3)]
    by (simp add: show_v4_plain ip_address_show)
qed

end
